(* ===== verification/Profile_Prelude.thy ===== *)
theory Profile_Prelude
  imports Main "HOL-Library.Word"
begin

text \<open>
  Shared vocabulary of the development: byte and integer types, the outcome of a C++ call,
  the sequencing of calls, the one loop combinator that every loop of the source is an
  instance of, and the weakest-precondition calculus the component proofs run on.

  A C++ call started in a state \<open>s\<close> either returns a value in a new state
  (\<open>Ret\<close>), leaves by an exception (\<open>Throw\<close>), reaches undefined behaviour
  (\<open>Fault\<close>: a null dereference, an access outside a buffer), or never returns
  (the value \<open>None\<close>).
\<close>

section \<open>Machine types\<close>

type_synonym byte = "8 word"
type_synonym uint8 = "8 word"
type_synonym uint16 = "16 word"
type_synonym uint32 = "32 word"

text \<open>
  A \<open>std::size_t\<close> is a natural number below \<open>size_modulus\<close>; the three places where the
  source computes with sizes that a caller controls use the wrapping operations below.
\<close>

type_synonym size_t = nat

definition size_modulus :: nat where
  "size_modulus = 2 ^ 64"

definition size_add :: "size_t \<Rightarrow> size_t \<Rightarrow> size_t" where
  "size_add a b = (a + b) mod size_modulus"

definition size_sub :: "size_t \<Rightarrow> size_t \<Rightarrow> size_t" where
  "size_sub a b = (a + (size_modulus - b mod size_modulus)) mod size_modulus"

lemma size_add_exact: "a + b < size_modulus \<Longrightarrow> size_add a b = a + b"
  by (simp add: size_add_def)

lemma size_sub_exact: "b \<le> a \<Longrightarrow> a < size_modulus \<Longrightarrow> size_sub a b = a - b"
proof -
  assume ba: "b \<le> a" and am: "a < size_modulus"
  then have "a + (size_modulus - b mod size_modulus) = (a - b) + size_modulus"
    by simp
  with am show ?thesis by (simp add: size_sub_def)
qed

lemma size_add_bound [simp]: "size_add a b < size_modulus"
  by (simp add: size_add_def size_modulus_def)

section \<open>Outcomes and programs\<close>

datatype ('a, 's) outcome = Ret 'a 's | Throw 's | Fault

type_synonym ('s, 'a) prog = "'s \<Rightarrow> ('a, 's) outcome option"

definition ret :: "'a \<Rightarrow> ('s, 'a) prog" where
  "ret a s = Some (Ret a s)"

definition throw :: "('s, 'a) prog" where
  "throw s = Some (Throw s)"

definition fault :: "('s, 'a) prog" where
  "fault s = Some Fault"

definition bnd :: "('s, 'a) prog \<Rightarrow> ('a \<Rightarrow> ('s, 'b) prog) \<Rightarrow> ('s, 'b) prog" where
  "bnd m k s =
     (case m s of
        None \<Rightarrow> None
      | Some (Ret a t) \<Rightarrow> k a t
      | Some (Throw t) \<Rightarrow> Some (Throw t)
      | Some Fault \<Rightarrow> Some Fault)"

definition next_do :: "('s, 'a) prog \<Rightarrow> ('s, 'b) prog \<Rightarrow> ('s, 'b) prog" where
  "next_do m k = bnd m (\<lambda>_. k)"

definition gets :: "('s \<Rightarrow> 'a) \<Rightarrow> ('s, 'a) prog" where
  "gets f s = Some (Ret (f s) s)"

definition modify :: "('s \<Rightarrow> 's) \<Rightarrow> ('s, unit) prog" where
  "modify f s = Some (Ret () (f s))"

text \<open>\<open>try { m } catch (...) { h }\<close>: undefined behaviour is not caught.\<close>

definition try_catch :: "('s, 'a) prog \<Rightarrow> ('s, 'a) prog \<Rightarrow> ('s, 'a) prog" where
  "try_catch m h s =
     (case m s of
        Some (Throw t) \<Rightarrow> h t
      | r \<Rightarrow> r)"

text \<open>
  \<open>loop body x\<close> is \<open>for (;;)\<close> with the local variables \<open>x\<close>: \<open>Inl x'\<close> goes
  round again with the locals \<open>x'\<close>, \<open>Inr a\<close> leaves the loop with \<open>a\<close>. A loop that
  never leaves has the value \<open>None\<close>.
\<close>

partial_function (option) loop ::
  "('x \<Rightarrow> ('s, 'x + 'a) prog) \<Rightarrow> 'x \<Rightarrow> ('s, 'a) prog" where
  "loop body x s =
     (case body x s of
        None \<Rightarrow> None
      | Some r \<Rightarrow>
          (case r of
             Ret v t \<Rightarrow> (case v of Inl y \<Rightarrow> loop body y t | Inr a \<Rightarrow> Some (Ret a t))
           | Throw t \<Rightarrow> Some (Throw t)
           | Fault \<Rightarrow> Some Fault))"

named_theorems run_simps "evaluation of the sequencing combinators on a given state"

lemma run_ret [run_simps]: "ret a s = Some (Ret a s)"
  by (simp add: ret_def)

lemma run_throw [run_simps]: "throw s = Some (Throw s)"
  by (simp add: throw_def)

lemma run_fault [run_simps]: "fault s = Some Fault"
  by (simp add: fault_def)

lemma run_gets [run_simps]: "gets f s = Some (Ret (f s) s)"
  by (simp add: gets_def)

lemma run_modify [run_simps]: "modify f s = Some (Ret () (f s))"
  by (simp add: modify_def)

lemmas run_bnd [run_simps] = bnd_def
lemmas run_next_do [run_simps] = next_do_def
lemmas run_try_catch [run_simps] = try_catch_def

section \<open>Weakest preconditions\<close>

text \<open>
  \<open>wp d f m Q E s\<close>: started in \<open>s\<close>, the call \<open>m\<close> returns with \<open>Q\<close> or throws with
  \<open>E\<close>; it may run forever only if \<open>d\<close>, and reach undefined behaviour only if \<open>f\<close>.
  So \<open>wp True False\<close> is memory safety with partial correctness, and \<open>wp False False\<close> is
  total correctness.
\<close>

definition wp ::
  "bool \<Rightarrow> bool \<Rightarrow> ('s, 'a) prog \<Rightarrow> ('a \<Rightarrow> 's \<Rightarrow> bool) \<Rightarrow> ('s \<Rightarrow> bool) \<Rightarrow> 's \<Rightarrow> bool" where
  "wp d f m Q E s =
     (case m s of
        None \<Rightarrow> d
      | Some (Ret a t) \<Rightarrow> Q a t
      | Some (Throw t) \<Rightarrow> E t
      | Some Fault \<Rightarrow> f)"

named_theorems wp_simps "weakest preconditions of the combinators"

text \<open>
  The equations are between predicates, so that they rewrite under the binders that
  \<open>wp_bnd\<close> introduces.
\<close>

lemma wp_ret [wp_simps]: "wp d f (ret a) Q E = Q a"
  by (simp add: fun_eq_iff wp_def ret_def)

lemma wp_throw [wp_simps]: "wp d f throw Q E = E"
  by (simp add: fun_eq_iff wp_def throw_def)

lemma wp_fault [wp_simps]: "wp d f fault Q E = (\<lambda>_. f)"
  by (simp add: fun_eq_iff wp_def fault_def)

lemma wp_gets [wp_simps]: "wp d f (gets g) Q E = (\<lambda>s. Q (g s) s)"
  by (simp add: fun_eq_iff wp_def gets_def)

lemma wp_modify [wp_simps]: "wp d f (modify g) Q E = (\<lambda>s. Q () (g s))"
  by (simp add: fun_eq_iff wp_def modify_def)

lemma wp_bnd [wp_simps]:
  "wp d f (bnd m k) Q E = wp d f m (\<lambda>a. wp d f (k a) Q E) E"
  by (auto simp: fun_eq_iff wp_def bnd_def split: option.splits outcome.splits)

lemma wp_next_do [wp_simps]:
  "wp d f (next_do m k) Q E = wp d f m (\<lambda>_. wp d f k Q E) E"
  by (simp add: next_do_def wp_bnd)

lemma wp_try_catch [wp_simps]:
  "wp d f (try_catch m h) Q E = wp d f m Q (wp d f h Q E)"
  by (auto simp: fun_eq_iff wp_def try_catch_def split: option.splits outcome.splits)

lemma wp_if [wp_simps]:
  "wp d f (if b then m else n) Q E = (\<lambda>s. if b then wp d f m Q E s else wp d f n Q E s)"
  by (simp add: fun_eq_iff)

lemma wp_case_prod [wp_simps]:
  "wp d f (case p of (x, y) \<Rightarrow> m x y) Q E = (\<lambda>s. case p of (x, y) \<Rightarrow> wp d f (m x y) Q E s)"
  by (simp split: prod.splits)

lemma wp_case_option [wp_simps]:
  "wp d f (case v of None \<Rightarrow> m | Some x \<Rightarrow> n x) Q E
     = (\<lambda>s. case v of None \<Rightarrow> wp d f m Q E s | Some x \<Rightarrow> wp d f (n x) Q E s)"
  by (simp split: option.splits)

lemma wp_case_list [wp_simps]:
  "wp d f (case v of [] \<Rightarrow> m | x # xs \<Rightarrow> n x xs) Q E
     = (\<lambda>s. case v of [] \<Rightarrow> wp d f m Q E s | x # xs \<Rightarrow> wp d f (n x xs) Q E s)"
  by (simp split: list.splits)

lemma wp_let [wp_simps]: "wp d f (let x = v in m x) Q E = (\<lambda>s. let x = v in wp d f (m x) Q E s)"
  by (simp add: Let_def)

lemma wp_conseq:
  assumes "wp d f m Q E s"
    and "\<And>a t. Q a t \<Longrightarrow> Q' a t" and "\<And>t. E t \<Longrightarrow> E' t"
  shows "wp d f m Q' E' s"
  using assms by (auto simp: wp_def split: option.splits outcome.splits)

lemma wp_weaken: "wp d f m Q E s \<Longrightarrow> (d \<Longrightarrow> d') \<Longrightarrow> (f \<Longrightarrow> f') \<Longrightarrow> wp d' f' m Q E s"
  by (auto simp: wp_def split: option.splits outcome.splits)

lemma wp_conj:
  "wp d f m Q E s \<Longrightarrow> wp d' f' m Q' E' s \<Longrightarrow>
     wp (d \<and> d') (f \<and> f') m (\<lambda>a t. Q a t \<and> Q' a t) (\<lambda>t. E t \<and> E' t) s"
  by (auto simp: wp_def split: option.splits outcome.splits)

lemma wp_also:
  "wp d f m Q E s \<Longrightarrow> wp True True m Q' E' s \<Longrightarrow>
     wp d f m (\<lambda>a t. Q a t \<and> Q' a t) (\<lambda>t. E t \<and> E' t) s"
  using wp_conj [of d f m Q E s True True Q' E'] by simp

lemma wp_retD: "wp d f m Q E s \<Longrightarrow> m s = Some (Ret a t) \<Longrightarrow> Q a t"
  by (simp add: wp_def)

lemma wp_throwD: "wp d f m Q E s \<Longrightarrow> m s = Some (Throw t) \<Longrightarrow> E t"
  by (simp add: wp_def)

lemma wp_no_fault: "wp d False m Q E s \<Longrightarrow> m s \<noteq> Some Fault"
  by (auto simp: wp_def)

lemma wp_returns: "wp False f m Q E s \<Longrightarrow> m s \<noteq> None"
  by (auto simp: wp_def split: option.splits)

lemma wp_completes: "wp False False m Q E s \<Longrightarrow> m s \<notin> {None, Some Fault}"
  by (cases "m s") (auto simp: wp_def)

lemma wp_totalE:
  assumes "wp False False m Q (\<lambda>_. False) s"
  obtains a t where "m s = Some (Ret a t)" and "Q a t"
  using assms by (auto simp: wp_def split: option.splits outcome.splits)

lemma wp_run: "m s = Some (Ret a t) \<Longrightarrow> wp d f m Q E s = Q a t"
  by (simp add: wp_def)

text \<open>The loop rules: an invariant for partial correctness, a measure for total.\<close>

lemma loop_unfold:
  "loop body x s =
     bnd (body x) (\<lambda>r. case r of Inl y \<Rightarrow> loop body y | Inr a \<Rightarrow> ret a) s"
  by (subst loop.simps)
     (auto simp: bnd_def ret_def split: option.splits outcome.splits sum.splits)

lemma wp_loop_unfold:
  "wp d f (loop body x) Q E s =
     wp d f (body x) (\<lambda>r. case r of Inl y \<Rightarrow> wp d f (loop body y) Q E | Inr a \<Rightarrow> Q a) E s"
proof -
  have "wp d f (loop body x) Q E s =
      wp d f (bnd (body x) (\<lambda>r. case r of Inl y \<Rightarrow> loop body y | Inr a \<Rightarrow> ret a)) Q E s"
    by (simp add: wp_def loop_unfold [of body x s])
  also have "\<dots> = wp d f (body x)
      (\<lambda>r. wp d f (case r of Inl y \<Rightarrow> loop body y | Inr a \<Rightarrow> ret a) Q E) E s"
    by (simp add: wp_bnd)
  also have "(\<lambda>r. wp d f (case r of Inl y \<Rightarrow> loop body y | Inr a \<Rightarrow> ret a) Q E) =
      (\<lambda>r. case r of Inl y \<Rightarrow> wp d f (loop body y) Q E | Inr a \<Rightarrow> Q a)"
    by (auto simp: fun_eq_iff wp_ret split: sum.splits)
  finally show ?thesis .
qed

text \<open>Induction over the iterations of a loop that ends.\<close>

lemma loop_induct [consumes 1, case_names leave throws faults again]:
  assumes run: "loop body x s = Some r"
    and leave: "\<And>x s a t. body x s = Some (Ret (Inr a) t) \<Longrightarrow> P x s (Ret a t)"
    and throws: "\<And>x s t. body x s = Some (Throw t) \<Longrightarrow> P x s (Throw t)"
    and faults: "\<And>x s. body x s = Some Fault \<Longrightarrow> P x s Fault"
    and again: "\<And>x s y t r. body x s = Some (Ret (Inl y) t) \<Longrightarrow> P y t r \<Longrightarrow> P x s r"
  shows "P x s r"
proof -
  define P' where "P' = (\<lambda>b x s r. b = body \<longrightarrow> P x s r)"
  have unroll: "P' b x s r"
    if IH: "\<And>b x s r. lp b x s = Some r \<Longrightarrow> P' b x s r"
      and eq: "(case b x s of None \<Rightarrow> None
        | Some r \<Rightarrow> (case r of
             Ret v t \<Rightarrow> (case v of Inl y \<Rightarrow> lp b y t | Inr a \<Rightarrow> Some (Ret a t))
           | Throw t \<Rightarrow> Some (Throw t)
           | Fault \<Rightarrow> Some Fault)) = Some r" for lp b x s r
    unfolding P'_def
  proof
    assume b: "b = body"
    have IH': "lp body y t = Some r \<Longrightarrow> P y t r" for y t r
      using IH [of body y t r] by (simp add: P'_def)
    show "P x s r"
      using eq b
      by (auto split: option.split_asm outcome.split_asm sum.split_asm
          intro: leave throws faults again IH')
  qed
  have "P' body x s r"
    by (rule loop.raw_induct
          [where P = P' and xa = "((body, x), s)" and y = r, unfolded prod.case])
       (rule unroll, assumption+, rule run)
  then show ?thesis by (simp add: P'_def)
qed

lemma loop_result_induct:
  assumes "loop body x s = Some r" and "I x s"
    and step: "\<And>x s. I x s \<Longrightarrow>
      wp True f (body x) (\<lambda>v t. case v of Inl y \<Rightarrow> I y t | Inr a \<Rightarrow> Q a t) E s"
  shows "case r of Ret a t \<Rightarrow> Q a t | Throw t \<Rightarrow> E t | Fault \<Rightarrow> f"
  using assms(1,2) by (induction rule: loop_induct) (auto dest!: step simp: wp_def)

lemma wp_loop:
  assumes "I x s"
    and "\<And>x s. I x s \<Longrightarrow>
      wp True f (body x) (\<lambda>v t. case v of Inl y \<Rightarrow> I y t | Inr a \<Rightarrow> Q a t) E s"
  shows "wp True f (loop body x) Q E s"
proof (cases "loop body x s")
  case None
  then show ?thesis by (simp add: wp_def)
next
  case (Some r)
  from loop_result_induct [where I = I and Q = Q and E = E and f = f, OF Some assms] Some
  show ?thesis by (auto simp: wp_def split: outcome.splits)
qed

text \<open>
  One rule for both: the measure is needed only where divergence is not allowed.
\<close>

lemma wp_loop_wf:
  assumes W: "wf W" and "I x s"
    and step: "\<And>x s. I x s \<Longrightarrow>
      wp d f (body x)
        (\<lambda>v t. case v of Inl y \<Rightarrow> I y t \<and> (\<not> d \<longrightarrow> ((y, t), (x, s)) \<in> W) | Inr a \<Rightarrow> Q a t) E s"
  shows "wp d f (loop body x) Q E s"
proof (cases d)
  case True
  then have d: "d = True" by simp
  show ?thesis
    unfolding d
    by (rule wp_loop [where I = I, OF assms(2)], rule wp_conseq [OF step [unfolded d]])
       (auto split: sum.splits)
next
  case False
  have "\<forall>x s. p = (x, s) \<longrightarrow> I x s \<longrightarrow> wp d f (loop body x) Q E s" for p
    using W
  proof (induction p rule: wf_induct_rule)
    case (less p)
    show ?case
    proof (intro allI impI)
      fix x s
      assume p: "p = (x, s)" and I: "I x s"
      show "wp d f (loop body x) Q E s"
        unfolding wp_loop_unfold [of d f body x]
        by (rule wp_conseq [OF step [OF I]])
           (use False less.IH p in \<open>auto split: sum.splits\<close>)
    qed
  qed
  with assms(2) show ?thesis by blast
qed

lemma wp_loop_total:
  fixes \<mu> :: "'x \<Rightarrow> 's \<Rightarrow> nat"
  assumes "I x s"
    and step: "\<And>x s. I x s \<Longrightarrow>
      wp d f (body x)
        (\<lambda>v t. case v of Inl y \<Rightarrow> I y t \<and> \<mu> y t < \<mu> x s | Inr a \<Rightarrow> Q a t) E s"
  shows "wp d f (loop body x) Q E s"
  by (rule wp_loop_wf [where I = I and W = "measure (\<lambda>(x, s). \<mu> x s)"])
     (auto intro: assms(1) wp_conseq [OF step] split: sum.splits)

section \<open>The state of a running member function\<close>

text \<open>
  \<open>self\<close> is the object (\<open>*this\<close>), \<open>mem\<close> the memory of the caller that out-parameters
  point to, \<open>world\<close> everything behind the transport, timer, trace and allocator interfaces.
\<close>

record caller_mem =
  cm_vector :: "byte list"   \<comment> \<open>the \<open>std::vector& apdu\<close> argument\<close>
  cm_data :: "byte list"     \<comment> \<open>the memory behind \<open>output.data\<close>\<close>
  cm_written :: size_t       \<comment> \<open>the object behind \<open>output.writtenSize\<close>\<close>

record ('c, 'w) sys =
  self :: 'c
  mem :: caller_mem
  world :: 'w

type_synonym ('c, 'w, 'a) mprog = "(('c, 'w) sys, 'a) prog"

definition this :: "('c, 'w, 'c) mprog" where
  "this = gets self"

definition with_this :: "('c \<Rightarrow> ('c, 'w, 'a) mprog) \<Rightarrow> ('c, 'w, 'a) mprog" where
  "with_this k = bnd this k"

definition set_this :: "('c \<Rightarrow> 'c) \<Rightarrow> ('c, 'w, unit) mprog" where
  "set_this g = modify (\<lambda>s. s\<lparr>self := g (self s)\<rparr>)"

definition set_mem :: "(caller_mem \<Rightarrow> caller_mem) \<Rightarrow> ('c, 'w, unit) mprog" where
  "set_mem g = modify (\<lambda>s. s\<lparr>mem := g (mem s)\<rparr>)"

text \<open>A call through an interface changes the world only.\<close>

definition ext :: "('w \<Rightarrow> ('a, 'w) outcome) \<Rightarrow> ('c, 'w, 'a) mprog" where
  "ext g s =
     (case g (world s) of
        Ret a w \<Rightarrow> Some (Ret a (s\<lparr>world := w\<rparr>))
      | Throw w \<Rightarrow> Some (Throw (s\<lparr>world := w\<rparr>))
      | Fault \<Rightarrow> Some Fault)"

lemma run_this [run_simps]: "this s = Some (Ret (self s) s)"
  by (simp add: this_def gets_def)

lemma run_with_this [run_simps]: "with_this k s = k (self s) s"
  by (simp add: with_this_def bnd_def run_this)

lemma run_set_this [run_simps]: "set_this g s = Some (Ret () (s\<lparr>self := g (self s)\<rparr>))"
  by (simp add: set_this_def modify_def)

lemma run_set_mem [run_simps]: "set_mem g s = Some (Ret () (s\<lparr>mem := g (mem s)\<rparr>))"
  by (simp add: set_mem_def modify_def)

lemmas run_ext [run_simps] = ext_def

lemma wp_this [wp_simps]: "wp d f this Q E = (\<lambda>s. Q (self s) s)"
  by (simp add: fun_eq_iff wp_def run_this)

lemma wp_with_this [wp_simps]: "wp d f (with_this k) Q E = (\<lambda>s. wp d f (k (self s)) Q E s)"
  by (simp add: with_this_def wp_bnd wp_this)

lemma wp_set_this [wp_simps]:
  "wp d f (set_this g) Q E = (\<lambda>s. Q () (s\<lparr>self := g (self s)\<rparr>))"
  by (simp add: fun_eq_iff wp_def run_set_this)

lemma wp_set_mem [wp_simps]:
  "wp d f (set_mem g) Q E = (\<lambda>s. Q () (s\<lparr>mem := g (mem s)\<rparr>))"
  by (simp add: fun_eq_iff wp_def run_set_mem)

lemma wp_ext [wp_simps]:
  "wp d f (ext g) Q E =
     (\<lambda>s. case g (world s) of
        Ret a w \<Rightarrow> Q a (s\<lparr>world := w\<rparr>)
      | Throw w \<Rightarrow> E (s\<lparr>world := w\<rparr>)
      | Fault \<Rightarrow> f)"
  by (auto simp: fun_eq_iff wp_def ext_def split: outcome.splits)

section \<open>Frame conditions\<close>

text \<open>
  \<open>steps d f I R m\<close>: from a state with \<open>I\<close>, every call of \<open>m\<close> that returns or throws
  keeps \<open>I\<close> and relates its state before and after by \<open>R\<close>, and \<open>m\<close> runs forever only
  if \<open>d\<close> and reaches undefined behaviour only if \<open>f\<close>. For a preorder \<open>R\<close> the rules below follow the structure of a
  program. \<open>keeps g m\<close> is the case that a component \<open>g\<close> of the state is unchanged.
\<close>

definition steps ::
  "bool \<Rightarrow> bool \<Rightarrow> ('s \<Rightarrow> bool) \<Rightarrow> ('s \<Rightarrow> 's \<Rightarrow> bool) \<Rightarrow> ('s, 'a) prog \<Rightarrow> bool" where
  "steps d f I R m \<longleftrightarrow>
     (\<forall>s. I s \<longrightarrow> wp d f m (\<lambda>_ t. I t \<and> R s t) (\<lambda>t. I t \<and> R s t) s)"

definition preord :: "('s \<Rightarrow> 's \<Rightarrow> bool) \<Rightarrow> bool" where
  "preord R \<longleftrightarrow> (\<forall>s. R s s) \<and> (\<forall>s t u. R s t \<longrightarrow> R t u \<longrightarrow> R s u)"

abbreviation keeps :: "('s \<Rightarrow> 'x) \<Rightarrow> ('s, 'a) prog \<Rightarrow> bool" where
  "keeps g m \<equiv> steps True True (\<lambda>_. True) (\<lambda>s t. g t = g s) m"

named_theorems steps_intros "frame conditions by the structure of a program"

lemma preord_eq [simp, intro!]: "preord (\<lambda>s t. g t = g s)"
  by (simp add: preord_def)

lemma preord_True [simp, intro!]: "preord (\<lambda>_ _. True)"
  by (simp add: preord_def)

lemma preord_le [simp, intro!]: "preord (\<lambda>s t. (g t :: nat) \<le> g s)"
  by (auto simp: preord_def)

lemma preord_refl: "preord R \<Longrightarrow> R s s"
  by (simp add: preord_def)

lemma preord_trans: "preord R \<Longrightarrow> R s t \<Longrightarrow> R t u \<Longrightarrow> R s u"
  unfolding preord_def by blast

lemma stepsI:
  "(\<And>s. I s \<Longrightarrow> wp d f m (\<lambda>_ t. I t \<and> R s t) (\<lambda>t. I t \<and> R s t) s) \<Longrightarrow> steps d f I R m"
  by (simp add: steps_def)

lemma stepsD:
  "steps d f I R m \<Longrightarrow> I s \<Longrightarrow> wp d f m (\<lambda>_ t. I t \<and> R s t) (\<lambda>t. I t \<and> R s t) s"
  by (simp add: steps_def)

lemma keepsD: "keeps g m \<Longrightarrow> wp True True m (\<lambda>_ t. g t = g s) (\<lambda>t. g t = g s) s"
  by (auto dest: stepsD)

lemma steps_no_fault: "steps d False I R m \<Longrightarrow> I s \<Longrightarrow> m s \<noteq> Some Fault"
  by (blast dest: stepsD wp_no_fault)

lemma steps_ret [steps_intros]: "preord R \<Longrightarrow> steps d f I R (ret a)"
  by (simp add: steps_def wp_simps preord_refl)

lemma steps_throw [steps_intros]: "preord R \<Longrightarrow> steps d f I R throw"
  by (simp add: steps_def wp_simps preord_refl)

lemma steps_fault [steps_intros]: "f \<Longrightarrow> steps d f I R fault"
  by (simp add: steps_def wp_simps)

lemma steps_gets [steps_intros]: "preord R \<Longrightarrow> steps d f I R (gets g)"
  by (simp add: steps_def wp_simps preord_refl)

lemma steps_bnd_post:
  assumes R: "preord R"
    and m: "\<And>s. I s \<Longrightarrow> wp d f m (\<lambda>a t. P a \<and> I t \<and> R s t) (\<lambda>t. I t \<and> R s t) s"
    and k: "\<And>a. P a \<Longrightarrow> steps d f I R (k a)"
  shows "steps d f I R (bnd m k)"
proof (rule stepsI, unfold wp_bnd)
  fix s
  assume "I s"
  have after: "wp d f (k a) (\<lambda>_ u. I u \<and> R s u) (\<lambda>u. I u \<and> R s u) t"
    if "P a" and "I t" and "R s t" for a t
    by (rule wp_conseq [OF stepsD [OF k [OF that(1)] that(2)]])
       (auto intro: preord_trans [OF R that(3)])
  show "wp d f m (\<lambda>a. wp d f (k a) (\<lambda>_ t. I t \<and> R s t) (\<lambda>t. I t \<and> R s t))
      (\<lambda>t. I t \<and> R s t) s"
    by (rule wp_conseq [OF m [OF \<open>I s\<close>]]) (auto intro: after)
qed

lemma steps_bnd [steps_intros]:
  assumes "preord R" and "steps d f I R m" and "\<And>a. steps d f I R (k a)"
  shows "steps d f I R (bnd m k)"
  by (rule steps_bnd_post [OF assms(1), where P = "\<lambda>_. True"])
     (auto intro: stepsD [OF assms(2)] assms(3))

lemma steps_next_do [steps_intros]:
  "preord R \<Longrightarrow> steps d f I R m \<Longrightarrow> steps d f I R k \<Longrightarrow> steps d f I R (next_do m k)"
  unfolding next_do_def by (rule steps_bnd)

lemma steps_try_catch [steps_intros]:
  assumes R: "preord R" and m: "steps d f I R m" and h: "steps d f I R h"
  shows "steps d f I R (try_catch m h)"
proof (rule stepsI, unfold wp_try_catch)
  fix s
  assume "I s"
  have handler: "wp d f h (\<lambda>_ u. I u \<and> R s u) (\<lambda>u. I u \<and> R s u) t"
    if "I t" and "R s t" for t
    by (rule wp_conseq [OF stepsD [OF h that(1)]]) (auto intro: preord_trans [OF R that(2)])
  show "wp d f m (\<lambda>_ t. I t \<and> R s t)
      (wp d f h (\<lambda>_ t. I t \<and> R s t) (\<lambda>t. I t \<and> R s t)) s"
    by (rule wp_conseq [OF stepsD [OF m \<open>I s\<close>]]) (auto intro: handler)
qed

lemma steps_loop [steps_intros]:
  assumes d: "d" and R: "preord R" and body: "\<And>x. steps d f I R (body x)"
  shows "steps d f I R (loop body x)"
proof (rule stepsI)
  fix s
  assume "I s"
  have "wp True f (loop body x) (\<lambda>_ t. I t \<and> R s t) (\<lambda>t. I t \<and> R s t) s"
  proof (rule wp_loop [where I = "\<lambda>_ t. I t \<and> R s t"])
    show "I s \<and> R s s" using \<open>I s\<close> by (simp add: preord_refl [OF R])
  next
    fix y t
    assume t: "I t \<and> R s t"
    then have "wp d f (body y)
        (\<lambda>v u. case v of Inl z \<Rightarrow> I u \<and> R s u | Inr a \<Rightarrow> I u \<and> R s u) (\<lambda>u. I u \<and> R s u) t"
      by (intro wp_conseq [OF stepsD [OF body]])
         (auto intro: preord_trans [OF R] split: sum.splits)
    then show "wp True f (body y)
        (\<lambda>v u. case v of Inl z \<Rightarrow> I u \<and> R s u | Inr a \<Rightarrow> I u \<and> R s u) (\<lambda>u. I u \<and> R s u) t"
      by (rule wp_weaken) simp_all
  qed
  with d show "wp d f (loop body x) (\<lambda>_ t. I t \<and> R s t) (\<lambda>t. I t \<and> R s t) s" by simp
qed

lemma steps_loop_wf:
  assumes R: "preord R" and W: "wf W"
    and body: "\<And>x s. I s \<Longrightarrow> wp d f (body x)
      (\<lambda>v t. I t \<and> R s t \<and> (case v of Inl y \<Rightarrow> \<not> d \<longrightarrow> (y, x) \<in> W | Inr a \<Rightarrow> True))
      (\<lambda>t. I t \<and> R s t) s"
  shows "steps d f I R (loop body x)"
proof (rule stepsI)
  fix s
  assume I: "I s"
  show "wp d f (loop body x) (\<lambda>_ t. I t \<and> R s t) (\<lambda>t. I t \<and> R s t) s"
  proof (rule wp_loop_wf [where W = "inv_image W fst" and I = "\<lambda>_ t. I t \<and> R s t"])
    show "wf (inv_image W fst)" using W by (rule wf_inv_image)
    show "I s \<and> R s s" using I by (simp add: preord_refl [OF R])
  next
    fix y t
    assume t: "I t \<and> R s t"
    show "wp d f (body y)
       (\<lambda>v u. case v of Inl z \<Rightarrow> (I u \<and> R s u) \<and> (\<not> d \<longrightarrow> ((z, u), (y, t)) \<in> inv_image W fst)
         | Inr a \<Rightarrow> I u \<and> R s u) (\<lambda>u. I u \<and> R s u) t"
      by (rule wp_conseq [OF body [OF conjunct1 [OF t]]])
         (use t in \<open>auto intro: preord_trans [OF R] split: sum.splits\<close>)
  qed
qed

lemma steps_if [steps_intros]:
  "(b \<Longrightarrow> steps d f I R m) \<Longrightarrow> (\<not> b \<Longrightarrow> steps d f I R n) \<Longrightarrow> steps d f I R (if b then m else n)"
  by simp

lemma steps_let [steps_intros]: "steps d f I R (m v) \<Longrightarrow> steps d f I R (let x = v in m x)"
  by simp

lemma steps_case_prod [steps_intros]:
  "(\<And>x y. p = (x, y) \<Longrightarrow> steps d f I R (m x y)) \<Longrightarrow> steps d f I R (case p of (x, y) \<Rightarrow> m x y)"
  by (cases p) simp

lemma steps_case_option [steps_intros]:
  "(v = None \<Longrightarrow> steps d f I R m) \<Longrightarrow> (\<And>x. v = Some x \<Longrightarrow> steps d f I R (n x)) \<Longrightarrow>
     steps d f I R (case v of None \<Rightarrow> m | Some x \<Rightarrow> n x)"
  by (cases v) simp_all

lemma steps_case_list [steps_intros]:
  "(v = [] \<Longrightarrow> steps d f I R m) \<Longrightarrow> (\<And>x xs. v = x # xs \<Longrightarrow> steps d f I R (n x xs)) \<Longrightarrow>
     steps d f I R (case v of [] \<Rightarrow> m | x # xs \<Rightarrow> n x xs)"
  by (cases v) simp_all

lemma steps_case_sum [steps_intros]:
  "(\<And>x. v = Inl x \<Longrightarrow> steps d f I R (m x)) \<Longrightarrow> (\<And>x. v = Inr x \<Longrightarrow> steps d f I R (n x)) \<Longrightarrow>
     steps d f I R (case v of Inl x \<Rightarrow> m x | Inr y \<Rightarrow> n y)"
  by (cases v) simp_all

text \<open>The object bound by \<open>with_this\<close> is one that satisfies the invariant.\<close>

lemma steps_with_this [steps_intros]:
  "(\<And>s. I s \<Longrightarrow> steps d f I R (k (self s))) \<Longrightarrow> steps d f I R (with_this k)"
  unfolding steps_def wp_with_this by blast

lemma steps_set_this [steps_intros]:
  "(\<And>s. I s \<Longrightarrow> I (s\<lparr>self := g (self s)\<rparr>) \<and> R s (s\<lparr>self := g (self s)\<rparr>)) \<Longrightarrow>
     steps d f I R (set_this g)"
  by (simp add: steps_def wp_simps)

lemma steps_set_mem [steps_intros]:
  "(\<And>s. I s \<Longrightarrow> I (s\<lparr>mem := g (mem s)\<rparr>) \<and> R s (s\<lparr>mem := g (mem s)\<rparr>)) \<Longrightarrow>
     steps d f I R (set_mem g)"
  by (simp add: steps_def wp_simps)

lemma steps_ext [steps_intros]:
  "(\<And>s. I s \<Longrightarrow> case g (world s) of
       Ret a w \<Rightarrow> I (s\<lparr>world := w\<rparr>) \<and> R s (s\<lparr>world := w\<rparr>)
     | Throw w \<Rightarrow> I (s\<lparr>world := w\<rparr>) \<and> R s (s\<lparr>world := w\<rparr>)
     | Fault \<Rightarrow> f) \<Longrightarrow> steps d f I R (ext g)"
  by (simp add: steps_def wp_simps)

section \<open>What a call yields\<close>

text \<open>\<open>yields P m\<close>: every value that \<open>m\<close> returns satisfies \<open>P\<close>, from any state.\<close>

definition yields :: "('a \<Rightarrow> bool) \<Rightarrow> ('s, 'a) prog \<Rightarrow> bool" where
  "yields P m \<longleftrightarrow> (\<forall>s. wp True True m (\<lambda>a _. P a) (\<lambda>_. True) s)"

named_theorems yields_intros "what a call yields, by its structure"

lemma yieldsD: "yields P m \<Longrightarrow> wp True True m (\<lambda>a _. P a) (\<lambda>_. True) s"
  by (simp add: yields_def)

lemma yields_ret [yields_intros]: "P a \<Longrightarrow> yields P (ret a)"
  by (simp add: yields_def wp_simps)

lemma yields_fault [yields_intros]: "yields P fault"
  by (simp add: yields_def wp_simps)

lemma yields_mono: "yields P m \<Longrightarrow> (\<And>a. P a \<Longrightarrow> Q a) \<Longrightarrow> yields Q m"
  unfolding yields_def by (blast intro: wp_conseq)

lemma yields_bnd [yields_intros]:
  assumes "\<And>a. yields P (k a)"
  shows "yields P (bnd m k)"
  unfolding yields_def
proof
  fix s
  show "wp True True (bnd m k) (\<lambda>a _. P a) (\<lambda>_. True) s"
    unfolding wp_bnd wp_def [of _ _ m]
    by (simp add: yieldsD [OF assms] split: option.splits outcome.splits)
qed

lemma yields_next_do [yields_intros]: "yields P k \<Longrightarrow> yields P (next_do m k)"
  unfolding next_do_def by (rule yields_bnd)

lemma yields_with_this [yields_intros]: "(\<And>c. yields P (k c)) \<Longrightarrow> yields P (with_this k)"
  by (simp add: yields_def wp_simps)

lemma yields_if [yields_intros]:
  "(b \<Longrightarrow> yields P m) \<Longrightarrow> (\<not> b \<Longrightarrow> yields P n) \<Longrightarrow> yields P (if b then m else n)"
  by simp

lemma yields_let [yields_intros]: "yields P (m v) \<Longrightarrow> yields P (let x = v in m x)"
  by simp

lemma yields_case_sum [yields_intros]:
  "(\<And>x. v = Inl x \<Longrightarrow> yields P (m x)) \<Longrightarrow> (\<And>x. v = Inr x \<Longrightarrow> yields P (n x)) \<Longrightarrow>
     yields P (case v of Inl x \<Rightarrow> m x | Inr y \<Rightarrow> n y)"
  by (cases v) simp_all

lemma yields_case_prod [yields_intros]:
  "(\<And>x y. p = (x, y) \<Longrightarrow> yields P (m x y)) \<Longrightarrow> yields P (case p of (x, y) \<Rightarrow> m x y)"
  by (cases p) simp

lemma yields_case_list [yields_intros]:
  "(v = [] \<Longrightarrow> yields P m) \<Longrightarrow> (\<And>x xs. v = x # xs \<Longrightarrow> yields P (n x xs)) \<Longrightarrow>
     yields P (case v of [] \<Rightarrow> m | x # xs \<Rightarrow> n x xs)"
  by (cases v) simp_all

lemma yields_loop [yields_intros]:
  assumes "\<And>x. yields (\<lambda>v. \<forall>a. v = Inr a \<longrightarrow> P a) (body x)"
  shows "yields P (loop body x)"
  unfolding yields_def
proof
  fix s
  show "wp True True (loop body x) (\<lambda>a _. P a) (\<lambda>_. True) s"
    by (rule wp_loop [where I = "\<lambda>_ _. True"])
       (auto intro: wp_conseq [OF yieldsD [OF assms]] split: sum.splits)
qed

end
