(* ===== verification/Lower_Layers.thy ===== *)
theory Lower_Layers
  imports Profile_Prelude
begin

text \<open>
  The libraries the profile layer is built on (\<open>dlms-transport\<close>, \<open>dlms-wrapper\<close>,
  \<open>dlms-llc\<close>, \<open>dlms-hdlc\<close>) are not part of the repository. This theory fixes what
  the profile layer uses of them: their status enumerations (the enumerators are the ones
  the switches of \<open>profile_types.cpp\<close> list), the structures whose fields the sources
  read or write, and one record of functions per interface. Every function of these records
  is a parameter of the model; nothing is assumed about it here.

  A virtual interface (\<open>IByteStream\<close>, \<open>IDatagramTransport\<close>, \<open>ITimerScheduler\<close>)
  is a record of methods acting on the world; each may return, throw or fault. A channel holds its
  transport by reference; the record in a channel's state is the interface of the object that this
  reference leads to. The object's own state is in the world, and so is its lifetime: the methods of a
  transport that its owner has destroyed fault from then on, so that \<open>honest_stream\<close> and
  \<open>honest_datagram\<close> include that the transport outlives the channel. The adapters that the C
  interface allocates itself are objects of its heap; there the reference is an address, which each
  call follows (\<open>C_Handles\<close>). The pure codec
  functions are HOL functions from arguments to a status and the out-parameters.
\<close>

section \<open>Status enumerations\<close>

text \<open>
  \<open>Unlisted n\<close> stands for a value of the enumeration that the switch does not list (a
  newer library version), which takes the \<open>return\<close> after the switch.
\<close>

datatype TransportStatus =
    Ok | InvalidArgument | NotOpen | AlreadyOpen | OpenFailed | ReadFailed | WriteFailed
  | Timeout | ConnectionClosed | WouldBlock | OutputBufferTooSmall | UnsupportedFeature
  | InternalError | Unlisted nat

datatype WrapperStatus =
    Ok | NeedMoreData | OutputBufferTooSmall | InvalidArgument | InvalidVersion
  | InvalidSourcePort | InvalidDestinationPort | InvalidLength | DataTooLarge | FrameTooLarge
  | UnsupportedFeature | InternalError | Unlisted nat

datatype LlcStatus =
    Ok | NeedMoreData | OutputBufferTooSmall | InvalidArgument | InvalidHeader | InvalidDsap
  | InvalidSsap | InvalidControl | InvalidLpduLength | LsduTooLarge | BroadcastEncodeForbidden
  | UnsupportedAddress | UnsupportedControl | UnsupportedFeature | InternalError | Unlisted nat

datatype HdlcStatus =
    Ok | NeedMoreData | SegmentationIncomplete | OutputBufferTooSmall | InvalidArgument
  | InvalidFlag | InvalidFrameFormat | InvalidFrameType | InvalidControlField
  | InvalidHeaderChecksum | InvalidFrameChecksum | SegmentationError | InvalidFrameLength
  | InvalidAddress | FrameTooLarge | InformationFieldTooLarge | SegmentationOverflow
  | UnsupportedFrame | UnsupportedAddress | UnsupportedFeature | InternalError | Unlisted nat

section \<open>Transport\<close>

text \<open>
  \<open>ReadSome(output, outputSize, bytesRead)\<close> gets the bytes that the output buffer holds
  (its length is \<open>outputSize\<close>) and returns its status, the bytes the buffer holds
  afterwards and \<open>bytesRead\<close>. \<open>WriteAll(data, size)\<close> gets the bytes of the view.
\<close>

record 'w IByteStream =
  bs_Open :: "'w \<Rightarrow> (TransportStatus, 'w) outcome"
  bs_Close :: "'w \<Rightarrow> (TransportStatus, 'w) outcome"
  bs_IsOpen :: "'w \<Rightarrow> (bool, 'w) outcome"
  bs_ReadSome :: "byte list \<Rightarrow> 'w \<Rightarrow> (TransportStatus \<times> byte list \<times> size_t, 'w) outcome"
  bs_WriteAll :: "byte list \<Rightarrow> 'w \<Rightarrow> (TransportStatus, 'w) outcome"

record 'w IDatagramTransport =
  dg_Open :: "'w \<Rightarrow> (TransportStatus, 'w) outcome"
  dg_Close :: "'w \<Rightarrow> (TransportStatus, 'w) outcome"
  dg_IsOpen :: "'w \<Rightarrow> (bool, 'w) outcome"
  dg_Send :: "byte list \<Rightarrow> 'w \<Rightarrow> (TransportStatus, 'w) outcome"
  dg_Receive :: "byte list \<Rightarrow> 'w \<Rightarrow> (TransportStatus \<times> byte list \<times> size_t, 'w) outcome"

record 'w ITimerScheduler =
  tm_SleepFor :: "uint32 \<Rightarrow> 'w \<Rightarrow> (TransportStatus, 'w) outcome"

text \<open>
  The documented contract of the transports: a read never reports more bytes than the buffer it
  was given holds, and no call has undefined behaviour, at any time (the object outlives its users).
\<close>

definition honest_stream :: "'w IByteStream \<Rightarrow> bool" where
  "honest_stream bs \<longleftrightarrow>
     (\<forall>w. bs_Open bs w \<noteq> Fault) \<and> (\<forall>w. bs_Close bs w \<noteq> Fault) \<and> (\<forall>w. bs_IsOpen bs w \<noteq> Fault) \<and>
     (\<forall>buf w. case bs_ReadSome bs buf w of
        Ret r _ \<Rightarrow> (case r of (st, buf', n) \<Rightarrow> length buf' = length buf \<and> n \<le> length buf)
      | Throw _ \<Rightarrow> True
      | Fault \<Rightarrow> False) \<and>
     (\<forall>bytes w. bs_WriteAll bs bytes w \<noteq> Fault)"

definition honest_datagram :: "'w IDatagramTransport \<Rightarrow> bool" where
  "honest_datagram dg \<longleftrightarrow>
     (\<forall>w. dg_Open dg w \<noteq> Fault) \<and> (\<forall>w. dg_Close dg w \<noteq> Fault) \<and> (\<forall>w. dg_IsOpen dg w \<noteq> Fault) \<and>
     (\<forall>buf w. case dg_Receive dg buf w of
        Ret r _ \<Rightarrow> (case r of (st, buf', n) \<Rightarrow> length buf' = length buf \<and> n \<le> length buf)
      | Throw _ \<Rightarrow> True
      | Fault \<Rightarrow> False) \<and>
     (\<forall>bytes w. dg_Send dg bytes w \<noteq> Fault)"

text \<open>
  A finite source of input: the rank of the world, which every read that delivers bytes
  decreases and no other call raises. \<open>behaves d f rank out w\<close> is what a call from \<open>w\<close>
  with the outcome \<open>out\<close> owes when divergence (\<open>d\<close>) or undefined behaviour (\<open>f\<close>) must be
  excluded.
\<close>

definition behaves :: "bool \<Rightarrow> bool \<Rightarrow> ('w \<Rightarrow> nat) \<Rightarrow> ('a, 'w) outcome \<Rightarrow> 'w \<Rightarrow> bool" where
  "behaves d f rank out w =
     (case out of
        Ret _ w' \<Rightarrow> \<not> d \<longrightarrow> rank w' \<le> rank w
      | Throw w' \<Rightarrow> \<not> d \<longrightarrow> rank w' \<le> rank w
      | Fault \<Rightarrow> f)"

definition finite_input :: "('w \<Rightarrow> nat) \<Rightarrow> 'w IByteStream \<Rightarrow> bool" where
  "finite_input rank bs \<longleftrightarrow>
     (\<forall>buf w buf' n w'. bs_ReadSome bs buf w = Ret (TransportStatus.Ok, buf', n) w' \<longrightarrow>
        n \<noteq> 0 \<longrightarrow> rank w' < rank w) \<and>
     (\<forall>buf w. behaves False True rank (bs_ReadSome bs buf w) w) \<and>
     (\<forall>bytes w. behaves False True rank (bs_WriteAll bs bytes w) w) \<and>
     (\<forall>w. behaves False True rank (bs_IsOpen bs w) w)"

text \<open>
  A stream that delivers the bytes \<open>input w\<close>, in order, in pieces of its own choosing, and one
  that records what is written.
\<close>

definition delivers :: "('w \<Rightarrow> byte list) \<Rightarrow> 'w IByteStream \<Rightarrow> bool" where
  "delivers input bs \<longleftrightarrow>
     (\<forall>buf w. buf \<noteq> [] \<longrightarrow> input w \<noteq> [] \<longrightarrow>
        (\<exists>n w'. 0 < n \<and> n \<le> length buf \<and> n \<le> length (input w) \<and>
           bs_ReadSome bs buf w =
             Ret (TransportStatus.Ok, take n (input w) @ drop n buf, n) w' \<and>
           input w' = drop n (input w)))"

definition records :: "('w \<Rightarrow> byte list) \<Rightarrow> 'w IByteStream \<Rightarrow> bool" where
  "records output bs \<longleftrightarrow>
     (\<forall>bytes w. \<exists>w'. bs_WriteAll bs bytes w = Ret TransportStatus.Ok w' \<and>
        output w' = output w @ bytes)"

text \<open>
  The allocator behind \<open>std::vector\<close> and \<open>operator new\<close>: a request for \<open>n\<close> bytes
  or elements succeeds or throws \<open>std::bad_alloc\<close>.
\<close>

type_synonym 'w allocator = "nat \<Rightarrow> 'w \<Rightarrow> bool \<times> 'w"

definition allocate :: "'w allocator \<Rightarrow> nat \<Rightarrow> ('c, 'w, unit) mprog" where
  "allocate al n = ext (\<lambda>w. case al n w of (got, w') \<Rightarrow> if got then Ret () w' else Throw w')"

text \<open>\<open>ample obs al\<close>: memory never runs out, and \<open>obs\<close> does not see the allocator.\<close>

definition ample :: "('w \<Rightarrow> 'v) \<Rightarrow> 'w allocator \<Rightarrow> bool" where
  "ample obs al \<longleftrightarrow> (\<forall>n w. fst (al n w) \<and> obs (snd (al n w)) = obs w)"

lemma ampleE:
  assumes "ample obs al"
  obtains w' where "al n w = (True, w')" and "obs w' = obs w"
  using assms unfolding ample_def by (metis prod.collapse)

lemma ample_obs: "ample obs al \<Longrightarrow> obs (snd (al n w)) = obs w"
  by (simp add: ample_def)

lemma ample_case:
  "ample obs al \<Longrightarrow> (case al n w of (got, w') \<Rightarrow> if got then A w' else B w') = A (snd (al n w))"
  by (simp add: ample_def case_prod_unfold)

lemma wp_allocate [wp_simps]:
  "wp d f (allocate al n) Q E =
     (\<lambda>s. case al n (world s) of (got, w) \<Rightarrow>
        if got then Q () (s\<lparr>world := w\<rparr>) else E (s\<lparr>world := w\<rparr>))"
  by (auto simp: fun_eq_iff allocate_def wp_ext split: prod.splits)

lemma wp_allocate_ample:
  assumes "ample obs al" and "\<And>w. obs w = obs (world s) \<Longrightarrow> Q () (s\<lparr>world := w\<rparr>)"
  shows "wp d f (allocate al n) Q E s"
  using assms(2) by (rule_tac n = n and w = "world s" in ampleE [OF assms(1)]) (simp add: wp_allocate)

lemma run_allocate [run_simps]:
  "allocate al n s =
     (case al n (world s) of (got, w) \<Rightarrow>
        if got then Some (Ret () (s\<lparr>world := w\<rparr>)) else Some (Throw (s\<lparr>world := w\<rparr>)))"
  by (auto simp: allocate_def ext_def split: prod.splits)

lemma steps_allocate [steps_intros]:
  "(\<And>s. I s \<Longrightarrow> I (s\<lparr>world := snd (al n (world s))\<rparr>) \<and> R s (s\<lparr>world := snd (al n (world s))\<rparr>)) \<Longrightarrow>
     steps d f I R (allocate al n)"
  unfolding allocate_def by (rule steps_ext) (simp add: case_prod_unfold)

section \<open>Wrapper codec\<close>

text \<open>
  A data pointer with a size is a \<open>byte_ptr\<close>: \<open>None\<close> for the null pointer, otherwise
  the memory that can be read from it.
\<close>

type_synonym byte_ptr = "byte list option"

record WrapperFrame =
  wf_sourcePort :: uint16
  wf_destinationPort :: uint16
  wf_data :: byte_ptr
  wf_dataSize :: size_t

record WrapperFrameBuffer =
  wb_sourcePort :: uint16
  wb_destinationPort :: uint16
  wb_data :: "byte list"

record WrapperCodecLimits =
  maximumDataSize :: size_t
  maximumFrameSize :: size_t

record wrapper_ports =
  kPublicClient :: uint16
  kManagementLogicalDevice :: uint16

record wrapper_codec =
  DefaultWrapperCodecLimits :: WrapperCodecLimits
  kWrapperHeaderSize :: size_t
  EncodeWpdu :: "WrapperFrame \<Rightarrow> WrapperCodecLimits \<Rightarrow> WrapperStatus \<times> byte list"
  DecodeWpdu :: "byte list \<Rightarrow> WrapperCodecLimits \<Rightarrow> WrapperStatus \<times> WrapperFrameBuffer"

text \<open>\<open>WrapperStreamDecoder\<close>: its constructor, \<open>Push\<close> and \<open>Reset\<close>.\<close>

record 'd wrapper_stream_decoder =
  wd_new :: "WrapperCodecLimits \<Rightarrow> 'd"
  wd_Push :: "byte list \<Rightarrow> 'd \<Rightarrow> WrapperStatus \<times> 'd \<times> WrapperFrameBuffer list"
  wd_Reset :: "'d \<Rightarrow> 'd"

section \<open>LLC codec\<close>

datatype LlcDirection = ClientToServer | ServerToClient

record 'h llc_codec =
  MakeLlcHeader :: "LlcDirection \<Rightarrow> 'h"
  EncodeLpdu :: "'h \<Rightarrow> byte_ptr \<Rightarrow> size_t \<Rightarrow> LlcStatus \<times> byte list"
  DecodeLpdu :: "byte list \<Rightarrow> bool \<Rightarrow> LlcStatus \<times> byte list"  \<comment> \<open>the \<open>lsdu\<close> of the buffer\<close>

section \<open>HDLC codec, stream decoder, reassembler and session\<close>

text \<open>
  \<open>HdlcFrame\<close> and \<open>HdlcFrameBuffer\<close> have the same fields (the information field is a
  view in the first and a vector in the second); one record stands for both. Addresses
  (\<open>'a\<close>) and control fields (\<open>'k\<close>) are opaque to the profile layer.
\<close>

record ('a, 'k) HdlcFrame =
  hf_segmented :: bool
  hf_destination :: 'a
  hf_source :: 'a
  hf_control :: 'k
  hf_information :: "byte list"

record HdlcCodecLimits =
  maximumInformationFieldSize :: size_t
  maximumReassembledInformationSize :: size_t

datatype HdlcNoisePolicy = IgnoreUntilOpeningFlag | OtherNoisePolicy nat

record HdlcStreamDecoderOptions =
  do_limits :: HdlcCodecLimits
  do_noisePolicy :: HdlcNoisePolicy

datatype HdlcSessionRole = Client | Server

datatype HdlcSessionState = Disconnected | Connected | OtherSessionState nat

record HdlcSessionNegotiationLimits =
  maxInformationFieldLengthTransmit :: size_t
  maxInformationFieldLengthReceive :: size_t
  windowSizeTransmit :: uint8
  windowSizeReceive :: uint8

record 'a HdlcSessionOptions =
  so_role :: HdlcSessionRole
  so_clientAddress :: 'a
  so_serverAddress :: 'a
  so_limits :: HdlcCodecLimits
  so_negotiationLimits :: HdlcSessionNegotiationLimits

record ('a, 'k) hdlc_codec =
  DefaultHdlcCodecLimits :: HdlcCodecLimits
  DefaultHdlcSessionNegotiationLimits :: HdlcSessionNegotiationLimits
  MakeClientAddress :: "uint8 \<Rightarrow> HdlcStatus \<times> 'a"
  MakeServerAddress :: "uint16 \<Rightarrow> uint16 \<Rightarrow> HdlcStatus \<times> 'a"
  DecodeControl :: "uint8 \<Rightarrow> HdlcStatus \<times> 'k"
  EncodeFrame :: "('a, 'k) HdlcFrame \<Rightarrow> HdlcCodecLimits \<Rightarrow> HdlcStatus \<times> byte list"
  DecodeFrame :: "byte list \<Rightarrow> HdlcCodecLimits \<Rightarrow> HdlcStatus \<times> ('a, 'k) HdlcFrame"

record ('a, 'k, 'd) hdlc_stream_decoder =
  hd_new :: "HdlcStreamDecoderOptions \<Rightarrow> 'd"
  hd_Push :: "byte list \<Rightarrow> 'd \<Rightarrow> HdlcStatus \<times> 'd \<times> ('a, 'k) HdlcFrame list"
  hd_Reset :: "'d \<Rightarrow> 'd"

text \<open>\<open>PushFrame\<close> returns its status, the frame \<open>completed\<close> and \<open>hasCompleted\<close>.\<close>

record ('a, 'k, 'r) hdlc_reassembler =
  hr_new :: "HdlcCodecLimits \<Rightarrow> 'r"
  hr_PushFrame ::
    "('a, 'k) HdlcFrame \<Rightarrow> 'r \<Rightarrow> HdlcStatus \<times> 'r \<times> ('a, 'k) HdlcFrame \<times> bool"
  hr_Reset :: "'r \<Rightarrow> 'r"

record ('a, 'k, 's) hdlc_session =
  hs_new :: "'a HdlcSessionOptions \<Rightarrow> 's"
  hs_State :: "'s \<Rightarrow> HdlcSessionState"
  hs_NegotiatedLimits :: "'s \<Rightarrow> HdlcSessionNegotiationLimits"
  hs_CanSendInformationFrame :: "'s \<Rightarrow> bool"
  hs_BuildConnectRequest :: "'s \<Rightarrow> HdlcStatus \<times> 's \<times> byte list"
  hs_BuildConnectResponse :: "'s \<Rightarrow> HdlcStatus \<times> 's \<times> byte list"
  hs_BuildDisconnectRequest :: "'s \<Rightarrow> HdlcStatus \<times> 's \<times> byte list"
  hs_BuildInformationFrame :: "byte list \<Rightarrow> bool \<Rightarrow> 's \<Rightarrow> HdlcStatus \<times> 's \<times> byte list"
  hs_BuildReceiveReadyFrame :: "bool \<Rightarrow> 's \<Rightarrow> HdlcStatus \<times> 's \<times> byte list"
  hs_ReceiveFrame :: "('a, 'k) HdlcFrame \<Rightarrow> 's \<Rightarrow> HdlcStatus \<times> 's"

end
