(* ===== verification/Profile_Types.thy ===== *)
theory Profile_Types
  imports Lower_Layers
begin

text \<open>
  \<open>include/dlms/profile/profile_types.hpp\<close> and \<open>src/profile/profile_types.cpp\<close>: the
  status of the profile layer and the four maps into it, buffer views and their validity,
  the channel options and their defaults, the trace events. The locale \<open>status_map\<close> is
  the contract the channels rely on when they map a lower-layer status and test it for
  \<open>Ok\<close>; all four maps are interpretations.
\<close>

section \<open>Data\<close>

datatype ProfileStatus =
    Ok | NeedMoreData | OutputBufferTooSmall | InvalidArgument | NotOpen | AlreadyOpen
  | OpenFailed | ReadFailed | WriteFailed | Timeout | ConnectionClosed | WouldBlock
  | InvalidFrame | InvalidLength | InvalidAddress | PayloadTooLarge | UnsupportedFeature
  | InternalError

text \<open>The value of an enumerator, as the \<open>enum class\<close> numbers it.\<close>

fun ProfileStatus_value :: "ProfileStatus \<Rightarrow> int" where
  "ProfileStatus_value ProfileStatus.Ok = 0"
| "ProfileStatus_value ProfileStatus.NeedMoreData = 1"
| "ProfileStatus_value ProfileStatus.OutputBufferTooSmall = 2"
| "ProfileStatus_value ProfileStatus.InvalidArgument = 3"
| "ProfileStatus_value ProfileStatus.NotOpen = 4"
| "ProfileStatus_value ProfileStatus.AlreadyOpen = 5"
| "ProfileStatus_value ProfileStatus.OpenFailed = 6"
| "ProfileStatus_value ProfileStatus.ReadFailed = 7"
| "ProfileStatus_value ProfileStatus.WriteFailed = 8"
| "ProfileStatus_value ProfileStatus.Timeout = 9"
| "ProfileStatus_value ProfileStatus.ConnectionClosed = 10"
| "ProfileStatus_value ProfileStatus.WouldBlock = 11"
| "ProfileStatus_value ProfileStatus.InvalidFrame = 12"
| "ProfileStatus_value ProfileStatus.InvalidLength = 13"
| "ProfileStatus_value ProfileStatus.InvalidAddress = 14"
| "ProfileStatus_value ProfileStatus.PayloadTooLarge = 15"
| "ProfileStatus_value ProfileStatus.UnsupportedFeature = 16"
| "ProfileStatus_value ProfileStatus.InternalError = 17"

text \<open>An input view, and an output buffer whose pointers are null or the caller's memory.\<close>

record ProfileByteView =
  bv_data :: byte_ptr
  bv_size :: size_t

datatype out_ptr = NullPtr | CallerPtr

record ProfileMutableBuffer =
  mb_data :: out_ptr
  mb_size :: size_t
  mb_writtenSize :: out_ptr

datatype HdlcProfileDirection = ClientToServer | ServerToClient

datatype HdlcProfileRole = Client | Server

datatype WrapperTcpTraceDirection = Outbound | Inbound

datatype WrapperTcpTraceKind = EncodedFrame | DecodedFrame | ReadStatus | DecodeStatus

record WrapperTcpTraceEvent =
  ev_kind :: WrapperTcpTraceKind
  ev_direction :: WrapperTcpTraceDirection
  ev_status :: ProfileStatus
  ev_sourcePort :: uint16
  ev_destinationPort :: uint16
  ev_encodedSize :: size_t
  ev_apduSize :: size_t
  ev_bytes :: byte_ptr
  ev_byteSize :: size_t

text \<open>The sink is code of the caller: it may throw.\<close>

record 'w IWrapperTcpTraceSink =
  OnWrapperTcpTrace :: "WrapperTcpTraceEvent \<Rightarrow> 'w \<Rightarrow> (unit, 'w) outcome"

record 'w ApduChannelOptions =
  localWrapperPort :: uint16
  remoteWrapperPort :: uint16
  wrapperTcpTraceSink :: "'w IWrapperTcpTraceSink option"
  hdlcClientAddress :: uint8
  hdlcLogicalDeviceAddress :: uint16
  hdlcPhysicalDeviceAddress :: uint16
  hdlcDirection :: HdlcProfileDirection
  hdlcRole :: HdlcProfileRole
  hdlcUseSession :: bool
  hdlcMaxInformationFieldLengthTransmit :: size_t
  hdlcMaxInformationFieldLengthReceive :: size_t
  hdlcWindowSizeTransmit :: uint8
  hdlcWindowSizeReceive :: uint8
  hdlcRetryCount :: uint8
  hdlcRetryDelayMilliseconds :: uint32
  maximumApduSize :: size_t
  scratchBufferSize :: size_t

definition DefaultApduChannelOptions :: "wrapper_ports \<Rightarrow> 'w ApduChannelOptions" where
  "DefaultApduChannelOptions ports =
     \<lparr>localWrapperPort = kPublicClient ports,
      remoteWrapperPort = kManagementLogicalDevice ports,
      wrapperTcpTraceSink = None,
      hdlcClientAddress = 0x10,
      hdlcLogicalDeviceAddress = 0x01,
      hdlcPhysicalDeviceAddress = 0x00,
      hdlcDirection = HdlcProfileDirection.ClientToServer,
      hdlcRole = HdlcProfileRole.Client,
      hdlcUseSession = False,
      hdlcMaxInformationFieldLengthTransmit = 0,
      hdlcMaxInformationFieldLengthReceive = 0,
      hdlcWindowSizeTransmit = 0,
      hdlcWindowSizeReceive = 0,
      hdlcRetryCount = 3,
      hdlcRetryDelayMilliseconds = 10,
      maximumApduSize = 65535,
      scratchBufferSize = 2048\<rparr>"

definition IsValidByteView :: "ProfileByteView \<Rightarrow> bool" where
  "IsValidByteView view \<longleftrightarrow> bv_data view \<noteq> None \<or> bv_size view = 0"

definition IsValidMutableBuffer :: "ProfileMutableBuffer \<Rightarrow> bool" where
  "IsValidMutableBuffer buffer =
     (if mb_writtenSize buffer = NullPtr then False
      else mb_data buffer \<noteq> NullPtr \<or> mb_size buffer = 0)"

section \<open>Status maps\<close>

fun MapTransportStatus :: "TransportStatus \<Rightarrow> ProfileStatus" where
  "MapTransportStatus TransportStatus.Ok = ProfileStatus.Ok"
| "MapTransportStatus TransportStatus.InvalidArgument = ProfileStatus.InvalidArgument"
| "MapTransportStatus TransportStatus.NotOpen = ProfileStatus.NotOpen"
| "MapTransportStatus TransportStatus.AlreadyOpen = ProfileStatus.AlreadyOpen"
| "MapTransportStatus TransportStatus.OpenFailed = ProfileStatus.OpenFailed"
| "MapTransportStatus TransportStatus.ReadFailed = ProfileStatus.ReadFailed"
| "MapTransportStatus TransportStatus.WriteFailed = ProfileStatus.WriteFailed"
| "MapTransportStatus TransportStatus.Timeout = ProfileStatus.Timeout"
| "MapTransportStatus TransportStatus.ConnectionClosed = ProfileStatus.ConnectionClosed"
| "MapTransportStatus TransportStatus.WouldBlock = ProfileStatus.WouldBlock"
| "MapTransportStatus TransportStatus.OutputBufferTooSmall = ProfileStatus.OutputBufferTooSmall"
| "MapTransportStatus TransportStatus.UnsupportedFeature = ProfileStatus.UnsupportedFeature"
| "MapTransportStatus TransportStatus.InternalError = ProfileStatus.InternalError"
| "MapTransportStatus (TransportStatus.Unlisted _) = ProfileStatus.InternalError"

fun MapWrapperStatus :: "WrapperStatus \<Rightarrow> ProfileStatus" where
  "MapWrapperStatus WrapperStatus.Ok = ProfileStatus.Ok"
| "MapWrapperStatus WrapperStatus.NeedMoreData = ProfileStatus.NeedMoreData"
| "MapWrapperStatus WrapperStatus.OutputBufferTooSmall = ProfileStatus.OutputBufferTooSmall"
| "MapWrapperStatus WrapperStatus.InvalidArgument = ProfileStatus.InvalidArgument"
| "MapWrapperStatus WrapperStatus.InvalidVersion = ProfileStatus.InvalidFrame"
| "MapWrapperStatus WrapperStatus.InvalidSourcePort = ProfileStatus.InvalidFrame"
| "MapWrapperStatus WrapperStatus.InvalidDestinationPort = ProfileStatus.InvalidFrame"
| "MapWrapperStatus WrapperStatus.InvalidLength = ProfileStatus.InvalidLength"
| "MapWrapperStatus WrapperStatus.DataTooLarge = ProfileStatus.PayloadTooLarge"
| "MapWrapperStatus WrapperStatus.FrameTooLarge = ProfileStatus.PayloadTooLarge"
| "MapWrapperStatus WrapperStatus.UnsupportedFeature = ProfileStatus.UnsupportedFeature"
| "MapWrapperStatus WrapperStatus.InternalError = ProfileStatus.InternalError"
| "MapWrapperStatus (WrapperStatus.Unlisted _) = ProfileStatus.InternalError"

fun MapLlcStatus :: "LlcStatus \<Rightarrow> ProfileStatus" where
  "MapLlcStatus LlcStatus.Ok = ProfileStatus.Ok"
| "MapLlcStatus LlcStatus.NeedMoreData = ProfileStatus.NeedMoreData"
| "MapLlcStatus LlcStatus.OutputBufferTooSmall = ProfileStatus.OutputBufferTooSmall"
| "MapLlcStatus LlcStatus.InvalidArgument = ProfileStatus.InvalidArgument"
| "MapLlcStatus LlcStatus.InvalidHeader = ProfileStatus.InvalidFrame"
| "MapLlcStatus LlcStatus.InvalidDsap = ProfileStatus.InvalidFrame"
| "MapLlcStatus LlcStatus.InvalidSsap = ProfileStatus.InvalidFrame"
| "MapLlcStatus LlcStatus.InvalidControl = ProfileStatus.InvalidFrame"
| "MapLlcStatus LlcStatus.InvalidLpduLength = ProfileStatus.InvalidLength"
| "MapLlcStatus LlcStatus.LsduTooLarge = ProfileStatus.PayloadTooLarge"
| "MapLlcStatus LlcStatus.BroadcastEncodeForbidden = ProfileStatus.UnsupportedFeature"
| "MapLlcStatus LlcStatus.UnsupportedAddress = ProfileStatus.UnsupportedFeature"
| "MapLlcStatus LlcStatus.UnsupportedControl = ProfileStatus.UnsupportedFeature"
| "MapLlcStatus LlcStatus.UnsupportedFeature = ProfileStatus.UnsupportedFeature"
| "MapLlcStatus LlcStatus.InternalError = ProfileStatus.InternalError"
| "MapLlcStatus (LlcStatus.Unlisted _) = ProfileStatus.InternalError"

fun MapHdlcStatus :: "HdlcStatus \<Rightarrow> ProfileStatus" where
  "MapHdlcStatus HdlcStatus.Ok = ProfileStatus.Ok"
| "MapHdlcStatus HdlcStatus.NeedMoreData = ProfileStatus.NeedMoreData"
| "MapHdlcStatus HdlcStatus.SegmentationIncomplete = ProfileStatus.NeedMoreData"
| "MapHdlcStatus HdlcStatus.OutputBufferTooSmall = ProfileStatus.OutputBufferTooSmall"
| "MapHdlcStatus HdlcStatus.InvalidArgument = ProfileStatus.InvalidArgument"
| "MapHdlcStatus HdlcStatus.InvalidFlag = ProfileStatus.InvalidFrame"
| "MapHdlcStatus HdlcStatus.InvalidFrameFormat = ProfileStatus.InvalidFrame"
| "MapHdlcStatus HdlcStatus.InvalidFrameType = ProfileStatus.InvalidFrame"
| "MapHdlcStatus HdlcStatus.InvalidControlField = ProfileStatus.InvalidFrame"
| "MapHdlcStatus HdlcStatus.InvalidHeaderChecksum = ProfileStatus.InvalidFrame"
| "MapHdlcStatus HdlcStatus.InvalidFrameChecksum = ProfileStatus.InvalidFrame"
| "MapHdlcStatus HdlcStatus.SegmentationError = ProfileStatus.InvalidFrame"
| "MapHdlcStatus HdlcStatus.InvalidFrameLength = ProfileStatus.InvalidLength"
| "MapHdlcStatus HdlcStatus.InvalidAddress = ProfileStatus.InvalidAddress"
| "MapHdlcStatus HdlcStatus.FrameTooLarge = ProfileStatus.PayloadTooLarge"
| "MapHdlcStatus HdlcStatus.InformationFieldTooLarge = ProfileStatus.PayloadTooLarge"
| "MapHdlcStatus HdlcStatus.SegmentationOverflow = ProfileStatus.PayloadTooLarge"
| "MapHdlcStatus HdlcStatus.UnsupportedFrame = ProfileStatus.UnsupportedFeature"
| "MapHdlcStatus HdlcStatus.UnsupportedAddress = ProfileStatus.UnsupportedFeature"
| "MapHdlcStatus HdlcStatus.UnsupportedFeature = ProfileStatus.UnsupportedFeature"
| "MapHdlcStatus HdlcStatus.InternalError = ProfileStatus.InternalError"
| "MapHdlcStatus (HdlcStatus.Unlisted _) = ProfileStatus.InternalError"

section \<open>The contract of a status map\<close>

locale status_map =
  fixes map_status :: "'s \<Rightarrow> ProfileStatus" and ok :: 's
  assumes map_ok_iff: "map_status st = ProfileStatus.Ok \<longleftrightarrow> st = ok"
begin

lemma map_ok [simp]: "map_status ok = ProfileStatus.Ok"
  by (simp add: map_ok_iff)

lemma failure_stays_failure: "st \<noteq> ok \<Longrightarrow> map_status st \<noteq> ProfileStatus.Ok"
  by (simp add: map_ok_iff)

text \<open>The idiom \<open>status = Map(call); if (status != Ok) return status\<close>.\<close>

lemma early_return:
  "(if map_status st \<noteq> ProfileStatus.Ok then a else b) = (if st \<noteq> ok then a else b)"
  by (simp add: map_ok_iff)

end

interpretation transport_map: status_map MapTransportStatus TransportStatus.Ok
proof
  show "MapTransportStatus st = ProfileStatus.Ok \<longleftrightarrow> st = TransportStatus.Ok" for st
    by (cases st) simp_all
qed

interpretation wrapper_map: status_map MapWrapperStatus WrapperStatus.Ok
proof
  show "MapWrapperStatus st = ProfileStatus.Ok \<longleftrightarrow> st = WrapperStatus.Ok" for st
    by (cases st) simp_all
qed

interpretation llc_map: status_map MapLlcStatus LlcStatus.Ok
proof
  show "MapLlcStatus st = ProfileStatus.Ok \<longleftrightarrow> st = LlcStatus.Ok" for st
    by (cases st) simp_all
qed

interpretation hdlc_map: status_map MapHdlcStatus HdlcStatus.Ok
proof
  show "MapHdlcStatus st = ProfileStatus.Ok \<longleftrightarrow> st = HdlcStatus.Ok" for st
    by (cases st) simp_all
qed

lemmas map_ok_iffs =
  transport_map.map_ok_iff wrapper_map.map_ok_iff llc_map.map_ok_iff hdlc_map.map_ok_iff

section \<open>Sequencing by status\<close>

text \<open>\<open>status = m; if (status != ProfileStatus::Ok) return status; k\<close>.\<close>

definition ok_or_return ::
  "('s, ProfileStatus) prog \<Rightarrow> ('s, ProfileStatus) prog \<Rightarrow> ('s, ProfileStatus) prog" where
  "ok_or_return m k = bnd m (\<lambda>st. if st \<noteq> ProfileStatus.Ok then ret st else k)"

lemma wp_ok_or_return [wp_simps]:
  "wp d f (ok_or_return m k) Q E =
     wp d f m (\<lambda>st t. if st \<noteq> ProfileStatus.Ok then Q st t else wp d f k Q E t) E"
  by (simp add: ok_or_return_def wp_simps)

lemmas run_ok_or_return [run_simps] = ok_or_return_def

text \<open>Calls whose result is a lower-layer status, mapped on the spot.\<close>

definition ext_transport ::
  "('w \<Rightarrow> (TransportStatus, 'w) outcome) \<Rightarrow> ('c, 'w, ProfileStatus) mprog" where
  "ext_transport g = bnd (ext g) (\<lambda>st. ret (MapTransportStatus st))"

lemma wp_ext_transport [wp_simps]:
  "wp d f (ext_transport g) Q E =
     (\<lambda>s. case g (world s) of
        Ret st w \<Rightarrow> Q (MapTransportStatus st) (s\<lparr>world := w\<rparr>)
      | Throw w \<Rightarrow> E (s\<lparr>world := w\<rparr>)
      | Fault \<Rightarrow> f)"
  by (simp add: ext_transport_def wp_simps)

lemma run_ext_transport [run_simps]:
  "ext_transport g s =
     (case g (world s) of
        Ret st w \<Rightarrow> Some (Ret (MapTransportStatus st) (s\<lparr>world := w\<rparr>))
      | Throw w \<Rightarrow> Some (Throw (s\<lparr>world := w\<rparr>))
      | Fault \<Rightarrow> Some Fault)"
  by (simp add: ext_transport_def bnd_def ext_def ret_def split: outcome.splits)

lemma steps_ok_or_return [steps_intros]:
  "preord R \<Longrightarrow> steps d f I R m \<Longrightarrow> steps d f I R k \<Longrightarrow> steps d f I R (ok_or_return m k)"
  unfolding ok_or_return_def by (intro steps_intros)

lemma steps_ext_transport [steps_intros]:
  "preord R \<Longrightarrow>
   (\<And>s. I s \<Longrightarrow> case g (world s) of
       Ret a w \<Rightarrow> I (s\<lparr>world := w\<rparr>) \<and> R s (s\<lparr>world := w\<rparr>)
     | Throw w \<Rightarrow> I (s\<lparr>world := w\<rparr>) \<and> R s (s\<lparr>world := w\<rparr>)
     | Fault \<Rightarrow> f) \<Longrightarrow> steps d f I R (ext_transport g)"
  unfolding ext_transport_def by (intro steps_intros)

section \<open>Out-parameters\<close>

text \<open>\<open>*output.writtenSize = n\<close> and \<open>std::copy(bytes, output.data)\<close> of non-empty bytes.\<close>

definition store_written :: "ProfileMutableBuffer \<Rightarrow> size_t \<Rightarrow> ('c, 'w, unit) mprog" where
  "store_written output n =
     (if mb_writtenSize output = NullPtr then fault else set_mem (\<lambda>m. m\<lparr>cm_written := n\<rparr>))"

definition copy_out :: "byte list \<Rightarrow> ProfileMutableBuffer \<Rightarrow> ('c, 'w, unit) mprog" where
  "copy_out bytes output =
     bnd (gets (\<lambda>s. length (cm_data (mem s)))) (\<lambda>room.
       if mb_data output = NullPtr \<or> room < length bytes then fault
       else set_mem (\<lambda>m. m\<lparr>cm_data := bytes @ drop (length bytes) (cm_data m)\<rparr>))"

lemma wp_store_written [wp_simps]:
  "wp d f (store_written output n) Q E =
     (\<lambda>s. if mb_writtenSize output = NullPtr then f
      else Q () (s\<lparr>mem := (mem s)\<lparr>cm_written := n\<rparr>\<rparr>))"
  by (simp add: fun_eq_iff store_written_def wp_simps)

lemma run_store_written [run_simps]:
  "store_written output n s =
     (if mb_writtenSize output = NullPtr then Some Fault
      else Some (Ret () (s\<lparr>mem := (mem s)\<lparr>cm_written := n\<rparr>\<rparr>)))"
  by (simp add: store_written_def run_simps)

lemma wp_copy_out [wp_simps]:
  "wp d f (copy_out bytes output) Q E =
     (\<lambda>s. if mb_data output = NullPtr \<or> length (cm_data (mem s)) < length bytes then f
      else Q () (s\<lparr>mem := (mem s)
             \<lparr>cm_data := bytes @ drop (length bytes) (cm_data (mem s))\<rparr>\<rparr>))"
  by (simp add: fun_eq_iff copy_out_def wp_simps)

lemma run_copy_out [run_simps]:
  "copy_out bytes output s =
     (if mb_data output = NullPtr \<or> length (cm_data (mem s)) < length bytes then Some Fault
      else Some (Ret () (s\<lparr>mem := (mem s)
             \<lparr>cm_data := bytes @ drop (length bytes) (cm_data (mem s))\<rparr>\<rparr>)))"
  by (simp add: copy_out_def run_simps)

section \<open>Pointers and the memory behind them\<close>

text \<open>
  What the caller of \<open>SendApdu\<close> owes: the data pointer of the view leads to at least \<open>size\<close>
  bytes. The encoders of the lower layers read the view; handing them one that is longer than its
  memory is undefined.
\<close>

definition view_backed :: "ProfileByteView \<Rightarrow> bool" where
  "view_backed view =
     (case bv_data view of None \<Rightarrow> bv_size view = 0 | Some bytes \<Rightarrow> bv_size view \<le> length bytes)"

text \<open>
  What the caller of \<open>ReceiveApdu(ProfileMutableBuffer)\<close> owes: a non-null data pointer leads
  to at least \<open>size\<close> bytes.
\<close>

definition buffer_backed :: "ProfileMutableBuffer \<Rightarrow> caller_mem \<Rightarrow> bool" where
  "buffer_backed output m \<longleftrightarrow> mb_data output \<noteq> NullPtr \<longrightarrow> mb_size output \<le> length (cm_data m)"

end
