(* ===== verification/Apdu_Channel.thy ===== *)
theory Apdu_Channel
  imports Profile_Types
begin

text \<open>
  \<open>include/dlms/profile/apdu_channel.hpp\<close>: the interface \<open>IApduChannel\<close> as a locale. Its
  parameters are the three data operations of a channel and the configured size limit; its
  assumptions are what every channel promises of them, whatever transport and codec it runs
  on. The three channel theories interpret it; the C API relies on it.

  The calculus of \<open>Profile_Prelude\<close> is used with \<open>wp True True\<close>: the laws constrain
  every call that returns or throws.
\<close>

section \<open>The promises of a channel\<close>

text \<open>
  After \<open>ReceiveApdu(ProfileMutableBuffer)\<close> with a valid buffer: the reported size is 0
  unless the call succeeded and never exceeds the buffer, and no byte beyond the reported size
  has changed.
\<close>

definition buffer_result ::
  "ProfileMutableBuffer \<Rightarrow> caller_mem \<Rightarrow> ProfileStatus \<Rightarrow> caller_mem \<Rightarrow> bool" where
  "buffer_result output m st m' \<longleftrightarrow>
     cm_vector m' = cm_vector m \<and>
     length (cm_data m') = length (cm_data m) \<and>
     drop (cm_written m') (cm_data m') = drop (cm_written m') (cm_data m) \<and>
     cm_written m' \<le> mb_size output \<and>
     (st \<noteq> ProfileStatus.Ok \<longrightarrow> cm_written m' = 0)"

text \<open>After \<open>ReceiveApdu(std::vector&)\<close>: the vector is empty unless the call succeeded.\<close>

definition vector_result :: "caller_mem \<Rightarrow> ProfileStatus \<Rightarrow> caller_mem \<Rightarrow> bool" where
  "vector_result m st m' \<longleftrightarrow>
     cm_data m' = cm_data m \<and> cm_written m' = cm_written m \<and>
     (st \<noteq> ProfileStatus.Ok \<longrightarrow> cm_vector m' = [])"

locale apdu_channel =
  fixes SendApdu :: "ProfileByteView \<Rightarrow> ('c, 'w, ProfileStatus) mprog"
    and ReceiveVector :: "('c, 'w, ProfileStatus) mprog"
    and ReceiveBuffer :: "ProfileMutableBuffer \<Rightarrow> ('c, 'w, ProfileStatus) mprog"
    and apdu_limit :: "'c \<Rightarrow> size_t"
  assumes send_invalid:
      "\<not> IsValidByteView v \<Longrightarrow> SendApdu v s = Some (Ret ProfileStatus.InvalidArgument s)"
    and send_too_large:
      "IsValidByteView v \<Longrightarrow> apdu_limit (self s) \<noteq> 0 \<Longrightarrow> apdu_limit (self s) < bv_size v \<Longrightarrow>
         SendApdu v s = Some (Ret ProfileStatus.PayloadTooLarge s)"
    and send_mem: "wp True True (SendApdu v) (\<lambda>_ t. mem t = mem s) (\<lambda>t. mem t = mem s) s"
    and vector_law:
      "wp True True ReceiveVector (\<lambda>st t. vector_result (mem s) st (mem t))
         (\<lambda>t. vector_result (mem s) ProfileStatus.InternalError (mem t)) s"
    and buffer_invalid:
      "\<not> IsValidMutableBuffer b \<Longrightarrow>
         ReceiveBuffer b s = Some (Ret ProfileStatus.InvalidArgument s)"
    and buffer_law:
      "IsValidMutableBuffer b \<Longrightarrow>
         wp True True (ReceiveBuffer b) (\<lambda>st t. buffer_result b (mem s) st (mem t))
           (\<lambda>t. buffer_result b (mem s) ProfileStatus.InternalError (mem t)) s"
begin

text \<open>A failed receive leaves every byte of the caller's buffer alone.\<close>

lemma failed_buffer_untouched:
  assumes "ReceiveBuffer b s = Some (Ret st t)" and "st \<noteq> ProfileStatus.Ok"
  shows "cm_data (mem t) = cm_data (mem s)"
proof (cases "IsValidMutableBuffer b")
  case True
  from wp_retD [OF buffer_law [OF True] assms(1)] assms(2)
  show ?thesis by (auto simp: buffer_result_def)
next
  case False
  with assms(1) show ?thesis by (simp add: buffer_invalid)
qed

lemma written_within_buffer:
  assumes "ReceiveBuffer b s = Some (Ret ProfileStatus.Ok t)"
  shows "cm_written (mem t) \<le> mb_size b"
proof (cases "IsValidMutableBuffer b")
  case True
  from wp_retD [OF buffer_law [OF True] assms] show ?thesis by (simp add: buffer_result_def)
next
  case False
  with assms show ?thesis by (simp add: buffer_invalid)
qed

end

section \<open>A channel as a queue of APDUs\<close>

text \<open>
  The two ends of a channel, abstractly. \<open>expects s apdus\<close>: \<open>apdus\<close> are on their way to
  the channel in the state \<open>s\<close>; a source delivers them one per call, unchanged and in order.
  \<open>accepts s encode fits\<close>: the channel writes an APDU that fits as \<open>encode apdu\<close>, where
  \<open>written\<close> reads what has been written from the world. \<open>send_many\<close> and
  \<open>receive_many\<close> are clients that call the channel repeatedly.
\<close>

definition view_of :: "byte list \<Rightarrow> ProfileByteView" where
  "view_of apdu = \<lparr>bv_data = Some apdu, bv_size = length apdu\<rparr>"

lemma view_of_sel [simp]:
  "bv_data (view_of a) = Some a" "bv_size (view_of a) = length a" "IsValidByteView (view_of a)"
  "view_backed (view_of a)"
  by (simp_all add: view_of_def IsValidByteView_def view_backed_def)

fun receive_many ::
  "('c, 'w, ProfileStatus) mprog \<Rightarrow> nat \<Rightarrow> ('c, 'w, (ProfileStatus \<times> byte list) list) mprog" where
  "receive_many receive 0 = ret []"
| "receive_many receive (Suc n) =
     bnd receive (\<lambda>st. bnd (gets (\<lambda>s. cm_vector (mem s))) (\<lambda>apdu.
       bnd (receive_many receive n) (\<lambda>rest. ret ((st, apdu) # rest))))"

fun send_many ::
  "(ProfileByteView \<Rightarrow> ('c, 'w, ProfileStatus) mprog) \<Rightarrow> byte list list \<Rightarrow>
   ('c, 'w, ProfileStatus list) mprog" where
  "send_many send [] = ret []"
| "send_many send (apdu # apdus) =
     bnd (send (view_of apdu)) (\<lambda>st.
       bnd (send_many send apdus) (\<lambda>rest. ret (st # rest)))"

locale apdu_source =
  fixes receive :: "('c, 'w, ProfileStatus) mprog"
    and expects :: "('c, 'w) sys \<Rightarrow> byte list list \<Rightarrow> bool"
  assumes receive_next:
    "expects s (apdu # apdus) \<Longrightarrow>
       \<exists>t. receive s = Some (Ret ProfileStatus.Ok t) \<and> cm_vector (mem t) = apdu \<and> expects t apdus"
begin

lemma receive_in_order:
  "expects s apdus \<Longrightarrow>
     \<exists>t. receive_many receive (length apdus) s =
           Some (Ret (map (\<lambda>apdu. (ProfileStatus.Ok, apdu)) apdus) t) \<and> expects t []"
proof (induction apdus arbitrary: s)
  case Nil
  then show ?case by (simp add: run_simps)
next
  case (Cons apdu apdus)
  from receive_next [OF Cons.prems] obtain u where
    u: "receive s = Some (Ret ProfileStatus.Ok u)" "cm_vector (mem u) = apdu" "expects u apdus"
    by blast
  from Cons.IH [OF u(3)] obtain t where
    "receive_many receive (length apdus) u =
       Some (Ret (map (\<lambda>apdu. (ProfileStatus.Ok, apdu)) apdus) t)" "expects t []"
    by blast
  with u show ?case by (simp add: run_simps)
qed

end

locale apdu_sink =
  fixes send :: "ProfileByteView \<Rightarrow> ('c, 'w, ProfileStatus) mprog"
    and accepts :: "('c, 'w) sys \<Rightarrow> (byte list \<Rightarrow> 'x list) \<Rightarrow> (byte list \<Rightarrow> bool) \<Rightarrow> bool"
    and written :: "'w \<Rightarrow> 'x list"
  assumes send_next:
    "accepts s encode fits \<Longrightarrow> fits apdu \<Longrightarrow>
       \<exists>t. send (view_of apdu) s = Some (Ret ProfileStatus.Ok t) \<and> accepts t encode fits \<and>
           written (world t) = written (world s) @ encode apdu"
begin

lemma send_in_order:
  "accepts s encode fits \<Longrightarrow> list_all fits apdus \<Longrightarrow>
     \<exists>t. send_many send apdus s = Some (Ret (map (\<lambda>_. ProfileStatus.Ok) apdus) t) \<and>
         accepts t encode fits \<and>
         written (world t) = written (world s) @ concat (map encode apdus)"
proof (induction apdus arbitrary: s)
  case Nil
  then show ?case by (simp add: run_simps)
next
  case (Cons apdu apdus)
  from Cons.prems send_next [of s encode fits apdu] obtain u where
    u: "send (view_of apdu) s = Some (Ret ProfileStatus.Ok u)" "accepts u encode fits"
      "written (world u) = written (world s) @ encode apdu"
    by auto
  from Cons.IH [OF u(2)] Cons.prems(2) obtain t where
    "send_many send apdus u = Some (Ret (map (\<lambda>_. ProfileStatus.Ok) apdus) t)"
    "accepts t encode fits"
    "written (world t) = written (world u) @ concat (map encode apdus)"
    by auto
  with u show ?case by (simp add: run_simps)
qed

end

section \<open>The pending queue\<close>

text \<open>
  \<open>while (pending.empty()) { status = next(); if (status != Ok) return status; }\<close>, the loop
  of both queueing channels. It leaves with \<open>Ok\<close> when the queue is no longer empty.
\<close>

definition fill_while_empty ::
  "('c \<Rightarrow> bool) \<Rightarrow> ('c, 'w, ProfileStatus) mprog \<Rightarrow> ('c, 'w, ProfileStatus) mprog" where
  "fill_while_empty is_empty receive_next =
     loop (\<lambda>_. with_this (\<lambda>c.
       if is_empty c
       then bnd receive_next (\<lambda>st.
              if st \<noteq> ProfileStatus.Ok then ret (Inr st) else ret (Inl ()))
       else ret (Inr ProfileStatus.Ok))) ()"

lemma fill_nonempty: "\<not> is_empty (self s) \<Longrightarrow>
    fill_while_empty is_empty receive_next s = Some (Ret ProfileStatus.Ok s)"
  by (simp add: fill_while_empty_def loop_unfold run_simps)

lemma fill_empty:
  "is_empty (self s) \<Longrightarrow>
    fill_while_empty is_empty receive_next s =
      ok_or_return receive_next (fill_while_empty is_empty receive_next) s"
  unfolding fill_while_empty_def
  by (subst loop_unfold)
     (auto simp: run_simps split: option.splits outcome.splits)

text \<open>
  The rules of the loop: what one call of \<open>receive_next\<close> keeps holds at the end; with a
  measure that a successful call decreases, the loop ends.
\<close>

lemma wp_fill:
  assumes "I s"
    and step: "\<And>s. I s \<Longrightarrow> is_empty (self s) \<Longrightarrow>
      wp True f receive_next (\<lambda>st t. if st = ProfileStatus.Ok then I t else Q st t) E s"
    and stop: "\<And>s. I s \<Longrightarrow> \<not> is_empty (self s) \<Longrightarrow> Q ProfileStatus.Ok s"
  shows "wp True f (fill_while_empty is_empty receive_next) Q E s"
  unfolding fill_while_empty_def
proof (rule wp_loop [where I = "\<lambda>_. I"])
  show "I s" by fact
next
  fix x :: unit and s
  assume I: "I s"
  show "wp True f (with_this (\<lambda>c. if is_empty c
            then bnd receive_next (\<lambda>st. if st \<noteq> ProfileStatus.Ok then ret (Inr st) else ret (Inl ()))
            else ret (Inr ProfileStatus.Ok)))
          (\<lambda>v t. case v of Inl y \<Rightarrow> I t | Inr a \<Rightarrow> Q a t) E s"
  proof (cases "is_empty (self s)")
    case True
    then show ?thesis
      by (auto simp: wp_simps intro!: wp_conseq [OF step [OF I True]])
  next
    case False
    with stop [OF I] show ?thesis by (simp add: wp_simps)
  qed
qed

lemma wp_fill_total:
  fixes \<mu> :: "('c, 'w) sys \<Rightarrow> nat"
  assumes "I s"
    and step: "\<And>s. I s \<Longrightarrow> is_empty (self s) \<Longrightarrow>
      wp d f receive_next
        (\<lambda>st t. if st = ProfileStatus.Ok then I t \<and> \<mu> t < \<mu> s else Q st t) E s"
    and stop: "\<And>s. I s \<Longrightarrow> \<not> is_empty (self s) \<Longrightarrow> Q ProfileStatus.Ok s"
  shows "wp d f (fill_while_empty is_empty receive_next) Q E s"
  unfolding fill_while_empty_def
proof (rule wp_loop_total [where I = "\<lambda>_. I" and \<mu> = "\<lambda>_. \<mu>"])
  show "I s" by fact
next
  fix x :: unit and s
  assume I: "I s"
  show "wp d f (with_this (\<lambda>c. if is_empty c
            then bnd receive_next (\<lambda>st. if st \<noteq> ProfileStatus.Ok then ret (Inr st) else ret (Inl ()))
            else ret (Inr ProfileStatus.Ok)))
          (\<lambda>v t. case v of Inl y \<Rightarrow> I t \<and> \<mu> t < \<mu> s | Inr a \<Rightarrow> Q a t) E s"
  proof (cases "is_empty (self s)")
    case True
    then show ?thesis
      by (auto simp: wp_simps intro!: wp_conseq [OF step [OF I True]])
  next
    case False
    with stop [OF I] show ?thesis by (simp add: wp_simps)
  qed
qed

lemma steps_fill [steps_intros]:
  "d \<Longrightarrow> preord R \<Longrightarrow> steps d f I R receive_next \<Longrightarrow>
     steps d f I R (fill_while_empty is_empty receive_next)"
  unfolding fill_while_empty_def by (intro steps_intros)

end
