(* ===== verification/Wrapper_Tcp.thy ===== *)
theory Wrapper_Tcp
  imports Apdu_Channel
begin

text \<open>
  \<open>src/profile/wrapper_tcp_profile_channel.cpp\<close>: APDUs over a byte stream. The channel keeps
  a stream decoder and the queue of frames that were decoded but not yet delivered. The wrapper
  codec \<open>cd\<close>, the stream decoder \<open>wd\<close> and the allocator \<open>al\<close> are parameters. \<open>stream_\<close> is a
  reference: \<open>tcp_stream\<close> is the interface of the object it leads to, which lives elsewhere.
\<close>

section \<open>The channel and its operations\<close>

record ('d, 'w) WrapperTcpProfileChannel =
  tcp_stream :: "'w IByteStream"
  tcp_options :: "'w ApduChannelOptions"
  tcp_wrapperLimits :: WrapperCodecLimits
  tcp_decoder :: 'd
  tcp_readBuffer :: "byte list"
  tcp_pendingFrames :: "WrapperFrameBuffer list"

type_synonym ('d, 'w, 'v) tcp_prog = "(('d, 'w) WrapperTcpProfileChannel, 'w, 'v) mprog"

definition Tcp_MakeWrapperLimits ::
  "wrapper_codec \<Rightarrow> 'w ApduChannelOptions \<Rightarrow> WrapperCodecLimits" where
  "Tcp_MakeWrapperLimits cd opts =
     (let limits = DefaultWrapperCodecLimits cd in
      if maximumApduSize opts \<noteq> 0 \<and> maximumApduSize opts < maximumDataSize limits
      then limits\<lparr>maximumDataSize := maximumApduSize opts,
                  maximumFrameSize := size_add (kWrapperHeaderSize cd) (maximumApduSize opts)\<rparr>
      else limits)"

definition Tcp_MakeDecoder :: "'d wrapper_stream_decoder \<Rightarrow> WrapperCodecLimits \<Rightarrow> 'd" where
  "Tcp_MakeDecoder wd limits = wd_new wd limits"

definition EmitTrace ::
  "'w IWrapperTcpTraceSink option \<Rightarrow> WrapperTcpTraceEvent \<Rightarrow> ('c, 'w, unit) mprog" where
  "EmitTrace sink event =
     (case sink of None \<Rightarrow> ret () | Some k \<Rightarrow> ext (OnWrapperTcpTrace k event))"

definition MakeTraceEvent ::
  "WrapperTcpTraceKind \<Rightarrow> WrapperTcpTraceDirection \<Rightarrow> ProfileStatus \<Rightarrow> WrapperTcpTraceEvent" where
  "MakeTraceEvent kind direction status =
     \<lparr>ev_kind = kind, ev_direction = direction, ev_status = status,
      ev_sourcePort = 0, ev_destinationPort = 0, ev_encodedSize = 0, ev_apduSize = 0,
      ev_bytes = None, ev_byteSize = 0\<rparr>"

definition WrapperTcpProfileChannel ::
  "wrapper_codec \<Rightarrow> 'd wrapper_stream_decoder \<Rightarrow> 'w IByteStream \<Rightarrow> 'w ApduChannelOptions \<Rightarrow>
   ('d, 'w) WrapperTcpProfileChannel" where
  "WrapperTcpProfileChannel cd wd stream opts =
     \<lparr>tcp_stream = stream,
      tcp_options = opts,
      tcp_wrapperLimits = Tcp_MakeWrapperLimits cd opts,
      tcp_decoder = Tcp_MakeDecoder wd (Tcp_MakeWrapperLimits cd opts),
      tcp_readBuffer =
        replicate (if scratchBufferSize opts = 0 then 2048 else scratchBufferSize opts) 0,
      tcp_pendingFrames = []\<rparr>"

definition Tcp_Open :: "('d, 'w, ProfileStatus) tcp_prog" where
  "Tcp_Open = with_this (\<lambda>c. ext_transport (bs_Open (tcp_stream c)))"

definition Tcp_Close :: "'d wrapper_stream_decoder \<Rightarrow> ('d, 'w, ProfileStatus) tcp_prog" where
  "Tcp_Close wd =
     next_do (set_this (\<lambda>c. c\<lparr>tcp_decoder := wd_Reset wd (tcp_decoder c)\<rparr>))
       (next_do (set_this (\<lambda>c. c\<lparr>tcp_pendingFrames := []\<rparr>))
          (with_this (\<lambda>c. ext_transport (bs_Close (tcp_stream c)))))"

definition Tcp_IsOpen :: "('d, 'w, bool) tcp_prog" where
  "Tcp_IsOpen = with_this (\<lambda>c. ext (bs_IsOpen (tcp_stream c)))"

definition Tcp_SendApdu ::
  "wrapper_codec \<Rightarrow> ProfileByteView \<Rightarrow> ('d, 'w, ProfileStatus) tcp_prog" where
  "Tcp_SendApdu cd apdu =
     with_this (\<lambda>c.
       if \<not> IsValidByteView apdu then ret ProfileStatus.InvalidArgument
       else if maximumApduSize (tcp_options c) \<noteq> 0 \<and>
               bv_size apdu > maximumApduSize (tcp_options c)
       then ret ProfileStatus.PayloadTooLarge
       else if \<not> view_backed apdu then fault
       else
         let frame = \<lparr>wf_sourcePort = localWrapperPort (tcp_options c),
                      wf_destinationPort = remoteWrapperPort (tcp_options c),
                      wf_data = bv_data apdu, wf_dataSize = bv_size apdu\<rparr>;
             (encoded, wpdu) = EncodeWpdu cd frame (tcp_wrapperLimits c);
             encodeStatus = MapWrapperStatus encoded
         in if encodeStatus \<noteq> ProfileStatus.Ok then ret encodeStatus
            else
              let event = (MakeTraceEvent EncodedFrame Outbound ProfileStatus.Ok)
                    \<lparr>ev_sourcePort := wf_sourcePort frame,
                     ev_destinationPort := wf_destinationPort frame,
                     ev_encodedSize := length wpdu,
                     ev_apduSize := bv_size apdu,
                     ev_bytes := (if wpdu = [] then None else Some wpdu),
                     ev_byteSize := length wpdu\<rparr>
              in next_do (EmitTrace (wrapperTcpTraceSink (tcp_options c)) event)
                   (ext_transport (bs_WriteAll (tcp_stream c) wpdu)))"

text \<open>The trace of each decoded frame, in the order of the loop over \<open>frames\<close>.\<close>

definition DecodedFrameEvent :: "wrapper_codec \<Rightarrow> WrapperFrameBuffer \<Rightarrow> WrapperTcpTraceEvent" where
  "DecodedFrameEvent cd frame =
     (MakeTraceEvent DecodedFrame Inbound ProfileStatus.Ok)
       \<lparr>ev_sourcePort := wb_sourcePort frame,
        ev_destinationPort := wb_destinationPort frame,
        ev_apduSize := length (wb_data frame),
        ev_encodedSize := size_add (kWrapperHeaderSize cd) (length (wb_data frame)),
        ev_bytes := (if wb_data frame = [] then None else Some (wb_data frame)),
        ev_byteSize := length (wb_data frame)\<rparr>"

fun TraceDecodedFrames ::
  "wrapper_codec \<Rightarrow> 'w IWrapperTcpTraceSink option \<Rightarrow> WrapperFrameBuffer list \<Rightarrow>
   ('c, 'w, unit) mprog" where
  "TraceDecodedFrames cd sink [] = ret ()"
| "TraceDecodedFrames cd sink (frame # frames) =
     next_do (EmitTrace sink (DecodedFrameEvent cd frame)) (TraceDecodedFrames cd sink frames)"

text \<open>
  The body of \<open>ReceiveNextFrame\<close>'s \<open>for (;;)\<close> once bytes have been read: push them into
  the decoder, queue the frames, go round again (\<open>Inl\<close>) on \<open>NeedMoreData\<close>.
\<close>

definition Tcp_QueueFrames ::
  "wrapper_codec \<Rightarrow> 'd wrapper_stream_decoder \<Rightarrow> 'w allocator \<Rightarrow> WrapperFrameBuffer list \<Rightarrow>
   ('d, 'w, unit + ProfileStatus) tcp_prog" where
  "Tcp_QueueFrames cd wd al frames =
     with_this (\<lambda>c.
       try_catch
         (next_do (TraceDecodedFrames cd (wrapperTcpTraceSink (tcp_options c)) frames)
            (next_do (allocate al (length frames))
               (next_do (set_this (\<lambda>c. c\<lparr>tcp_pendingFrames := tcp_pendingFrames c @ frames\<rparr>))
                  (ret (Inr ProfileStatus.Ok)))))
         (next_do (set_this (\<lambda>c. c\<lparr>tcp_decoder := wd_Reset wd (tcp_decoder c),
                                     tcp_pendingFrames := []\<rparr>))
            (ret (Inr ProfileStatus.InternalError))))"

definition Tcp_PushBytes ::
  "wrapper_codec \<Rightarrow> 'd wrapper_stream_decoder \<Rightarrow> 'w allocator \<Rightarrow> byte list \<Rightarrow> size_t \<Rightarrow>
   ('d, 'w, unit + ProfileStatus) tcp_prog" where
  "Tcp_PushBytes cd wd al buffer bytesRead =
     with_this (\<lambda>c.
       let (decoded, decoder, frames) = wd_Push wd (take bytesRead buffer) (tcp_decoder c);
           decodeStatus = MapWrapperStatus decoded
       in next_do (set_this (\<lambda>c. c\<lparr>tcp_decoder := decoder\<rparr>))
            (if decodeStatus = ProfileStatus.Ok then Tcp_QueueFrames cd wd al frames
             else if decodeStatus \<noteq> ProfileStatus.NeedMoreData then
               next_do (EmitTrace (wrapperTcpTraceSink (tcp_options c))
                          ((MakeTraceEvent DecodeStatus Inbound decodeStatus)
                             \<lparr>ev_bytes := Some buffer, ev_byteSize := bytesRead\<rparr>))
                 (next_do (set_this (\<lambda>c. c\<lparr>tcp_decoder := wd_Reset wd (tcp_decoder c)\<rparr>))
                    (ret (Inr decodeStatus)))
             else ret (Inl ())))"

definition Tcp_ReceiveStep ::
  "wrapper_codec \<Rightarrow> 'd wrapper_stream_decoder \<Rightarrow> 'w allocator \<Rightarrow>
   ('d, 'w, unit + ProfileStatus) tcp_prog" where
  "Tcp_ReceiveStep cd wd al =
     with_this (\<lambda>c.
       bnd (ext (bs_ReadSome (tcp_stream c) (tcp_readBuffer c)))
         (\<lambda>(st, buffer, bytesRead).
           next_do (set_this (\<lambda>c. c\<lparr>tcp_readBuffer := buffer\<rparr>))
             (let readStatus = MapTransportStatus st in
              if readStatus \<noteq> ProfileStatus.Ok then
                next_do (EmitTrace (wrapperTcpTraceSink (tcp_options c))
                           (MakeTraceEvent ReadStatus Inbound readStatus))
                  (ret (Inr readStatus))
              else if bytesRead = 0 then ret (Inr ProfileStatus.NeedMoreData)
              else if length buffer < bytesRead then fault
              else Tcp_PushBytes cd wd al buffer bytesRead)))"

definition Tcp_ReceiveNextFrame ::
  "wrapper_codec \<Rightarrow> 'd wrapper_stream_decoder \<Rightarrow> 'w allocator \<Rightarrow>
   ('d, 'w, ProfileStatus) tcp_prog" where
  "Tcp_ReceiveNextFrame cd wd al =
     with_this (\<lambda>c.
       if tcp_readBuffer c = [] then ret ProfileStatus.InvalidArgument
       else loop (\<lambda>_. Tcp_ReceiveStep cd wd al) ())"

definition Tcp_no_pending :: "('d, 'w) WrapperTcpProfileChannel \<Rightarrow> bool" where
  "Tcp_no_pending c \<longleftrightarrow> tcp_pendingFrames c = []"

definition Tcp_ReceiveVector ::
  "wrapper_codec \<Rightarrow> 'd wrapper_stream_decoder \<Rightarrow> 'w allocator \<Rightarrow>
   ('d, 'w, ProfileStatus) tcp_prog" where
  "Tcp_ReceiveVector cd wd al =
     next_do (set_mem (\<lambda>m. m\<lparr>cm_vector := []\<rparr>))
       (ok_or_return (fill_while_empty Tcp_no_pending (Tcp_ReceiveNextFrame cd wd al))
          (try_catch
             (with_this (\<lambda>c. case tcp_pendingFrames c of
                [] \<Rightarrow> fault
              | frame # rest \<Rightarrow>
                  next_do (allocate al (length (wb_data frame)))
                    (next_do (set_mem (\<lambda>m. m\<lparr>cm_vector := wb_data frame\<rparr>))
                       (next_do (set_this (\<lambda>c. c\<lparr>tcp_pendingFrames := rest\<rparr>))
                          (ret ProfileStatus.Ok)))))
             (next_do (set_mem (\<lambda>m. m\<lparr>cm_vector := []\<rparr>))
                (ret ProfileStatus.InternalError))))"

definition Tcp_CopyFirstPendingFrame ::
  "ProfileMutableBuffer \<Rightarrow> bool \<Rightarrow> ('d, 'w, ProfileStatus) tcp_prog" where
  "Tcp_CopyFirstPendingFrame output consume =
     with_this (\<lambda>c. case tcp_pendingFrames c of
       [] \<Rightarrow> fault
     | frame # rest \<Rightarrow>
         let apdu = wb_data frame in
         if mb_size output < length apdu then ret ProfileStatus.OutputBufferTooSmall
         else
           next_do (if apdu \<noteq> [] then copy_out apdu output else ret ())
             (next_do (store_written output (length apdu))
                (next_do (if consume then set_this (\<lambda>c. c\<lparr>tcp_pendingFrames := rest\<rparr>)
                          else ret ())
                   (ret ProfileStatus.Ok))))"

definition Tcp_ReceiveBuffer ::
  "wrapper_codec \<Rightarrow> 'd wrapper_stream_decoder \<Rightarrow> 'w allocator \<Rightarrow> ProfileMutableBuffer \<Rightarrow>
   ('d, 'w, ProfileStatus) tcp_prog" where
  "Tcp_ReceiveBuffer cd wd al output =
     (if \<not> IsValidMutableBuffer output then ret ProfileStatus.InvalidArgument
      else next_do (store_written output 0)
        (ok_or_return (fill_while_empty Tcp_no_pending (Tcp_ReceiveNextFrame cd wd al))
           (Tcp_CopyFirstPendingFrame output True)))"

end
