(* ===== verification/Wrapper_Tcp_Laws.thy ===== *)
theory Wrapper_Tcp_Laws
  imports Wrapper_Tcp
begin

text \<open>
  What every call of the TCP channel keeps, and the interface laws of \<open>IApduChannel\<close> for it.
\<close>

lemma wp_EmitTrace [wp_simps]:
  "wp d f (EmitTrace sink event) Q E =
     (\<lambda>s. case sink of None \<Rightarrow> Q () s
       | Some k \<Rightarrow> (case OnWrapperTcpTrace k event (world s) of
           Ret a w \<Rightarrow> Q a (s\<lparr>world := w\<rparr>)
         | Throw w \<Rightarrow> E (s\<lparr>world := w\<rparr>)
         | Fault \<Rightarrow> f))"
  by (simp add: fun_eq_iff EmitTrace_def wp_simps split: option.splits)

lemma steps_EmitTrace [steps_intros]:
  assumes "preord R"
    and "\<And>s k. I s \<Longrightarrow> sink = Some k \<Longrightarrow> case OnWrapperTcpTrace k event (world s) of
        Ret a w \<Rightarrow> I (s\<lparr>world := w\<rparr>) \<and> R s (s\<lparr>world := w\<rparr>)
      | Throw w \<Rightarrow> I (s\<lparr>world := w\<rparr>) \<and> R s (s\<lparr>world := w\<rparr>)
      | Fault \<Rightarrow> f"
  shows "steps d f I R (EmitTrace sink event)"
  unfolding EmitTrace_def using assms by (intro steps_intros) auto

lemma steps_TraceDecodedFrames [steps_intros]:
  assumes "preord R"
    and "\<And>s k event. I s \<Longrightarrow> sink = Some k \<Longrightarrow> case OnWrapperTcpTrace k event (world s) of
        Ret a w \<Rightarrow> I (s\<lparr>world := w\<rparr>) \<and> R s (s\<lparr>world := w\<rparr>)
      | Throw w \<Rightarrow> I (s\<lparr>world := w\<rparr>) \<and> R s (s\<lparr>world := w\<rparr>)
      | Fault \<Rightarrow> f"
  shows "steps d f I R (TraceDecodedFrames cd sink frames)"
  using assms by (induction frames) (auto intro!: steps_intros)

lemma Tcp_ReceiveNextFrame_keeps_mem: "keeps mem (Tcp_ReceiveNextFrame cd wd al)"
  unfolding Tcp_ReceiveNextFrame_def Tcp_ReceiveStep_def Tcp_PushBytes_def Tcp_QueueFrames_def
  by (intro steps_intros preord_eq TrueI) (auto split: outcome.splits)

text \<open>No operation changes the stream, the options or the codec limits of the channel.\<close>

definition tcp_constants ::
  "('d, 'w) WrapperTcpProfileChannel \<Rightarrow> 'w IByteStream \<times> 'w ApduChannelOptions \<times> WrapperCodecLimits"
  where
  "tcp_constants c = (tcp_stream c, tcp_options c, tcp_wrapperLimits c)"

lemma tcp_constants_upd [simp]:
  "tcp_constants (c\<lparr>tcp_readBuffer := b\<rparr>) = tcp_constants c"
  "tcp_constants (c\<lparr>tcp_decoder := d\<rparr>) = tcp_constants c"
  "tcp_constants (c\<lparr>tcp_pendingFrames := fs\<rparr>) = tcp_constants c"
  by (simp_all add: tcp_constants_def)

lemma Tcp_ReceiveNextFrame_keeps_constants:
  "keeps (\<lambda>s. tcp_constants (self s)) (Tcp_ReceiveNextFrame cd wd al)"
  unfolding Tcp_ReceiveNextFrame_def Tcp_ReceiveStep_def Tcp_PushBytes_def Tcp_QueueFrames_def
  by (intro steps_intros preord_eq TrueI) (auto split: outcome.splits)

lemma wp_fill_mem:
  "wp True True (fill_while_empty Tcp_no_pending (Tcp_ReceiveNextFrame cd wd al))
     (\<lambda>_ t. mem t = mem s) (\<lambda>t. mem t = mem s) s"
  by (rule keepsD) (intro steps_fill preord_eq TrueI Tcp_ReceiveNextFrame_keeps_mem)

interpretation tcp: apdu_channel
  "Tcp_SendApdu cd" "Tcp_ReceiveVector cd wd al" "Tcp_ReceiveBuffer cd wd al"
  "\<lambda>c. maximumApduSize (tcp_options c)"
  for cd :: wrapper_codec and wd :: "'d wrapper_stream_decoder" and al :: "'w allocator"
proof
  fix v :: ProfileByteView and b :: ProfileMutableBuffer
    and s :: "(('d, 'w) WrapperTcpProfileChannel, 'w) sys"
  show "\<not> IsValidByteView v \<Longrightarrow>
      Tcp_SendApdu cd v s = Some (Ret ProfileStatus.InvalidArgument s)"
    by (simp add: Tcp_SendApdu_def run_simps)
  show "IsValidByteView v \<Longrightarrow> maximumApduSize (tcp_options (self s)) \<noteq> 0 \<Longrightarrow>
      maximumApduSize (tcp_options (self s)) < bv_size v \<Longrightarrow>
      Tcp_SendApdu cd v s = Some (Ret ProfileStatus.PayloadTooLarge s)"
    by (simp add: Tcp_SendApdu_def run_simps)
  show "wp True True (Tcp_SendApdu cd v) (\<lambda>_ t. mem t = mem s) (\<lambda>t. mem t = mem s) s"
    unfolding Tcp_SendApdu_def
    by (rule keepsD) (intro steps_intros preord_eq TrueI; auto split: outcome.splits)
  show "wp True True (Tcp_ReceiveVector cd wd al) (\<lambda>st t. vector_result (mem s) st (mem t))
         (\<lambda>t. vector_result (mem s) ProfileStatus.InternalError (mem t)) s"
    unfolding Tcp_ReceiveVector_def wp_next_do wp_set_mem wp_ok_or_return
    by (rule wp_conseq [OF wp_fill_mem])
       (auto simp: wp_simps vector_result_def split: list.splits prod.splits)
  show "\<not> IsValidMutableBuffer b \<Longrightarrow>
      Tcp_ReceiveBuffer cd wd al b s = Some (Ret ProfileStatus.InvalidArgument s)"
    by (simp add: Tcp_ReceiveBuffer_def run_simps)
  assume valid: "IsValidMutableBuffer b"
  then have written: "mb_writtenSize b \<noteq> NullPtr"
    by (auto simp: IsValidMutableBuffer_def)
  show "wp True True (Tcp_ReceiveBuffer cd wd al b) (\<lambda>st t. buffer_result b (mem s) st (mem t))
         (\<lambda>t. buffer_result b (mem s) ProfileStatus.InternalError (mem t)) s"
    using valid written
    unfolding Tcp_ReceiveBuffer_def wp_if wp_next_do wp_store_written wp_ok_or_return
    by (auto intro!: wp_conseq [OF wp_fill_mem]
        simp: wp_simps Tcp_CopyFirstPendingFrame_def buffer_result_def Let_def split: list.splits)
qed

end
