(* ===== verification/Wrapper_Tcp_Safety.thy ===== *)
theory Wrapper_Tcp_Safety
  imports Wrapper_Tcp_Laws
begin

text \<open>
  Memory safety and termination of the TCP channel: with a transport that keeps its contract
  and a caller whose buffer is as large as it says, no call reaches undefined behaviour; with
  finite input, every receive returns.
\<close>

section \<open>Memory safety\<close>

definition safe_sink :: "'w IWrapperTcpTraceSink option \<Rightarrow> bool" where
  "safe_sink sink \<longleftrightarrow> (\<forall>k event w. sink = Some k \<longrightarrow> OnWrapperTcpTrace k event w \<noteq> Fault)"

definition tcp_env_safe :: "('d, 'w) WrapperTcpProfileChannel \<Rightarrow> bool" where
  "tcp_env_safe c \<longleftrightarrow>
     honest_stream (tcp_stream c) \<and> safe_sink (wrapperTcpTraceSink (tcp_options c))"

lemma tcp_env_safe_upd [simp]:
  "tcp_env_safe (c\<lparr>tcp_readBuffer := b\<rparr>) = tcp_env_safe c"
  "tcp_env_safe (c\<lparr>tcp_decoder := d\<rparr>) = tcp_env_safe c"
  "tcp_env_safe (c\<lparr>tcp_pendingFrames := fs\<rparr>) = tcp_env_safe c"
  by (simp_all add: tcp_env_safe_def)

abbreviation tcp_safe :: "('d, 'w, 'v) tcp_prog \<Rightarrow> bool" where
  "tcp_safe m \<equiv> steps True False (\<lambda>s. tcp_env_safe (self s)) (\<lambda>_ _. True) m"

lemma safe_sinkD:
  "tcp_env_safe c \<Longrightarrow> wrapperTcpTraceSink (tcp_options c) = Some k \<Longrightarrow>
     OnWrapperTcpTrace k event w \<noteq> Fault"
  by (auto simp: tcp_env_safe_def safe_sink_def)

lemma Tcp_PushBytes_safe: "tcp_safe (Tcp_PushBytes cd wd al buffer n)"
  unfolding Tcp_PushBytes_def Tcp_QueueFrames_def
  by (intro steps_intros preord_True TrueI) (auto dest: safe_sinkD split: outcome.splits)

lemma Tcp_ReceiveStep_safe: "tcp_safe (Tcp_ReceiveStep cd wd al)"
  unfolding Tcp_ReceiveStep_def
proof (intro steps_with_this steps_bnd_post
    [where P = "\<lambda>r. snd (snd r) \<le> length (fst (snd r))"] preord_True)
  fix s t :: "(('a, 'b) WrapperTcpProfileChannel, 'b) sys"
  assume "tcp_env_safe (self s)" and t: "tcp_env_safe (self t)"
  then have "honest_stream (tcp_stream (self s))" by (simp add: tcp_env_safe_def)
  then have "\<And>buf w. case bs_ReadSome (tcp_stream (self s)) buf w of
      Ret r _ \<Rightarrow> (case r of (st, buf', n) \<Rightarrow> length buf' = length buf \<and> n \<le> length buf)
    | Throw _ \<Rightarrow> True | Fault \<Rightarrow> False"
    by (simp add: honest_stream_def)
  from this [of "tcp_readBuffer (self s)" "world t"] t
  show "wp True False (ext (bs_ReadSome (tcp_stream (self s)) (tcp_readBuffer (self s))))
     (\<lambda>r t. snd (snd r) \<le> length (fst (snd r)) \<and> tcp_env_safe (self t) \<and> True)
     (\<lambda>t. tcp_env_safe (self t) \<and> True) t"
    by (auto simp: wp_simps split: outcome.splits)
next
  fix s :: "(('a, 'b) WrapperTcpProfileChannel, 'b) sys" and r :: "TransportStatus \<times> byte list \<times> nat"
  assume s: "tcp_env_safe (self s)" and r: "snd (snd r) \<le> length (fst (snd r))"
  obtain st buffer n where [simp]: "r = (st, buffer, n)" by (cases r)
  from r have "\<not> length buffer < n" by simp
  with s show "tcp_safe (case r of (st, buffer, bytesRead) \<Rightarrow>
       next_do (set_this (tcp_readBuffer_update (\<lambda>_. buffer)))
        (let readStatus = MapTransportStatus st in
         if readStatus \<noteq> ProfileStatus.Ok then
           next_do (EmitTrace (wrapperTcpTraceSink (tcp_options (self s)))
              (MakeTraceEvent ReadStatus Inbound readStatus)) (ret (Inr readStatus))
         else if bytesRead = 0 then ret (Inr ProfileStatus.NeedMoreData)
         else if length buffer < bytesRead then fault
         else Tcp_PushBytes cd wd al buffer bytesRead))"
    by (auto intro!: steps_intros Tcp_PushBytes_safe dest: safe_sinkD split: outcome.splits)
qed

lemma Tcp_fill_safe:
  "tcp_safe (fill_while_empty Tcp_no_pending (Tcp_ReceiveNextFrame cd wd al))"
  unfolding Tcp_ReceiveNextFrame_def
  by (intro steps_intros preord_True TrueI Tcp_ReceiveStep_safe)

text \<open>What holds when the queue has been filled: its memory is the caller's, and on \<open>Ok\<close> there is a frame.\<close>

lemma wp_Tcp_fill:
  assumes "tcp_env_safe (self s)"
  shows "wp True False (fill_while_empty Tcp_no_pending (Tcp_ReceiveNextFrame cd wd al))
     (\<lambda>st t. mem t = mem s \<and> tcp_env_safe (self t) \<and>
        (st = ProfileStatus.Ok \<longrightarrow> tcp_pendingFrames (self t) \<noteq> []))
     (\<lambda>t. mem t = mem s) s"
proof -
  have "wp True True (fill_while_empty Tcp_no_pending (Tcp_ReceiveNextFrame cd wd al))
     (\<lambda>st t. st = ProfileStatus.Ok \<longrightarrow> tcp_pendingFrames (self t) \<noteq> []) (\<lambda>_. True) s"
    by (rule wp_fill [where I = "\<lambda>_. True"])
       (auto simp: Tcp_no_pending_def wp_def split: option.splits outcome.splits)
  from wp_conj [OF this wp_conj [OF stepsD [OF Tcp_fill_safe assms] wp_fill_mem]]
  have "wp (True \<and> True \<and> True) (True \<and> False \<and> True)
     (fill_while_empty Tcp_no_pending (Tcp_ReceiveNextFrame cd wd al))
     (\<lambda>st t. mem t = mem s \<and> tcp_env_safe (self t) \<and>
        (st = ProfileStatus.Ok \<longrightarrow> tcp_pendingFrames (self t) \<noteq> []))
     (\<lambda>t. mem t = mem s) s"
    by (rule wp_conseq) simp_all
  then show ?thesis by simp
qed

lemma wp_Tcp_SendApdu_safe:
  assumes "tcp_env_safe (self s)" and "view_backed apdu"
  shows "wp True False (Tcp_SendApdu cd apdu) (\<lambda>_ _. True) (\<lambda>_. True) s"
proof -
  from assms(1) have "bs_WriteAll (tcp_stream (self s)) bytes w \<noteq> Fault" for bytes w
    by (simp add: tcp_env_safe_def honest_stream_def)
  with assms show ?thesis
    by (auto simp: Tcp_SendApdu_def wp_simps Let_def dest: safe_sinkD
        split: outcome.splits option.splits prod.splits)
qed

lemma wp_Tcp_SendApdu_ends: "wp False True (Tcp_SendApdu cd apdu) (\<lambda>_ _. True) (\<lambda>_. True) s"
  by (auto simp: Tcp_SendApdu_def wp_simps Let_def split: outcome.splits option.splits prod.splits)

lemma wp_Tcp_ReceiveVector_safe:
  assumes "tcp_env_safe (self s)"
  shows "wp True False (Tcp_ReceiveVector cd wd al) (\<lambda>_ _. True) (\<lambda>_. True) s"
  unfolding Tcp_ReceiveVector_def wp_next_do wp_set_mem wp_ok_or_return
  by (rule wp_conseq [OF wp_Tcp_fill])
     (use assms in \<open>auto simp: wp_simps split: list.splits prod.splits\<close>)

lemma wp_Tcp_ReceiveBuffer_safe:
  assumes "tcp_env_safe (self s)" and "buffer_backed output (mem s)"
  shows "wp True False (Tcp_ReceiveBuffer cd wd al output) (\<lambda>_ _. True) (\<lambda>_. True) s"
proof (cases "IsValidMutableBuffer output")
  case True
  then have valid: "mb_writtenSize output \<noteq> NullPtr"
      "mb_data output = NullPtr \<Longrightarrow> mb_size output = 0"
    by (auto simp: IsValidMutableBuffer_def split: if_splits)
  with True show ?thesis
    unfolding Tcp_ReceiveBuffer_def wp_if wp_next_do wp_store_written wp_ok_or_return
    using assms
    by (auto intro!: wp_conseq [OF wp_Tcp_fill]
        simp: wp_simps Tcp_CopyFirstPendingFrame_def Let_def buffer_backed_def split: list.splits)
qed (simp add: Tcp_ReceiveBuffer_def wp_simps)

section \<open>Termination\<close>

text \<open>
  The rank of the world bounds the reads that can still deliver bytes; the allocator and the
  trace sink do not raise it.
\<close>

definition tcp_env_finite ::
  "('w \<Rightarrow> nat) \<Rightarrow> 'w allocator \<Rightarrow> ('d, 'w) WrapperTcpProfileChannel \<Rightarrow> bool" where
  "tcp_env_finite rank al c \<longleftrightarrow>
     finite_input rank (tcp_stream c) \<and>
     (\<forall>n w. rank (snd (al n w)) \<le> rank w) \<and>
     (\<forall>k event w. wrapperTcpTraceSink (tcp_options c) = Some k \<longrightarrow>
        (case OnWrapperTcpTrace k event w of
           Ret _ w' \<Rightarrow> rank w' \<le> rank w | Throw w' \<Rightarrow> rank w' \<le> rank w | Fault \<Rightarrow> True))"

lemma tcp_env_finite_upd [simp]:
  "tcp_env_finite rank al (c\<lparr>tcp_readBuffer := b\<rparr>) = tcp_env_finite rank al c"
  "tcp_env_finite rank al (c\<lparr>tcp_decoder := d\<rparr>) = tcp_env_finite rank al c"
  "tcp_env_finite rank al (c\<lparr>tcp_pendingFrames := fs\<rparr>) = tcp_env_finite rank al c"
  by (simp_all add: tcp_env_finite_def)

lemma tcp_env_finite_sinkD:
  assumes "tcp_env_finite rank al c" and "wrapperTcpTraceSink (tcp_options c) = Some k"
  shows "OnWrapperTcpTrace k event w = Ret u w' \<Longrightarrow> rank w' \<le> rank w"
    and "OnWrapperTcpTrace k event w = Throw w' \<Longrightarrow> rank w' \<le> rank w"
proof -
  from assms have "case OnWrapperTcpTrace k event w of
      Ret _ w' \<Rightarrow> rank w' \<le> rank w | Throw w' \<Rightarrow> rank w' \<le> rank w | Fault \<Rightarrow> True"
    by (simp add: tcp_env_finite_def)
  then show "OnWrapperTcpTrace k event w = Ret u w' \<Longrightarrow> rank w' \<le> rank w"
    and "OnWrapperTcpTrace k event w = Throw w' \<Longrightarrow> rank w' \<le> rank w"
    by simp_all
qed

lemma tcp_env_finite_allocD: "tcp_env_finite rank al c \<Longrightarrow> rank (snd (al n w)) \<le> rank w"
  by (simp add: tcp_env_finite_def)

lemma Tcp_PushBytes_rank:
  fixes rank :: "'w \<Rightarrow> nat" and wd :: "'d wrapper_stream_decoder"
  shows "steps False True (\<lambda>s. tcp_env_finite rank al (self s))
     (\<lambda>s t. rank (world t) \<le> rank (world s)) (Tcp_PushBytes cd wd al buffer n)"
  unfolding Tcp_PushBytes_def Tcp_QueueFrames_def
  by (intro steps_intros preord_le TrueI)
     (auto dest: tcp_env_finite_sinkD tcp_env_finite_allocD split: outcome.splits)

text \<open>An iteration that goes on, or ends with \<open>Ok\<close>, has consumed input.\<close>

lemma wp_Tcp_ReceiveStep_rank:
  fixes rank :: "'w \<Rightarrow> nat" and wd :: "'d wrapper_stream_decoder"
    and s :: "(('d, 'w) WrapperTcpProfileChannel, 'w) sys"
  assumes fin: "tcp_env_finite rank al (self s)"
  shows "wp False True (Tcp_ReceiveStep cd wd al)
     (\<lambda>v t. tcp_env_finite rank al (self t) \<and>
        (v = Inl () \<or> v = Inr ProfileStatus.Ok \<longrightarrow> rank (world t) < rank (world s)))
     (\<lambda>_. True) s"
proof (cases "bs_ReadSome (tcp_stream (self s)) (tcp_readBuffer (self s)) (world s)")
  case (Ret r w)
  obtain st buffer n where r: "r = (st, buffer, n)" by (cases r)
  let ?t = "s\<lparr>world := w, self := (self s)\<lparr>tcp_readBuffer := buffer\<rparr>\<rparr>"
  let ?post = "\<lambda>v t. tcp_env_finite rank al (self t) \<and>
        (v = Inl () \<or> v = Inr ProfileStatus.Ok \<longrightarrow> rank (world t) < rank (world s))"
  show ?thesis
  proof (cases "st = TransportStatus.Ok \<and> n \<noteq> 0")
    case True
    with fin Ret r have less: "rank w < rank (world s)"
      unfolding tcp_env_finite_def finite_input_def by blast
    have "wp False True (Tcp_PushBytes cd wd al buffer n) ?post (\<lambda>_. True) ?t"
      by (rule wp_conseq [OF stepsD [OF Tcp_PushBytes_rank [where rank = rank]]])
         (use fin less in auto)
    with True show ?thesis
      by (simp add: Tcp_ReceiveStep_def wp_simps Ret r Let_def)
  next
    case False
    with fin show ?thesis
      by (auto simp: Tcp_ReceiveStep_def wp_simps Ret r Let_def transport_map.map_ok_iff
          split: option.splits outcome.splits)
  qed
qed (simp_all add: Tcp_ReceiveStep_def wp_simps)

lemma wp_Tcp_ReceiveNextFrame_rank:
  fixes rank :: "'w \<Rightarrow> nat" and wd :: "'d wrapper_stream_decoder"
    and s :: "(('d, 'w) WrapperTcpProfileChannel, 'w) sys"
  assumes "tcp_env_finite rank al (self s)"
  shows "wp False True (Tcp_ReceiveNextFrame cd wd al)
     (\<lambda>st t. st = ProfileStatus.Ok \<longrightarrow>
        tcp_env_finite rank al (self t) \<and> rank (world t) < rank (world s))
     (\<lambda>_. True) s"
proof (cases "tcp_readBuffer (self s) = []")
  case False
  have "wp False True (loop (\<lambda>_. Tcp_ReceiveStep cd wd al) ())
     (\<lambda>st t. st = ProfileStatus.Ok \<longrightarrow>
        tcp_env_finite rank al (self t) \<and> rank (world t) < rank (world s))
     (\<lambda>_. True) s"
  proof (rule wp_loop_total [where \<mu> = "\<lambda>_ t. rank (world t)" and
        I = "\<lambda>_ t. tcp_env_finite rank al (self t) \<and> rank (world t) \<le> rank (world s)"])
    show "tcp_env_finite rank al (self s) \<and> rank (world s) \<le> rank (world s)"
      using assms by simp
  next
    fix x :: unit and t :: "(('d, 'w) WrapperTcpProfileChannel, 'w) sys"
    assume t: "tcp_env_finite rank al (self t) \<and> rank (world t) \<le> rank (world s)"
    show "wp False True (Tcp_ReceiveStep cd wd al)
       (\<lambda>v u. case v of
          Inl y \<Rightarrow> (tcp_env_finite rank al (self u) \<and> rank (world u) \<le> rank (world s)) \<and>
            rank (world u) < rank (world t)
        | Inr st \<Rightarrow> st = ProfileStatus.Ok \<longrightarrow>
            tcp_env_finite rank al (self u) \<and> rank (world u) < rank (world s))
       (\<lambda>_. True) t"
      by (rule wp_conseq [OF wp_Tcp_ReceiveStep_rank [OF conjunct1 [OF t]]])
         (use t in \<open>auto split: sum.splits\<close>)
  qed
  with False show ?thesis by (simp add: Tcp_ReceiveNextFrame_def wp_simps)
qed (simp add: Tcp_ReceiveNextFrame_def wp_simps)

lemma wp_Tcp_fill_total:
  assumes "tcp_env_finite rank al (self s)"
  shows "wp False True (fill_while_empty Tcp_no_pending (Tcp_ReceiveNextFrame cd wd al))
     (\<lambda>_ _. True) (\<lambda>_. True) s"
  by (rule wp_fill_total [where I = "\<lambda>s. tcp_env_finite rank al (self s)"
        and \<mu> = "\<lambda>s. rank (world s)"])
     (auto intro: assms wp_conseq [OF wp_Tcp_ReceiveNextFrame_rank])

lemma wp_Tcp_ReceiveVector_total:
  assumes "tcp_env_finite rank al (self s)"
  shows "wp False True (Tcp_ReceiveVector cd wd al) (\<lambda>_ _. True) (\<lambda>_. True) s"
  unfolding Tcp_ReceiveVector_def wp_next_do wp_set_mem wp_ok_or_return
  by (rule wp_conseq [OF wp_Tcp_fill_total [where rank = rank]])
     (use assms in \<open>auto simp: wp_simps split: list.splits prod.splits\<close>)

lemma wp_Tcp_ReceiveBuffer_total:
  assumes "tcp_env_finite rank al (self s)"
  shows "wp False True (Tcp_ReceiveBuffer cd wd al output) (\<lambda>_ _. True) (\<lambda>_. True) s"
  unfolding Tcp_ReceiveBuffer_def wp_if wp_ret wp_next_do wp_store_written wp_ok_or_return
  using assms
  by (auto intro!: wp_conseq [OF wp_Tcp_fill_total [where rank = rank]]
      simp: wp_simps Tcp_CopyFirstPendingFrame_def Let_def split: list.splits)

end
