(* ===== verification/Simulation.thy ===== *)
theory Simulation
  imports Apdu_Channel
begin

text \<open>
  Simulation of one program by another: from related states they both run forever, or both
  return the same value, or both throw, or both fault, and the states they end in are related.
  The rules follow the structure of the two programs; loops need a rule per direction, which
  is the same lemma read with the relation turned round.
\<close>

definition sim :: "('s \<Rightarrow> 't \<Rightarrow> bool) \<Rightarrow> ('s, 'a) prog \<Rightarrow> ('t, 'a) prog \<Rightarrow> bool" where
  "sim R m n \<longleftrightarrow> (\<forall>s t. R s t \<longrightarrow> rel_option (rel_outcome (=) R) (m s) (n t))"

named_theorems sim_intros "simulation by the structure of the programs"

lemma simI: "(\<And>s t. R s t \<Longrightarrow> rel_option (rel_outcome (=) R) (m s) (n t)) \<Longrightarrow> sim R m n"
  by (simp add: sim_def)

lemma simD: "sim R m n \<Longrightarrow> R s t \<Longrightarrow> rel_option (rel_outcome (=) R) (m s) (n t)"
  by (simp add: sim_def)

lemma sim_ret [sim_intros]: "sim R (ret a) (ret a)"
  by (simp add: sim_def ret_def)

lemma sim_throw [sim_intros]: "sim R throw throw"
  by (simp add: sim_def throw_def)

lemma sim_fault [sim_intros]: "sim R fault fault"
  by (simp add: sim_def fault_def)

lemma sim_bnd [sim_intros]:
  assumes "sim R m n" and "\<And>a. sim R (k a) (l a)"
  shows "sim R (bnd m k) (bnd n l)"
proof (rule simI)
  fix s t
  assume "R s t"
  from simD [OF assms(1) this] assms(2)
  show "rel_option (rel_outcome (=) R) (bnd m k s) (bnd n l t)"
    by (auto simp: bnd_def sim_def elim!: option.rel_cases outcome.rel_cases)
qed

lemma sim_next_do [sim_intros]: "sim R m n \<Longrightarrow> sim R k l \<Longrightarrow> sim R (next_do m k) (next_do n l)"
  unfolding next_do_def by (rule sim_bnd)

lemma sim_try_catch [sim_intros]:
  assumes "sim R m n" and "sim R h g"
  shows "sim R (try_catch m h) (try_catch n g)"
proof (rule simI)
  fix s t
  assume "R s t"
  from simD [OF assms(1) this] assms(2)
  show "rel_option (rel_outcome (=) R) (try_catch m h s) (try_catch n g t)"
    by (auto simp: try_catch_def sim_def elim!: option.rel_cases outcome.rel_cases)
qed

lemma sim_loop_run:
  assumes "loop body x s = Some r" and "R s t" and body: "\<And>x. sim R (body x) (body' x)"
  shows "\<exists>r'. loop body' x t = Some r' \<and> rel_outcome (=) R r r'"
  using assms(1,2)
proof (induction arbitrary: t rule: loop_induct)
  case (leave x s a u)
  with simD [OF body [of x] leave.prems] show ?case
    by (auto simp: loop.simps [of body' x t] elim!: option.rel_cases outcome.rel_cases)
next
  case (throws x s u)
  with simD [OF body [of x] throws.prems] show ?case
    by (auto simp: loop.simps [of body' x t] elim!: option.rel_cases outcome.rel_cases)
next
  case (faults x s)
  with simD [OF body [of x] faults.prems] show ?case
    by (auto simp: loop.simps [of body' x t] elim!: option.rel_cases outcome.rel_cases)
next
  case (again x s y u r)
  with simD [OF body [of x] again.prems] obtain u' where
    "body' x t = Some (Ret (Inl y) u')" and "R u u'"
    by (auto elim!: option.rel_cases outcome.rel_cases)
  with again.IH [of u'] show ?case by (simp add: loop.simps [of body' x t])
qed

lemma sim_flip: "sim R m n \<Longrightarrow> sim (\<lambda>t s. R s t) n m"
proof (rule simI)
  fix t s
  assume "sim R m n" and "R s t"
  then have "rel_option (rel_outcome (=) R) (m s) (n t)" by (rule simD)
  then show "rel_option (rel_outcome (=) (\<lambda>t s. R s t)) (n t) (m s)"
    by (auto elim!: option.rel_cases outcome.rel_cases)
qed

lemma sim_loop [sim_intros]:
  assumes "\<And>x. sim R (body x) (body' x)"
  shows "sim R (loop body x) (loop body' x)"
proof (rule simI)
  fix s t
  assume R: "R s t"
  have flip: "\<And>x. sim (\<lambda>t s. R s t) (body' x) (body x)"
    by (rule sim_flip) (rule assms)
  show "rel_option (rel_outcome (=) R) (loop body x s) (loop body' x t)"
  proof (cases "loop body x s")
    case None
    have "loop body' x t = None"
    proof (cases "loop body' x t")
      case (Some r)
      from sim_loop_run [where R = "\<lambda>t s. R s t", OF Some R flip] None show ?thesis by simp
    qed simp
    with None show ?thesis by simp
  next
    case (Some r)
    with sim_loop_run [OF Some R assms] show ?thesis by auto
  qed
qed

lemma sim_if [sim_intros]:
  "(b \<Longrightarrow> sim R m m') \<Longrightarrow> (\<not> b \<Longrightarrow> sim R n n') \<Longrightarrow>
     sim R (if b then m else n) (if b then m' else n')"
  by simp

lemma sim_let [sim_intros]: "sim R (m v) (n v) \<Longrightarrow> sim R (let x = v in m x) (let x = v in n x)"
  by simp

lemma sim_case_prod [sim_intros]:
  "(\<And>x y. p = (x, y) \<Longrightarrow> sim R (m x y) (n x y)) \<Longrightarrow>
     sim R (case p of (x, y) \<Rightarrow> m x y) (case p of (x, y) \<Rightarrow> n x y)"
  by (cases p) simp

lemma sim_case_list [sim_intros]:
  "(v = [] \<Longrightarrow> sim R m m') \<Longrightarrow> (\<And>x xs. v = x # xs \<Longrightarrow> sim R (n x xs) (n' x xs)) \<Longrightarrow>
     sim R (case v of [] \<Rightarrow> m | x # xs \<Rightarrow> n x xs) (case v of [] \<Rightarrow> m' | x # xs \<Rightarrow> n' x xs)"
  by (cases v) simp_all

lemma sim_with_this:
  "(\<And>s t. R s t \<Longrightarrow> sim R (k (self s)) (l (self t))) \<Longrightarrow> sim R (with_this k) (with_this l)"
  by (simp add: sim_def run_with_this)

lemma sim_set_this:
  "(\<And>s t. R s t \<Longrightarrow> R (s\<lparr>self := g (self s)\<rparr>) (t\<lparr>self := h (self t)\<rparr>)) \<Longrightarrow>
     sim R (set_this g) (set_this h)"
  by (simp add: sim_def run_set_this)

lemma sim_set_mem [sim_intros]:
  "(\<And>s t. R s t \<Longrightarrow> R (s\<lparr>mem := g (mem s)\<rparr>) (t\<lparr>mem := h (mem t)\<rparr>)) \<Longrightarrow>
     sim R (set_mem g) (set_mem h)"
  by (simp add: sim_def run_set_mem)

lemma sim_ext [sim_intros]:
  assumes "\<And>s t. R s t \<Longrightarrow> rel_outcome (=) (\<lambda>w v. R (s\<lparr>world := w\<rparr>) (t\<lparr>world := v\<rparr>))
      (g (world s)) (h (world t))"
  shows "sim R (ext g) (ext h)"
proof (rule simI)
  fix s t
  assume "R s t"
  from assms [OF this] show "rel_option (rel_outcome (=) R) (ext g s) (ext h t)"
    by (auto simp: ext_def elim!: outcome.rel_cases)
qed

lemma sim_ok_or_return [sim_intros]:
  "sim R m n \<Longrightarrow> sim R k l \<Longrightarrow> sim R (ok_or_return m k) (ok_or_return n l)"
  unfolding ok_or_return_def by (intro sim_intros)

lemma sim_ext_transport [sim_intros]:
  "(\<And>s t. R s t \<Longrightarrow> rel_outcome (=) (\<lambda>w v. R (s\<lparr>world := w\<rparr>) (t\<lparr>world := v\<rparr>))
      (g (world s)) (h (world t))) \<Longrightarrow> sim R (ext_transport g) (ext_transport h)"
  unfolding ext_transport_def by (intro sim_intros)

lemma sim_fill [sim_intros]:
  "(\<And>s t. R s t \<Longrightarrow> is_empty (self s) = is_empty' (self t)) \<Longrightarrow> sim R m n \<Longrightarrow>
     sim R (fill_while_empty is_empty m) (fill_while_empty is_empty' n)"
  unfolding fill_while_empty_def
  by (rule sim_loop, rule sim_with_this) (auto intro!: sim_intros)

end
