(* ===== verification/Wrapper_Tcp_Trace.thy ===== *)
theory Wrapper_Tcp_Trace
  imports Wrapper_Tcp_Laws Simulation
begin

text \<open>
  The trace hook (\<open>docs/04_wrapper_tcp_trace_plan.md\<close>): with a sink that returns and
  touches nothing the channel's transport can observe, every data operation does exactly what
  it does with no sink at all.
\<close>

text \<open>
  \<open>obs\<close> is the part of the world the transport and the allocator depend on. The sink
  returns and leaves it alone; the calls of the transport and the allocator depend on nothing
  else.
\<close>

definition trace_invisible ::
  "('w \<Rightarrow> 'v) \<Rightarrow> 'w IByteStream \<Rightarrow> 'w allocator \<Rightarrow> 'w IWrapperTcpTraceSink \<Rightarrow> bool" where
  "trace_invisible obs bs al k \<longleftrightarrow>
     (\<forall>event w. \<exists>w'. OnWrapperTcpTrace k event w = Ret () w' \<and> obs w' = obs w) \<and>
     (\<forall>w v. obs w = obs v \<longrightarrow>
        (\<forall>buf. rel_outcome (=) (\<lambda>w v. obs w = obs v) (bs_ReadSome bs buf w) (bs_ReadSome bs buf v)) \<and>
        (\<forall>bytes. rel_outcome (=) (\<lambda>w v. obs w = obs v)
                   (bs_WriteAll bs bytes w) (bs_WriteAll bs bytes v)) \<and>
        (\<forall>n. fst (al n w) = fst (al n v) \<and> obs (snd (al n w)) = obs (snd (al n v))))"

definition no_sink :: "('d, 'w) WrapperTcpProfileChannel \<Rightarrow> ('d, 'w) WrapperTcpProfileChannel" where
  "no_sink c = c\<lparr>tcp_options := (tcp_options c)\<lparr>wrapperTcpTraceSink := None\<rparr>\<rparr>"

definition untraced ::
  "(('d, 'w) WrapperTcpProfileChannel, 'w) sys \<Rightarrow> (('d, 'w) WrapperTcpProfileChannel, 'w) sys" where
  "untraced s = s\<lparr>self := no_sink (self s)\<rparr>"

text \<open>The traced and the untraced run, side by side.\<close>

definition traced_as ::
  "('w \<Rightarrow> 'v) \<Rightarrow> 'w IByteStream \<Rightarrow> 'w IWrapperTcpTraceSink \<Rightarrow>
   (('d, 'w) WrapperTcpProfileChannel, 'w) sys \<Rightarrow> (('d, 'w) WrapperTcpProfileChannel, 'w) sys \<Rightarrow> bool"
  where
  "traced_as obs bs k s t \<longleftrightarrow>
     self t = no_sink (self s) \<and> mem t = mem s \<and> obs (world t) = obs (world s) \<and>
     wrapperTcpTraceSink (tcp_options (self s)) = Some k \<and> tcp_stream (self s) = bs"

lemma no_sink_sel [simp]:
  "tcp_stream (no_sink c) = tcp_stream c"
  "tcp_wrapperLimits (no_sink c) = tcp_wrapperLimits c"
  "tcp_decoder (no_sink c) = tcp_decoder c"
  "tcp_readBuffer (no_sink c) = tcp_readBuffer c"
  "tcp_pendingFrames (no_sink c) = tcp_pendingFrames c"
  "wrapperTcpTraceSink (tcp_options (no_sink c)) = None"
  "maximumApduSize (tcp_options (no_sink c)) = maximumApduSize (tcp_options c)"
  "localWrapperPort (tcp_options (no_sink c)) = localWrapperPort (tcp_options c)"
  "remoteWrapperPort (tcp_options (no_sink c)) = remoteWrapperPort (tcp_options c)"
  by (simp_all add: no_sink_def)

lemma no_sink_upd [simp]:
  "no_sink (c\<lparr>tcp_readBuffer := b\<rparr>) = (no_sink c)\<lparr>tcp_readBuffer := b\<rparr>"
  "no_sink (c\<lparr>tcp_decoder := d\<rparr>) = (no_sink c)\<lparr>tcp_decoder := d\<rparr>"
  "no_sink (c\<lparr>tcp_pendingFrames := fs\<rparr>) = (no_sink c)\<lparr>tcp_pendingFrames := fs\<rparr>"
  by (simp_all add: no_sink_def)

lemma no_sink_pending [simp]: "Tcp_no_pending (no_sink c) = Tcp_no_pending c"
  by (simp add: Tcp_no_pending_def)

lemma traced_as_updates:
  assumes "traced_as obs bs k s t"
  shows "traced_as obs bs k (s\<lparr>mem := g (mem s)\<rparr>) (t\<lparr>mem := g (mem t)\<rparr>)"
    and "obs w = obs v \<Longrightarrow> traced_as obs bs k (s\<lparr>world := w\<rparr>) (t\<lparr>world := v\<rparr>)"
    and "traced_as obs bs k (s\<lparr>self := (self s)\<lparr>tcp_readBuffer := b\<rparr>\<rparr>)
           (t\<lparr>self := (self t)\<lparr>tcp_readBuffer := b\<rparr>\<rparr>)"
    and "traced_as obs bs k (s\<lparr>self := (self s)\<lparr>tcp_pendingFrames := fs\<rparr>\<rparr>)
           (t\<lparr>self := (self t)\<lparr>tcp_pendingFrames := fs\<rparr>\<rparr>)"
    and "traced_as obs bs k (s\<lparr>self := (self s)\<lparr>tcp_decoder := d\<rparr>\<rparr>)
           (t\<lparr>self := (self t)\<lparr>tcp_decoder := d\<rparr>\<rparr>)"
  using assms by (simp_all add: traced_as_def)

lemma rel_outcome_world:
  assumes "rel_outcome (=) (\<lambda>w v. obs w = obs v) a b" and "traced_as obs bs k s t"
  shows "rel_outcome (=) (\<lambda>w v. traced_as obs bs k (s\<lparr>world := w\<rparr>) (t\<lparr>world := v\<rparr>)) a b"
  by (rule outcome.rel_mono_strong [OF assms(1)]) (auto intro: traced_as_updates [OF assms(2)])

lemma sim_EmitTrace:
  fixes obs :: "'w \<Rightarrow> 'v"
  assumes inv: "trace_invisible obs bs al k"
  shows "sim (traced_as obs bs k)
    (EmitTrace (Some k) event :: ('d, 'w, unit) tcp_prog) (EmitTrace None event)"
proof (rule simI)
  fix s t :: "(('d, 'w) WrapperTcpProfileChannel, 'w) sys"
  assume R: "traced_as obs bs k s t"
  from inv obtain w' where "OnWrapperTcpTrace k event (world s) = Ret () w'" "obs w' = obs (world s)"
    unfolding trace_invisible_def by blast
  with R show "rel_option (rel_outcome (=) (traced_as obs bs k))
      (EmitTrace (Some k) event s) (EmitTrace None event t)"
    by (simp add: EmitTrace_def run_simps traced_as_def)
qed

lemma sim_EmitTrace_sinks:
  "trace_invisible obs bs al k \<Longrightarrow> sink = Some k \<Longrightarrow> sink' = None \<Longrightarrow>
     sim (traced_as obs bs k) (EmitTrace sink event) (EmitTrace sink' event)"
  by (simp add: sim_EmitTrace)

lemma sim_TraceDecodedFrames:
  "trace_invisible obs bs al k \<Longrightarrow> sim (traced_as obs bs k)
     (TraceDecodedFrames cd (Some k) frames) (TraceDecodedFrames cd None frames)"
  by (induction frames) (auto intro!: sim_intros sim_EmitTrace)

lemma sim_allocate:
  fixes obs :: "'w \<Rightarrow> 'v"
  assumes inv: "trace_invisible obs bs al k"
  shows "sim (traced_as obs bs k) (allocate al n :: ('d, 'w, unit) tcp_prog) (allocate al n)"
  unfolding allocate_def
proof (rule sim_ext)
  fix s t :: "(('d, 'w) WrapperTcpProfileChannel, 'w) sys"
  assume R: "traced_as obs bs k s t"
  then have "obs (world s) = obs (world t)" by (simp add: traced_as_def)
  with inv have "fst (al n (world s)) = fst (al n (world t))"
      "obs (snd (al n (world s))) = obs (snd (al n (world t)))"
    unfolding trace_invisible_def by blast+
  with R show "rel_outcome (=) (\<lambda>w v. traced_as obs bs k (s\<lparr>world := w\<rparr>) (t\<lparr>world := v\<rparr>))
      (case al n (world s) of (got, w') \<Rightarrow> if got then Ret () w' else Throw w')
      (case al n (world t) of (got, w') \<Rightarrow> if got then Ret () w' else Throw w')"
    by (auto simp: case_prod_unfold intro: traced_as_updates)
qed

lemma sim_with_traced:
  fixes obs :: "'w \<Rightarrow> 'v"
    and m n :: "('d, 'w) WrapperTcpProfileChannel \<Rightarrow> ('d, 'w, 'a) tcp_prog"
  assumes "\<And>c. wrapperTcpTraceSink (tcp_options c) = Some k \<Longrightarrow> tcp_stream c = bs \<Longrightarrow>
      sim (traced_as obs bs k) (m c) (n (no_sink c))"
  shows "sim (traced_as obs bs k) (with_this m) (with_this n)"
proof (rule sim_with_this)
  fix s t :: "(('d, 'w) WrapperTcpProfileChannel, 'w) sys"
  assume "traced_as obs bs k s t"
  with assms [of "self s"] show "sim (traced_as obs bs k) (m (self s)) (n (self t))"
    by (simp add: traced_as_def)
qed

lemma sim_set_traced:
  "(\<And>c. g (no_sink c) = no_sink (g c) \<and> tcp_stream (g c) = tcp_stream c \<and>
      wrapperTcpTraceSink (tcp_options (g c)) = wrapperTcpTraceSink (tcp_options c)) \<Longrightarrow>
     sim (traced_as obs bs k) (set_this g) (set_this g)"
  by (rule sim_set_this) (simp add: traced_as_def)

lemma sim_Tcp_QueueFrames:
  assumes inv: "trace_invisible obs bs al k"
  shows "sim (traced_as obs bs k) (Tcp_QueueFrames cd wd al frames) (Tcp_QueueFrames cd wd al frames)"
  unfolding Tcp_QueueFrames_def
  by (rule sim_with_traced, simp split del: if_split)
     (intro sim_intros sim_set_traced sim_TraceDecodedFrames [OF inv] sim_allocate [OF inv]; simp)

lemma sim_Tcp_PushBytes:
  assumes inv: "trace_invisible obs bs al k"
  shows "sim (traced_as obs bs k) (Tcp_PushBytes cd wd al buffer n) (Tcp_PushBytes cd wd al buffer n)"
  unfolding Tcp_PushBytes_def
  by (rule sim_with_traced, simp split del: if_split)
     (intro sim_intros sim_set_traced sim_EmitTrace_sinks [OF inv] sim_Tcp_QueueFrames [OF inv]; simp)

lemma sim_Tcp_ReceiveStep:
  assumes inv: "trace_invisible obs bs al k"
  shows "sim (traced_as obs bs k) (Tcp_ReceiveStep cd wd al) (Tcp_ReceiveStep cd wd al)"
proof -
  have reads: "sim (traced_as obs bs k) (ext (bs_ReadSome bs buf)) (ext (bs_ReadSome bs buf))" for buf
    using inv by (intro sim_ext rel_outcome_world) (auto simp: trace_invisible_def traced_as_def)
  show ?thesis
    unfolding Tcp_ReceiveStep_def
    by (rule sim_with_traced, simp split del: if_split)
       (intro sim_bnd reads sim_intros sim_set_traced sim_EmitTrace_sinks [OF inv] sim_Tcp_PushBytes [OF inv];
        simp)
qed

lemma sim_Tcp_ReceiveNextFrame:
  "trace_invisible obs bs al k \<Longrightarrow> sim (traced_as obs bs k)
     (Tcp_ReceiveNextFrame cd wd al) (Tcp_ReceiveNextFrame cd wd al)"
  unfolding Tcp_ReceiveNextFrame_def
  by (rule sim_with_traced, simp split del: if_split) (intro sim_intros sim_Tcp_ReceiveStep)

lemma sim_Tcp_fill:
  "trace_invisible obs bs al k \<Longrightarrow> sim (traced_as obs bs k)
     (fill_while_empty Tcp_no_pending (Tcp_ReceiveNextFrame cd wd al))
     (fill_while_empty Tcp_no_pending (Tcp_ReceiveNextFrame cd wd al))"
  by (rule sim_fill [OF _ sim_Tcp_ReceiveNextFrame]) (simp_all add: traced_as_def)

lemma sim_Tcp_ReceiveVector:
  "trace_invisible obs bs al k \<Longrightarrow> sim (traced_as obs bs k)
     (Tcp_ReceiveVector cd wd al) (Tcp_ReceiveVector cd wd al)"
  unfolding Tcp_ReceiveVector_def
  by (intro sim_next_do sim_ok_or_return sim_try_catch sim_Tcp_fill sim_with_traced sim_set_mem
        traced_as_updates sim_ret; simp)
     (intro sim_intros sim_set_traced sim_allocate traced_as_updates; simp)

lemma sim_store_written:
  "sim (traced_as obs bs k) (store_written output n) (store_written output n)"
  unfolding store_written_def by (auto intro!: sim_intros traced_as_updates)

lemma sim_copy_out: "sim (traced_as obs bs k) (copy_out bytes output) (copy_out bytes output)"
  by (rule simI) (auto simp: run_copy_out traced_as_def)

lemma sim_Tcp_CopyFirstPendingFrame:
  "sim (traced_as obs bs k)
     (Tcp_CopyFirstPendingFrame output consume) (Tcp_CopyFirstPendingFrame output consume)"
  unfolding Tcp_CopyFirstPendingFrame_def
  by (rule sim_with_traced, simp split del: if_split)
     (intro sim_intros sim_set_traced sim_store_written sim_copy_out; simp)

lemma sim_Tcp_ReceiveBuffer:
  "trace_invisible obs bs al k \<Longrightarrow> sim (traced_as obs bs k)
     (Tcp_ReceiveBuffer cd wd al output) (Tcp_ReceiveBuffer cd wd al output)"
  unfolding Tcp_ReceiveBuffer_def
  by (intro sim_if sim_ret sim_next_do sim_store_written sim_ok_or_return sim_Tcp_fill
        sim_Tcp_CopyFirstPendingFrame)

lemma sim_Tcp_SendApdu:
  assumes inv: "trace_invisible obs bs al k"
  shows "sim (traced_as obs bs k) (Tcp_SendApdu cd apdu) (Tcp_SendApdu cd apdu)"
proof -
  have writes: "sim (traced_as obs bs k)
      (ext_transport (bs_WriteAll bs' bytes)) (ext_transport (bs_WriteAll bs' bytes))"
    if "bs' = bs" for bs' bytes
    unfolding that
    using inv by (intro sim_ext_transport rel_outcome_world) (auto simp: trace_invisible_def traced_as_def)
  show ?thesis
    unfolding Tcp_SendApdu_def Let_def
    by (rule sim_with_traced, simp only: no_sink_sel)
       (intro sim_next_do writes sim_intros sim_EmitTrace_sinks [OF inv]; simp)
qed

lemma traced_as_untraced:
  "wrapperTcpTraceSink (tcp_options (self s)) = Some k \<Longrightarrow>
     traced_as obs (tcp_stream (self s)) k s (untraced s)"
  by (simp add: traced_as_def untraced_def)

end
