(* ===== verification/Framing.thy ===== *)
theory Framing
  imports Profile_Prelude "HOL-Library.Sublist"
begin

text \<open>
  Frames in a byte stream, for the two stream decoders: what an incremental decoder promises,
  and how any cut of a sequence of encodings falls into whole frames and the beginning of the
  next.
\<close>

text \<open>
  \<open>holds d r\<close>: the decoder \<open>d\<close> is in the middle of a frame, of which it has the bytes
  \<open>r\<close>. Pushing bytes that complete the frames \<open>gs\<close> and leave \<open>t\<close>, the beginning of a
  frame, reports exactly \<open>gs\<close> with a status that \<open>reports st gs\<close> allows.
\<close>

definition incremental ::
  "(byte list \<Rightarrow> 'd \<Rightarrow> 'st \<times> 'd \<times> 'f list) \<Rightarrow> ('st \<Rightarrow> 'f list \<Rightarrow> bool) \<Rightarrow>
   ('f \<Rightarrow> byte list) \<Rightarrow> ('f \<Rightarrow> bool) \<Rightarrow> ('d \<Rightarrow> byte list \<Rightarrow> bool) \<Rightarrow> bool" where
  "incremental push reports enc valid holds \<longleftrightarrow>
     (\<forall>f. valid f \<longrightarrow> enc f \<noteq> []) \<and>
     (\<forall>d r bytes gs t. holds d r \<longrightarrow> list_all valid gs \<longrightarrow> r @ bytes = concat (map enc gs) @ t \<longrightarrow>
        (t = [] \<or> (\<exists>f. valid f \<and> strict_prefix t (enc f))) \<longrightarrow>
        (\<exists>st d'. push bytes d = (st, d', gs) \<and> holds d' t \<and> reports st gs))"

text \<open>A prefix of a sequence of encodings is some whole encodings and the beginning of the next.\<close>

definition begins :: "('f \<Rightarrow> byte list) \<Rightarrow> byte list \<Rightarrow> 'f list \<Rightarrow> bool" where
  "begins enc t gs \<longleftrightarrow> (case gs of [] \<Rightarrow> t = [] | g # _ \<Rightarrow> strict_prefix t (enc g))"

lemma prefix_of_encodings:
  assumes "p @ q = concat (map enc gs)" and "\<forall>g \<in> set gs. enc g \<noteq> []"
  shows "\<exists>xs ys t. gs = xs @ ys \<and> p = concat (map enc xs) @ t \<and> t @ q = concat (map enc ys) \<and>
           begins enc t ys"
  using assms
proof (induction gs arbitrary: p)
  case Nil
  then show ?case by (intro exI [of _ "[]"]) (simp add: begins_def)
next
  case (Cons g gs)
  show ?case
  proof (cases "strict_prefix p (enc g)")
    case True
    with Cons.prems(1) show ?thesis
      by (intro exI [of _ "[]"] exI [of _ "g # gs"] exI [of _ p]) (simp add: begins_def)
  next
    case False
    from Cons.prems(1) have "prefix p (enc g) \<or> prefix (enc g) p"
      by (metis append_eq_append_conv2 concat.simps(2) list.simps(9) prefixI)
    with False obtain p' where p: "p = enc g @ p'"
      by (auto simp: strict_prefix_def prefix_def)
    with Cons.prems(1) have "p' @ q = concat (map enc gs)" by simp
    from Cons.IH [OF this] Cons.prems(2) obtain xs ys t where
      "gs = xs @ ys" "p' = concat (map enc xs) @ t" "t @ q = concat (map enc ys)" "begins enc t ys"
      by auto
    with p show ?thesis
      by (intro exI [of _ "g # xs"] exI [of _ ys] exI [of _ t]) simp
  qed
qed

text \<open>What a push of \<open>n\<close> bytes of the input does to the frames expected.\<close>

lemma push_input:
  assumes dec: "incremental push reports enc valid holds" and h: "holds d r"
    and v: "list_all valid gs" and eq: "r @ input = concat (map enc gs)" and n: "n \<le> length input"
  obtains xs ys t st d' where
    "gs = xs @ ys" and "push (take n input) d = (st, d', xs)" and "holds d' t"
    and "t @ drop n input = concat (map enc ys)" and "begins enc t ys" and "list_all valid ys"
    and "reports st xs"
proof -
  from dec v have ne: "\<forall>g \<in> set gs. enc g \<noteq> []"
    by (auto simp: incremental_def list_all_iff)
  from eq have "(r @ take n input) @ drop n input = concat (map enc gs)" by simp
  from prefix_of_encodings [OF this ne] obtain xs ys t where
    split: "gs = xs @ ys" "r @ take n input = concat (map enc xs) @ t"
      "t @ drop n input = concat (map enc ys)" "begins enc t ys"
    by blast
  from split(1) v have vs: "list_all valid xs" "list_all valid ys" by auto
  have "t = [] \<or> (\<exists>f. valid f \<and> strict_prefix t (enc f))"
    using split(4) vs(2) by (auto simp: begins_def split: list.splits)
  with dec h vs(1) split(2) obtain st d' where
    "push (take n input) d = (st, d', xs)" "holds d' t"
    "reports st xs"
    unfolding incremental_def by blast
  with split vs(2) that show ?thesis by blast
qed

lemma begins_nothing:
  assumes "incremental push reports enc valid holds" and "list_all valid gs"
  shows "begins enc [] gs"
proof (cases gs)
  case (Cons g gs')
  with assms have "enc g \<noteq> []" unfolding incremental_def by simp
  with Cons show ?thesis by (simp add: begins_def strict_prefix_def)
qed (simp add: begins_def)

end
