(* ===== verification/Wrapper_Tcp_Stream.thy ===== *)
theory Wrapper_Tcp_Stream
  imports Wrapper_Tcp_Laws Framing
begin

text \<open>
  What the TCP channel is for: the byte stream carries a sequence of WPDUs, cut into reads
  anywhere, and the channel hands out their APDUs one per call, unchanged and in order. The
  contract of the stream decoder is the hypothesis \<open>incremental_decoder\<close>.
\<close>

section \<open>The contract of the stream decoder\<close>

text \<open>\<open>NeedMoreData\<close> is reported only when no frame is complete.\<close>

definition incremental_decoder ::
  "'d wrapper_stream_decoder \<Rightarrow> (WrapperFrameBuffer \<Rightarrow> byte list) \<Rightarrow> (WrapperFrameBuffer \<Rightarrow> bool) \<Rightarrow>
   ('d \<Rightarrow> byte list \<Rightarrow> bool) \<Rightarrow> bool" where
  "incremental_decoder wd =
     incremental (wd_Push wd)
       (\<lambda>st gs. st = WrapperStatus.Ok \<or> gs = [] \<and> st = WrapperStatus.NeedMoreData)"

section \<open>The frames on their way to the channel\<close>

definition quiet_sink :: "('w \<Rightarrow> 'v) \<Rightarrow> 'w IWrapperTcpTraceSink option \<Rightarrow> bool" where
  "quiet_sink obs sink \<longleftrightarrow>
     (\<forall>k event w. sink = Some k \<longrightarrow> (\<exists>w'. OnWrapperTcpTrace k event w = Ret () w' \<and> obs w' = obs w))"

lemma wp_EmitTrace_quiet:
  assumes "quiet_sink obs sink"
    and "\<And>w. obs w = obs (world s) \<Longrightarrow> Q () (s\<lparr>world := w\<rparr>)"
  shows "wp d f (EmitTrace sink event) Q E s"
proof (cases sink)
  case None
  with assms(2) [of "world s"] show ?thesis by (simp add: wp_simps)
next
  case (Some k)
  with assms(1) obtain w' where
    "OnWrapperTcpTrace k event (world s) = Ret () w'" "obs w' = obs (world s)"
    unfolding quiet_sink_def by blast
  with assms(2) Some show ?thesis by (simp add: wp_simps)
qed

lemma wp_TraceDecodedFrames_quiet:
  assumes "quiet_sink obs sink"
    and "\<And>w. obs w = obs (world s) \<Longrightarrow> Q () (s\<lparr>world := w\<rparr>)"
  shows "wp d f (TraceDecodedFrames cd sink frames) Q E s"
  using assms(2)
proof (induction frames arbitrary: s)
  case Nil
  from Nil [of "world s"] show ?case by (simp add: wp_simps)
next
  case (Cons frame frames)
  show ?case
    unfolding TraceDecodedFrames.simps wp_next_do
    by (rule wp_EmitTrace_quiet [OF assms(1)], rule Cons.IH) (simp add: Cons.prems)
qed

definition tcp_stream_env ::
  "'d wrapper_stream_decoder \<Rightarrow> (WrapperFrameBuffer \<Rightarrow> byte list) \<Rightarrow> (WrapperFrameBuffer \<Rightarrow> bool) \<Rightarrow>
   ('d \<Rightarrow> byte list \<Rightarrow> bool) \<Rightarrow> ('w \<Rightarrow> byte list) \<Rightarrow> 'w allocator \<Rightarrow>
   ('d, 'w) WrapperTcpProfileChannel \<Rightarrow> bool" where
  "tcp_stream_env wd enc valid holds input al c \<longleftrightarrow>
     incremental_decoder wd enc valid holds \<and> delivers input (tcp_stream c) \<and> ample input al \<and>
     quiet_sink input (wrapperTcpTraceSink (tcp_options c)) \<and> tcp_readBuffer c \<noteq> []"

text \<open>
  The frames still to be delivered: those in the queue, then those of which the decoder and
  the stream hold the bytes.
\<close>

definition tcp_expects ::
  "'d wrapper_stream_decoder \<Rightarrow> (WrapperFrameBuffer \<Rightarrow> byte list) \<Rightarrow> (WrapperFrameBuffer \<Rightarrow> bool) \<Rightarrow>
   ('d \<Rightarrow> byte list \<Rightarrow> bool) \<Rightarrow> ('w \<Rightarrow> byte list) \<Rightarrow> 'w allocator \<Rightarrow>
   (('d, 'w) WrapperTcpProfileChannel, 'w) sys \<Rightarrow> WrapperFrameBuffer list \<Rightarrow> bool" where
  "tcp_expects wd enc valid holds input al s fs \<longleftrightarrow>
     tcp_stream_env wd enc valid holds input al (self s) \<and>
     (\<exists>gs r. fs = tcp_pendingFrames (self s) @ gs \<and> list_all valid gs \<and>
        holds (tcp_decoder (self s)) r \<and> r @ input (world s) = concat (map enc gs) \<and>
        begins enc r gs)"

lemma tcp_stream_env_upd [simp]:
  "tcp_stream_env wd enc valid holds input al (c\<lparr>tcp_decoder := d\<rparr>)
     = tcp_stream_env wd enc valid holds input al c"
  "tcp_stream_env wd enc valid holds input al (c\<lparr>tcp_pendingFrames := fs\<rparr>)
     = tcp_stream_env wd enc valid holds input al c"
  "b \<noteq> [] \<Longrightarrow> tcp_stream_env wd enc valid holds input al c \<Longrightarrow>
     tcp_stream_env wd enc valid holds input al (c\<lparr>tcp_readBuffer := b\<rparr>)"
  by (simp_all add: tcp_stream_env_def)

lemma wp_Tcp_QueueFrames_quiet:
  assumes "quiet_sink obs (wrapperTcpTraceSink (tcp_options (self s)))" and "ample obs al"
    and "\<And>w. obs w = obs (world s) \<Longrightarrow> Q (Inr ProfileStatus.Ok)
      (s\<lparr>world := w, self := (self s)\<lparr>tcp_pendingFrames := tcp_pendingFrames (self s) @ frames\<rparr>\<rparr>)"
  shows "wp d f (Tcp_QueueFrames cd wd al frames) Q E s"
  unfolding Tcp_QueueFrames_def wp_with_this wp_try_catch wp_next_do
  by (rule wp_TraceDecodedFrames_quiet [OF assms(1)], rule wp_allocate_ample [OF assms(2)])
     (simp add: wp_simps assms(3))

lemma tcp_expects_fresh:
  assumes "tcp_stream_env wd enc valid holds input al (self s)"
    and "tcp_pendingFrames (self s) = []" and "holds (tcp_decoder (self s)) []"
    and "list_all valid fs" and "input (world s) = concat (map enc fs)"
  shows "tcp_expects wd enc valid holds input al s fs"
proof -
  have "begins enc [] fs"
    using assms(1,4) by (auto simp: tcp_stream_env_def incremental_decoder_def intro: begins_nothing)
  with assms show ?thesis
    unfolding tcp_expects_def by (intro conjI exI [of _ fs] exI [of _ "[]"]) auto
qed

section \<open>One read\<close>

text \<open>An iteration consumes input, and every frame it completes is in the queue.\<close>

lemma wp_Tcp_ReceiveStep_stream:
  fixes s :: "(('d, 'w) WrapperTcpProfileChannel, 'w) sys"
  assumes ex: "tcp_expects wd enc valid holds input al s fs" and ne: "fs \<noteq> []"
    and pend: "tcp_pendingFrames (self s) = []"
  shows "wp False False (Tcp_ReceiveStep cd wd al)
     (\<lambda>v t. mem t = mem s \<and> tcp_expects wd enc valid holds input al t fs \<and>
        length (input (world t)) < length (input (world s)) \<and>
        (v = Inl () \<and> tcp_pendingFrames (self t) = [] \<or> v = Inr ProfileStatus.Ok))
     (\<lambda>_. False) s"
proof -
  let ?c = "self s"
  from ex pend obtain r where env: "tcp_stream_env wd enc valid holds input al ?c"
    and v: "list_all valid fs" and h: "holds (tcp_decoder ?c) r"
    and eq: "r @ input (world s) = concat (map enc fs)" and b: "begins enc r fs"
    unfolding tcp_expects_def by auto
  from env have dec: "incremental_decoder wd enc valid holds" and del: "delivers input (tcp_stream ?c)"
    and am: "ample input al" and quiet: "quiet_sink input (wrapperTcpTraceSink (tcp_options ?c))"
    and buf: "tcp_readBuffer ?c \<noteq> []"
    by (auto simp: tcp_stream_env_def)
  have "input (world s) \<noteq> []"
    using eq b ne by (auto simp: begins_def strict_prefix_def split: list.splits)
  with del buf obtain n w where n: "0 < n" "n \<le> length (tcp_readBuffer ?c)"
      "n \<le> length (input (world s))"
    and read: "bs_ReadSome (tcp_stream ?c) (tcp_readBuffer ?c) (world s) =
      Ret (TransportStatus.Ok, take n (input (world s)) @ drop n (tcp_readBuffer ?c), n) w"
    and w: "input w = drop n (input (world s))"
    unfolding delivers_def by blast
  obtain xs ys t st d' where push: "fs = xs @ ys"
      "wd_Push wd (take n (input (world s))) (tcp_decoder ?c) = (st, d', xs)" "holds d' t"
      "t @ drop n (input (world s)) = concat (map enc ys)" "begins enc t ys" "list_all valid ys"
      "st = WrapperStatus.Ok \<or> xs = [] \<and> st = WrapperStatus.NeedMoreData"
    by (rule push_input [OF dec [unfolded incremental_decoder_def] h v eq n(3)])
  have nonempty: "take n (input (world s)) @ drop n (tcp_readBuffer ?c) \<noteq> []"
    using n by auto
  have less: "length (input (world s)) - n < length (input (world s))" using n by simp
  show ?thesis
  proof (cases "st = WrapperStatus.Ok")
    case True
    have "wp False False (Tcp_PushBytes cd wd al (take n (input (world s)) @ drop n (tcp_readBuffer ?c)) n)
      (\<lambda>v t. mem t = mem s \<and> tcp_expects wd enc valid holds input al t fs \<and>
        length (input (world t)) < length (input (world s)) \<and>
        (v = Inl () \<and> tcp_pendingFrames (self t) = [] \<or> v = Inr ProfileStatus.Ok))
      (\<lambda>_. False) (s\<lparr>world := w, self := ?c\<lparr>tcp_readBuffer :=
         take n (input (world s)) @ drop n (tcp_readBuffer ?c)\<rparr>\<rparr>)"
      using n push env nonempty less pend w
      by (auto simp: True Tcp_PushBytes_def wp_simps Let_def tcp_expects_def quiet
          intro!: wp_Tcp_QueueFrames_quiet [OF _ am])
    with n show ?thesis by (simp add: Tcp_ReceiveStep_def wp_simps read Let_def)
  next
    case False
    with push(7) have nd: "xs = []" "st = WrapperStatus.NeedMoreData" by auto
    show ?thesis
      using n push env nonempty less pend w
      by (auto simp: nd Tcp_ReceiveStep_def wp_simps read Let_def Tcp_PushBytes_def
          tcp_expects_def)
  qed
qed

section \<open>One receive\<close>

lemma wp_Tcp_ReceiveNextFrame_stream:
  fixes s :: "(('d, 'w) WrapperTcpProfileChannel, 'w) sys"
  assumes ex: "tcp_expects wd enc valid holds input al s fs" and ne: "fs \<noteq> []"
    and pend: "tcp_pendingFrames (self s) = []"
  shows "wp False False (Tcp_ReceiveNextFrame cd wd al)
     (\<lambda>st t. st = ProfileStatus.Ok \<and> mem t = mem s \<and>
        tcp_expects wd enc valid holds input al t fs \<and>
        length (input (world t)) < length (input (world s)))
     (\<lambda>_. False) s"
proof -
  have buf: "tcp_readBuffer (self s) \<noteq> []"
    using ex by (auto simp: tcp_expects_def tcp_stream_env_def)
  have "wp False False (loop (\<lambda>_. Tcp_ReceiveStep cd wd al) ())
     (\<lambda>st t. st = ProfileStatus.Ok \<and> mem t = mem s \<and>
        tcp_expects wd enc valid holds input al t fs \<and>
        length (input (world t)) < length (input (world s)))
     (\<lambda>_. False) s"
  proof (rule wp_loop_total [where \<mu> = "\<lambda>_ t. length (input (world t))" and
      I = "\<lambda>_ t. mem t = mem s \<and> tcp_expects wd enc valid holds input al t fs \<and>
        tcp_pendingFrames (self t) = [] \<and>
        length (input (world t)) \<le> length (input (world s))"])
    show "mem s = mem s \<and> tcp_expects wd enc valid holds input al s fs \<and>
        tcp_pendingFrames (self s) = [] \<and> length (input (world s)) \<le> length (input (world s))"
      using ex pend by simp
  next
    fix x :: unit and t :: "(('d, 'w) WrapperTcpProfileChannel, 'w) sys"
    assume t: "mem t = mem s \<and> tcp_expects wd enc valid holds input al t fs \<and>
        tcp_pendingFrames (self t) = [] \<and> length (input (world t)) \<le> length (input (world s))"
    then have "tcp_expects wd enc valid holds input al t fs" "tcp_pendingFrames (self t) = []"
      by simp_all
    from wp_Tcp_ReceiveStep_stream [OF this(1) ne this(2), of cd]
    show "wp False False (Tcp_ReceiveStep cd wd al)
       (\<lambda>v u. case v of
          Inl y \<Rightarrow> (mem u = mem s \<and> tcp_expects wd enc valid holds input al u fs \<and>
              tcp_pendingFrames (self u) = [] \<and>
              length (input (world u)) \<le> length (input (world s))) \<and>
            length (input (world u)) < length (input (world t))
        | Inr st \<Rightarrow> st = ProfileStatus.Ok \<and> mem u = mem s \<and>
            tcp_expects wd enc valid holds input al u fs \<and>
            length (input (world u)) < length (input (world s)))
       (\<lambda>_. False) t"
      by (rule wp_conseq) (use t in auto)
  qed
  with buf show ?thesis by (simp add: Tcp_ReceiveNextFrame_def wp_simps)
qed

lemma wp_Tcp_fill_stream:
  fixes s :: "(('d, 'w) WrapperTcpProfileChannel, 'w) sys"
  assumes ex: "tcp_expects wd enc valid holds input al s fs" and ne: "fs \<noteq> []"
  shows "wp False False (fill_while_empty Tcp_no_pending (Tcp_ReceiveNextFrame cd wd al))
     (\<lambda>st t. st = ProfileStatus.Ok \<and> mem t = mem s \<and>
        tcp_expects wd enc valid holds input al t fs \<and> tcp_pendingFrames (self t) \<noteq> [])
     (\<lambda>_. False) s"
proof (rule wp_fill_total [where \<mu> = "\<lambda>t. length (input (world t))"
      and I = "\<lambda>t. mem t = mem s \<and> tcp_expects wd enc valid holds input al t fs"])
  fix t :: "(('d, 'w) WrapperTcpProfileChannel, 'w) sys"
  assume t: "mem t = mem s \<and> tcp_expects wd enc valid holds input al t fs"
  {
    assume "Tcp_no_pending (self t)"
    with t have "tcp_expects wd enc valid holds input al t fs" "tcp_pendingFrames (self t) = []"
      by (simp_all add: Tcp_no_pending_def)
    from wp_Tcp_ReceiveNextFrame_stream [OF this(1) ne this(2)]
    show "wp False False (Tcp_ReceiveNextFrame cd wd al)
      (\<lambda>st u. if st = ProfileStatus.Ok
         then (mem u = mem s \<and> tcp_expects wd enc valid holds input al u fs) \<and>
           length (input (world u)) < length (input (world t))
         else st = ProfileStatus.Ok \<and> mem u = mem s \<and>
           tcp_expects wd enc valid holds input al u fs \<and> tcp_pendingFrames (self u) \<noteq> [])
      (\<lambda>_. False) t"
      by (rule wp_conseq) (use t in auto)
  next
    assume "\<not> Tcp_no_pending (self t)"
    with t show "ProfileStatus.Ok = ProfileStatus.Ok \<and> mem t = mem s \<and>
        tcp_expects wd enc valid holds input al t fs \<and> tcp_pendingFrames (self t) \<noteq> []"
      by (simp add: Tcp_no_pending_def)
  }
qed (simp add: ex)

lemma tcp_expects_head:
  "tcp_expects wd enc valid holds input al s (f # fs) \<Longrightarrow> tcp_pendingFrames (self s) = g # rest \<Longrightarrow>
     g = f"
  by (auto simp: tcp_expects_def)

lemma tcp_expects_rest:
  "tcp_expects wd enc valid holds input al s (f # fs) \<Longrightarrow> tcp_pendingFrames (self s) = g # rest \<Longrightarrow>
     self u = (self s)\<lparr>tcp_pendingFrames := rest\<rparr> \<Longrightarrow> input (world u) = input (world s) \<Longrightarrow>
     tcp_expects wd enc valid holds input al u fs"
  by (auto simp: tcp_expects_def)

lemma tcp_expects_mem [simp]:
  "tcp_expects wd enc valid holds input al (s\<lparr>mem := m\<rparr>) fs =
     tcp_expects wd enc valid holds input al s fs"
  by (simp add: tcp_expects_def)

lemma wp_Tcp_ReceiveVector_stream:
  fixes s :: "(('d, 'w) WrapperTcpProfileChannel, 'w) sys"
  assumes ex: "tcp_expects wd enc valid holds input al s (f # fs)"
  shows "wp False False (Tcp_ReceiveVector cd wd al)
     (\<lambda>st t. st = ProfileStatus.Ok \<and> cm_vector (mem t) = wb_data f \<and>
        tcp_expects wd enc valid holds input al t fs)
     (\<lambda>_. False) s"
proof -
  let ?s = "s\<lparr>mem := (mem s)\<lparr>cm_vector := []\<rparr>\<rparr>"
  from ex have ex': "tcp_expects wd enc valid holds input al ?s (f # fs)" by simp
  from ex have am: "ample input al" by (simp add: tcp_expects_def tcp_stream_env_def)
  show ?thesis
    unfolding Tcp_ReceiveVector_def wp_next_do wp_set_mem wp_ok_or_return
    by (rule wp_conseq [OF wp_Tcp_fill_stream [OF ex']])
       (auto simp: wp_simps ample_case [OF am] ample_obs [OF am] split: list.splits
          dest: tcp_expects_head intro: tcp_expects_rest)
qed

text \<open>
  A buffer that is too small leaves the frame for a later call; one that is large enough
  receives exactly the APDU.
\<close>

lemma wp_Tcp_ReceiveBuffer_stream:
  fixes s :: "(('d, 'w) WrapperTcpProfileChannel, 'w) sys"
  assumes ex: "tcp_expects wd enc valid holds input al s (f # fs)"
    and buf: "IsValidMutableBuffer output" "buffer_backed output (mem s)"
  shows "wp False False (Tcp_ReceiveBuffer cd wd al output)
     (\<lambda>st t.
        if mb_size output < length (wb_data f)
        then st = ProfileStatus.OutputBufferTooSmall \<and> cm_written (mem t) = 0 \<and>
          cm_data (mem t) = cm_data (mem s) \<and>
          tcp_expects wd enc valid holds input al t (f # fs)
        else st = ProfileStatus.Ok \<and> cm_written (mem t) = length (wb_data f) \<and>
          take (cm_written (mem t)) (cm_data (mem t)) = wb_data f \<and>
          tcp_expects wd enc valid holds input al t fs)
     (\<lambda>_. False) s"
proof -
  let ?s = "s\<lparr>mem := (mem s)\<lparr>cm_written := 0\<rparr>\<rparr>"
  from ex have ex': "tcp_expects wd enc valid holds input al ?s (f # fs)" by simp
  from buf have out: "mb_writtenSize output \<noteq> NullPtr"
      "mb_data output = NullPtr \<Longrightarrow> mb_size output = 0"
    by (auto simp: IsValidMutableBuffer_def split: if_splits)
  have "wp False False
    (ok_or_return (fill_while_empty Tcp_no_pending (Tcp_ReceiveNextFrame cd wd al))
       (Tcp_CopyFirstPendingFrame output True))
     (\<lambda>st t.
        if mb_size output < length (wb_data f)
        then st = ProfileStatus.OutputBufferTooSmall \<and> cm_written (mem t) = 0 \<and>
          cm_data (mem t) = cm_data (mem s) \<and>
          tcp_expects wd enc valid holds input al t (f # fs)
        else st = ProfileStatus.Ok \<and> cm_written (mem t) = length (wb_data f) \<and>
          take (cm_written (mem t)) (cm_data (mem t)) = wb_data f \<and>
          tcp_expects wd enc valid holds input al t fs)
     (\<lambda>_. False) ?s"
    unfolding wp_ok_or_return
    by (rule wp_conseq [OF wp_Tcp_fill_stream [OF ex']])
       (use buf out in \<open>auto simp: wp_simps Tcp_CopyFirstPendingFrame_def Let_def buffer_backed_def
          split: list.splits dest: tcp_expects_head intro: tcp_expects_rest\<close>)
  with buf out show ?thesis
    unfolding Tcp_ReceiveBuffer_def by (simp add: wp_if wp_next_do wp_store_written)
qed

section \<open>The channel as a queue\<close>

definition tcp_source ::
  "'d wrapper_stream_decoder \<Rightarrow> (WrapperFrameBuffer \<Rightarrow> byte list) \<Rightarrow> (WrapperFrameBuffer \<Rightarrow> bool) \<Rightarrow>
   ('d \<Rightarrow> byte list \<Rightarrow> bool) \<Rightarrow> ('w \<Rightarrow> byte list) \<Rightarrow> 'w allocator \<Rightarrow>
   (('d, 'w) WrapperTcpProfileChannel, 'w) sys \<Rightarrow> byte list list \<Rightarrow> bool" where
  "tcp_source wd enc valid holds input al s apdus \<longleftrightarrow>
     (\<exists>fs. apdus = map wb_data fs \<and> tcp_expects wd enc valid holds input al s fs)"

interpretation tcp_source: apdu_source
  "Tcp_ReceiveVector cd wd al" "tcp_source wd enc valid holds input al"
  for cd :: wrapper_codec and wd :: "'d wrapper_stream_decoder" and enc valid holds
    and input :: "'w \<Rightarrow> byte list" and al :: "'w allocator"
proof
  fix s :: "(('d, 'w) WrapperTcpProfileChannel, 'w) sys" and apdu apdus
  assume "tcp_source wd enc valid holds input al s (apdu # apdus)"
  then obtain f fs where f: "apdu = wb_data f" "apdus = map wb_data fs"
      "tcp_expects wd enc valid holds input al s (f # fs)"
    unfolding tcp_source_def by auto
  obtain st t where "Tcp_ReceiveVector cd wd al s = Some (Ret st t)"
      "st = ProfileStatus.Ok \<and> cm_vector (mem t) = wb_data f \<and>
       tcp_expects wd enc valid holds input al t fs"
    by (rule wp_totalE [OF wp_Tcp_ReceiveVector_stream [OF f(3)]])
  with f show "\<exists>t. Tcp_ReceiveVector cd wd al s = Some (Ret ProfileStatus.Ok t) \<and>
      cm_vector (mem t) = apdu \<and> tcp_source wd enc valid holds input al t apdus"
    unfolding tcp_source_def by auto
qed

text \<open>The frame a channel sends for an APDU.\<close>

definition tcp_frame :: "('d, 'w) WrapperTcpProfileChannel \<Rightarrow> byte list \<Rightarrow> WrapperFrame" where
  "tcp_frame c apdu =
     \<lparr>wf_sourcePort = localWrapperPort (tcp_options c),
      wf_destinationPort = remoteWrapperPort (tcp_options c),
      wf_data = Some apdu, wf_dataSize = length apdu\<rparr>"

definition tcp_sink ::
  "wrapper_codec \<Rightarrow> ('w \<Rightarrow> byte list) \<Rightarrow> (('d, 'w) WrapperTcpProfileChannel, 'w) sys \<Rightarrow>
   (byte list \<Rightarrow> byte list) \<Rightarrow> (byte list \<Rightarrow> bool) \<Rightarrow> bool" where
  "tcp_sink cd sent s encode fits \<longleftrightarrow>
     records sent (tcp_stream (self s)) \<and>
     quiet_sink sent (wrapperTcpTraceSink (tcp_options (self s))) \<and>
     (\<forall>apdu. fits apdu \<longrightarrow>
        (maximumApduSize (tcp_options (self s)) = 0 \<or>
           length apdu \<le> maximumApduSize (tcp_options (self s))) \<and>
        EncodeWpdu cd (tcp_frame (self s) apdu) (tcp_wrapperLimits (self s)) =
          (WrapperStatus.Ok, encode apdu))"

interpretation tcp_sink: apdu_sink "Tcp_SendApdu cd" "tcp_sink cd sent" sent
  for cd :: wrapper_codec and sent :: "'w \<Rightarrow> byte list"
proof
  fix s :: "(('d, 'w) WrapperTcpProfileChannel, 'w) sys" and encode fits apdu
  assume s: "tcp_sink cd sent s encode fits" and fits: "fits apdu"
  then have rec: "records sent (tcp_stream (self s))"
    and quiet: "quiet_sink sent (wrapperTcpTraceSink (tcp_options (self s)))"
    and size: "maximumApduSize (tcp_options (self s)) = 0 \<or>
      \<not> maximumApduSize (tcp_options (self s)) < length apdu"
    and enc: "EncodeWpdu cd \<lparr>wf_sourcePort = localWrapperPort (tcp_options (self s)),
      wf_destinationPort = remoteWrapperPort (tcp_options (self s)),
      wf_data = Some apdu, wf_dataSize = length apdu\<rparr> (tcp_wrapperLimits (self s)) =
      (WrapperStatus.Ok, encode apdu)"
    by (auto simp: tcp_sink_def tcp_frame_def)
  obtain event where run: "Tcp_SendApdu cd (view_of apdu) s =
      next_do (EmitTrace (wrapperTcpTraceSink (tcp_options (self s))) event)
        (ext_transport (bs_WriteAll (tcp_stream (self s)) (encode apdu))) s"
    using size by (auto simp: Tcp_SendApdu_def run_with_this enc Let_def)
  have "wp False False (next_do (EmitTrace (wrapperTcpTraceSink (tcp_options (self s))) event)
      (ext_transport (bs_WriteAll (tcp_stream (self s)) (encode apdu))))
    (\<lambda>st t. st = ProfileStatus.Ok \<and> self t = self s \<and>
       sent (world t) = sent (world s) @ encode apdu) (\<lambda>_. False) s"
    unfolding wp_next_do
  proof (rule wp_EmitTrace_quiet [OF quiet])
    fix w
    assume w: "sent w = sent (world s)"
    from rec obtain w' where "bs_WriteAll (tcp_stream (self s)) (encode apdu) w = Ret TransportStatus.Ok w'"
        "sent w' = sent w @ encode apdu"
      unfolding records_def by blast
    with w show "wp False False (ext_transport (bs_WriteAll (tcp_stream (self s)) (encode apdu)))
       (\<lambda>st t. st = ProfileStatus.Ok \<and> self t = self s \<and>
          sent (world t) = sent (world s) @ encode apdu) (\<lambda>_. False) (s\<lparr>world := w\<rparr>)"
      by (simp add: wp_simps)
  qed
  then obtain st t where "Tcp_SendApdu cd (view_of apdu) s = Some (Ret st t)"
      and "st = ProfileStatus.Ok \<and> self t = self s \<and> sent (world t) = sent (world s) @ encode apdu"
    unfolding run by (rule wp_totalE)
  with s show "\<exists>t. Tcp_SendApdu cd (view_of apdu) s = Some (Ret ProfileStatus.Ok t) \<and>
      tcp_sink cd sent t encode fits \<and> sent (world t) = sent (world s) @ encode apdu"
    by (auto simp: tcp_sink_def)
qed

end
