(* ===== verification/Example_Environment.thy ===== *)
theory Example_Environment
  imports Framing Lower_Layers
begin

text \<open>
  Executable instances of the external interfaces, on which the hypotheses of the properties
  are shown to be satisfiable and the properties are applied: a stream and a datagram transport
  over lists, an allocator that always succeeds, a wrapper codec with the 8-byte header of the
  wrapper protocol and its stream decoder. Nothing of the program model depends on this theory.
\<close>

section \<open>A world of lists\<close>

text \<open>
  \<open>lw_in\<close> are the bytes to be read, at most \<open>lw_chunk + 1\<close> per read; \<open>lw_grams\<close> the
  datagrams to be received; \<open>lw_out\<close> the writes, in order.
\<close>

record list_world =
  lw_in :: "byte list"
  lw_chunk :: nat
  lw_grams :: "byte list list"
  lw_out :: "byte list list"

definition list_stream :: "list_world IByteStream" where
  "list_stream =
     \<lparr>bs_Open = (\<lambda>w. Ret TransportStatus.Ok w),
      bs_Close = (\<lambda>w. Ret TransportStatus.Ok w),
      bs_IsOpen = (\<lambda>w. Ret True w),
      bs_ReadSome = (\<lambda>buf w.
        if lw_in w = [] then Ret (TransportStatus.WouldBlock, buf, 0) w
        else let n = min (Suc (lw_chunk w)) (min (length buf) (length (lw_in w)))
             in Ret (TransportStatus.Ok, take n (lw_in w) @ drop n buf, n)
                  (w\<lparr>lw_in := drop n (lw_in w)\<rparr>)),
      bs_WriteAll = (\<lambda>bytes w. Ret TransportStatus.Ok (w\<lparr>lw_out := lw_out w @ [bytes]\<rparr>))\<rparr>"

definition list_datagram :: "list_world IDatagramTransport" where
  "list_datagram =
     \<lparr>dg_Open = (\<lambda>w. Ret TransportStatus.Ok w),
      dg_Close = (\<lambda>w. Ret TransportStatus.Ok w),
      dg_IsOpen = (\<lambda>w. Ret True w),
      dg_Send = (\<lambda>bytes w. Ret TransportStatus.Ok (w\<lparr>lw_out := lw_out w @ [bytes]\<rparr>)),
      dg_Receive = (\<lambda>buf w. case lw_grams w of
          [] \<Rightarrow> Ret (TransportStatus.WouldBlock, buf, 0) w
        | g # gs \<Rightarrow>
            if length buf < length g
            then Ret (TransportStatus.OutputBufferTooSmall, buf, 0) (w\<lparr>lw_grams := gs\<rparr>)
            else Ret (TransportStatus.Ok, g @ drop (length g) buf, length g) (w\<lparr>lw_grams := gs\<rparr>))\<rparr>"

definition list_alloc :: "list_world allocator" where
  "list_alloc n w = (True, w)"

definition written_bytes :: "list_world \<Rightarrow> byte list" where
  "written_bytes w = concat (lw_out w)"

lemma list_stream_honest: "honest_stream list_stream"
  by (auto simp: honest_stream_def list_stream_def Let_def)

lemma list_stream_finite: "finite_input (\<lambda>w. length (lw_in w)) list_stream"
  by (auto simp: finite_input_def list_stream_def behaves_def Let_def)

lemma list_stream_delivers: "delivers lw_in list_stream"
proof -
  have "\<exists>n w'. 0 < n \<and> n \<le> length buf \<and> n \<le> length (lw_in w) \<and>
      bs_ReadSome list_stream buf w = Ret (TransportStatus.Ok, take n (lw_in w) @ drop n buf, n) w' \<and>
      lw_in w' = drop n (lw_in w)" if "buf \<noteq> []" "lw_in w \<noteq> []" for buf :: "byte list" and w
    using that
    by (intro exI [of _ "min (Suc (lw_chunk w)) (min (length buf) (length (lw_in w)))"])
       (auto simp: list_stream_def Let_def)
  then show ?thesis by (simp add: delivers_def)
qed

lemma list_stream_records: "records written_bytes list_stream"
  by (auto simp: records_def list_stream_def written_bytes_def)

lemma list_datagram_honest: "honest_datagram list_datagram"
  by (auto simp: honest_datagram_def list_datagram_def split: list.splits)

lemma list_alloc_ample: "ample obs list_alloc"
  by (simp add: ample_def list_alloc_def)

text \<open>A stream that is open or closed, and refuses to read while it is closed.\<close>

definition gated_stream :: "(bool \<times> list_world) IByteStream" where
  "gated_stream =
     \<lparr>bs_Open = (\<lambda>(_, w). Ret TransportStatus.Ok (True, w)),
      bs_Close = (\<lambda>(_, w). Ret TransportStatus.Ok (False, w)),
      bs_IsOpen = (\<lambda>(up, w). Ret up (up, w)),
      bs_ReadSome = (\<lambda>buf (up, w).
        if up then map_outcome id (Pair True) (bs_ReadSome list_stream buf w)
        else Ret (TransportStatus.NotOpen, buf, 0) (up, w)),
      bs_WriteAll = (\<lambda>bytes (up, w).
        if up then map_outcome id (Pair True) (bs_WriteAll list_stream bytes w)
        else Ret TransportStatus.NotOpen (up, w))\<rparr>"

definition gated_input :: "bool \<times> list_world \<Rightarrow> byte list" where
  "gated_input = (\<lambda>(up, w). if up then lw_in w else [])"

lemma gated_stream_delivers: "delivers gated_input gated_stream"
  unfolding delivers_def
proof (intro allI impI)
  fix buf :: "byte list" and w :: "bool \<times> list_world"
  assume "buf \<noteq> []" and "gated_input w \<noteq> []"
  then obtain v where w: "w = (True, v)" and "lw_in v \<noteq> []"
    by (cases w) (auto simp: gated_input_def split: if_splits)
  with \<open>buf \<noteq> []\<close> list_stream_delivers obtain n v' where "0 < n" "n \<le> length buf" "n \<le> length (lw_in v)"
    "bs_ReadSome list_stream buf v = Ret (TransportStatus.Ok, take n (lw_in v) @ drop n buf, n) v'"
    "lw_in v' = drop n (lw_in v)" unfolding delivers_def by blast
  then show "\<exists>n w'. 0 < n \<and> n \<le> length buf \<and> n \<le> length (gated_input w) \<and>
      bs_ReadSome gated_stream buf w =
        Ret (TransportStatus.Ok, take n (gated_input w) @ drop n buf, n) w' \<and>
      gated_input w' = drop n (gated_input w)"
    by (intro exI [of _ n] exI [of _ "(True, v')"]) (simp add: w gated_input_def gated_stream_def)
qed

section \<open>Frames with a length in the header\<close>

function parse_frames ::
  "nat \<Rightarrow> (byte list \<Rightarrow> nat) \<Rightarrow> (byte list \<Rightarrow> 'f) \<Rightarrow> byte list \<Rightarrow> 'f list \<times> byte list" where
  "parse_frames hdr body build bs =
     (if hdr = 0 \<or> length bs < hdr \<or> length bs < hdr + body (take hdr bs) then ([], bs)
      else case parse_frames hdr body build (drop (hdr + body (take hdr bs)) bs) of
        (fs, r) \<Rightarrow> (build (take (hdr + body (take hdr bs)) bs) # fs, r))"
  by auto
termination
  by (relation "measure (\<lambda>(_, _, _, bs). length bs)") auto

declare parse_frames.simps [simp del]

text \<open>An encoding with a non-empty header of fixed size that determines the size of the body.\<close>

definition sized_encoding ::
  "nat \<Rightarrow> (byte list \<Rightarrow> nat) \<Rightarrow> (byte list \<Rightarrow> 'f) \<Rightarrow> ('f \<Rightarrow> byte list) \<Rightarrow> ('f \<Rightarrow> bool) \<Rightarrow> bool" where
  "sized_encoding hdr body build enc valid \<longleftrightarrow>
     0 < hdr \<and> (\<forall>f. valid f \<longrightarrow> hdr \<le> length (enc f) \<and>
       hdr + body (take hdr (enc f)) = length (enc f) \<and> build (enc f) = f)"

lemma sized_encodingD:
  assumes "sized_encoding hdr body build enc valid" and "valid f"
  shows "0 < hdr" and "hdr \<le> length (enc f)"
    and "hdr + body (take hdr (enc f)) = length (enc f)" and "build (enc f) = f"
  using assms unfolding sized_encoding_def by simp_all

lemma parse_unfinished:
  assumes "sized_encoding hdr body build enc valid"
    and "t = [] \<or> (\<exists>f. valid f \<and> strict_prefix t (enc f))"
  shows "parse_frames hdr body build t = ([], t)"
proof -
  have "length t < hdr \<or> length t < hdr + body (take hdr t)"
  proof (cases "t = []")
    case False
    with assms(2) obtain f u where f: "valid f" "enc f = t @ u" "u \<noteq> []"
      by (auto simp: strict_prefix_def prefix_def)
    with assms(1) have "hdr + body (take hdr (t @ u)) = length (t @ u)"
      unfolding sized_encoding_def by metis
    with f(3) show ?thesis by (cases "length t < hdr") simp_all
  qed (use assms(1) in \<open>simp add: sized_encoding_def\<close>)
  then show ?thesis by (subst parse_frames.simps) auto
qed

lemma parse_encodings:
  assumes e: "sized_encoding hdr body build enc valid"
    and t: "t = [] \<or> (\<exists>f. valid f \<and> strict_prefix t (enc f))"
  shows "list_all valid gs \<Longrightarrow>
    parse_frames hdr body build (concat (map enc gs) @ t) = (gs, t)"
proof (induction gs)
  case Nil
  then show ?case using parse_unfinished [OF e t] by simp
next
  case (Cons g gs)
  then have "valid g" by simp
  note g = sized_encodingD [OF e this]
  with Cons show ?case by (subst parse_frames.simps) simp
qed

lemma parse_incremental:
  assumes e: "sized_encoding hdr body build enc valid" and rep: "\<And>gs. reports (report gs) gs"
    and good: "\<And>f. valid f \<Longrightarrow> good (hd (enc f))"
    and push: "\<And>bytes d. d @ bytes = [] \<or> good (hd (d @ bytes)) \<Longrightarrow>
      push bytes d = (case parse_frames hdr body build (d @ bytes) of (fs, r) \<Rightarrow> (report fs, r, fs))"
  shows "incremental push reports enc valid (=)"
  unfolding incremental_def
proof (intro conjI allI impI)
  show ne: "enc f \<noteq> []" if "valid f" for f
  proof -
    from sized_encodingD [OF e that] have "0 < length (enc f)" by linarith
    then show ?thesis by (cases "enc f") simp_all
  qed
  fix d r bytes gs t
  assume "d = r" and gs: "list_all valid gs" and eq: "r @ bytes = concat (map enc gs) @ t"
    and t: "t = [] \<or> (\<exists>f. valid f \<and> strict_prefix t (enc f))"
  moreover have "concat (map enc gs) @ t = [] \<or> good (hd (concat (map enc gs) @ t))"
  proof (cases gs)
    case Nil
    have "good (hd t)" if "t \<noteq> []"
    proof -
      from t that obtain f u where "valid f" "enc f = t @ u"
        by (auto simp: strict_prefix_def prefix_def)
      with good [of f] that show ?thesis by simp
    qed
    with Nil show ?thesis by auto
  next
    case (Cons g gs')
    with gs have "valid g" by simp
    with good [OF this] ne [OF this] Cons show ?thesis by simp
  qed
  ultimately have "push bytes d = (report gs, t, gs)"
    using push [of d bytes] by (simp only: eq parse_encodings [OF e t gs] prod.case)
  with rep [of gs] show "\<exists>st d'. push bytes d = (st, d', gs) \<and> d' = t \<and> reports st gs" by blast
qed

section \<open>The wrapper protocol\<close>

definition be16 :: "uint16 \<Rightarrow> byte list" where
  "be16 x = [ucast (drop_bit 8 x), ucast x]"

definition of_be16 :: "byte list \<Rightarrow> uint16" where
  "of_be16 bs = of_nat (unat (bs ! 0) * 256 + unat (bs ! 1))"

lemma of_be16: "of_be16 (be16 x @ bs) = x"
proof -
  have "unat x < 65536" using unsigned_less [of x] by simp
  then have "unat x div 256 < 256" by (intro less_mult_imp_div_less) simp
  then have "unat x div 256 mod 256 * 256 + unat x mod 256 = unat x" by simp
  then have "unat (ucast (drop_bit 8 x) :: byte) * 256 + unat (ucast x :: byte) = unat x"
    by (simp add: unat_drop_bit_eq drop_bit_eq_div unat_div unsigned_ucast_eq take_bit_eq_mod)
  then show ?thesis unfolding of_be16_def be16_def by simp
qed

definition wpdu :: "WrapperFrameBuffer \<Rightarrow> byte list" where
  "wpdu f = [0, 1] @ be16 (wb_sourcePort f) @ be16 (wb_destinationPort f) @
     be16 (of_nat (length (wb_data f))) @ wb_data f"

definition wpdu_body :: "byte list \<Rightarrow> nat" where
  "wpdu_body header = unat (of_be16 (drop 6 header))"

definition wpdu_frame :: "byte list \<Rightarrow> WrapperFrameBuffer" where
  "wpdu_frame bs = \<lparr>wb_sourcePort = of_be16 (drop 2 bs),
     wb_destinationPort = of_be16 (drop 4 bs), wb_data = drop 8 bs\<rparr>"

definition wpdu_valid :: "WrapperFrameBuffer \<Rightarrow> bool" where
  "wpdu_valid f \<longleftrightarrow> length (wb_data f) \<le> 65535"

lemma wpdu_sized: "sized_encoding 8 wpdu_body wpdu_frame wpdu wpdu_valid"
proof -
  have "wpdu_body (take 8 (wpdu f)) = length (wb_data f)" if "wpdu_valid f" for f
  proof -
    have "drop 6 (take 8 (wpdu f)) = be16 (of_nat (length (wb_data f))) @ []"
      by (simp add: wpdu_def be16_def numeral_eq_Suc)
    then have "wpdu_body (take 8 (wpdu f)) = unat (of_nat (length (wb_data f)) :: uint16)"
      unfolding wpdu_body_def by (simp only: of_be16)
    with that show ?thesis by (simp add: wpdu_valid_def unat_of_nat)
  qed
  moreover have "wpdu_frame (wpdu f) = f" for f
  proof -
    have "drop 2 (wpdu f) = be16 (wb_sourcePort f) @ drop 4 (wpdu f)"
        "drop 4 (wpdu f) = be16 (wb_destinationPort f) @ drop 6 (wpdu f)"
        "drop 8 (wpdu f) = wb_data f"
      by (simp_all add: wpdu_def be16_def numeral_eq_Suc)
    then show ?thesis unfolding wpdu_frame_def by (simp add: of_be16)
  qed
  ultimately show ?thesis by (simp add: sized_encoding_def wpdu_def be16_def)
qed

definition example_limits :: WrapperCodecLimits where
  "example_limits = \<lparr>maximumDataSize = 65535, maximumFrameSize = 65543\<rparr>"

definition wrapper_example :: wrapper_codec where
  "wrapper_example =
     \<lparr>DefaultWrapperCodecLimits = example_limits,
      kWrapperHeaderSize = 8,
      EncodeWpdu = (\<lambda>frame limits.
        case wf_data frame of
          None \<Rightarrow>
            if wf_dataSize frame = 0
            then (WrapperStatus.Ok, wpdu \<lparr>wb_sourcePort = wf_sourcePort frame,
                    wb_destinationPort = wf_destinationPort frame, wb_data = []\<rparr>)
            else (WrapperStatus.InvalidArgument, [])
        | Some bytes \<Rightarrow>
            if maximumDataSize limits < wf_dataSize frame then (WrapperStatus.DataTooLarge, [])
            else (WrapperStatus.Ok, wpdu \<lparr>wb_sourcePort = wf_sourcePort frame,
                    wb_destinationPort = wf_destinationPort frame,
                    wb_data = take (wf_dataSize frame) bytes\<rparr>)),
      DecodeWpdu = (\<lambda>bytes limits.
        if length bytes < 8 \<or> length bytes < 8 + wpdu_body (take 8 bytes)
        then (WrapperStatus.NeedMoreData, wpdu_frame [])
        else if 8 + wpdu_body (take 8 bytes) < length bytes
        then (WrapperStatus.InvalidLength, wpdu_frame [])
        else (WrapperStatus.Ok, wpdu_frame bytes))\<rparr>"

text \<open>The state of the decoder is the unfinished frame. A frame that claims a wrong version is refused.\<close>

definition wrapper_decoder_example :: "byte list wrapper_stream_decoder" where
  "wrapper_decoder_example =
     \<lparr>wd_new = (\<lambda>_. []),
      wd_Push = (\<lambda>bytes d.
        if d @ bytes \<noteq> [] \<and> hd (d @ bytes) = 0xFF then (WrapperStatus.InvalidVersion, d @ bytes, [])
        else case parse_frames 8 wpdu_body wpdu_frame (d @ bytes) of
          (fs, r) \<Rightarrow> (if fs = [] then WrapperStatus.NeedMoreData else WrapperStatus.Ok, r, fs)),
      wd_Reset = (\<lambda>_. [])\<rparr>"

lemma wrapper_decoder_example_incremental:
  "incremental (wd_Push wrapper_decoder_example)
     (\<lambda>st gs. st = WrapperStatus.Ok \<or> gs = [] \<and> st = WrapperStatus.NeedMoreData) wpdu wpdu_valid (=)"
proof (rule parse_incremental [OF wpdu_sized, where good = "\<lambda>b. b \<noteq> 0xFF" and
      report = "\<lambda>fs. if fs = [] then WrapperStatus.NeedMoreData else WrapperStatus.Ok"])
  show "hd (wpdu f) \<noteq> 0xFF" for f by (simp add: wpdu_def)
  show "wd_Push wrapper_decoder_example bytes d =
     (case parse_frames 8 wpdu_body wpdu_frame (d @ bytes) of
        (fs, r) \<Rightarrow> (if fs = [] then WrapperStatus.NeedMoreData else WrapperStatus.Ok, r, fs))"
    if "d @ bytes = [] \<or> hd (d @ bytes) \<noteq> 0xFF" for bytes d
    using that by (auto simp: wrapper_decoder_example_def)
qed simp

section \<open>Example states\<close>

definition empty_world :: list_world where
  "empty_world = \<lparr>lw_in = [], lw_chunk = 0, lw_grams = [], lw_out = []\<rparr>"

definition in_world :: "'c \<Rightarrow> list_world \<Rightarrow> ('c, list_world) sys" where
  "in_world c w =
     \<lparr>self = c, mem = \<lparr>cm_vector = [], cm_data = replicate 4 0, cm_written = 0\<rparr>, world = w\<rparr>"

lemma in_world_sel [simp]:
  "self (in_world c w) = c" "world (in_world c w) = w"
  "mem (in_world c w) = \<lparr>cm_vector = [], cm_data = replicate 4 0, cm_written = 0\<rparr>"
  by (simp_all add: in_world_def)

definition sent_frame :: "byte list \<Rightarrow> WrapperFrameBuffer" where
  "sent_frame apdu = \<lparr>wb_sourcePort = 0x10, wb_destinationPort = 0x01, wb_data = apdu\<rparr>"

end
