(* ===== verification/Wrapper_Tcp_Properties.thy ===== *)
theory Wrapper_Tcp_Properties
  imports Wrapper_Tcp_Safety Wrapper_Tcp_Trace Wrapper_Tcp_Stream Example_Environment
begin

text \<open>The properties of the TCP wrapper channel, each with an application to a concrete channel.\<close>

section \<open>A concrete channel\<close>

definition example_options :: "list_world ApduChannelOptions" where
  "example_options =
     DefaultApduChannelOptions \<lparr>kPublicClient = 0x10, kManagementLogicalDevice = 0x01\<rparr>"

definition example_tcp :: "(byte list, list_world) WrapperTcpProfileChannel" where
  "example_tcp =
     WrapperTcpProfileChannel wrapper_example wrapper_decoder_example list_stream
       (example_options\<lparr>scratchBufferSize := 16\<rparr>)"

lemma example_tcp_sel [simp]:
  "tcp_stream example_tcp = list_stream"
  "tcp_decoder example_tcp = []"
  "tcp_pendingFrames example_tcp = []"
  "tcp_readBuffer example_tcp = replicate 16 0"
  "wrapperTcpTraceSink (tcp_options example_tcp) = None"
  "maximumApduSize (tcp_options example_tcp) = 65535"
  "localWrapperPort (tcp_options example_tcp) = 0x10"
  "remoteWrapperPort (tcp_options example_tcp) = 0x01"
  "tcp_wrapperLimits example_tcp = example_limits"
  by (simp_all add: example_tcp_def WrapperTcpProfileChannel_def example_options_def
      DefaultApduChannelOptions_def Tcp_MakeWrapperLimits_def Tcp_MakeDecoder_def
      wrapper_decoder_example_def wrapper_example_def example_limits_def Let_def)

lemma example_tcp_env:
  "tcp_stream_env wrapper_decoder_example wpdu wpdu_valid (=) lw_in list_alloc example_tcp"
  by (simp add: tcp_stream_env_def incremental_decoder_def wrapper_decoder_example_incremental
      list_stream_delivers list_alloc_ample quiet_sink_def)

lemma example_tcp_sink:
  "tcp_sink wrapper_example written_bytes (in_world example_tcp w)
     (\<lambda>apdu. wpdu (sent_frame apdu)) (\<lambda>apdu. length apdu \<le> 100)"
  by (auto simp: tcp_sink_def list_stream_records quiet_sink_def tcp_frame_def wrapper_example_def
      example_limits_def sent_frame_def)

text \<open>A channel over a stream that refuses reads while it is closed, with a partial frame and a queued one.\<close>

definition gated_tcp ::
  "bool \<times> list_world \<Rightarrow> ((byte list, bool \<times> list_world) WrapperTcpProfileChannel, bool \<times> list_world) sys"
  where
  "gated_tcp w =
     \<lparr>self = \<lparr>tcp_stream = gated_stream,
         tcp_options = DefaultApduChannelOptions \<lparr>kPublicClient = 0x10, kManagementLogicalDevice = 0x01\<rparr>,
         tcp_wrapperLimits = example_limits, tcp_decoder = [0, 1, 9], tcp_readBuffer = replicate 16 0,
         tcp_pendingFrames = [sent_frame [7]]\<rparr>,
      mem = \<lparr>cm_vector = [], cm_data = replicate 4 0, cm_written = 0\<rparr>, world = w\<rparr>"

section \<open>Delivery\<close>

text \<open>
  C1: APDUs sent over one TCP wrapper channel and read by another come out unchanged, one per
  call and in order, however the stream cuts the bytes into reads. Every send and every receive
  returns \<open>Ok\<close>.
\<close>

theorem tcp_end_to_end:
  assumes sender: "tcp_sink cd sent sa encode fits" and "list_all fits apdus"
    and receiver: "tcp_stream_env wd enc valid holds input al (self sb)"
      "tcp_pendingFrames (self sb) = []" "holds (tcp_decoder (self sb)) []"
    and agree: "\<And>a. fits a \<Longrightarrow> valid (frame a) \<and> enc (frame a) = encode a \<and> wb_data (frame a) = a"
  shows "\<exists>ta. send_many (Tcp_SendApdu cd) apdus sa = Some (Ret (map (\<lambda>_. ProfileStatus.Ok) apdus) ta) \<and>
     (sent (world ta) = sent (world sa) @ input (world sb) \<longrightarrow>
        (\<exists>tb. receive_many (Tcp_ReceiveVector cd' wd al) (length apdus) sb =
           Some (Ret (map (\<lambda>a. (ProfileStatus.Ok, a)) apdus) tb)))"
proof -
  from tcp_sink.send_in_order [OF sender assms(2)] obtain ta where
    ta: "send_many (Tcp_SendApdu cd) apdus sa = Some (Ret (map (\<lambda>_. ProfileStatus.Ok) apdus) ta)"
      "sent (world ta) = sent (world sa) @ concat (map encode apdus)" by blast
  have *: "map encode apdus = map enc (map frame apdus)" "list_all valid (map frame apdus)"
      "map wb_data (map frame apdus) = apdus"
    using assms(2) agree by (auto simp: list_all_iff intro: map_idI)
  have "tcp_source wd enc valid holds input al sb apdus"
    if "input (world sb) = concat (map encode apdus)"
    unfolding tcp_source_def using tcp_expects_fresh [OF receiver *(2)] * that by metis
  from tcp_source.receive_in_order [OF this, where cd = cd'] ta show ?thesis by auto
qed

lemma tcp_end_to_end_witness:
  "\<exists>tb. receive_many (Tcp_ReceiveVector wrapper_example wrapper_decoder_example list_alloc) 3
       (in_world example_tcp (empty_world\<lparr>lw_chunk := 2, lw_in :=
          wpdu (sent_frame [0xC0, 1]) @ wpdu (sent_frame []) @ wpdu (sent_frame [0xC4, 7, 9])\<rparr>)) =
     Some (Ret [(ProfileStatus.Ok, [0xC0, 1]), (ProfileStatus.Ok, []),
                (ProfileStatus.Ok, [0xC4, 7, 9])] tb)"
proof -
  let ?apdus = "[[0xC0, 1], [], [0xC4, 7, 9]] :: byte list list"
  let ?sb = "in_world example_tcp (empty_world\<lparr>lw_chunk := 2, lw_in :=
          wpdu (sent_frame [0xC0, 1]) @ wpdu (sent_frame []) @ wpdu (sent_frame [0xC4, 7, 9])\<rparr>)"
  let ?recv = "Tcp_ReceiveVector wrapper_example wrapper_decoder_example list_alloc"
  have "\<exists>ta. send_many (Tcp_SendApdu wrapper_example) ?apdus (in_world example_tcp empty_world) =
        Some (Ret (map (\<lambda>_. ProfileStatus.Ok) ?apdus) ta) \<and>
     (written_bytes (world ta) = written_bytes (world (in_world example_tcp empty_world)) @ lw_in (world ?sb) \<longrightarrow>
        (\<exists>tb. receive_many ?recv (length ?apdus) ?sb =
           Some (Ret (map (\<lambda>a. (ProfileStatus.Ok, a)) ?apdus) tb)))"
    by (rule tcp_end_to_end [OF example_tcp_sink _ , where valid = wpdu_valid and holds = "(=)" and
          enc = wpdu and frame = sent_frame])
       (auto simp: example_tcp_env wpdu_valid_def sent_frame_def)
  moreover have "send_many (Tcp_SendApdu wrapper_example) ?apdus (in_world example_tcp empty_world) =
      Some (Ret (map (\<lambda>_. ProfileStatus.Ok) ?apdus) (in_world example_tcp (empty_world\<lparr>lw_out :=
        [wpdu (sent_frame [0xC0, 1]), wpdu (sent_frame []), wpdu (sent_frame [0xC4, 7, 9])]\<rparr>)))"
    by (simp add: Tcp_SendApdu_def run_simps EmitTrace_def wrapper_example_def Let_def list_stream_def
        in_world_def sent_frame_def example_limits_def empty_world_def)
  ultimately show ?thesis
    by (simp add: written_bytes_def empty_world_def eval_nat_numeral del: receive_many.simps)
qed

text \<open>
  C9: Receiving into the caller's buffer. A buffer that is too small yields
  \<open>OutputBufferTooSmall\<close>, leaves the buffer as it was and keeps the APDU for the next call;
  any other buffer gets exactly the bytes of the next APDU, with its size.
\<close>

theorem tcp_receive_into_buffer:
  assumes "tcp_expects wd enc valid holds input al s (f # fs)"
    and "IsValidMutableBuffer out" and "buffer_backed out (mem s)"
  shows "\<exists>st t. Tcp_ReceiveBuffer cd wd al out s = Some (Ret st t) \<and>
     (if mb_size out < length (wb_data f)
      then st = ProfileStatus.OutputBufferTooSmall \<and> cm_written (mem t) = 0 \<and>
        cm_data (mem t) = cm_data (mem s) \<and> tcp_expects wd enc valid holds input al t (f # fs)
      else st = ProfileStatus.Ok \<and> cm_written (mem t) = length (wb_data f) \<and>
        take (cm_written (mem t)) (cm_data (mem t)) = wb_data f \<and>
        tcp_expects wd enc valid holds input al t fs)"
  by (rule wp_totalE [OF wp_Tcp_ReceiveBuffer_stream [OF assms]]) blast

lemma tcp_receive_into_buffer_witness:
  "\<exists>st t. Tcp_ReceiveBuffer wrapper_example wrapper_decoder_example list_alloc
       \<lparr>mb_data = CallerPtr, mb_size = 1, mb_writtenSize = CallerPtr\<rparr>
       (in_world example_tcp (empty_world\<lparr>lw_in := wpdu (sent_frame [0xC0, 1])\<rparr>)) =
       Some (Ret st t) \<and>
     st = ProfileStatus.OutputBufferTooSmall \<and> cm_data (mem t) = replicate 4 0"
proof -
  let ?s = "in_world example_tcp (empty_world\<lparr>lw_in := wpdu (sent_frame [0xC0, 1])\<rparr>)"
  have "tcp_expects wrapper_decoder_example wpdu wpdu_valid (=) lw_in list_alloc ?s
      [sent_frame [0xC0, 1]]"
    by (rule tcp_expects_fresh) (simp_all add: example_tcp_env wpdu_valid_def sent_frame_def empty_world_def)
  from tcp_receive_into_buffer [OF this, where out =
      "\<lparr>mb_data = CallerPtr, mb_size = 1, mb_writtenSize = CallerPtr\<rparr>" and cd = wrapper_example]
  show ?thesis
    by (auto simp: IsValidMutableBuffer_def buffer_backed_def sent_frame_def)
qed

section \<open>The trace\<close>

text \<open>
  C8: Tracing does not change behaviour. With a sink that returns and touches nothing the
  transport or the allocator depends on, sending and receiving return, throw or run forever
  exactly as without a sink, with the same status, the same caller's memory and the same channel
  state afterwards (\<open>traced_as\<close>).
\<close>

theorem tcp_trace_does_not_interfere:
  fixes s :: "(('d, 'w) WrapperTcpProfileChannel, 'w) sys"
  assumes "trace_invisible obs (tcp_stream (self s)) al k"
    and "wrapperTcpTraceSink (tcp_options (self s)) = Some k"
  shows "rel_option (rel_outcome (=) (traced_as obs (tcp_stream (self s)) k))
        (Tcp_SendApdu cd apdu s) (Tcp_SendApdu cd apdu (untraced s)) \<and>
      rel_option (rel_outcome (=) (traced_as obs (tcp_stream (self s)) k))
        (Tcp_ReceiveVector cd wd al s) (Tcp_ReceiveVector cd wd al (untraced s)) \<and>
      rel_option (rel_outcome (=) (traced_as obs (tcp_stream (self s)) k))
        (Tcp_ReceiveBuffer cd wd al out s) (Tcp_ReceiveBuffer cd wd al out (untraced s))"
  by (intro conjI simD [OF sim_Tcp_SendApdu [OF assms(1)]] simD [OF sim_Tcp_ReceiveVector [OF assms(1)]]
      simD [OF sim_Tcp_ReceiveBuffer [OF assms(1)]] traced_as_untraced [OF assms(2)])

definition example_sink :: "list_world IWrapperTcpTraceSink" where
  "example_sink = \<lparr>OnWrapperTcpTrace = (\<lambda>event w. Ret () (w\<lparr>lw_grams := [] # lw_grams w\<rparr>))\<rparr>"

lemma tcp_trace_does_not_interfere_witness:
  "rel_option (rel_outcome (=) (traced_as (\<lambda>w. (lw_in w, lw_chunk w, lw_out w)) list_stream example_sink))
     (Tcp_ReceiveVector wrapper_example wrapper_decoder_example list_alloc
        (in_world (example_tcp\<lparr>tcp_options := example_options\<lparr>wrapperTcpTraceSink := Some example_sink\<rparr>\<rparr>)
           empty_world))
     (Tcp_ReceiveVector wrapper_example wrapper_decoder_example list_alloc
        (untraced (in_world
           (example_tcp\<lparr>tcp_options := example_options\<lparr>wrapperTcpTraceSink := Some example_sink\<rparr>\<rparr>)
           empty_world)))"
proof -
  have "trace_invisible (\<lambda>w. (lw_in w, lw_chunk w, lw_out w)) list_stream list_alloc example_sink"
    by (auto simp: trace_invisible_def example_sink_def list_stream_def list_alloc_def Let_def)
  then have inv: "trace_invisible (\<lambda>w. (lw_in w, lw_chunk w, lw_out w)) (tcp_stream (self (in_world
      (example_tcp\<lparr>tcp_options := example_options\<lparr>wrapperTcpTraceSink := Some example_sink\<rparr>\<rparr>)
      empty_world))) list_alloc example_sink"
    by simp
  from tcp_trace_does_not_interfere [OF inv, where cd = wrapper_example and wd = wrapper_decoder_example]
  show ?thesis by simp
qed

section \<open>Errors\<close>

text \<open>
  C27: A decode error. When the decoder refuses the bytes of a read, the receive returns the mapped
  status with an empty vector, the decoder is reset, and frames queued earlier are not lost
  (there are none, and none are added).
\<close>

theorem tcp_decode_error_resets:
  fixes s :: "(('d, 'w) WrapperTcpProfileChannel, 'w) sys"
  assumes "tcp_pendingFrames (self s) = []" and "tcp_readBuffer (self s) \<noteq> []"
    and "bs_ReadSome (tcp_stream (self s)) (tcp_readBuffer (self s)) (world s) =
           Ret (TransportStatus.Ok, buffer, n) w" and "0 < n" and "n \<le> length buffer"
    and "wd_Push wd (take n buffer) (tcp_decoder (self s)) = (st, d, frames)"
    and "MapWrapperStatus st \<notin> {ProfileStatus.Ok, ProfileStatus.NeedMoreData}"
    and "wrapperTcpTraceSink (tcp_options (self s)) = None"
  shows "Tcp_ReceiveVector cd wd al s = Some (Ret (MapWrapperStatus st)
     (s\<lparr>mem := (mem s)\<lparr>cm_vector := []\<rparr>, world := w,
        self := (self s)\<lparr>tcp_readBuffer := buffer, tcp_decoder := wd_Reset wd d\<rparr>\<rparr>))"
proof -
  have "Tcp_ReceiveStep cd wd al (s\<lparr>mem := m\<rparr>) = Some (Ret (Inr (MapWrapperStatus st))
     (s\<lparr>mem := m, world := w,
        self := (self s)\<lparr>tcp_readBuffer := buffer, tcp_decoder := wd_Reset wd d\<rparr>\<rparr>))" for m
    using assms by (simp add: Tcp_ReceiveStep_def Tcp_PushBytes_def run_simps Let_def EmitTrace_def)
  with assms show ?thesis
    by (simp add: Tcp_ReceiveVector_def run_next_do run_bnd run_set_mem run_ok_or_return fill_empty
        Tcp_no_pending_def Tcp_ReceiveNextFrame_def run_with_this loop_unfold run_ret)
qed

lemma tcp_decode_error_resets_witness:
  "\<exists>t. Tcp_ReceiveVector wrapper_example wrapper_decoder_example list_alloc
       (in_world example_tcp (empty_world\<lparr>lw_in := [0xFF]\<rparr>)) =
     Some (Ret ProfileStatus.InvalidFrame t) \<and> tcp_decoder (self t) = []"
  by (subst tcp_decode_error_resets [where buffer = "0xFF # replicate 15 0" and n = 1 and st = WrapperStatus.InvalidVersion
        and w = "empty_world" and d = "[0xFF]" and frames = "[]"])
     (simp_all add: list_stream_def empty_world_def wrapper_decoder_example_def eval_nat_numeral)

text \<open>
  C28: Memory exhaustion while queueing. When the queue of decoded frames cannot be extended, the
  receive returns \<open>InternalError\<close>, not an exception, and the channel is left in its clean
  receive state: decoder reset, queue empty, the caller's vector empty.
\<close>

theorem tcp_queue_exhaustion:
  fixes s :: "(('d, 'w) WrapperTcpProfileChannel, 'w) sys"
  assumes "tcp_pendingFrames (self s) = []" and "tcp_readBuffer (self s) \<noteq> []"
    and "bs_ReadSome (tcp_stream (self s)) (tcp_readBuffer (self s)) (world s) =
           Ret (TransportStatus.Ok, buffer, n) w" and "0 < n" and "n \<le> length buffer"
    and "wd_Push wd (take n buffer) (tcp_decoder (self s)) = (WrapperStatus.Ok, d, frames)"
    and "wrapperTcpTraceSink (tcp_options (self s)) = None"
    and "al (length frames) w = (False, w')"
  shows "Tcp_ReceiveVector cd wd al s = Some (Ret ProfileStatus.InternalError
     (s\<lparr>mem := (mem s)\<lparr>cm_vector := []\<rparr>, world := w',
        self := (self s)\<lparr>tcp_readBuffer := buffer, tcp_decoder := wd_Reset wd d,
                        tcp_pendingFrames := []\<rparr>\<rparr>))"
proof -
  have no_trace: "TraceDecodedFrames cd None frames t = Some (Ret () t)"
    for frames and t :: "(('d, 'w) WrapperTcpProfileChannel, 'w) sys"
    by (induction frames) (simp_all add: run_simps EmitTrace_def)
  have "Tcp_ReceiveStep cd wd al (s\<lparr>mem := m\<rparr>) = Some (Ret (Inr ProfileStatus.InternalError)
     (s\<lparr>mem := m, world := w', self := (self s)\<lparr>tcp_readBuffer := buffer,
        tcp_decoder := wd_Reset wd d, tcp_pendingFrames := []\<rparr>\<rparr>))" for m
    using assms no_trace
    by (simp add: Tcp_ReceiveStep_def Tcp_PushBytes_def Tcp_QueueFrames_def run_simps Let_def)
  with assms show ?thesis
    by (simp add: Tcp_ReceiveVector_def run_next_do run_bnd run_set_mem run_ok_or_return fill_empty
        Tcp_no_pending_def Tcp_ReceiveNextFrame_def run_with_this loop_unfold run_ret)
qed

lemma tcp_queue_exhaustion_witness:
  "\<exists>t. Tcp_ReceiveVector wrapper_example
        (wrapper_decoder_example\<lparr>wd_Push := (\<lambda>bytes d. (WrapperStatus.Ok, [], [sent_frame bytes]))\<rparr>)
        (\<lambda>_ w. (False, w)) (in_world example_tcp (empty_world\<lparr>lw_in := [7]\<rparr>)) =
     Some (Ret ProfileStatus.InternalError t) \<and> cm_vector (mem t) = []"
  by (subst tcp_queue_exhaustion [where buffer = "7 # replicate 15 0" and n = 1 and frames = "[sent_frame [7]]"
        and w = "empty_world" and d = "[]" and w' = empty_world])
     (simp_all add: list_stream_def empty_world_def wrapper_decoder_example_def eval_nat_numeral)

section \<open>Memory safety and termination\<close>

text \<open>
  C15: Memory safety. If the transport keeps its contract (\<open>bytesRead\<close> never exceeds the buffer),
  the sink is defined, and the caller's view and buffer are as large as they say, no send or receive
  reaches undefined behaviour: no null dereference, no access beyond a buffer, no \<open>front()\<close> of an
  empty queue.
\<close>

theorem tcp_memory_safe:
  assumes "honest_stream (tcp_stream (self s))"
    and "safe_sink (wrapperTcpTraceSink (tcp_options (self s)))" and "view_backed apdu"
    and "buffer_backed out (mem s)"
  shows "Tcp_SendApdu cd apdu s \<noteq> Some Fault \<and> Tcp_ReceiveVector cd wd al s \<noteq> Some Fault \<and>
     Tcp_ReceiveBuffer cd wd al out s \<noteq> Some Fault"
  using assms
  by (intro conjI wp_no_fault [OF wp_Tcp_SendApdu_safe] wp_no_fault [OF wp_Tcp_ReceiveVector_safe]
      wp_no_fault [OF wp_Tcp_ReceiveBuffer_safe]) (simp_all add: tcp_env_safe_def)

lemma tcp_memory_safe_witness:
  "Tcp_ReceiveBuffer wrapper_example wrapper_decoder_example list_alloc
     \<lparr>mb_data = CallerPtr, mb_size = 4, mb_writtenSize = CallerPtr\<rparr>
     (in_world example_tcp (empty_world\<lparr>lw_in := [0xFF, 1, 2]\<rparr>)) \<noteq> Some Fault"
  using tcp_memory_safe [of "in_world example_tcp (empty_world\<lparr>lw_in := [0xFF, 1, 2]\<rparr>)" "view_of [1]"
      "\<lparr>mb_data = CallerPtr, mb_size = 4, mb_writtenSize = CallerPtr\<rparr>"]
  by (simp add: list_stream_honest safe_sink_def buffer_backed_def)

text \<open>
  C16: Termination. With finite input, every send and every receive ends: the read loop of
  \<open>ReceiveNextFrame\<close> and the loop that waits for a frame both consume input.
\<close>

theorem tcp_calls_end:
  assumes "tcp_env_finite rank al (self s)"
  shows "Tcp_SendApdu cd apdu s \<noteq> None \<and> Tcp_ReceiveVector cd wd al s \<noteq> None \<and>
     Tcp_ReceiveBuffer cd wd al out s \<noteq> None"
  by (intro conjI wp_returns [OF wp_Tcp_SendApdu_ends] wp_returns [OF wp_Tcp_ReceiveVector_total [OF assms]]
      wp_returns [OF wp_Tcp_ReceiveBuffer_total [OF assms]])

lemma tcp_calls_end_witness:
  "Tcp_ReceiveVector wrapper_example wrapper_decoder_example list_alloc
     (in_world example_tcp (empty_world\<lparr>lw_in := [0, 1, 0, 0x10]\<rparr>)) \<noteq> None"
  using tcp_calls_end [of "\<lambda>w. length (lw_in w)" list_alloc
      "in_world example_tcp (empty_world\<lparr>lw_in := [0, 1, 0, 0x10]\<rparr>)"]
  by (simp add: tcp_env_finite_def list_stream_finite list_alloc_def)

text \<open>
  C25: A closed and reopened channel starts afresh. Whatever partial frame and queued frames it held
  before \<open>Close\<close>, and whatever happens to the world before \<open>Open\<close>: after \<open>Open\<close> has returned \<open>Ok\<close>
  it delivers exactly the frames that the reopened stream holds, from the first byte on. The
  stream may refuse reads while it is closed.
\<close>

theorem tcp_reopened_afresh:
  assumes closed: "Tcp_Close wd s = Some (Ret st t)"
    and opened: "Tcp_Open (t\<lparr>world := w\<rparr>) = Some (Ret ProfileStatus.Ok u)"
    and "tcp_stream_env wd enc valid holds input al (self s)"
    and "\<And>d. holds (wd_Reset wd d) []" and "list_all valid fs"
    and "input (world u) = concat (map enc fs)"
  shows "\<exists>v. receive_many (Tcp_ReceiveVector cd wd al) (length fs) u =
     Some (Ret (map (\<lambda>f. (ProfileStatus.Ok, wb_data f)) fs) v)"
proof -
  from closed have t: "self t = (self s)
      \<lparr>tcp_decoder := wd_Reset wd (tcp_decoder (self s)), tcp_pendingFrames := []\<rparr>"
    by (auto simp: Tcp_Close_def run_simps split: outcome.splits)
  from opened have u: "self u = self t" by (auto simp: Tcp_Open_def run_simps split: outcome.splits)
  have "tcp_stream_env wd enc valid holds input al (self u)"
    using assms(3) by (simp add: u t tcp_stream_env_def)
  from tcp_expects_fresh [OF this _ _ assms(5,6)] assms(4)
  have "tcp_source wd enc valid holds input al u (map wb_data fs)"
    unfolding tcp_source_def by (auto simp: u t)
  from tcp_source.receive_in_order [OF this, where cd = cd] show ?thesis
    by (auto simp: comp_def)
qed

lemma tcp_reopened_afresh_witness:
  "\<exists>t u v. Tcp_Close wrapper_decoder_example (gated_tcp (True, empty_world)) = Some (Ret ProfileStatus.Ok t) \<and>
     Tcp_Open (t\<lparr>world := (False, empty_world\<lparr>lw_in := wpdu (sent_frame [0xC0, 1])\<rparr>)\<rparr>) =
       Some (Ret ProfileStatus.Ok u) \<and>
     receive_many (Tcp_ReceiveVector wrapper_example wrapper_decoder_example (\<lambda>_ w. (True, w))) 1 u =
       Some (Ret [(ProfileStatus.Ok, [0xC0, 1])] v)"
proof -
  let ?w = "empty_world\<lparr>lw_in := wpdu (sent_frame [0xC0, 1])\<rparr>"
  obtain t where t: "Tcp_Close wrapper_decoder_example (gated_tcp (True, empty_world)) =
      Some (Ret ProfileStatus.Ok t)" "tcp_stream (self t) = gated_stream"
    by (simp add: Tcp_Close_def run_simps gated_stream_def gated_tcp_def)
  obtain u where u: "Tcp_Open (t\<lparr>world := (False, ?w)\<rparr>) = Some (Ret ProfileStatus.Ok u)" "world u = (True, ?w)"
    using t(2) by (simp add: Tcp_Open_def run_simps) (simp add: gated_stream_def)
  have "tcp_stream_env wrapper_decoder_example wpdu wpdu_valid (=) gated_input (\<lambda>_ w. (True, w))
      (self (gated_tcp (True, empty_world)))"
    by (simp add: gated_tcp_def tcp_stream_env_def incremental_decoder_def wrapper_decoder_example_incremental
        gated_stream_delivers ample_def quiet_sink_def DefaultApduChannelOptions_def)
  from tcp_reopened_afresh [OF t(1) u(1) this, where fs = "[sent_frame [0xC0, 1]]" and cd = wrapper_example]
  show ?thesis using t(1) u
    by (auto simp: wrapper_decoder_example_def gated_input_def wpdu_valid_def sent_frame_def
        simp del: receive_many.simps)
qed

end
