(* ===== verification/Wrapper_Udp.thy ===== *)
theory Wrapper_Udp
  imports Apdu_Channel
begin

text \<open>
  \<open>src/profile/wrapper_udp_profile_channel.cpp\<close>: one APDU per datagram. The channel keeps no
  APDU between calls; its only mutable member is the read buffer. The wrapper codec \<open>cd\<close>
  and the allocator \<open>al\<close> are parameters. \<open>datagram_\<close> is a reference, as \<open>stream_\<close> of the TCP channel.
\<close>

section \<open>The channel and its operations\<close>

record 'w WrapperUdpProfileChannel =
  udp_datagram :: "'w IDatagramTransport"
  udp_options :: "'w ApduChannelOptions"
  udp_wrapperLimits :: WrapperCodecLimits
  udp_readBuffer :: "byte list"

type_synonym ('w, 'v) udp_prog = "('w WrapperUdpProfileChannel, 'w, 'v) mprog"

definition Udp_MakeWrapperLimits ::
  "wrapper_codec \<Rightarrow> 'w ApduChannelOptions \<Rightarrow> WrapperCodecLimits" where
  "Udp_MakeWrapperLimits cd opts =
     (let limits = DefaultWrapperCodecLimits cd in
      if maximumApduSize opts \<noteq> 0 \<and> maximumApduSize opts < maximumDataSize limits
      then limits\<lparr>maximumDataSize := maximumApduSize opts,
                  maximumFrameSize := size_add (kWrapperHeaderSize cd) (maximumApduSize opts)\<rparr>
      else limits)"

definition WrapperUdpProfileChannel ::
  "wrapper_codec \<Rightarrow> 'w IDatagramTransport \<Rightarrow> 'w ApduChannelOptions \<Rightarrow>
   'w WrapperUdpProfileChannel" where
  "WrapperUdpProfileChannel cd datagram opts =
     \<lparr>udp_datagram = datagram,
      udp_options = opts,
      udp_wrapperLimits = Udp_MakeWrapperLimits cd opts,
      udp_readBuffer =
        replicate (if scratchBufferSize opts = 0 then 2048 else scratchBufferSize opts) 0\<rparr>"

definition Udp_Open :: "('w, ProfileStatus) udp_prog" where
  "Udp_Open = with_this (\<lambda>c. ext_transport (dg_Open (udp_datagram c)))"

definition Udp_Close :: "('w, ProfileStatus) udp_prog" where
  "Udp_Close = with_this (\<lambda>c. ext_transport (dg_Close (udp_datagram c)))"

definition Udp_IsOpen :: "('w, bool) udp_prog" where
  "Udp_IsOpen = with_this (\<lambda>c. ext (dg_IsOpen (udp_datagram c)))"

definition Udp_SendApdu ::
  "wrapper_codec \<Rightarrow> ProfileByteView \<Rightarrow> ('w, ProfileStatus) udp_prog" where
  "Udp_SendApdu cd apdu =
     with_this (\<lambda>c.
       if \<not> IsValidByteView apdu then ret ProfileStatus.InvalidArgument
       else if maximumApduSize (udp_options c) \<noteq> 0 \<and>
               bv_size apdu > maximumApduSize (udp_options c)
       then ret ProfileStatus.PayloadTooLarge
       else if \<not> view_backed apdu then fault
       else
         let frame = \<lparr>wf_sourcePort = localWrapperPort (udp_options c),
                      wf_destinationPort = remoteWrapperPort (udp_options c),
                      wf_data = bv_data apdu, wf_dataSize = bv_size apdu\<rparr>;
             (encoded, wpdu) = EncodeWpdu cd frame (udp_wrapperLimits c);
             encodeStatus = MapWrapperStatus encoded
         in if encodeStatus \<noteq> ProfileStatus.Ok then ret encodeStatus
            else ext_transport (dg_Send (udp_datagram c) wpdu))"

text \<open>
  \<open>ReceiveFrame\<close> has the frame as an out-parameter that its callers read only on \<open>Ok\<close>:
  the result is the failure status or the frame.
\<close>

definition Udp_ReceiveFrame ::
  "wrapper_codec \<Rightarrow> ('w, ProfileStatus + WrapperFrameBuffer) udp_prog" where
  "Udp_ReceiveFrame cd =
     with_this (\<lambda>c.
       if udp_readBuffer c = [] then ret (Inl ProfileStatus.InvalidArgument)
       else bnd (ext (dg_Receive (udp_datagram c) (udp_readBuffer c)))
         (\<lambda>(st, buffer, bytesRead).
           next_do (set_this (\<lambda>c. c\<lparr>udp_readBuffer := buffer\<rparr>))
             (if MapTransportStatus st \<noteq> ProfileStatus.Ok then ret (Inl (MapTransportStatus st))
              else if bytesRead = 0 then ret (Inl ProfileStatus.NeedMoreData)
              else if length buffer < bytesRead then fault
              else
                let (decoded, frame) = DecodeWpdu cd (take bytesRead buffer) (udp_wrapperLimits c);
                    decodeStatus = MapWrapperStatus decoded
                in if decodeStatus = ProfileStatus.NeedMoreData
                   then ret (Inl ProfileStatus.InvalidLength)
                   else if decodeStatus \<noteq> ProfileStatus.Ok then ret (Inl decodeStatus)
                   else ret (Inr frame))))"

definition Udp_CopyFrameData ::
  "WrapperFrameBuffer \<Rightarrow> ProfileMutableBuffer \<Rightarrow> ('w, ProfileStatus) udp_prog" where
  "Udp_CopyFrameData frame output =
     (if mb_size output < length (wb_data frame) then ret ProfileStatus.OutputBufferTooSmall
      else
        next_do (if wb_data frame \<noteq> [] then copy_out (wb_data frame) output else ret ())
          (next_do (store_written output (length (wb_data frame)))
             (ret ProfileStatus.Ok)))"

definition Udp_ReceiveVector ::
  "wrapper_codec \<Rightarrow> 'w allocator \<Rightarrow> ('w, ProfileStatus) udp_prog" where
  "Udp_ReceiveVector cd al =
     next_do (set_mem (\<lambda>m. m\<lparr>cm_vector := []\<rparr>))
       (bnd (Udp_ReceiveFrame cd) (\<lambda>r. case r of
          Inl status \<Rightarrow> ret status
        | Inr frame \<Rightarrow>
            try_catch
              (next_do (allocate al (length (wb_data frame)))
                 (next_do (set_mem (\<lambda>m. m\<lparr>cm_vector := wb_data frame\<rparr>))
                    (ret ProfileStatus.Ok)))
              (next_do (set_mem (\<lambda>m. m\<lparr>cm_vector := []\<rparr>))
                 (ret ProfileStatus.InternalError))))"

definition Udp_ReceiveBuffer ::
  "wrapper_codec \<Rightarrow> ProfileMutableBuffer \<Rightarrow> ('w, ProfileStatus) udp_prog" where
  "Udp_ReceiveBuffer cd output =
     (if \<not> IsValidMutableBuffer output then ret ProfileStatus.InvalidArgument
      else next_do (store_written output 0)
        (bnd (Udp_ReceiveFrame cd) (\<lambda>r. case r of
           Inl status \<Rightarrow> ret status
         | Inr frame \<Rightarrow> Udp_CopyFrameData frame output)))"

section \<open>The limits passed to the codec\<close>

lemma Udp_limits_bound:
  "maximumApduSize opts \<noteq> 0 \<Longrightarrow>
     maximumDataSize (Udp_MakeWrapperLimits cd opts) \<le> maximumApduSize opts"
  by (simp add: Udp_MakeWrapperLimits_def Let_def)

section \<open>The interface laws\<close>

lemma wp_Udp_ReceiveFrame:
  "wp d f (Udp_ReceiveFrame cd) Q E s =
     (if udp_readBuffer (self s) = [] then Q (Inl ProfileStatus.InvalidArgument) s
      else case dg_Receive (udp_datagram (self s)) (udp_readBuffer (self s)) (world s) of
        Throw w \<Rightarrow> E (s\<lparr>world := w\<rparr>)
      | Fault \<Rightarrow> f
      | Ret r w \<Rightarrow> (case r of (st, buffer, n) \<Rightarrow>
          let t = s\<lparr>world := w, self := (self s)\<lparr>udp_readBuffer := buffer\<rparr>\<rparr>;
              decoded = DecodeWpdu cd (take n buffer) (udp_wrapperLimits (self s));
              decodeStatus = MapWrapperStatus (fst decoded)
          in if st \<noteq> TransportStatus.Ok then Q (Inl (MapTransportStatus st)) t
             else if n = 0 then Q (Inl ProfileStatus.NeedMoreData) t
             else if length buffer < n then f
             else if decodeStatus = ProfileStatus.NeedMoreData
             then Q (Inl ProfileStatus.InvalidLength) t
             else if decodeStatus \<noteq> ProfileStatus.Ok then Q (Inl decodeStatus) t
             else Q (Inr (snd decoded)) t))"
proof (cases "dg_Receive (udp_datagram (self s)) (udp_readBuffer (self s)) (world s)")
  case (Ret r w)
  obtain st buffer n where r: "r = (st, buffer, n)" by (cases r)
  obtain decoded frame
    where dec: "DecodeWpdu cd (take n buffer) (udp_wrapperLimits (self s)) = (decoded, frame)"
    by fastforce
  show ?thesis
    by (simp add: Udp_ReceiveFrame_def wp_simps Ret r dec Let_def transport_map.map_ok_iff)
qed (simp_all add: Udp_ReceiveFrame_def wp_simps)

text \<open>\<open>ReceiveFrame\<close> reports only failures as statuses, and does not touch the caller.\<close>

lemma wp_Udp_ReceiveFrame_mem:
  "wp True True (Udp_ReceiveFrame cd)
     (\<lambda>r t. mem t = mem s \<and> r \<noteq> Inl ProfileStatus.Ok) (\<lambda>t. mem t = mem s) s"
  by (auto simp: wp_Udp_ReceiveFrame Let_def transport_map.map_ok_iff
      split: outcome.splits prod.splits)

interpretation udp: apdu_channel
  "Udp_SendApdu cd" "Udp_ReceiveVector cd al" "Udp_ReceiveBuffer cd"
  "\<lambda>c. maximumApduSize (udp_options c)"
  for cd :: wrapper_codec and al :: "'w allocator"
proof
  fix v :: ProfileByteView and b :: ProfileMutableBuffer
    and s :: "('w WrapperUdpProfileChannel, 'w) sys"
  show "\<not> IsValidByteView v \<Longrightarrow>
      Udp_SendApdu cd v s = Some (Ret ProfileStatus.InvalidArgument s)"
    by (simp add: Udp_SendApdu_def run_simps)
  show "IsValidByteView v \<Longrightarrow> maximumApduSize (udp_options (self s)) \<noteq> 0 \<Longrightarrow>
      maximumApduSize (udp_options (self s)) < bv_size v \<Longrightarrow>
      Udp_SendApdu cd v s = Some (Ret ProfileStatus.PayloadTooLarge s)"
    by (simp add: Udp_SendApdu_def run_simps)
  show "wp True True (Udp_SendApdu cd v) (\<lambda>_ t. mem t = mem s) (\<lambda>t. mem t = mem s) s"
    by (simp add: Udp_SendApdu_def wp_simps Let_def split: outcome.splits prod.splits)
  show "wp True True (Udp_ReceiveVector cd al) (\<lambda>st t. vector_result (mem s) st (mem t))
         (\<lambda>t. vector_result (mem s) ProfileStatus.InternalError (mem t)) s"
    unfolding Udp_ReceiveVector_def wp_next_do wp_set_mem wp_bnd
    by (rule wp_conseq [OF wp_Udp_ReceiveFrame_mem])
       (auto simp: wp_simps vector_result_def split: sum.splits prod.splits)
  show "\<not> IsValidMutableBuffer b \<Longrightarrow>
      Udp_ReceiveBuffer cd b s = Some (Ret ProfileStatus.InvalidArgument s)"
    by (simp add: Udp_ReceiveBuffer_def run_simps)
  assume valid: "IsValidMutableBuffer b"
  then have written: "mb_writtenSize b \<noteq> NullPtr"
    by (auto simp: IsValidMutableBuffer_def)
  show "wp True True (Udp_ReceiveBuffer cd b) (\<lambda>st t. buffer_result b (mem s) st (mem t))
         (\<lambda>t. buffer_result b (mem s) ProfileStatus.InternalError (mem t)) s"
    using valid written
    unfolding Udp_ReceiveBuffer_def wp_if wp_next_do wp_store_written wp_bnd
    by (auto intro!: wp_conseq [OF wp_Udp_ReceiveFrame_mem]
        simp: wp_simps Udp_CopyFrameData_def buffer_result_def split: sum.splits)
qed

section \<open>Memory safety and return\<close>

text \<open>
  Over a transport that keeps its contract, every call returns, or the transport has thrown: the
  failures of the allocator become statuses.
\<close>

definition quiet_datagram :: "'w IDatagramTransport \<Rightarrow> bool" where
  "quiet_datagram dg \<longleftrightarrow>
     (\<forall>bytes w w'. dg_Send dg bytes w \<noteq> Throw w') \<and> (\<forall>buf w w'. dg_Receive dg buf w \<noteq> Throw w')"

abbreviation udp_returns :: "('w, 'v) udp_prog \<Rightarrow> ('w WrapperUdpProfileChannel, 'w) sys \<Rightarrow> bool" where
  "udp_returns m s \<equiv> wp False False m (\<lambda>_ _. True) (\<lambda>_. \<not> quiet_datagram (udp_datagram (self s))) s"

lemma Udp_SendApdu_returns:
  assumes "honest_datagram (udp_datagram (self s))" and "view_backed apdu"
  shows "udp_returns (Udp_SendApdu cd apdu) s"
  using assms
  by (auto simp: Udp_SendApdu_def wp_simps Let_def honest_datagram_def quiet_datagram_def
      split: outcome.splits prod.splits)

lemma wp_Udp_ReceiveFrame_returns:
  assumes "honest_datagram (udp_datagram (self s))"
  shows "wp False False (Udp_ReceiveFrame cd) (\<lambda>_ t. mem t = mem s)
     (\<lambda>_. \<not> quiet_datagram (udp_datagram (self s))) s"
proof -
  from assms have "case dg_Receive (udp_datagram (self s)) (udp_readBuffer (self s)) (world s) of
        Ret r _ \<Rightarrow> (case r of (st, buf', n) \<Rightarrow> length buf' = length (udp_readBuffer (self s)) \<and>
          n \<le> length (udp_readBuffer (self s)))
      | Throw _ \<Rightarrow> True | Fault \<Rightarrow> False"
    by (simp add: honest_datagram_def)
  then show ?thesis
    by (auto simp: wp_Udp_ReceiveFrame Let_def quiet_datagram_def split: outcome.splits)
qed

lemma Udp_ReceiveVector_returns:
  assumes "honest_datagram (udp_datagram (self s))"
  shows "udp_returns (Udp_ReceiveVector cd al) s"
  unfolding Udp_ReceiveVector_def wp_next_do wp_set_mem wp_bnd
  by (rule wp_conseq [OF wp_Udp_ReceiveFrame_returns])
     (use assms in \<open>auto simp: wp_simps split: sum.splits prod.splits\<close>)

lemma Udp_ReceiveBuffer_returns:
  assumes "honest_datagram (udp_datagram (self s))" and "buffer_backed out (mem s)"
  shows "udp_returns (Udp_ReceiveBuffer cd out) s"
  using assms
  by (auto simp: Udp_ReceiveBuffer_def wp_simps Udp_CopyFrameData_def buffer_backed_def
      IsValidMutableBuffer_def split: sum.splits if_splits intro!: wp_conseq [OF wp_Udp_ReceiveFrame_returns])

end
