(* ===== verification/Wrapper_Udp_Properties.thy ===== *)
theory Wrapper_Udp_Properties
  imports Wrapper_Udp Example_Environment
begin

text \<open>
  The UDP wrapper channel as a queue of APDUs, what a truncated datagram does, memory safety
  and return of every call; each property with an application to a concrete channel.
\<close>

section \<open>Datagrams on their way\<close>

text \<open>
  \<open>grams w\<close> are the datagrams that will arrive; the transport hands out one per call when it
  fits the buffer. \<open>sent w\<close> are the datagrams sent.
\<close>

definition delivers_datagrams :: "('w \<Rightarrow> byte list list) \<Rightarrow> 'w IDatagramTransport \<Rightarrow> bool" where
  "delivers_datagrams grams dg \<longleftrightarrow>
     (\<forall>buf w g gs. grams w = g # gs \<longrightarrow> length g \<le> length buf \<longrightarrow>
        (\<exists>w'. dg_Receive dg buf w =
            Ret (TransportStatus.Ok, g @ drop (length g) buf, length g) w' \<and> grams w' = gs))"

definition records_datagrams :: "('w \<Rightarrow> byte list list) \<Rightarrow> 'w IDatagramTransport \<Rightarrow> bool" where
  "records_datagrams sent dg \<longleftrightarrow>
     (\<forall>bytes w. \<exists>w'. dg_Send dg bytes w = Ret TransportStatus.Ok w' \<and> sent w' = sent w @ [bytes])"

text \<open>A datagram that carries \<open>apdu\<close>, under the limits and the read buffer of the channel.\<close>

definition carries :: "wrapper_codec \<Rightarrow> WrapperCodecLimits \<Rightarrow> nat \<Rightarrow> byte list \<Rightarrow> byte list \<Rightarrow> bool" where
  "carries cd limits room g apdu \<longleftrightarrow>
     g \<noteq> [] \<and> length g \<le> room \<and>
     (\<exists>frame. DecodeWpdu cd g limits = (WrapperStatus.Ok, frame) \<and> wb_data frame = apdu)"

definition udp_source ::
  "wrapper_codec \<Rightarrow> ('w \<Rightarrow> byte list list) \<Rightarrow> 'w allocator \<Rightarrow>
   ('w WrapperUdpProfileChannel, 'w) sys \<Rightarrow> byte list list \<Rightarrow> bool" where
  "udp_source cd grams al s apdus \<longleftrightarrow>
     delivers_datagrams grams (udp_datagram (self s)) \<and> ample grams al \<and>
     list_all2 (carries cd (udp_wrapperLimits (self s)) (length (udp_readBuffer (self s))))
       (grams (world s)) apdus"

lemma wp_Udp_ReceiveVector_source:
  assumes "udp_source cd grams al s (apdu # apdus)"
  shows "wp False False (Udp_ReceiveVector cd al)
     (\<lambda>st t. st = ProfileStatus.Ok \<and> cm_vector (mem t) = apdu \<and> udp_source cd grams al t apdus)
     (\<lambda>_. False) s"
proof -
  let ?c = "self s"
  from assms have del: "delivers_datagrams grams (udp_datagram ?c)" and am: "ample grams al"
    unfolding udp_source_def by simp_all
  from assms obtain g gs where g: "grams (world s) = g # gs"
      "carries cd (udp_wrapperLimits ?c) (length (udp_readBuffer ?c)) g apdu"
      "list_all2 (carries cd (udp_wrapperLimits ?c) (length (udp_readBuffer ?c))) gs apdus"
    unfolding udp_source_def by (auto simp: list_all2_Cons2)
  then obtain frame where dec: "DecodeWpdu cd g (udp_wrapperLimits ?c) = (WrapperStatus.Ok, frame)"
      "wb_data frame = apdu" and len: "g \<noteq> []" "length g \<le> length (udp_readBuffer ?c)"
    unfolding carries_def by auto
  from del g(1) len obtain w where recv: "dg_Receive (udp_datagram ?c) (udp_readBuffer ?c) (world s) =
        Ret (TransportStatus.Ok, g @ drop (length g) (udp_readBuffer ?c), length g) w"
      "grams w = gs"
    unfolding delivers_datagrams_def by blast
  from len have "udp_readBuffer ?c \<noteq> []" by auto
  with recv dec len show ?thesis
    unfolding Udp_ReceiveVector_def
    by (auto simp: wp_next_do wp_set_mem wp_bnd wp_Udp_ReceiveFrame Let_def wp_try_catch wp_simps
        ample_case [OF am] ample_obs [OF am] udp_source_def del am g(3))
qed

interpretation udp_source: apdu_source "Udp_ReceiveVector cd al" "udp_source cd grams al"
  for cd :: wrapper_codec and grams :: "'w \<Rightarrow> byte list list" and al :: "'w allocator"
proof
  fix s :: "('w WrapperUdpProfileChannel, 'w) sys" and apdu apdus
  assume "udp_source cd grams al s (apdu # apdus)"
  from wp_totalE [OF wp_Udp_ReceiveVector_source [OF this]] obtain st t where
    "Udp_ReceiveVector cd al s = Some (Ret st t)"
    "st = ProfileStatus.Ok \<and> cm_vector (mem t) = apdu \<and> udp_source cd grams al t apdus" .
  then show "\<exists>t. Udp_ReceiveVector cd al s = Some (Ret ProfileStatus.Ok t) \<and>
      cm_vector (mem t) = apdu \<and> udp_source cd grams al t apdus" by auto
qed

definition udp_sink ::
  "wrapper_codec \<Rightarrow> ('w \<Rightarrow> byte list list) \<Rightarrow> ('w WrapperUdpProfileChannel, 'w) sys \<Rightarrow>
   (byte list \<Rightarrow> byte list list) \<Rightarrow> (byte list \<Rightarrow> bool) \<Rightarrow> bool" where
  "udp_sink cd sent s encode fits \<longleftrightarrow>
     records_datagrams sent (udp_datagram (self s)) \<and>
     (\<forall>apdu. fits apdu \<longrightarrow>
        (maximumApduSize (udp_options (self s)) = 0 \<or>
           length apdu \<le> maximumApduSize (udp_options (self s))) \<and>
        (\<exists>g. encode apdu = [g] \<and>
           EncodeWpdu cd \<lparr>wf_sourcePort = localWrapperPort (udp_options (self s)),
             wf_destinationPort = remoteWrapperPort (udp_options (self s)),
             wf_data = Some apdu, wf_dataSize = length apdu\<rparr> (udp_wrapperLimits (self s)) =
           (WrapperStatus.Ok, g)))"

interpretation udp_sink: apdu_sink "Udp_SendApdu cd" "udp_sink cd sent" sent
  for cd :: wrapper_codec and sent :: "'w \<Rightarrow> byte list list"
proof
  fix s :: "('w WrapperUdpProfileChannel, 'w) sys" and encode fits apdu
  assume s: "udp_sink cd sent s encode fits" and "fits apdu"
  then obtain g where enc: "encode apdu = [g]"
      "EncodeWpdu cd \<lparr>wf_sourcePort = localWrapperPort (udp_options (self s)),
         wf_destinationPort = remoteWrapperPort (udp_options (self s)),
         wf_data = Some apdu, wf_dataSize = length apdu\<rparr> (udp_wrapperLimits (self s)) =
       (WrapperStatus.Ok, g)"
    and size: "maximumApduSize (udp_options (self s)) = 0 \<or>
      \<not> maximumApduSize (udp_options (self s)) < length apdu"
    unfolding udp_sink_def by fastforce
  from s obtain w where "dg_Send (udp_datagram (self s)) g (world s) = Ret TransportStatus.Ok w"
      "sent w = sent (world s) @ [g]"
    unfolding udp_sink_def records_datagrams_def by blast
  with size s show "\<exists>t. Udp_SendApdu cd (view_of apdu) s = Some (Ret ProfileStatus.Ok t) \<and>
      udp_sink cd sent t encode fits \<and> sent (world t) = sent (world s) @ encode apdu"
    by (intro exI [of _ "s\<lparr>world := w\<rparr>"]) (auto simp: Udp_SendApdu_def run_simps enc udp_sink_def)
qed

section \<open>A concrete channel\<close>

definition example_udp :: "list_world WrapperUdpProfileChannel" where
  "example_udp =
     \<lparr>udp_datagram = list_datagram,
      udp_options = DefaultApduChannelOptions \<lparr>kPublicClient = 0x10, kManagementLogicalDevice = 0x01\<rparr>,
      udp_wrapperLimits = example_limits, udp_readBuffer = replicate 16 0\<rparr>"

lemma example_udp_sel [simp]:
  "udp_datagram example_udp = list_datagram" "udp_wrapperLimits example_udp = example_limits"
  "udp_readBuffer example_udp = replicate 16 0"
  "maximumApduSize (udp_options example_udp) = 65535"
  "localWrapperPort (udp_options example_udp) = 0x10"
  "remoteWrapperPort (udp_options example_udp) = 0x01"
  by (simp_all add: example_udp_def DefaultApduChannelOptions_def)

lemma list_datagram_delivers: "delivers_datagrams lw_grams list_datagram"
  by (auto simp: delivers_datagrams_def list_datagram_def)

lemma list_datagram_records: "records_datagrams lw_out list_datagram"
  by (auto simp: records_datagrams_def list_datagram_def)

lemma example_carries:
  assumes "length apdu \<le> 8"
  shows "carries wrapper_example limits 16 (wpdu (sent_frame apdu)) apdu"
proof -
  from assms have valid: "wpdu_valid (sent_frame apdu)" by (simp add: wpdu_valid_def sent_frame_def)
  note d = sized_encodingD [OF wpdu_sized this]
  have "length (wpdu (sent_frame apdu)) = 8 + length apdu"
    by (simp add: wpdu_def be16_def sent_frame_def)
  with d assms show ?thesis
    by (auto simp: carries_def wrapper_example_def sent_frame_def)
qed

lemma example_udp_sink:
  "udp_sink wrapper_example lw_out (in_world example_udp w)
     (\<lambda>apdu. [wpdu (sent_frame apdu)]) (\<lambda>apdu. length apdu \<le> 8)"
  by (auto simp: udp_sink_def list_datagram_records wrapper_example_def example_limits_def
      sent_frame_def)

section \<open>Properties\<close>

text \<open>
  C6: APDUs sent over one UDP wrapper channel, one datagram each, and received by another come
  out unchanged, one per call and in the order of arrival; every call returns \<open>Ok\<close>.
\<close>

theorem udp_end_to_end:
  assumes sender: "udp_sink cd sent sa (\<lambda>a. [datagram a]) fits" and "list_all fits apdus"
    and receiver: "delivers_datagrams grams (udp_datagram (self sb))" "ample grams al"
    and agree: "\<And>a. fits a \<Longrightarrow> carries cd' (udp_wrapperLimits (self sb))
      (length (udp_readBuffer (self sb))) (datagram a) a"
  shows "\<exists>ta. send_many (Udp_SendApdu cd) apdus sa = Some (Ret (map (\<lambda>_. ProfileStatus.Ok) apdus) ta) \<and>
     (sent (world ta) = sent (world sa) @ grams (world sb) \<longrightarrow>
        (\<exists>tb. receive_many (Udp_ReceiveVector cd' al) (length apdus) sb =
           Some (Ret (map (\<lambda>a. (ProfileStatus.Ok, a)) apdus) tb)))"
proof -
  from udp_sink.send_in_order [OF sender assms(2)] obtain ta where
    ta: "send_many (Udp_SendApdu cd) apdus sa = Some (Ret (map (\<lambda>_. ProfileStatus.Ok) apdus) ta)"
      "sent (world ta) = sent (world sa) @ map datagram apdus" by auto
  have "udp_source cd' grams al sb apdus" if "grams (world sb) = map datagram apdus"
    using receiver agree assms(2) that
    by (auto simp: udp_source_def list_all2_map1 list_all2_same list_all_iff)
  from udp_source.receive_in_order [OF this] ta show ?thesis by auto
qed

lemma udp_end_to_end_witness:
  "\<exists>tb. receive_many (Udp_ReceiveVector wrapper_example list_alloc) 2
       (in_world example_udp (empty_world\<lparr>lw_grams :=
          [wpdu (sent_frame [0xC0, 1]), wpdu (sent_frame [0xC4])]\<rparr>)) =
     Some (Ret [(ProfileStatus.Ok, [0xC0, 1]), (ProfileStatus.Ok, [0xC4])] tb)"
proof -
  let ?apdus = "[[0xC0, 1], [0xC4]] :: byte list list"
  let ?sb = "in_world example_udp (empty_world\<lparr>lw_grams :=
          [wpdu (sent_frame [0xC0, 1]), wpdu (sent_frame [0xC4])]\<rparr>)"
  have "\<exists>ta. send_many (Udp_SendApdu wrapper_example) ?apdus (in_world example_udp empty_world) =
        Some (Ret (map (\<lambda>_. ProfileStatus.Ok) ?apdus) ta) \<and>
     (lw_out (world ta) = lw_out (world (in_world example_udp empty_world)) @ lw_grams (world ?sb) \<longrightarrow>
        (\<exists>tb. receive_many (Udp_ReceiveVector wrapper_example list_alloc) (length ?apdus) ?sb =
           Some (Ret (map (\<lambda>a. (ProfileStatus.Ok, a)) ?apdus) tb)))"
    by (rule udp_end_to_end [OF example_udp_sink])
       (simp_all add: list_datagram_delivers list_alloc_ample example_carries)
  moreover have "send_many (Udp_SendApdu wrapper_example) ?apdus (in_world example_udp empty_world) =
      Some (Ret (map (\<lambda>_. ProfileStatus.Ok) ?apdus) (in_world example_udp (empty_world\<lparr>lw_out :=
        [wpdu (sent_frame [0xC0, 1]), wpdu (sent_frame [0xC4])]\<rparr>)))"
    by (simp add: Udp_SendApdu_def run_simps wrapper_example_def Let_def list_datagram_def
        in_world_def sent_frame_def example_limits_def empty_world_def)
  ultimately show ?thesis
    by (simp add: empty_world_def eval_nat_numeral del: receive_many.simps)
qed

text \<open>
  C29: A truncated datagram is a malformed datagram: a receive reports \<open>NeedMoreData\<close> only for
  an empty datagram, since no later datagram can complete this one; a decoder that wants more
  data yields \<open>InvalidLength\<close>.
\<close>

theorem udp_truncated_is_invalid:
  assumes "udp_readBuffer (self s) \<noteq> []"
    and "dg_Receive (udp_datagram (self s)) (udp_readBuffer (self s)) (world s) =
           Ret (TransportStatus.Ok, buffer, n) w" and "n \<le> length buffer"
    and "Udp_ReceiveVector cd al s = Some (Ret st t)"
  shows "(st = ProfileStatus.NeedMoreData \<longleftrightarrow> n = 0) \<and>
     (n \<noteq> 0 \<and> fst (DecodeWpdu cd (take n buffer) (udp_wrapperLimits (self s))) = WrapperStatus.NeedMoreData
        \<longrightarrow> st = ProfileStatus.InvalidLength \<and> cm_vector (mem t) = [])"
proof -
  have "wp True True (Udp_ReceiveVector cd al)
     (\<lambda>st t. (st = ProfileStatus.NeedMoreData \<longleftrightarrow> n = 0) \<and>
     (n \<noteq> 0 \<and> fst (DecodeWpdu cd (take n buffer) (udp_wrapperLimits (self s))) = WrapperStatus.NeedMoreData
        \<longrightarrow> st = ProfileStatus.InvalidLength \<and> cm_vector (mem t) = [])) (\<lambda>_. True) s"
    using assms(1-3)
    by (auto simp: Udp_ReceiveVector_def wp_next_do wp_set_mem wp_bnd wp_Udp_ReceiveFrame Let_def
        wp_simps split: prod.splits)
  from wp_retD [OF this assms(4)] show ?thesis .
qed

lemma udp_truncated_is_invalid_witness:
  "\<exists>t. Udp_ReceiveVector wrapper_example list_alloc
       (in_world example_udp (empty_world\<lparr>lw_grams := [[0, 1, 0]]\<rparr>)) =
     Some (Ret ProfileStatus.InvalidLength t)"
proof -
  let ?s = "in_world example_udp (empty_world\<lparr>lw_grams := [[0, 1, 0]]\<rparr>)"
  have recv: "dg_Receive (udp_datagram (self ?s)) (udp_readBuffer (self ?s)) (world ?s) =
      Ret (TransportStatus.Ok, [0, 1, 0] @ replicate 13 0, 3) empty_world"
    by (simp add: list_datagram_def empty_world_def eval_nat_numeral)
  have dec: "fst (DecodeWpdu wrapper_example (take 3 ([0, 1, 0] @ replicate 13 0))
      (udp_wrapperLimits (self ?s))) = WrapperStatus.NeedMoreData"
    by (simp add: wrapper_example_def)
  have "wp False False (Udp_ReceiveVector wrapper_example list_alloc) (\<lambda>_ _. True) (\<lambda>_. False) ?s"
    using recv dec
    by (simp add: Udp_ReceiveVector_def wp_next_do wp_set_mem wp_bnd wp_Udp_ReceiveFrame Let_def wp_simps
        split: prod.splits)
  then obtain st t where run: "Udp_ReceiveVector wrapper_example list_alloc ?s = Some (Ret st t)"
    by (rule wp_totalE)
  from udp_truncated_is_invalid [OF _ recv _ run] dec run show ?thesis by auto
qed

text \<open>
  C17: Over a transport that keeps its contract, with a view and a buffer as large as stated, no call
  of the UDP channel has undefined behaviour, and exceptions come from the transport only: when it
  does not throw, sending and receiving return a status, whichever allocation fails.
\<close>

theorem udp_safe_and_total:
  assumes "honest_datagram (udp_datagram (self s))" and "view_backed apdu" and "buffer_backed out (mem s)"
  shows "\<forall>call \<in> {Udp_SendApdu cd apdu, Udp_ReceiveVector cd al, Udp_ReceiveBuffer cd out}.
     call s \<noteq> Some Fault \<and>
     (quiet_datagram (udp_datagram (self s)) \<longrightarrow> (\<exists>st t. call s = Some (Ret st t)))"
proof
  fix call
  assume "call \<in> {Udp_SendApdu cd apdu, Udp_ReceiveVector cd al, Udp_ReceiveBuffer cd out}"
  with assms have "udp_returns call s"
    by (auto intro: Udp_SendApdu_returns Udp_ReceiveVector_returns Udp_ReceiveBuffer_returns)
  then show "call s \<noteq> Some Fault \<and>
     (quiet_datagram (udp_datagram (self s)) \<longrightarrow> (\<exists>st t. call s = Some (Ret st t)))"
    by (auto simp: wp_def split: option.splits outcome.splits)
qed

lemma udp_safe_and_total_witness:
  "\<exists>st t. Udp_ReceiveVector wrapper_example (\<lambda>_ w. (False, w))
     (in_world example_udp (empty_world\<lparr>lw_grams := [wpdu (sent_frame [0xC0])]\<rparr>)) = Some (Ret st t)"
proof -
  have "quiet_datagram list_datagram" by (auto simp: quiet_datagram_def list_datagram_def split: list.splits)
  with udp_safe_and_total [of "in_world example_udp (empty_world\<lparr>lw_grams := [wpdu (sent_frame [0xC0])]\<rparr>)"
      "view_of [1]" "\<lparr>mb_data = NullPtr, mb_size = 0, mb_writtenSize = CallerPtr\<rparr>" wrapper_example
      "\<lambda>_ w. (False, w)"]
  show ?thesis by (simp add: list_datagram_honest buffer_backed_def)
qed

end
