(* ===== verification/Hdlc_Channel.thy ===== *)
theory Hdlc_Channel
  imports Apdu_Channel
begin

text \<open>
  \<open>src/profile/hdlc_profile_channel.cpp\<close>: APDUs as LLC PDUs in HDLC frames, either in
  unnumbered information frames or, with \<open>hdlcUseSession\<close>, over a connected HDLC session
  with segmentation, acknowledgement and bounded retry. The HDLC and LLC libraries and the
  allocator are the parameters \<open>env\<close>. \<open>stream_\<close> is a reference, as in the TCP channel.
\<close>

section \<open>The channel\<close>

record ('a, 'k, 'h, 'd, 'r, 's, 'w) hdlc_env =
  env_codec :: "('a, 'k) hdlc_codec"
  env_llc :: "'h llc_codec"
  env_decoder :: "('a, 'k, 'd) hdlc_stream_decoder"
  env_reassembler :: "('a, 'k, 'r) hdlc_reassembler"
  env_session :: "('a, 'k, 's) hdlc_session"
  env_alloc :: "'w allocator"

record ('a, 'k, 'd, 'r, 's, 'w) HdlcProfileChannel =
  hdlc_stream :: "'w IByteStream"
  hdlc_timer :: "'w ITimerScheduler option"
  hdlc_options :: "'w ApduChannelOptions"
  hdlc_limits :: HdlcCodecLimits
  hdlc_decoder :: 'd
  hdlc_reassembler :: 'r
  hdlc_session :: 's
  hdlc_readBuffer :: "byte list"
  hdlc_pendingHdlcFrames :: "('a, 'k) HdlcFrame list"
  hdlc_pendingApdus :: "byte list list"

type_synonym ('a, 'k, 'd, 'r, 's, 'w, 'v) hdlc_prog =
  "(('a, 'k, 'd, 'r, 's, 'w) HdlcProfileChannel, 'w, 'v) mprog"

definition Hdlc_MakeDecoder ::
  "('a, 'k, 'd) hdlc_stream_decoder \<Rightarrow> HdlcCodecLimits \<Rightarrow> 'd" where
  "Hdlc_MakeDecoder dec limits =
     hd_new dec \<lparr>do_limits = limits, do_noisePolicy = IgnoreUntilOpeningFlag\<rparr>"

fun ToLlcDirection :: "HdlcProfileDirection \<Rightarrow> LlcDirection" where
  "ToLlcDirection direction =
     (if direction = HdlcProfileDirection.ServerToClient then LlcDirection.ServerToClient
      else LlcDirection.ClientToServer)"

fun ToHdlcSessionRole :: "HdlcProfileRole \<Rightarrow> HdlcSessionRole" where
  "ToHdlcSessionRole role =
     (if role = HdlcProfileRole.Server then HdlcSessionRole.Server else HdlcSessionRole.Client)"

text \<open>The statuses of the two address constructors are not tested here.\<close>

definition MakeDefaultSessionOptions :: "('a, 'k) hdlc_codec \<Rightarrow> 'a HdlcSessionOptions" where
  "MakeDefaultSessionOptions cd =
     \<lparr>so_role = HdlcSessionRole.Client,
      so_clientAddress = snd (MakeClientAddress cd 0x10),
      so_serverAddress = snd (MakeServerAddress cd 0x01 0x00),
      so_limits = DefaultHdlcCodecLimits cd,
      so_negotiationLimits = DefaultHdlcSessionNegotiationLimits cd\<rparr>"

definition IsRetriableReceiveStatus :: "ProfileStatus \<Rightarrow> bool" where
  "IsRetriableReceiveStatus status \<longleftrightarrow>
     status = ProfileStatus.WouldBlock \<or> status = ProfileStatus.Timeout \<or>
     status = ProfileStatus.NeedMoreData"

text \<open>\<open>sessionOptions\<close> is read only after \<open>Ok\<close>: the result is a failure or the options.\<close>

definition MakeHdlcSessionOptions ::
  "('a, 'k) hdlc_codec \<Rightarrow> 'w ApduChannelOptions \<Rightarrow> ProfileStatus + 'a HdlcSessionOptions" where
  "MakeHdlcSessionOptions cd opts =
     (let limits = DefaultHdlcCodecLimits cd;
          (clientStatus, client) = MakeClientAddress cd (hdlcClientAddress opts);
          (serverStatus, server) =
            MakeServerAddress cd (hdlcLogicalDeviceAddress opts) (hdlcPhysicalDeviceAddress opts);
          reassemblyLimit =
            (if maximumApduSize opts = 0 then maximumReassembledInformationSize limits
             else size_add (maximumApduSize opts) 3)
      in if MapHdlcStatus clientStatus \<noteq> ProfileStatus.Ok then Inl (MapHdlcStatus clientStatus)
         else if MapHdlcStatus serverStatus \<noteq> ProfileStatus.Ok
         then Inl (MapHdlcStatus serverStatus)
         else Inr
           \<lparr>so_role = ToHdlcSessionRole (hdlcRole opts),
            so_clientAddress = client,
            so_serverAddress = server,
            so_limits =
              (if maximumReassembledInformationSize limits < reassemblyLimit
               then limits\<lparr>maximumReassembledInformationSize := reassemblyLimit\<rparr>
               else limits),
            so_negotiationLimits =
              (DefaultHdlcSessionNegotiationLimits cd)
                \<lparr>maxInformationFieldLengthTransmit := hdlcMaxInformationFieldLengthTransmit opts,
                 maxInformationFieldLengthReceive := hdlcMaxInformationFieldLengthReceive opts,
                 windowSizeTransmit := hdlcWindowSizeTransmit opts,
                 windowSizeReceive := hdlcWindowSizeReceive opts\<rparr>\<rparr>)"

text \<open>The two constructors differ in the timer: the channel's own default timer or the caller's.\<close>

definition HdlcProfileChannel_timer ::
  "('a, 'k, 'h, 'd, 'r, 's, 'w) hdlc_env \<Rightarrow> 'w IByteStream \<Rightarrow> 'w ITimerScheduler \<Rightarrow>
   'w ApduChannelOptions \<Rightarrow> ('a, 'k, 'd, 'r, 's, 'w) HdlcProfileChannel" where
  "HdlcProfileChannel_timer env stream timer opts =
     (let cd = env_codec env;
          limits = DefaultHdlcCodecLimits cd;
          c = \<lparr>hdlc_stream = stream,
               hdlc_timer = Some timer,
               hdlc_options = opts,
               hdlc_limits = limits,
               hdlc_decoder = Hdlc_MakeDecoder (env_decoder env) limits,
               hdlc_reassembler = hr_new (env_reassembler env) limits,
               hdlc_session = hs_new (env_session env) (MakeDefaultSessionOptions cd),
               hdlc_readBuffer =
                 replicate (if scratchBufferSize opts = 0 then 2048 else scratchBufferSize opts) 0,
               hdlc_pendingHdlcFrames = [],
               hdlc_pendingApdus = []\<rparr>
      in case MakeHdlcSessionOptions cd opts of
           Inl _ \<Rightarrow> c
         | Inr sessionOptions \<Rightarrow>
             c\<lparr>hdlc_session := hs_new (env_session env) sessionOptions,
               hdlc_limits := so_limits sessionOptions,
               hdlc_decoder := Hdlc_MakeDecoder (env_decoder env) (so_limits sessionOptions),
               hdlc_reassembler := hr_new (env_reassembler env) (so_limits sessionOptions)\<rparr>)"

definition HdlcProfileChannel ::
  "('a, 'k, 'h, 'd, 'r, 's, 'w) hdlc_env \<Rightarrow> 'w ITimerScheduler \<Rightarrow> 'w IByteStream \<Rightarrow>
   'w ApduChannelOptions \<Rightarrow> ('a, 'k, 'd, 'r, 's, 'w) HdlcProfileChannel" where
  "HdlcProfileChannel env defaultTimer stream opts =
     HdlcProfileChannel_timer env stream defaultTimer opts"

definition Hdlc_Open :: "('a, 'k, 'd, 'r, 's, 'w, ProfileStatus) hdlc_prog" where
  "Hdlc_Open = with_this (\<lambda>c. ext_transport (bs_Open (hdlc_stream c)))"

text \<open>\<open>Close\<close> drops the receive state; the session object is left as it is.\<close>

definition Hdlc_Close ::
  "('a, 'k, 'h, 'd, 'r, 's, 'w) hdlc_env \<Rightarrow> ('a, 'k, 'd, 'r, 's, 'w, ProfileStatus) hdlc_prog" where
  "Hdlc_Close env =
     next_do (set_this (\<lambda>c. c\<lparr>hdlc_decoder := hd_Reset (env_decoder env) (hdlc_decoder c),
                             hdlc_reassembler := hr_Reset (env_reassembler env) (hdlc_reassembler c),
                             hdlc_pendingHdlcFrames := [],
                             hdlc_pendingApdus := []\<rparr>))
       (with_this (\<lambda>c. ext_transport (bs_Close (hdlc_stream c))))"

definition Hdlc_IsOpen :: "('a, 'k, 'd, 'r, 's, 'w, bool) hdlc_prog" where
  "Hdlc_IsOpen = with_this (\<lambda>c. ext (bs_IsOpen (hdlc_stream c)))"

definition EnsureSession ::
  "('a, 'k, 'h, 'd, 'r, 's, 'w) hdlc_env \<Rightarrow> ('a, 'k, 'd, 'r, 's, 'w, ProfileStatus) hdlc_prog" where
  "EnsureSession env =
     with_this (\<lambda>c. case MakeHdlcSessionOptions (env_codec env) (hdlc_options c) of
       Inl status \<Rightarrow> ret status
     | Inr sessionOptions \<Rightarrow>
         next_do
           (if hs_State (env_session env) (hdlc_session c) = HdlcSessionState.Disconnected
            then set_this (\<lambda>c. c
              \<lparr>hdlc_session := hs_new (env_session env) sessionOptions,
               hdlc_limits := so_limits sessionOptions,
               hdlc_decoder := Hdlc_MakeDecoder (env_decoder env) (so_limits sessionOptions),
               hdlc_reassembler := hr_new (env_reassembler env) (so_limits sessionOptions),
               hdlc_pendingHdlcFrames := []\<rparr>)
            else ret ())
           (ret ProfileStatus.Ok))"

definition WriteFrameBytes ::
  "byte list \<Rightarrow> ('a, 'k, 'd, 'r, 's, 'w, ProfileStatus) hdlc_prog" where
  "WriteFrameBytes frameBytes =
     with_this (\<lambda>c. ext_transport (bs_WriteAll (hdlc_stream c) frameBytes))"

text \<open>A call of the session that builds a frame: the mapped status and the bytes.\<close>

definition session_build ::
  "('s \<Rightarrow> HdlcStatus \<times> 's \<times> byte list) \<Rightarrow>
   ('a, 'k, 'd, 'r, 's, 'w, ProfileStatus \<times> byte list) hdlc_prog" where
  "session_build build =
     with_this (\<lambda>c. let (st, session, bytes) = build (hdlc_session c) in
       next_do (set_this (\<lambda>c. c\<lparr>hdlc_session := session\<rparr>))
         (ret (MapHdlcStatus st, bytes)))"

section \<open>Receiving frames\<close>

fun PushPendingFrames ::
  "'w allocator \<Rightarrow> ('a, 'k) HdlcFrame list \<Rightarrow> ('a, 'k, 'd, 'r, 's, 'w, unit) hdlc_prog" where
  "PushPendingFrames al [] = ret ()"
| "PushPendingFrames al (frame # frames) =
     next_do (allocate al (length (hf_information frame)))
       (next_do (set_this (\<lambda>c. c\<lparr>hdlc_pendingHdlcFrames := hdlc_pendingHdlcFrames c @ [frame]\<rparr>))
          (PushPendingFrames al frames))"

text \<open>
  One iteration of the \<open>for (;;)\<close> of \<open>ReceiveDecodedFrame\<close>. The copies of frames may
  throw; nothing in the channel catches that.
\<close>

definition ReadDecodedFrame ::
  "('a, 'k, 'h, 'd, 'r, 's, 'w) hdlc_env \<Rightarrow>
   ('a, 'k, 'd, 'r, 's, 'w, unit + (ProfileStatus + ('a, 'k) HdlcFrame)) hdlc_prog" where
  "ReadDecodedFrame env =
     with_this (\<lambda>c.
       bnd (ext (bs_ReadSome (hdlc_stream c) (hdlc_readBuffer c)))
         (\<lambda>(st, buffer, bytesRead).
           next_do (set_this (\<lambda>c. c\<lparr>hdlc_readBuffer := buffer\<rparr>))
             (if MapTransportStatus st \<noteq> ProfileStatus.Ok
              then ret (Inr (Inl (MapTransportStatus st)))
              else if bytesRead = 0 then ret (Inr (Inl ProfileStatus.NeedMoreData))
              else if length buffer < bytesRead then fault
              else
                let (decoded, decoder, frames) =
                      hd_Push (env_decoder env) (take bytesRead buffer) (hdlc_decoder c);
                    decodeStatus = MapHdlcStatus decoded
                in next_do (set_this (\<lambda>c. c\<lparr>hdlc_decoder := decoder\<rparr>))
                  (if decodeStatus = ProfileStatus.Ok then
                     (case frames of
                        [] \<Rightarrow> ret (Inr (Inl ProfileStatus.NeedMoreData))
                      | frame # rest \<Rightarrow>
                          next_do (PushPendingFrames (env_alloc env) rest)
                            (next_do (allocate (env_alloc env) (length (hf_information frame)))
                               (ret (Inr (Inr frame)))))
                   else if decodeStatus \<noteq> ProfileStatus.NeedMoreData then
                     next_do
                       (set_this (\<lambda>c. c\<lparr>hdlc_decoder := hd_Reset (env_decoder env) (hdlc_decoder c)\<rparr>))
                       (ret (Inr (Inl decodeStatus)))
                   else ret (Inl ())))))"

definition ReceiveDecodedFrame ::
  "('a, 'k, 'h, 'd, 'r, 's, 'w) hdlc_env \<Rightarrow>
   ('a, 'k, 'd, 'r, 's, 'w, ProfileStatus + ('a, 'k) HdlcFrame) hdlc_prog" where
  "ReceiveDecodedFrame env =
     with_this (\<lambda>c. case hdlc_pendingHdlcFrames c of
       frame # rest \<Rightarrow>
         next_do (allocate (env_alloc env) (length (hf_information frame)))
           (next_do (set_this (\<lambda>c. c\<lparr>hdlc_pendingHdlcFrames := rest\<rparr>))
              (ret (Inr frame)))
     | [] \<Rightarrow>
         if hdlc_readBuffer c = [] then ret (Inl ProfileStatus.InvalidArgument)
         else loop (\<lambda>_. ReadDecodedFrame env) ())"

definition SessionReceiveFrame ::
  "('a, 'k, 'h, 'd, 'r, 's, 'w) hdlc_env \<Rightarrow> ('a, 'k) HdlcFrame \<Rightarrow>
   ('a, 'k, 'd, 'r, 's, 'w, ProfileStatus) hdlc_prog" where
  "SessionReceiveFrame env frame =
     with_this (\<lambda>c. let (st, session) = hs_ReceiveFrame (env_session env) frame (hdlc_session c) in
       next_do (set_this (\<lambda>c. c\<lparr>hdlc_session := session\<rparr>)) (ret (MapHdlcStatus st)))"

definition ReceiveSessionControlFrame ::
  "('a, 'k, 'h, 'd, 'r, 's, 'w) hdlc_env \<Rightarrow> ('a, 'k, 'd, 'r, 's, 'w, ProfileStatus) hdlc_prog" where
  "ReceiveSessionControlFrame env =
     bnd (ReceiveDecodedFrame env) (\<lambda>r. case r of
       Inl status \<Rightarrow> ret status
     | Inr frame \<Rightarrow> ok_or_return (SessionReceiveFrame env frame) (ret ProfileStatus.Ok))"

definition SleepBeforeRetry :: "('a, 'k, 'd, 'r, 's, 'w, ProfileStatus) hdlc_prog" where
  "SleepBeforeRetry =
     with_this (\<lambda>c. case hdlc_timer c of
       None \<Rightarrow> ret ProfileStatus.Ok
     | Some timer \<Rightarrow>
         if hdlcRetryDelayMilliseconds (hdlc_options c) = 0 then ret ProfileStatus.Ok
         else ext_transport (tm_SleepFor timer (hdlcRetryDelayMilliseconds (hdlc_options c))))"

text \<open>
  One iteration of the retry loop of \<open>ReceiveSessionControlFrameWithRetry\<close>; its local is
  the 8-bit counter \<open>attempt\<close>.
\<close>

definition RetryAttempt ::
  "('a, 'k, 'h, 'd, 'r, 's, 'w) hdlc_env \<Rightarrow> byte list \<Rightarrow> uint8 \<Rightarrow>
   ('a, 'k, 'd, 'r, 's, 'w, uint8 + ProfileStatus) hdlc_prog" where
  "RetryAttempt env retryFrameBytes attempt =
     bnd (ReceiveSessionControlFrame env) (\<lambda>status.
       if status = ProfileStatus.Ok then ret (Inr status)
       else with_this (\<lambda>c.
         if \<not> IsRetriableReceiveStatus status \<or> attempt \<ge> hdlcRetryCount (hdlc_options c)
         then ret (Inr status)
         else bnd SleepBeforeRetry (\<lambda>retryStatus.
           if retryStatus \<noteq> ProfileStatus.Ok then ret (Inr retryStatus)
           else bnd (WriteFrameBytes retryFrameBytes) (\<lambda>retryStatus.
             if retryStatus \<noteq> ProfileStatus.Ok then ret (Inr retryStatus)
             else ret (Inl (attempt + 1))))))"

definition ReceiveSessionControlFrameWithRetry ::
  "('a, 'k, 'h, 'd, 'r, 's, 'w) hdlc_env \<Rightarrow> byte list \<Rightarrow>
   ('a, 'k, 'd, 'r, 's, 'w, ProfileStatus) hdlc_prog" where
  "ReceiveSessionControlFrameWithRetry env retryFrameBytes =
     loop (RetryAttempt env retryFrameBytes) 0"

section \<open>The data link\<close>

definition ConnectDataLink ::
  "('a, 'k, 'h, 'd, 'r, 's, 'w) hdlc_env \<Rightarrow> ('a, 'k, 'd, 'r, 's, 'w, ProfileStatus) hdlc_prog" where
  "ConnectDataLink env =
     with_this (\<lambda>c.
       if \<not> hdlcUseSession (hdlc_options c) then ret ProfileStatus.UnsupportedFeature
       else bnd Hdlc_IsOpen (\<lambda>open.
         if \<not> open then ret ProfileStatus.NotOpen
         else if hdlcRole (hdlc_options c) \<noteq> HdlcProfileRole.Client
         then ret ProfileStatus.UnsupportedFeature
         else ok_or_return (EnsureSession env)
           (bnd (session_build (hs_BuildConnectRequest (env_session env)))
             (\<lambda>(status, frameBytes).
               if status \<noteq> ProfileStatus.Ok then ret status
               else ok_or_return (WriteFrameBytes frameBytes)
                 (ReceiveSessionControlFrameWithRetry env frameBytes)))))"

definition AcceptDataLink ::
  "('a, 'k, 'h, 'd, 'r, 's, 'w) hdlc_env \<Rightarrow> ('a, 'k, 'd, 'r, 's, 'w, ProfileStatus) hdlc_prog" where
  "AcceptDataLink env =
     with_this (\<lambda>c.
       if \<not> hdlcUseSession (hdlc_options c) then ret ProfileStatus.UnsupportedFeature
       else bnd Hdlc_IsOpen (\<lambda>open.
         if \<not> open then ret ProfileStatus.NotOpen
         else if hdlcRole (hdlc_options c) \<noteq> HdlcProfileRole.Server
         then ret ProfileStatus.UnsupportedFeature
         else ok_or_return (EnsureSession env)
           (ok_or_return (ReceiveSessionControlFrame env)
             (bnd (session_build (hs_BuildConnectResponse (env_session env)))
               (\<lambda>(status, frameBytes).
                 if status \<noteq> ProfileStatus.Ok then ret status
                 else WriteFrameBytes frameBytes)))))"

definition DisconnectDataLink ::
  "('a, 'k, 'h, 'd, 'r, 's, 'w) hdlc_env \<Rightarrow> ('a, 'k, 'd, 'r, 's, 'w, ProfileStatus) hdlc_prog" where
  "DisconnectDataLink env =
     with_this (\<lambda>c.
       if \<not> hdlcUseSession (hdlc_options c) then ret ProfileStatus.UnsupportedFeature
       else bnd Hdlc_IsOpen (\<lambda>open.
         if \<not> open then ret ProfileStatus.NotOpen
         else bnd (session_build (hs_BuildDisconnectRequest (env_session env)))
           (\<lambda>(status, frameBytes).
             if status \<noteq> ProfileStatus.Ok then ret status
             else ok_or_return (WriteFrameBytes frameBytes)
               (ReceiveSessionControlFrameWithRetry env frameBytes))))"

section \<open>Sending\<close>

text \<open>\<open>frameBytes\<close> is read only after \<open>Ok\<close>: the result is a failure or the bytes.\<close>

definition BuildFrame ::
  "('a, 'k) hdlc_codec \<Rightarrow> ('a, 'k, 'd, 'r, 's, 'w) HdlcProfileChannel \<Rightarrow> byte list \<Rightarrow>
   ProfileStatus + byte list" where
  "BuildFrame cd c lpdu =
     (let opts = hdlc_options c;
          (clientStatus, clientAddress) = MakeClientAddress cd (hdlcClientAddress opts);
          (serverStatus, serverAddress) =
            MakeServerAddress cd (hdlcLogicalDeviceAddress opts) (hdlcPhysicalDeviceAddress opts);
          (controlStatus, control) = DecodeControl cd 0x10;
          toClient = (hdlcDirection opts = HdlcProfileDirection.ServerToClient);
          frame = \<lparr>hf_segmented = False,
                   hf_destination = (if toClient then clientAddress else serverAddress),
                   hf_source = (if toClient then serverAddress else clientAddress),
                   hf_control = control,
                   hf_information = lpdu\<rparr>;
          (encodeStatus, frameBytes) = EncodeFrame cd frame (hdlc_limits c)
      in if MapHdlcStatus clientStatus \<noteq> ProfileStatus.Ok then Inl (MapHdlcStatus clientStatus)
         else if MapHdlcStatus serverStatus \<noteq> ProfileStatus.Ok then Inl (MapHdlcStatus serverStatus)
         else if MapHdlcStatus controlStatus \<noteq> ProfileStatus.Ok
         then Inl (MapHdlcStatus controlStatus)
         else if MapHdlcStatus encodeStatus \<noteq> ProfileStatus.Ok then Inl (MapHdlcStatus encodeStatus)
         else Inr frameBytes)"

definition BuildSessionInformationFrame ::
  "('a, 'k, 'h, 'd, 'r, 's, 'w) hdlc_env \<Rightarrow> byte list \<Rightarrow> bool \<Rightarrow> bool \<Rightarrow>
   ('a, 'k, 'd, 'r, 's, 'w, ProfileStatus + byte list) hdlc_prog" where
  "BuildSessionInformationFrame env information segmented pollFinal =
     bnd (session_build (hs_BuildInformationFrame (env_session env) information pollFinal))
       (\<lambda>(status, frameBytes).
         if status \<noteq> ProfileStatus.Ok then ret (Inl status)
         else if \<not> segmented then ret (Inr frameBytes)
         else with_this (\<lambda>c.
           let (decodeStatus, decoded) = DecodeFrame (env_codec env) frameBytes (hdlc_limits c);
               frame = \<lparr>hf_segmented = True,
                        hf_destination = hf_destination decoded,
                        hf_source = hf_source decoded,
                        hf_control = hf_control decoded,
                        hf_information = hf_information decoded\<rparr>;
               (encodeStatus, encoded) = EncodeFrame (env_codec env) frame (hdlc_limits c)
           in if MapHdlcStatus decodeStatus \<noteq> ProfileStatus.Ok
              then ret (Inl (MapHdlcStatus decodeStatus))
              else if MapHdlcStatus encodeStatus \<noteq> ProfileStatus.Ok
              then ret (Inl (MapHdlcStatus encodeStatus))
              else ret (Inr encoded)))"

text \<open>
  The size of the information fields and their number, as \<open>std::size_t\<close> computes them; the
  locals of the loop are \<open>i\<close> and \<open>offset\<close>.
\<close>

definition session_chunk_size :: "size_t \<Rightarrow> byte list \<Rightarrow> size_t" where
  "session_chunk_size transmitLimit lpdu =
     (if transmitLimit = 0 then length lpdu else transmitLimit)"

definition session_frame_count :: "size_t \<Rightarrow> byte list \<Rightarrow> size_t" where
  "session_frame_count chunkSize lpdu =
     (if lpdu = [] then 1 else size_sub (size_add (length lpdu) chunkSize) 1 div chunkSize)"

definition SendInformationChunk ::
  "('a, 'k, 'h, 'd, 'r, 's, 'w) hdlc_env \<Rightarrow> byte list \<Rightarrow> size_t \<Rightarrow> size_t \<Rightarrow> size_t \<times> size_t \<Rightarrow>
   ('a, 'k, 'd, 'r, 's, 'w, size_t \<times> size_t + ProfileStatus) hdlc_prog" where
  "SendInformationChunk env lpdu chunkSize frameCount = (\<lambda>(i, offset).
     if \<not> i < frameCount then ret (Inr ProfileStatus.Ok)
     else with_this (\<lambda>c.
       bnd (if \<not> hs_CanSendInformationFrame (env_session env) (hdlc_session c)
            then ReceiveSessionControlFrame env else ret ProfileStatus.Ok)
         (\<lambda>windowStatus.
           if windowStatus \<noteq> ProfileStatus.Ok then ret (Inr windowStatus)
           else
             let remaining = length lpdu - offset;
                 currentSize = (if lpdu = [] then 0 else min chunkSize remaining);
                 finalFrame = (i + 1 = frameCount)
             in bnd (BuildSessionInformationFrame env (take currentSize (drop offset lpdu))
                       (\<not> finalFrame) finalFrame)
                  (\<lambda>r. case r of
                     Inl status \<Rightarrow> ret (Inr status)
                   | Inr frameBytes \<Rightarrow>
                       bnd (WriteFrameBytes frameBytes) (\<lambda>status.
                         if status \<noteq> ProfileStatus.Ok then ret (Inr status)
                         else bnd (ReceiveSessionControlFrameWithRetry env frameBytes) (\<lambda>status.
                           if status \<noteq> ProfileStatus.Ok then ret (Inr status)
                           else ret (Inl (i + 1, offset + currentSize))))))))"

definition SendSessionInformation ::
  "('a, 'k, 'h, 'd, 'r, 's, 'w) hdlc_env \<Rightarrow> byte list \<Rightarrow>
   ('a, 'k, 'd, 'r, 's, 'w, ProfileStatus) hdlc_prog" where
  "SendSessionInformation env lpdu =
     with_this (\<lambda>c.
       if hs_State (env_session env) (hdlc_session c) \<noteq> HdlcSessionState.Connected
       then ret ProfileStatus.NotOpen
       else
         let limits = hs_NegotiatedLimits (env_session env) (hdlc_session c);
             chunkSize = session_chunk_size (maxInformationFieldLengthTransmit limits) lpdu;
             frameCount = session_frame_count chunkSize lpdu
         in next_do
              (set_this (\<lambda>c. c\<lparr>hdlc_limits := (hdlc_limits c)
                 \<lparr>maximumInformationFieldSize := maxInformationFieldLengthTransmit limits\<rparr>\<rparr>))
              (loop (SendInformationChunk env lpdu chunkSize frameCount) (0, 0)))"

definition Hdlc_SendApdu ::
  "('a, 'k, 'h, 'd, 'r, 's, 'w) hdlc_env \<Rightarrow> ProfileByteView \<Rightarrow>
   ('a, 'k, 'd, 'r, 's, 'w, ProfileStatus) hdlc_prog" where
  "Hdlc_SendApdu env apdu =
     with_this (\<lambda>c.
       if \<not> IsValidByteView apdu then ret ProfileStatus.InvalidArgument
       else if maximumApduSize (hdlc_options c) \<noteq> 0 \<and>
               bv_size apdu > maximumApduSize (hdlc_options c)
       then ret ProfileStatus.PayloadTooLarge
       else if \<not> view_backed apdu then fault
       else
         let header = MakeLlcHeader (env_llc env) (ToLlcDirection (hdlcDirection (hdlc_options c)));
             (encoded, lpdu) = EncodeLpdu (env_llc env) header (bv_data apdu) (bv_size apdu);
             status = MapLlcStatus encoded
         in if status \<noteq> ProfileStatus.Ok then ret status
            else if hdlcUseSession (hdlc_options c) then SendSessionInformation env lpdu
            else case BuildFrame (env_codec env) c lpdu of
                Inl status \<Rightarrow> ret status
              | Inr frameBytes \<Rightarrow> WriteFrameBytes frameBytes)"

section \<open>Receiving APDUs\<close>

definition SendSessionReceiveReady ::
  "('a, 'k, 'h, 'd, 'r, 's, 'w) hdlc_env \<Rightarrow> bool \<Rightarrow>
   ('a, 'k, 'd, 'r, 's, 'w, ProfileStatus) hdlc_prog" where
  "SendSessionReceiveReady env pollFinal =
     bnd (session_build (hs_BuildReceiveReadyFrame (env_session env) pollFinal))
       (\<lambda>(status, frameBytes).
         if status \<noteq> ProfileStatus.Ok then ret status else WriteFrameBytes frameBytes)"

definition DecodeCompleteInformationToPendingApdu ::
  "('a, 'k, 'h, 'd, 'r, 's, 'w) hdlc_env \<Rightarrow> ('a, 'k) HdlcFrame \<Rightarrow>
   ('a, 'k, 'd, 'r, 's, 'w, ProfileStatus) hdlc_prog" where
  "DecodeCompleteInformationToPendingApdu env frame =
     with_this (\<lambda>c.
       let (decoded, lsdu) = DecodeLpdu (env_llc env) (hf_information frame) False;
           status = MapLlcStatus decoded
       in if status \<noteq> ProfileStatus.Ok then ret status
          else if maximumApduSize (hdlc_options c) \<noteq> 0 \<and>
                  length lsdu > maximumApduSize (hdlc_options c)
          then ret ProfileStatus.PayloadTooLarge
          else try_catch
            (next_do (allocate (env_alloc env) (length lsdu))
               (next_do (set_this (\<lambda>c. c\<lparr>hdlc_pendingApdus := hdlc_pendingApdus c @ [lsdu]\<rparr>))
                  (ret ProfileStatus.Ok)))
            (next_do (set_this (\<lambda>c. c\<lparr>hdlc_pendingApdus := []\<rparr>))
               (ret ProfileStatus.InternalError)))"

definition DecodeFrameToPendingApdu ::
  "('a, 'k, 'h, 'd, 'r, 's, 'w) hdlc_env \<Rightarrow> ('a, 'k) HdlcFrame \<Rightarrow>
   ('a, 'k, 'd, 'r, 's, 'w, ProfileStatus) hdlc_prog" where
  "DecodeFrameToPendingApdu env frame =
     with_this (\<lambda>c.
       if \<not> hdlcUseSession (hdlc_options c) then
         (if hf_segmented frame then ret ProfileStatus.UnsupportedFeature
          else DecodeCompleteInformationToPendingApdu env frame)
       else
         let (pushed, reassembler, completed, hasCompleted) =
               hr_PushFrame (env_reassembler env) frame (hdlc_reassembler c);
             status = MapHdlcStatus pushed
         in next_do (set_this (\<lambda>c. c\<lparr>hdlc_reassembler := reassembler\<rparr>))
              (if status = ProfileStatus.NeedMoreData then ret ProfileStatus.NeedMoreData
               else if status \<noteq> ProfileStatus.Ok then
                 next_do (set_this (\<lambda>c. c\<lparr>hdlc_reassembler :=
                                             hr_Reset (env_reassembler env) (hdlc_reassembler c)\<rparr>))
                   (ret status)
               else ok_or_return (SessionReceiveFrame env completed)
                 (if \<not> hasCompleted \<or> hf_information completed = [] then ret ProfileStatus.Ok
                  else ok_or_return (DecodeCompleteInformationToPendingApdu env completed)
                    (SendSessionReceiveReady env True))))"

definition ReceiveApduFrame ::
  "('a, 'k, 'h, 'd, 'r, 's, 'w) hdlc_env \<Rightarrow>
   ('a, 'k, 'd, 'r, 's, 'w, unit + ProfileStatus) hdlc_prog" where
  "ReceiveApduFrame env =
     bnd (ReceiveDecodedFrame env) (\<lambda>r. case r of
       Inl receiveStatus \<Rightarrow> ret (Inr receiveStatus)
     | Inr frame \<Rightarrow>
         bnd (DecodeFrameToPendingApdu env frame) (\<lambda>frameStatus.
           if frameStatus = ProfileStatus.NeedMoreData then ret (Inl ())
           else if frameStatus \<noteq> ProfileStatus.Ok then ret (Inr frameStatus)
           else with_this (\<lambda>c.
             if hdlc_pendingApdus c \<noteq> [] then ret (Inr ProfileStatus.Ok) else ret (Inl ()))))"

definition ReceiveNextApdu ::
  "('a, 'k, 'h, 'd, 'r, 's, 'w) hdlc_env \<Rightarrow> ('a, 'k, 'd, 'r, 's, 'w, ProfileStatus) hdlc_prog" where
  "ReceiveNextApdu env = loop (\<lambda>_. ReceiveApduFrame env) ()"

definition Hdlc_no_pending :: "('a, 'k, 'd, 'r, 's, 'w) HdlcProfileChannel \<Rightarrow> bool" where
  "Hdlc_no_pending c \<longleftrightarrow> hdlc_pendingApdus c = []"

definition Hdlc_ReceiveVector ::
  "('a, 'k, 'h, 'd, 'r, 's, 'w) hdlc_env \<Rightarrow> ('a, 'k, 'd, 'r, 's, 'w, ProfileStatus) hdlc_prog" where
  "Hdlc_ReceiveVector env =
     next_do (set_mem (\<lambda>m. m\<lparr>cm_vector := []\<rparr>))
       (ok_or_return (fill_while_empty Hdlc_no_pending (ReceiveNextApdu env))
          (try_catch
             (with_this (\<lambda>c. case hdlc_pendingApdus c of
                [] \<Rightarrow> fault
              | apdu # rest \<Rightarrow>
                  next_do (allocate (env_alloc env) (length apdu))
                    (next_do (set_mem (\<lambda>m. m\<lparr>cm_vector := apdu\<rparr>))
                       (next_do (set_this (\<lambda>c. c\<lparr>hdlc_pendingApdus := rest\<rparr>))
                          (ret ProfileStatus.Ok)))))
             (next_do (set_mem (\<lambda>m. m\<lparr>cm_vector := []\<rparr>))
                (ret ProfileStatus.InternalError))))"

definition CopyFirstPendingApdu ::
  "ProfileMutableBuffer \<Rightarrow> bool \<Rightarrow> ('a, 'k, 'd, 'r, 's, 'w, ProfileStatus) hdlc_prog" where
  "CopyFirstPendingApdu output consume =
     with_this (\<lambda>c. case hdlc_pendingApdus c of
       [] \<Rightarrow> fault
     | apdu # rest \<Rightarrow>
         if mb_size output < length apdu then ret ProfileStatus.OutputBufferTooSmall
         else
           next_do (if apdu \<noteq> [] then copy_out apdu output else ret ())
             (next_do (store_written output (length apdu))
                (next_do (if consume then set_this (\<lambda>c. c\<lparr>hdlc_pendingApdus := rest\<rparr>) else ret ())
                   (ret ProfileStatus.Ok))))"

definition Hdlc_ReceiveBuffer ::
  "('a, 'k, 'h, 'd, 'r, 's, 'w) hdlc_env \<Rightarrow> ProfileMutableBuffer \<Rightarrow>
   ('a, 'k, 'd, 'r, 's, 'w, ProfileStatus) hdlc_prog" where
  "Hdlc_ReceiveBuffer env output =
     (if \<not> IsValidMutableBuffer output then ret ProfileStatus.InvalidArgument
      else next_do (store_written output 0)
        (ok_or_return (fill_while_empty Hdlc_no_pending (ReceiveNextApdu env))
           (CopyFirstPendingApdu output True)))"

end
