(* ===== verification/Hdlc_Laws.thy ===== *)
theory Hdlc_Laws
  imports Hdlc_Channel
begin

text \<open>
  What every call of the HDLC channel keeps, and the interface laws of \<open>IApduChannel\<close> for it.
  \<open>hdlc_unfold\<close> opens the private member functions; frame conditions are then proved by the
  structure of the code.
\<close>

lemmas hdlc_unfold =
  Hdlc_IsOpen_def EnsureSession_def WriteFrameBytes_def session_build_def ReadDecodedFrame_def
  ReceiveDecodedFrame_def SessionReceiveFrame_def ReceiveSessionControlFrame_def
  SleepBeforeRetry_def RetryAttempt_def ReceiveSessionControlFrameWithRetry_def

lemmas hdlc_send_unfold =
  BuildSessionInformationFrame_def SendInformationChunk_def SendSessionInformation_def
  Hdlc_SendApdu_def

lemmas hdlc_receive_unfold =
  SendSessionReceiveReady_def DecodeCompleteInformationToPendingApdu_def
  DecodeFrameToPendingApdu_def ReceiveApduFrame_def ReceiveNextApdu_def

lemma steps_PushPendingFrames [steps_intros]:
  assumes "preord R"
    and "\<And>n. steps d f I R (allocate al n)"
    and "\<And>frame. steps d f I R
      (set_this (\<lambda>c. c\<lparr>hdlc_pendingHdlcFrames := hdlc_pendingHdlcFrames c @ [frame]\<rparr>))"
  shows "steps d f I R (PushPendingFrames al frames)"
  using assms by (induction frames) (auto intro!: steps_ret steps_next_do)

text \<open>The 8-bit counter stops before it wraps: it is below \<open>hdlcRetryCount\<close> when it is increased.\<close>

lemma attempt_counts:
  assumes "attempt < (limit :: uint8)"
  shows "unat (attempt + 1) = Suc (unat attempt)" and "unat attempt < 255"
proof -
  from assms have "unat attempt < unat limit" by (simp add: word_less_nat_alt)
  moreover have "unat limit < 256" using unsigned_less [of limit] by simp
  ultimately show "unat attempt < 255" by simp
  then have "unat attempt + unat (1 :: uint8) < 2 ^ LENGTH(8)" by simp
  then show "unat (attempt + 1) = Suc (unat attempt)" by (simp add: unat_word_ariths)
qed

section \<open>The caller's memory\<close>

lemma ReceiveDecodedFrame_keeps_mem: "keeps mem (ReceiveDecodedFrame env)"
  unfolding ReceiveDecodedFrame_def ReadDecodedFrame_def
  by (intro steps_intros preord_eq TrueI) (auto split: outcome.splits)

lemma ReceiveSessionControlFrame_keeps_mem: "keeps mem (ReceiveSessionControlFrame env)"
  unfolding ReceiveSessionControlFrame_def SessionReceiveFrame_def
  by (intro steps_intros ReceiveDecodedFrame_keeps_mem preord_eq TrueI) (auto split: outcome.splits)

lemma WriteFrameBytes_keeps_mem: "keeps mem (WriteFrameBytes bytes)"
  unfolding WriteFrameBytes_def
  by (intro steps_intros preord_eq TrueI) (auto split: outcome.splits)

lemma Retry_keeps_mem: "keeps mem (ReceiveSessionControlFrameWithRetry env bytes)"
  unfolding ReceiveSessionControlFrameWithRetry_def RetryAttempt_def SleepBeforeRetry_def
  by (intro steps_intros ReceiveSessionControlFrame_keeps_mem WriteFrameBytes_keeps_mem preord_eq TrueI)
     (auto split: outcome.splits)

lemma SendInformationChunk_keeps_mem: "keeps mem (SendInformationChunk env lpdu chunk count x)"
  unfolding SendInformationChunk_def BuildSessionInformationFrame_def session_build_def
  by (intro steps_intros ReceiveSessionControlFrame_keeps_mem WriteFrameBytes_keeps_mem Retry_keeps_mem
      preord_eq TrueI) simp_all

lemma Hdlc_SendApdu_keeps_mem: "keeps mem (Hdlc_SendApdu env apdu)"
  unfolding Hdlc_SendApdu_def SendSessionInformation_def
  by (intro steps_intros SendInformationChunk_keeps_mem WriteFrameBytes_keeps_mem preord_eq TrueI) simp_all

lemma ReceiveNextApdu_keeps_mem: "keeps mem (ReceiveNextApdu env)"
  unfolding hdlc_receive_unfold SessionReceiveFrame_def session_build_def
  by (intro steps_intros ReceiveDecodedFrame_keeps_mem WriteFrameBytes_keeps_mem preord_eq TrueI)
     (auto split: outcome.splits)

lemma wp_hdlc_fill_mem:
  "wp True True (fill_while_empty Hdlc_no_pending (ReceiveNextApdu env))
     (\<lambda>_ t. mem t = mem s) (\<lambda>t. mem t = mem s) s"
  by (rule keepsD) (intro steps_fill preord_eq TrueI ReceiveNextApdu_keeps_mem)

section \<open>The interface laws\<close>

interpretation hdlc: apdu_channel
  "Hdlc_SendApdu env" "Hdlc_ReceiveVector env" "Hdlc_ReceiveBuffer env"
  "\<lambda>c. maximumApduSize (hdlc_options c)"
  for env :: "('a, 'k, 'h, 'd, 'r, 's, 'w) hdlc_env"
proof
  fix v :: ProfileByteView and b :: ProfileMutableBuffer
    and s :: "(('a, 'k, 'd, 'r, 's, 'w) HdlcProfileChannel, 'w) sys"
  show "\<not> IsValidByteView v \<Longrightarrow>
      Hdlc_SendApdu env v s = Some (Ret ProfileStatus.InvalidArgument s)"
    by (simp add: Hdlc_SendApdu_def run_simps)
  show "IsValidByteView v \<Longrightarrow> maximumApduSize (hdlc_options (self s)) \<noteq> 0 \<Longrightarrow>
      maximumApduSize (hdlc_options (self s)) < bv_size v \<Longrightarrow>
      Hdlc_SendApdu env v s = Some (Ret ProfileStatus.PayloadTooLarge s)"
    by (simp add: Hdlc_SendApdu_def run_simps)
  show "wp True True (Hdlc_SendApdu env v) (\<lambda>_ t. mem t = mem s) (\<lambda>t. mem t = mem s) s"
    by (rule keepsD [OF Hdlc_SendApdu_keeps_mem])
  show "wp True True (Hdlc_ReceiveVector env) (\<lambda>st t. vector_result (mem s) st (mem t))
         (\<lambda>t. vector_result (mem s) ProfileStatus.InternalError (mem t)) s"
    unfolding Hdlc_ReceiveVector_def wp_next_do wp_set_mem wp_ok_or_return
    by (rule wp_conseq [OF wp_hdlc_fill_mem])
       (auto simp: wp_simps vector_result_def split: list.splits prod.splits)
  show "\<not> IsValidMutableBuffer b \<Longrightarrow>
      Hdlc_ReceiveBuffer env b s = Some (Ret ProfileStatus.InvalidArgument s)"
    by (simp add: Hdlc_ReceiveBuffer_def run_simps)
  assume valid: "IsValidMutableBuffer b"
  then have written: "mb_writtenSize b \<noteq> NullPtr"
    by (auto simp: IsValidMutableBuffer_def)
  show "wp True True (Hdlc_ReceiveBuffer env b) (\<lambda>st t. buffer_result b (mem s) st (mem t))
         (\<lambda>t. buffer_result b (mem s) ProfileStatus.InternalError (mem t)) s"
    using valid written
    unfolding Hdlc_ReceiveBuffer_def wp_if wp_next_do wp_store_written wp_ok_or_return
    by (auto intro!: wp_conseq [OF wp_hdlc_fill_mem]
        simp: wp_simps CopyFirstPendingApdu_def buffer_result_def split: list.splits)
qed

end
