(* ===== verification/Hdlc_Stream.thy ===== *)
theory Hdlc_Stream
  imports Hdlc_Laws Framing
begin

text \<open>
  The HDLC channel without a session as a queue of APDUs: one APDU per unnumbered information
  frame. The frames still to be delivered are those in \<open>pendingHdlcFrames_\<close>, then those of
  which the decoder and the stream hold the bytes.
\<close>

section \<open>Frames on their way\<close>

text \<open>
  The contract of the HDLC stream decoder. Unlike the wrapper decoder it must report
  \<open>NeedMoreData\<close>, not \<open>Ok\<close>, when no frame is complete: on \<open>Ok\<close> without a frame the
  channel gives up the receive with \<open>NeedMoreData\<close>.
\<close>

definition hdlc_incremental ::
  "('a, 'k, 'd) hdlc_stream_decoder \<Rightarrow> (('a, 'k) HdlcFrame \<Rightarrow> byte list) \<Rightarrow>
   (('a, 'k) HdlcFrame \<Rightarrow> bool) \<Rightarrow> ('d \<Rightarrow> byte list \<Rightarrow> bool) \<Rightarrow> bool" where
  "hdlc_incremental dec =
     incremental (hd_Push dec)
       (\<lambda>st gs. st = (if gs = [] then HdlcStatus.NeedMoreData else HdlcStatus.Ok))"

definition hdlc_stream_env ::
  "('a, 'k, 'h, 'd, 'r, 's, 'w) hdlc_env \<Rightarrow> (('a, 'k) HdlcFrame \<Rightarrow> byte list) \<Rightarrow>
   (('a, 'k) HdlcFrame \<Rightarrow> bool) \<Rightarrow> ('d \<Rightarrow> byte list \<Rightarrow> bool) \<Rightarrow> ('w \<Rightarrow> byte list) \<Rightarrow>
   ('a, 'k, 'd, 'r, 's, 'w) HdlcProfileChannel \<Rightarrow> bool" where
  "hdlc_stream_env env enc valid holds input c \<longleftrightarrow>
     hdlc_incremental (env_decoder env) enc valid holds \<and> delivers input (hdlc_stream c) \<and>
     ample input (env_alloc env) \<and> hdlc_readBuffer c \<noteq> []"

lemma hdlc_stream_env_upd [simp]:
  "hdlc_stream_env env enc valid holds input (c\<lparr>hdlc_decoder := d\<rparr>)
     = hdlc_stream_env env enc valid holds input c"
  "hdlc_stream_env env enc valid holds input (c\<lparr>hdlc_pendingHdlcFrames := fs\<rparr>)
     = hdlc_stream_env env enc valid holds input c"
  "hdlc_stream_env env enc valid holds input (c\<lparr>hdlc_pendingApdus := as\<rparr>)
     = hdlc_stream_env env enc valid holds input c"
  "b \<noteq> [] \<Longrightarrow> hdlc_stream_env env enc valid holds input c \<Longrightarrow>
     hdlc_stream_env env enc valid holds input (c\<lparr>hdlc_readBuffer := b\<rparr>)"
  by (simp_all add: hdlc_stream_env_def)

definition frames_ahead ::
  "('a, 'k, 'h, 'd, 'r, 's, 'w) hdlc_env \<Rightarrow> (('a, 'k) HdlcFrame \<Rightarrow> byte list) \<Rightarrow>
   (('a, 'k) HdlcFrame \<Rightarrow> bool) \<Rightarrow> ('d \<Rightarrow> byte list \<Rightarrow> bool) \<Rightarrow> ('w \<Rightarrow> byte list) \<Rightarrow>
   (('a, 'k, 'd, 'r, 's, 'w) HdlcProfileChannel, 'w) sys \<Rightarrow> ('a, 'k) HdlcFrame list \<Rightarrow> bool" where
  "frames_ahead env enc valid holds input s fs \<longleftrightarrow>
     hdlc_stream_env env enc valid holds input (self s) \<and>
     (\<exists>gs r. fs = hdlc_pendingHdlcFrames (self s) @ gs \<and> list_all valid gs \<and>
        holds (hdlc_decoder (self s)) r \<and> r @ input (world s) = concat (map enc gs) \<and>
        begins enc r gs)"

text \<open>What reading a frame leaves alone.\<close>

definition apdu_state ::
  "(('a, 'k, 'd, 'r, 's, 'w) HdlcProfileChannel, 'w) sys \<Rightarrow>
   caller_mem \<times> byte list list \<times> 'w ApduChannelOptions \<times> 's \<times> 'r \<times> 'w IByteStream" where
  "apdu_state s = (mem s, hdlc_pendingApdus (self s), hdlc_options (self s), hdlc_session (self s),
     hdlc_reassembler (self s), hdlc_stream (self s))"

lemma wp_PushPendingFrames_ample:
  assumes "ample obs al"
    and "\<And>w. obs w = obs (world s) \<Longrightarrow> Q () (s\<lparr>world := w, self := (self s)
      \<lparr>hdlc_pendingHdlcFrames := hdlc_pendingHdlcFrames (self s) @ frames\<rparr>\<rparr>)"
  shows "wp d f (PushPendingFrames al frames) Q E s"
  using assms(2)
proof (induction frames arbitrary: s)
  case Nil
  from Nil [of "world s"] show ?case by (simp add: wp_simps)
next
  case (Cons frame frames)
  show ?case
    unfolding PushPendingFrames.simps wp_next_do
    by (rule wp_allocate_ample [OF assms(1)], unfold wp_set_this, rule Cons.IH)
       (use Cons.prems in simp)
qed

text \<open>One read: it completes no frame, or delivers the first of those it completes.\<close>

lemma wp_ReadDecodedFrame_stream:
  fixes s :: "(('a, 'k, 'd, 'r, 's, 'w) HdlcProfileChannel, 'w) sys"
  assumes ex: "frames_ahead env enc valid holds input s (f # fs)"
    and pend: "hdlc_pendingHdlcFrames (self s) = []"
  shows "wp False False (ReadDecodedFrame env)
     (\<lambda>v t. apdu_state t = apdu_state s \<and>
        (v = Inl () \<and> frames_ahead env enc valid holds input t (f # fs) \<and>
           hdlc_pendingHdlcFrames (self t) = [] \<and>
           length (input (world t)) < length (input (world s)) \<or>
         v = Inr (Inr f) \<and> frames_ahead env enc valid holds input t fs))
     (\<lambda>_. False) s"
proof -
  let ?c = "self s"
  from ex pend obtain r where env: "hdlc_stream_env env enc valid holds input ?c"
    and v: "list_all valid (f # fs)" and h: "holds (hdlc_decoder ?c) r"
    and eq: "r @ input (world s) = concat (map enc (f # fs))" and b: "begins enc r (f # fs)"
    unfolding frames_ahead_def by auto
  from env have dec: "hdlc_incremental (env_decoder env) enc valid holds"
    and del: "delivers input (hdlc_stream ?c)" and am: "ample input (env_alloc env)"
    and buf: "hdlc_readBuffer ?c \<noteq> []"
    by (auto simp: hdlc_stream_env_def)
  have "input (world s) \<noteq> []"
    using eq b by (auto simp: begins_def strict_prefix_def)
  with del buf obtain n w where n: "0 < n" "n \<le> length (hdlc_readBuffer ?c)"
      "n \<le> length (input (world s))"
    and read: "bs_ReadSome (hdlc_stream ?c) (hdlc_readBuffer ?c) (world s) =
      Ret (TransportStatus.Ok, take n (input (world s)) @ drop n (hdlc_readBuffer ?c), n) w"
    and w: "input w = drop n (input (world s))"
    unfolding delivers_def by blast
  obtain xs ys t st d' where push: "f # fs = xs @ ys"
      "hd_Push (env_decoder env) (take n (input (world s))) (hdlc_decoder ?c) = (st, d', xs)"
      "holds d' t" "t @ drop n (input (world s)) = concat (map enc ys)" "begins enc t ys"
      "list_all valid ys" "st = (if xs = [] then HdlcStatus.NeedMoreData else HdlcStatus.Ok)"
    by (rule push_input [OF dec [unfolded hdlc_incremental_def] h v eq n(3)])
  have nonempty: "take n (input (world s)) @ drop n (hdlc_readBuffer ?c) \<noteq> []" using n by auto
  have less: "length (input (world s)) - n < length (input (world s))" using n by simp
  show ?thesis
  proof (cases xs)
    case Nil
    then show ?thesis
      using n push env nonempty less pend w
      by (auto simp: ReadDecodedFrame_def wp_simps read Let_def frames_ahead_def apdu_state_def)
  next
    case (Cons x xs')
    have "wp False False (PushPendingFrames (env_alloc env) xs')
       (\<lambda>_. wp False False (allocate (env_alloc env) k) (\<lambda>_. wp False False (ret (Inr (Inr f)))
         (\<lambda>v t. apdu_state t = apdu_state s \<and>
           (v = Inl () \<and> frames_ahead env enc valid holds input t (f # fs) \<and>
              hdlc_pendingHdlcFrames (self t) = [] \<and>
              length (input (world t)) < length (input (world s)) \<or>
            v = Inr (Inr f) \<and> frames_ahead env enc valid holds input t fs))
         (\<lambda>_. False)) (\<lambda>_. False)) (\<lambda>_. False)
       (s\<lparr>world := w, self := ?c\<lparr>hdlc_readBuffer := take n (input (world s)) @ drop n (hdlc_readBuffer ?c),
          hdlc_decoder := d'\<rparr>\<rparr>)" for k
      by (rule wp_PushPendingFrames_ample [OF am], rule wp_allocate_ample [OF am])
         (use Cons n push env nonempty pend w in \<open>auto simp: wp_ret frames_ahead_def apdu_state_def\<close>)
    with Cons n push show ?thesis
      by (simp add: ReadDecodedFrame_def wp_with_this wp_bnd wp_ext wp_case_prod wp_next_do wp_set_this
          wp_if read Let_def)
  qed
qed

lemma wp_ReceiveDecodedFrame_stream:
  fixes s :: "(('a, 'k, 'd, 'r, 's, 'w) HdlcProfileChannel, 'w) sys"
  assumes ex: "frames_ahead env enc valid holds input s (f # fs)"
  shows "wp False False (ReceiveDecodedFrame env)
     (\<lambda>v t. apdu_state t = apdu_state s \<and> v = Inr f \<and> frames_ahead env enc valid holds input t fs)
     (\<lambda>_. False) s"
proof (cases "hdlc_pendingHdlcFrames (self s)")
  case Nil
  let ?post = "\<lambda>v t. apdu_state t = apdu_state s \<and> v = Inr f \<and> frames_ahead env enc valid holds input t fs"
  have "wp False False (loop (\<lambda>_. ReadDecodedFrame env) ()) ?post (\<lambda>_. False) s"
  proof (rule wp_loop_total [where \<mu> = "\<lambda>_ t. length (input (world t))" and
      I = "\<lambda>_ t. apdu_state t = apdu_state s \<and> frames_ahead env enc valid holds input t (f # fs) \<and>
        hdlc_pendingHdlcFrames (self t) = []"])
    fix x :: unit and t :: "(('a, 'k, 'd, 'r, 's, 'w) HdlcProfileChannel, 'w) sys"
    assume t: "apdu_state t = apdu_state s \<and> frames_ahead env enc valid holds input t (f # fs) \<and>
        hdlc_pendingHdlcFrames (self t) = []"
    then have "frames_ahead env enc valid holds input t (f # fs)" "hdlc_pendingHdlcFrames (self t) = []"
      by simp_all
    from wp_ReadDecodedFrame_stream [OF this]
    show "wp False False (ReadDecodedFrame env)
       (\<lambda>v u. case v of
          Inl y \<Rightarrow> (apdu_state u = apdu_state s \<and>
              frames_ahead env enc valid holds input u (f # fs) \<and>
              hdlc_pendingHdlcFrames (self u) = []) \<and>
            length (input (world u)) < length (input (world t))
        | Inr a \<Rightarrow> ?post a u) (\<lambda>_. False) t"
      by (rule wp_conseq) (use t in auto)
  qed (use ex Nil in simp)
  moreover have "hdlc_readBuffer (self s) \<noteq> []"
    using ex by (simp add: frames_ahead_def hdlc_stream_env_def)
  ultimately show ?thesis using Nil by (simp add: ReceiveDecodedFrame_def wp_with_this)
next
  case (Cons g rest)
  from ex have am: "ample input (env_alloc env)" by (simp add: frames_ahead_def hdlc_stream_env_def)
  from ex Cons have "g = f" by (auto simp: frames_ahead_def)
  then show ?thesis
    unfolding ReceiveDecodedFrame_def wp_with_this Cons list.case wp_next_do
    by (intro wp_allocate_ample [OF am])
       (use ex Cons in \<open>auto simp: wp_simps frames_ahead_def apdu_state_def\<close>)
qed

section \<open>APDUs on their way, without a session\<close>

definition unnumbered_carries ::
  "('a, 'k, 'h, 'd, 'r, 's, 'w) hdlc_env \<Rightarrow> 'w ApduChannelOptions \<Rightarrow> ('a, 'k) HdlcFrame \<Rightarrow>
   byte list \<Rightarrow> bool" where
  "unnumbered_carries env opts frame apdu \<longleftrightarrow>
     \<not> hf_segmented frame \<and>
     DecodeLpdu (env_llc env) (hf_information frame) False = (LlcStatus.Ok, apdu) \<and>
     (maximumApduSize opts = 0 \<or> length apdu \<le> maximumApduSize opts)"

definition hdlc_source ::
  "('a, 'k, 'h, 'd, 'r, 's, 'w) hdlc_env \<Rightarrow> (('a, 'k) HdlcFrame \<Rightarrow> byte list) \<Rightarrow>
   (('a, 'k) HdlcFrame \<Rightarrow> bool) \<Rightarrow> ('d \<Rightarrow> byte list \<Rightarrow> bool) \<Rightarrow> ('w \<Rightarrow> byte list) \<Rightarrow>
   (('a, 'k, 'd, 'r, 's, 'w) HdlcProfileChannel, 'w) sys \<Rightarrow> byte list list \<Rightarrow> bool" where
  "hdlc_source env enc valid holds input s apdus \<longleftrightarrow>
     \<not> hdlcUseSession (hdlc_options (self s)) \<and>
     (\<exists>fs as. apdus = hdlc_pendingApdus (self s) @ as \<and>
        frames_ahead env enc valid holds input s fs \<and>
        list_all2 (unnumbered_carries env (hdlc_options (self s))) fs as)"

lemma wp_DecodeFrame_unnumbered:
  fixes s :: "(('a, 'k, 'd, 'r, 's, 'w) HdlcProfileChannel, 'w) sys"
  assumes "\<not> hdlcUseSession (hdlc_options (self s))" and "ample input (env_alloc env)"
    and "unnumbered_carries env (hdlc_options (self s)) frame apdu"
    and "frames_ahead env enc valid holds input s fs"
  shows "wp False False (DecodeFrameToPendingApdu env frame)
     (\<lambda>st t. st = ProfileStatus.Ok \<and> mem t = mem s \<and> hdlc_options (self t) = hdlc_options (self s) \<and>
        hdlc_pendingApdus (self t) = hdlc_pendingApdus (self s) @ [apdu] \<and>
        frames_ahead env enc valid holds input t fs) (\<lambda>_. False) s"
  using assms
  by (auto simp: DecodeFrameToPendingApdu_def DecodeCompleteInformationToPendingApdu_def
      unnumbered_carries_def wp_simps Let_def ample_case [OF assms(2)] ample_obs [OF assms(2)]
      frames_ahead_def)

lemma wp_ReceiveApduFrame_unnumbered:
  fixes s :: "(('a, 'k, 'd, 'r, 's, 'w) HdlcProfileChannel, 'w) sys"
  assumes ns: "\<not> hdlcUseSession (hdlc_options (self s))"
    and carries: "unnumbered_carries env (hdlc_options (self s)) f apdu"
    and ex: "frames_ahead env enc valid holds input s (f # fs)"
  shows "wp False False (ReceiveApduFrame env)
     (\<lambda>v t. v = Inr ProfileStatus.Ok \<and> mem t = mem s \<and>
        hdlc_options (self t) = hdlc_options (self s) \<and>
        hdlc_pendingApdus (self t) = hdlc_pendingApdus (self s) @ [apdu] \<and>
        frames_ahead env enc valid holds input t fs) (\<lambda>_. False) s"
  unfolding ReceiveApduFrame_def wp_bnd
proof (rule wp_conseq [OF wp_ReceiveDecodedFrame_stream [OF ex]], goal_cases)
  case (1 v t)
  then have t: "mem t = mem s" "hdlc_pendingApdus (self t) = hdlc_pendingApdus (self s)"
      "hdlc_options (self t) = hdlc_options (self s)" and v: "v = Inr f"
    and ahead: "frames_ahead env enc valid holds input t fs"
    by (auto simp: apdu_state_def)
  from ex have am: "ample input (env_alloc env)" by (simp add: frames_ahead_def hdlc_stream_env_def)
  from ns carries t have "\<not> hdlcUseSession (hdlc_options (self t))"
      "unnumbered_carries env (hdlc_options (self t)) f apdu" by simp_all
  from wp_DecodeFrame_unnumbered [OF this(1) am this(2) ahead] show ?case
    unfolding v sum.case wp_bnd by (rule wp_conseq) (auto simp: wp_simps t)
qed simp

lemma wp_hdlc_fill_unnumbered:
  fixes s :: "(('a, 'k, 'd, 'r, 's, 'w) HdlcProfileChannel, 'w) sys"
  assumes src: "hdlc_source env enc valid holds input s (apdu # apdus)"
  shows "wp False False (fill_while_empty Hdlc_no_pending (ReceiveNextApdu env))
     (\<lambda>st t. st = ProfileStatus.Ok \<and> mem t = mem s \<and>
        hdlc_source env enc valid holds input t (apdu # apdus) \<and> hdlc_pendingApdus (self t) \<noteq> [])
     (\<lambda>_. False) s"
proof (rule wp_fill_total [where I = "\<lambda>t. mem t = mem s \<and>
        hdlc_source env enc valid holds input t (apdu # apdus)"
      and \<mu> = "\<lambda>t. if hdlc_pendingApdus (self t) = [] then 1 else 0"])
  fix t :: "(('a, 'k, 'd, 'r, 's, 'w) HdlcProfileChannel, 'w) sys"
  assume t: "mem t = mem s \<and> hdlc_source env enc valid holds input t (apdu # apdus)"
    and e: "Hdlc_no_pending (self t)"
  then obtain f fs where ns: "\<not> hdlcUseSession (hdlc_options (self t))"
    and c: "unnumbered_carries env (hdlc_options (self t)) f apdu"
    and a: "frames_ahead env enc valid holds input t (f # fs)"
    and rest: "list_all2 (unnumbered_carries env (hdlc_options (self t))) fs apdus"
    by (auto simp: hdlc_source_def Hdlc_no_pending_def list_all2_Cons2)
  have "wp False False (ReceiveNextApdu env)
     (\<lambda>v u. v = ProfileStatus.Ok \<and> mem u = mem t \<and>
        hdlc_options (self u) = hdlc_options (self t) \<and>
        hdlc_pendingApdus (self u) = hdlc_pendingApdus (self t) @ [apdu] \<and>
        frames_ahead env enc valid holds input u fs) (\<lambda>_. False) t"
    unfolding ReceiveNextApdu_def
    by (subst wp_loop_unfold, rule wp_conseq [OF wp_ReceiveApduFrame_unnumbered [OF ns c a]]) auto
  then show "wp False False (ReceiveNextApdu env)
     (\<lambda>st u. if st = ProfileStatus.Ok
        then (mem u = mem s \<and> hdlc_source env enc valid holds input u (apdu # apdus)) \<and>
          (if hdlc_pendingApdus (self u) = [] then 1 else 0 :: nat)
            < (if hdlc_pendingApdus (self t) = [] then 1 else 0)
        else st = ProfileStatus.Ok \<and> mem u = mem s \<and>
          hdlc_source env enc valid holds input u (apdu # apdus) \<and> hdlc_pendingApdus (self u) \<noteq> [])
     (\<lambda>_. False) t"
    by (rule wp_conseq)
       (use t e ns rest in \<open>auto simp: Hdlc_no_pending_def hdlc_source_def intro!: exI [of _ fs]\<close>)
qed (use src in \<open>auto simp: Hdlc_no_pending_def\<close>)

lemma hdlc_source_head:
  "hdlc_source env enc valid holds input s (apdu # apdus) \<Longrightarrow>
     hdlc_pendingApdus (self s) = a # rest \<Longrightarrow> a = apdu"
  by (auto simp: hdlc_source_def)

lemma hdlc_source_rest:
  assumes src: "hdlc_source env enc valid holds input s (apdu # apdus)"
    and pend: "hdlc_pendingApdus (self s) = a # rest"
    and u: "self u = (self s)\<lparr>hdlc_pendingApdus := rest\<rparr>" "input (world u) = input (world s)"
  shows "hdlc_source env enc valid holds input u apdus"
proof -
  from src pend obtain fs as where "apdus = rest @ as"
    and ahead: "frames_ahead env enc valid holds input s fs"
    and "list_all2 (unnumbered_carries env (hdlc_options (self s))) fs as"
    and "\<not> hdlcUseSession (hdlc_options (self s))"
    unfolding hdlc_source_def by auto
  moreover from ahead u have "frames_ahead env enc valid holds input u fs"
    by (simp add: frames_ahead_def)
  ultimately show ?thesis unfolding hdlc_source_def u(1) by auto
qed

lemma wp_Hdlc_ReceiveVector_unnumbered:
  fixes s :: "(('a, 'k, 'd, 'r, 's, 'w) HdlcProfileChannel, 'w) sys"
  assumes src: "hdlc_source env enc valid holds input s (apdu # apdus)"
  shows "wp False False (Hdlc_ReceiveVector env)
     (\<lambda>st t. st = ProfileStatus.Ok \<and> cm_vector (mem t) = apdu \<and>
        hdlc_source env enc valid holds input t apdus) (\<lambda>_. False) s"
proof -
  let ?s = "s\<lparr>mem := (mem s)\<lparr>cm_vector := []\<rparr>\<rparr>"
  from src have src': "hdlc_source env enc valid holds input ?s (apdu # apdus)"
    by (simp add: hdlc_source_def frames_ahead_def)
  from src have am: "ample input (env_alloc env)"
    by (auto simp: hdlc_source_def frames_ahead_def hdlc_stream_env_def)
  show ?thesis
    unfolding Hdlc_ReceiveVector_def wp_next_do wp_set_mem wp_ok_or_return
    by (rule wp_conseq [OF wp_hdlc_fill_unnumbered [OF src']])
       (auto simp: wp_simps ample_case [OF am] ample_obs [OF am] split: list.splits
          dest: hdlc_source_head intro: hdlc_source_rest)
qed

text \<open>Into the caller's buffer: a small buffer keeps the APDU for the next call.\<close>

lemma wp_Hdlc_ReceiveBuffer_unnumbered:
  fixes s :: "(('a, 'k, 'd, 'r, 's, 'w) HdlcProfileChannel, 'w) sys"
  assumes src: "hdlc_source env enc valid holds input s (apdu # apdus)"
    and buf: "IsValidMutableBuffer output" "buffer_backed output (mem s)"
  shows "wp False False (Hdlc_ReceiveBuffer env output)
     (\<lambda>st t.
        if mb_size output < length apdu
        then st = ProfileStatus.OutputBufferTooSmall \<and> cm_written (mem t) = 0 \<and>
          cm_data (mem t) = cm_data (mem s) \<and> hdlc_source env enc valid holds input t (apdu # apdus)
        else st = ProfileStatus.Ok \<and> cm_written (mem t) = length apdu \<and>
          take (cm_written (mem t)) (cm_data (mem t)) = apdu \<and>
          hdlc_source env enc valid holds input t apdus) (\<lambda>_. False) s"
proof -
  let ?s = "s\<lparr>mem := (mem s)\<lparr>cm_written := 0\<rparr>\<rparr>"
  from src have src': "hdlc_source env enc valid holds input ?s (apdu # apdus)"
    by (simp add: hdlc_source_def frames_ahead_def)
  from buf have out: "mb_writtenSize output \<noteq> NullPtr"
      "mb_data output = NullPtr \<Longrightarrow> mb_size output = 0"
    by (auto simp: IsValidMutableBuffer_def split: if_splits)
  have "wp False False (ok_or_return (fill_while_empty Hdlc_no_pending (ReceiveNextApdu env))
       (CopyFirstPendingApdu output True))
     (\<lambda>st t.
        if mb_size output < length apdu
        then st = ProfileStatus.OutputBufferTooSmall \<and> cm_written (mem t) = 0 \<and>
          cm_data (mem t) = cm_data (mem s) \<and> hdlc_source env enc valid holds input t (apdu # apdus)
        else st = ProfileStatus.Ok \<and> cm_written (mem t) = length apdu \<and>
          take (cm_written (mem t)) (cm_data (mem t)) = apdu \<and>
          hdlc_source env enc valid holds input t apdus) (\<lambda>_. False) ?s"
    unfolding wp_ok_or_return
    by (rule wp_conseq [OF wp_hdlc_fill_unnumbered [OF src']])
       (use buf out in \<open>auto simp: wp_simps CopyFirstPendingApdu_def buffer_backed_def
          split: list.splits dest: hdlc_source_head intro: hdlc_source_rest\<close>)
  with buf out show ?thesis
    unfolding Hdlc_ReceiveBuffer_def by (simp add: wp_if wp_next_do wp_store_written)
qed

text \<open>A channel with nothing pending expects what is in the stream.\<close>

lemma hdlc_source_fresh:
  assumes "hdlc_stream_env env enc valid holds input (self s)"
    and "\<not> hdlcUseSession (hdlc_options (self s))"
    and "hdlc_pendingApdus (self s) = []" "hdlc_pendingHdlcFrames (self s) = []"
    and "holds (hdlc_decoder (self s)) []" and "list_all valid fs"
    and "input (world s) = concat (map enc fs)"
    and "list_all2 (unnumbered_carries env (hdlc_options (self s))) fs apdus"
  shows "hdlc_source env enc valid holds input s apdus"
proof -
  from assms(1) have "begins enc [] fs"
    unfolding hdlc_stream_env_def hdlc_incremental_def by (blast intro: begins_nothing assms(6))
  with assms show ?thesis
    unfolding hdlc_source_def frames_ahead_def by auto
qed

interpretation hdlc_source: apdu_source
  "Hdlc_ReceiveVector env" "hdlc_source env enc valid holds input"
  for env :: "('a, 'k, 'h, 'd, 'r, 's, 'w) hdlc_env" and enc valid holds
    and input :: "'w \<Rightarrow> byte list"
proof
  fix s :: "(('a, 'k, 'd, 'r, 's, 'w) HdlcProfileChannel, 'w) sys" and apdu apdus
  assume "hdlc_source env enc valid holds input s (apdu # apdus)"
  from wp_totalE [OF wp_Hdlc_ReceiveVector_unnumbered [OF this]] obtain st t where
    "Hdlc_ReceiveVector env s = Some (Ret st t)"
    "st = ProfileStatus.Ok \<and> cm_vector (mem t) = apdu \<and>
       hdlc_source env enc valid holds input t apdus" .
  then show "\<exists>t. Hdlc_ReceiveVector env s = Some (Ret ProfileStatus.Ok t) \<and>
      cm_vector (mem t) = apdu \<and> hdlc_source env enc valid holds input t apdus" by auto
qed

section \<open>Sending without a session\<close>

definition hdlc_sink ::
  "('a, 'k, 'h, 'd, 'r, 's, 'w) hdlc_env \<Rightarrow> ('w \<Rightarrow> byte list) \<Rightarrow>
   (('a, 'k, 'd, 'r, 's, 'w) HdlcProfileChannel, 'w) sys \<Rightarrow> (byte list \<Rightarrow> byte list) \<Rightarrow>
   (byte list \<Rightarrow> bool) \<Rightarrow> bool" where
  "hdlc_sink env sent s encode fits \<longleftrightarrow>
     \<not> hdlcUseSession (hdlc_options (self s)) \<and> records sent (hdlc_stream (self s)) \<and>
     (\<forall>apdu. fits apdu \<longrightarrow>
        (maximumApduSize (hdlc_options (self s)) = 0 \<or>
           length apdu \<le> maximumApduSize (hdlc_options (self s))) \<and>
        (\<exists>lpdu. EncodeLpdu (env_llc env)
            (MakeLlcHeader (env_llc env) (ToLlcDirection (hdlcDirection (hdlc_options (self s)))))
            (Some apdu) (length apdu) = (LlcStatus.Ok, lpdu) \<and>
          BuildFrame (env_codec env) (self s) lpdu = Inr (encode apdu)))"

interpretation hdlc_sink: apdu_sink "Hdlc_SendApdu env" "hdlc_sink env sent" sent
  for env :: "('a, 'k, 'h, 'd, 'r, 's, 'w) hdlc_env" and sent :: "'w \<Rightarrow> byte list"
proof
  fix s :: "(('a, 'k, 'd, 'r, 's, 'w) HdlcProfileChannel, 'w) sys" and encode fits apdu
  assume s: "hdlc_sink env sent s encode fits" and "fits apdu"
  then obtain lpdu where enc: "EncodeLpdu (env_llc env)
        (MakeLlcHeader (env_llc env) (ToLlcDirection (hdlcDirection (hdlc_options (self s)))))
        (Some apdu) (length apdu) = (LlcStatus.Ok, lpdu)"
      "BuildFrame (env_codec env) (self s) lpdu = Inr (encode apdu)"
    and size: "maximumApduSize (hdlc_options (self s)) = 0 \<or>
      \<not> maximumApduSize (hdlc_options (self s)) < length apdu"
    and ns: "\<not> hdlcUseSession (hdlc_options (self s))"
    unfolding hdlc_sink_def by fastforce
  from s obtain w where "bs_WriteAll (hdlc_stream (self s)) (encode apdu) (world s) =
        Ret TransportStatus.Ok w" "sent w = sent (world s) @ encode apdu"
    unfolding hdlc_sink_def records_def by blast
  with size ns s enc show "\<exists>t. Hdlc_SendApdu env (view_of apdu) s = Some (Ret ProfileStatus.Ok t) \<and>
      hdlc_sink env sent t encode fits \<and> sent (world t) = sent (world s) @ encode apdu"
    by (intro exI [of _ "s\<lparr>world := w\<rparr>"])
       (auto simp: Hdlc_SendApdu_def run_simps WriteFrameBytes_def hdlc_sink_def)
qed

end
