(* ===== verification/Hdlc_Segments.thy ===== *)
theory Hdlc_Segments
  imports Hdlc_Laws
begin

text \<open>
  How the HDLC channel cuts an LPDU into the information fields of a session, against a
  recursive reference, and in which order it asks the session for frames and waits for
  acknowledgements.
\<close>

section \<open>The information fields\<close>

text \<open>The reference: full fields while more follows, the rest with the final bit.\<close>

function session_fields :: "nat \<Rightarrow> byte list \<Rightarrow> (byte list \<times> bool) list" where
  "session_fields chunk lpdu =
     (if chunk = 0 \<or> length lpdu \<le> chunk then [(lpdu, True)]
      else (take chunk lpdu, False) # session_fields chunk (drop chunk lpdu))"
  by pat_completeness auto

termination
  by (relation "measure (\<lambda>(chunk, lpdu). length lpdu)") auto

declare session_fields.simps [simp del]

lemma session_fields_concat: "concat (map fst (session_fields chunk lpdu)) = lpdu"
  by (induction chunk lpdu rule: session_fields.induct) (subst session_fields.simps, simp)

lemma session_fields_size:
  "0 < chunk \<Longrightarrow> (field, final) \<in> set (session_fields chunk lpdu) \<Longrightarrow> length field \<le> chunk"
proof (induction chunk lpdu rule: session_fields.induct)
  case (1 chunk lpdu)
  from 1(3) show ?case
    by (subst (asm) session_fields.simps) (use 1(1,2) in \<open>auto split: if_splits\<close>)
qed

lemma session_fields_final:
  "\<exists>fs f. session_fields chunk lpdu = map (\<lambda>x. (x, False)) fs @ [(f, True)]"
proof (induction chunk lpdu rule: session_fields.induct)
  case (1 chunk lpdu)
  show ?case
  proof (cases "chunk = 0 \<or> length lpdu \<le> chunk")
    case True
    then show ?thesis
      by (intro exI [of _ "[]"] exI [of _ lpdu]) (subst session_fields.simps, simp)
  next
    case False
    with 1 obtain fs f where
      "session_fields chunk (drop chunk lpdu) = map (\<lambda>x. (x, False)) fs @ [(f, True)]" by blast
    with False show ?thesis
      by (intro exI [of _ "take chunk lpdu # fs"] exI [of _ f]) (subst session_fields.simps, simp)
  qed
qed

text \<open>The loop counter and the remaining bytes agree as long as the sum of sizes does not wrap.\<close>

lemma session_frame_count:
  assumes "lpdu \<noteq> []" and "0 < chunk" and "length lpdu + chunk < size_modulus"
  shows "i < session_frame_count chunk lpdu \<longleftrightarrow> i * chunk < length lpdu"
proof -
  from assms have "session_frame_count chunk lpdu = (length lpdu + chunk - 1) div chunk"
    by (simp add: session_frame_count_def size_add_exact size_sub_exact)
  moreover have "i < (length lpdu + chunk - 1) div chunk \<longleftrightarrow> Suc i * chunk \<le> length lpdu + chunk - 1"
    using assms(2) by (simp add: Suc_le_eq [symmetric] less_eq_div_iff_mult_less_eq del: mult_Suc)
  moreover have "Suc i * chunk \<le> length lpdu + chunk - 1 \<longleftrightarrow> i * chunk < length lpdu"
    using assms(2) by (auto simp: Suc_le_eq)
  ultimately show ?thesis by simp
qed

text \<open>When the sum does wrap, no frame is counted at all.\<close>

lemma session_frame_count_wraps:
  assumes "chunk < size_modulus" and "length lpdu < size_modulus"
    and "size_modulus < length lpdu + chunk"
  shows "session_frame_count chunk lpdu = 0"
proof -
  have "size_add (length lpdu) chunk = length lpdu + chunk - size_modulus"
    using assms by (simp add: size_add_def mod_if)
  moreover have "size_sub (length lpdu + chunk - size_modulus) 1 = length lpdu + chunk - size_modulus - 1"
    using assms by (intro size_sub_exact) auto
  moreover have "length lpdu + chunk - size_modulus - 1 < chunk" using assms by linarith
  moreover have "lpdu \<noteq> []" using assms by auto
  ultimately show ?thesis by (simp add: session_frame_count_def)
qed

section \<open>What the session sees\<close>

text \<open>
  \<open>seen ss\<close> is the history of a session: the information frames it has built and the frames it
  has accepted. A frame that the session refuses leaves no trace.
\<close>

datatype ('a, 'k) session_event = Built "byte list \<times> bool" | Accepted "('a, 'k) HdlcFrame"

definition session_records ::
  "('s \<Rightarrow> ('a, 'k) session_event list) \<Rightarrow> ('a, 'k, 's) hdlc_session \<Rightarrow> bool" where
  "session_records seen S \<longleftrightarrow>
     (\<forall>info final ss st ss' bytes. hs_BuildInformationFrame S info final ss = (st, ss', bytes) \<longrightarrow>
        seen ss' = seen ss @ (if st = HdlcStatus.Ok then [Built (info, final)] else [])) \<and>
     (\<forall>frame ss st ss'. hs_ReceiveFrame S frame ss = (st, ss') \<longrightarrow>
        seen ss' = seen ss @ (if st = HdlcStatus.Ok then [Accepted frame] else []))"

lemma session_records_build:
  "session_records seen S \<Longrightarrow> hs_BuildInformationFrame S info final ss = (st, ss', bytes) \<Longrightarrow>
     seen ss' = seen ss @ (if st = HdlcStatus.Ok then [Built (info, final)] else [])"
  unfolding session_records_def by blast

lemma session_records_receive:
  "session_records seen S \<Longrightarrow> hs_ReceiveFrame S frame ss = (st, ss') \<Longrightarrow>
     seen ss' = seen ss @ (if st = HdlcStatus.Ok then [Accepted frame] else [])"
  unfolding session_records_def by blast

fun built_fields :: "('a, 'k) session_event list \<Rightarrow> (byte list \<times> bool) list" where
  "built_fields [] = []"
| "built_fields (Built field # es) = field # built_fields es"
| "built_fields (Accepted frame # es) = built_fields es"

text \<open>Stop and wait: a frame is accepted between two that are built, and after the last.\<close>

fun stop_and_wait :: "('a, 'k) session_event list \<Rightarrow> bool" where
  "stop_and_wait [] = True"
| "stop_and_wait (Accepted frame # es) = stop_and_wait es"
| "stop_and_wait (Built field # Accepted frame # es) = stop_and_wait es"
| "stop_and_wait (Built field # _) = False"

lemma built_fields_append [simp]: "built_fields (xs @ ys) = built_fields xs @ built_fields ys"
  by (induction xs rule: built_fields.induct) simp_all

lemma stop_and_wait_append: "stop_and_wait xs \<Longrightarrow> stop_and_wait (xs @ ys) = stop_and_wait ys"
  by (induction xs rule: stop_and_wait.induct) simp_all

abbreviation session_seen ::
  "('s \<Rightarrow> 'e) \<Rightarrow> (('a, 'k, 'd, 'r, 's, 'w) HdlcProfileChannel, 'w) sys \<Rightarrow> 'e" where
  "session_seen seen s \<equiv> seen (hdlc_session (self s))"

section \<open>The history of each step\<close>

lemma ReceiveDecodedFrame_keeps_session:
  "keeps (\<lambda>s. hdlc_session (self s)) (ReceiveDecodedFrame env)"
  unfolding ReceiveDecodedFrame_def ReadDecodedFrame_def
  by (intro steps_intros preord_eq TrueI) (auto split: outcome.splits)

lemma WriteFrameBytes_keeps_session: "keeps (\<lambda>s. hdlc_session (self s)) (WriteFrameBytes bytes)"
  unfolding WriteFrameBytes_def
  by (intro steps_intros preord_eq TrueI) (auto split: outcome.splits)

lemma SleepBeforeRetry_keeps_session: "keeps (\<lambda>s. hdlc_session (self s)) SleepBeforeRetry"
  unfolding SleepBeforeRetry_def
  by (intro steps_intros preord_eq TrueI) (auto split: outcome.splits)

lemma wp_keeps:
  assumes "keeps g m" and "\<And>a t. g t = g s \<Longrightarrow> Q a t" and "\<And>t. g t = g s \<Longrightarrow> E t"
  shows "wp True True m Q E s"
  by (rule wp_conseq [OF keepsD [OF assms(1)]]) (simp_all add: assms(2,3))

lemma ReceiveDecodedFrame_failure:
  "yields (\<lambda>r. \<forall>st. r = Inl st \<longrightarrow> st \<noteq> ProfileStatus.Ok) (ReceiveDecodedFrame env)"
  unfolding ReceiveDecodedFrame_def ReadDecodedFrame_def
  by (intro yields_intros) auto

lemma wp_ReceiveSessionControlFrame_seen:
  assumes "session_records seen (env_session env)"
  shows "wp True True (ReceiveSessionControlFrame env)
     (\<lambda>st t. if st = ProfileStatus.Ok
        then \<exists>frame. session_seen seen t = session_seen seen s @ [Accepted frame]
        else session_seen seen t = session_seen seen s)
     (\<lambda>_. True) s"
  unfolding ReceiveSessionControlFrame_def wp_bnd
  by (rule wp_conseq [OF wp_also [OF keepsD [OF ReceiveDecodedFrame_keeps_session]
        yieldsD [OF ReceiveDecodedFrame_failure]]])
     (auto simp: wp_simps SessionReceiveFrame_def Let_def hdlc_map.map_ok_iff
        dest: session_records_receive [OF assms] split: sum.splits prod.splits)

text \<open>A status that is not retried is not \<open>Ok\<close>: the loop ends in an acceptance or a failure.\<close>

lemma wp_Retry_seen:
  fixes s :: "(('a, 'k, 'd, 'r, 's, 'w) HdlcProfileChannel, 'w) sys"
  assumes "session_records seen (env_session env)"
  shows "wp True True (ReceiveSessionControlFrameWithRetry env bytes)
     (\<lambda>st t. st = ProfileStatus.Ok \<longrightarrow>
        (\<exists>frame. session_seen seen t = session_seen seen s @ [Accepted frame])) (\<lambda>_. True) s"
  unfolding ReceiveSessionControlFrameWithRetry_def
proof (rule wp_loop [where I = "\<lambda>_ t. session_seen seen t = session_seen seen s"])
  fix attempt :: uint8 and t :: "(('a, 'k, 'd, 'r, 's, 'w) HdlcProfileChannel, 'w) sys"
  assume t: "session_seen seen t = session_seen seen s"
  have again: "wp True True SleepBeforeRetry
      (\<lambda>st. wp True True (if st \<noteq> ProfileStatus.Ok then ret (Inr st)
         else bnd (WriteFrameBytes bytes) (\<lambda>st.
           if st \<noteq> ProfileStatus.Ok then ret (Inr st) else ret (Inl (attempt + 1))))
         (\<lambda>v u. case v of Inl (y :: uint8) \<Rightarrow> session_seen seen u = session_seen seen s
            | Inr st \<Rightarrow> st = ProfileStatus.Ok \<longrightarrow>
               (\<exists>frame. session_seen seen u = session_seen seen s @ [Accepted frame])) (\<lambda>_. True))
      (\<lambda>_. True) u" if u: "session_seen seen u = session_seen seen s"
      for u :: "(('a, 'k, 'd, 'r, 's, 'w) HdlcProfileChannel, 'w) sys"
    by (rule wp_keeps [OF SleepBeforeRetry_keeps_session])
       (use u in \<open>auto simp: wp_if wp_ret wp_bnd intro!: wp_keeps [OF WriteFrameBytes_keeps_session]\<close>)
  show "wp True True (RetryAttempt env bytes attempt)
     (\<lambda>v u. case v of Inl (y :: uint8) \<Rightarrow> session_seen seen u = session_seen seen s
        | Inr st \<Rightarrow> st = ProfileStatus.Ok \<longrightarrow>
           (\<exists>frame. session_seen seen u = session_seen seen s @ [Accepted frame])) (\<lambda>_. True) t"
    unfolding RetryAttempt_def wp_bnd
    by (rule wp_conseq [OF wp_ReceiveSessionControlFrame_seen [OF assms]])
       (use t again in \<open>auto simp: wp_if wp_ret wp_with_this wp_bnd [of _ _ SleepBeforeRetry]
          IsRetriableReceiveStatus_def split: if_splits\<close>)
qed simp

lemma wp_BuildSessionInformationFrame_seen:
  assumes "session_records seen (env_session env)"
  shows "wp True True (BuildSessionInformationFrame env info segmented final)
     (\<lambda>r t. case r of
        Inl st \<Rightarrow> st \<noteq> ProfileStatus.Ok
      | Inr _ \<Rightarrow> session_seen seen t = session_seen seen s @ [Built (info, final)])
     (\<lambda>_. True) s"
  by (auto simp: BuildSessionInformationFrame_def session_build_def wp_simps Let_def
      hdlc_map.map_ok_iff dest: session_records_build [OF assms] split: prod.splits)

section \<open>The loop over the fields\<close>

lemma session_field_step:
  assumes sizes: "chunk = 0 \<longrightarrow> lpdu = []" "length lpdu + chunk < size_modulus"
    and i: "i < session_frame_count chunk lpdu"
    and cur: "cur = (if lpdu = [] then 0 else min chunk (length lpdu - i * chunk))"
  shows "session_fields chunk (drop (i * chunk) lpdu) =
      (take cur (drop (i * chunk) lpdu), i + 1 = session_frame_count chunk lpdu) #
        (if i + 1 < session_frame_count chunk lpdu
         then session_fields chunk (drop (i * chunk + cur) lpdu) else [])"
    and "i + 1 < session_frame_count chunk lpdu \<Longrightarrow> i * chunk + cur = (i + 1) * chunk"
proof -
  consider (empty) "lpdu = []" | (some) "lpdu \<noteq> []" "0 < chunk" using sizes(1) by blast
  then have "session_fields chunk (drop (i * chunk) lpdu) =
      (take cur (drop (i * chunk) lpdu), i + 1 = session_frame_count chunk lpdu) #
        (if i + 1 < session_frame_count chunk lpdu
         then session_fields chunk (drop (i * chunk + cur) lpdu) else []) \<and>
      (i + 1 < session_frame_count chunk lpdu \<longrightarrow> i * chunk + cur = (i + 1) * chunk)"
  proof cases
    case empty
    with i cur show ?thesis by (subst session_fields.simps) (simp add: session_frame_count_def)
  next
    case some
    note count = session_frame_count [OF some sizes(2)]
    from i have less: "i * chunk < length lpdu" by (simp add: count)
    from i have last: "i + 1 = session_frame_count chunk lpdu \<longleftrightarrow> \<not> i + 1 < session_frame_count chunk lpdu"
      by linarith
    have more: "i + 1 < session_frame_count chunk lpdu \<longleftrightarrow> chunk < length lpdu - i * chunk"
      using less unfolding count [of "i + 1"] by (simp add: less_diff_conv)
    show ?thesis
      unfolding last more using some less cur
      by (subst session_fields.simps) (auto simp: min_def add.commute)
  qed
  then show "session_fields chunk (drop (i * chunk) lpdu) =
      (take cur (drop (i * chunk) lpdu), i + 1 = session_frame_count chunk lpdu) #
        (if i + 1 < session_frame_count chunk lpdu
         then session_fields chunk (drop (i * chunk + cur) lpdu) else [])"
    and "i + 1 < session_frame_count chunk lpdu \<Longrightarrow> i * chunk + cur = (i + 1) * chunk" by blast+
qed

text \<open>\<open>happens seen s evs t\<close>: the events \<open>evs\<close> are added, in stop-and-wait order.\<close>

definition happens ::
  "('s \<Rightarrow> ('a, 'k) session_event list) \<Rightarrow> (('a, 'k, 'd, 'r, 's, 'w) HdlcProfileChannel, 'w) sys \<Rightarrow>
   (byte list \<times> bool) list \<Rightarrow> (('a, 'k, 'd, 'r, 's, 'w) HdlcProfileChannel, 'w) sys \<Rightarrow> bool" where
  "happens seen s fs t \<longleftrightarrow>
     (\<exists>evs. session_seen seen t = session_seen seen s @ evs \<and> built_fields evs = fs \<and>
        stop_and_wait evs)"

lemma happens_nothing: "session_seen seen t = session_seen seen s \<Longrightarrow> happens seen s [] t"
  unfolding happens_def by (intro exI [of _ "[]"]) simp

lemma happens_trans: "happens seen s xs t \<Longrightarrow> happens seen t ys u \<Longrightarrow> happens seen s (xs @ ys) u"
  unfolding happens_def
  by (elim exE, rule_tac x = "evs @ evsa" in exI) (auto simp: stop_and_wait_append)

lemma happens_field:
  assumes "session_seen seen u = session_seen seen t @ [Built field]"
    and "session_seen seen v = session_seen seen u @ [Accepted frame]"
  shows "happens seen t [field] v"
  unfolding happens_def by (rule exI [of _ "[Built field, Accepted frame]"]) (simp add: assms)

lemma happens_window:
  "session_seen seen t = session_seen seen s @ [Accepted frame] \<Longrightarrow> happens seen s [] t"
  unfolding happens_def by (rule exI [of _ "[Accepted frame]"]) simp

lemma wp_SendInformationChunk_seen:
  fixes s :: "(('a, 'k, 'd, 'r, 's, 'w) HdlcProfileChannel, 'w) sys"
  assumes rec: "session_records seen (env_session env)" and i: "i < count"
    and cur: "cur = (if lpdu = [] then 0 else min chunk (length lpdu - offset))"
  shows "wp True True (SendInformationChunk env lpdu chunk count (i, offset))
     (\<lambda>v t. case v of
        Inl y \<Rightarrow> y = (i + 1, offset + cur) \<and>
          happens seen s [(take cur (drop offset lpdu), i + 1 = count)] t
      | Inr st \<Rightarrow> st \<noteq> ProfileStatus.Ok) (\<lambda>_. True) s"
proof -
  let ?field = "(take cur (drop offset lpdu), i + 1 = count)"
  let ?Q = "\<lambda>v t. case v of Inl y \<Rightarrow> y = (i + 1, offset + cur) \<and> happens seen s [?field] t
      | Inr st \<Rightarrow> st \<noteq> ProfileStatus.Ok"
  have send: "wp True True (BuildSessionInformationFrame env (take cur (drop offset lpdu))
      (i + 1 \<noteq> count) (i + 1 = count))
      (\<lambda>r. wp True True (case r of Inl status \<Rightarrow> ret (Inr status)
         | Inr frameBytes \<Rightarrow> bnd (WriteFrameBytes frameBytes) (\<lambda>status.
             if status \<noteq> ProfileStatus.Ok then ret (Inr status)
             else bnd (ReceiveSessionControlFrameWithRetry env frameBytes) (\<lambda>status.
               if status \<noteq> ProfileStatus.Ok then ret (Inr status)
               else ret (Inl (i + 1, offset + cur))))) ?Q (\<lambda>_. True)) (\<lambda>_. True) t"
    if w: "happens seen s [] t" for t :: "(('a, 'k, 'd, 'r, 's, 'w) HdlcProfileChannel, 'w) sys"
  proof (rule wp_conseq [OF wp_BuildSessionInformationFrame_seen [OF rec]], goal_cases)
    case (1 r u)
    show ?case
    proof (cases r)
      case (Inl st)
      with 1 show ?thesis by (simp add: wp_ret)
    next
      case (Inr bytes)
      with 1 have built: "session_seen seen u = session_seen seen t @ [Built ?field]" by simp
      have "wp True True (ReceiveSessionControlFrameWithRetry env bytes)
          (\<lambda>st v. st = ProfileStatus.Ok \<longrightarrow> happens seen s [?field] v)
          (\<lambda>_. True) v" if v: "hdlc_session (self v) = hdlc_session (self u)"
        for v :: "(('a, 'k, 'd, 'r, 's, 'w) HdlcProfileChannel, 'w) sys"
      proof (rule wp_conseq [OF wp_Retry_seen [OF rec]], goal_cases)
        case (1 st x)
        have "session_seen seen v = session_seen seen t @ [Built ?field]" using built v by simp
        from 1 happens_trans [OF w happens_field [OF this]] show ?case by auto
      qed simp
      then show ?thesis
        unfolding Inr sum.case wp_bnd wp_if wp_ret
        by (intro wp_keeps [OF WriteFrameBytes_keeps_session]) (simp_all add: wp_ret wp_if wp_bnd)
    qed
  qed simp
  show ?thesis
    using i
    unfolding SendInformationChunk_def prod.case wp_if wp_with_this wp_bnd Let_def cur [symmetric]
    by (auto simp: wp_ret happens_nothing simp del: One_nat_def intro!: send
        wp_conseq [OF wp_ReceiveSessionControlFrame_seen [OF rec]] intro: happens_window)
qed

lemma wp_SendInformationChunks_seen:
  fixes s :: "(('a, 'k, 'd, 'r, 's, 'w) HdlcProfileChannel, 'w) sys"
  assumes rec: "session_records seen (env_session env)"
    and sizes: "chunk = 0 \<longrightarrow> lpdu = []" "length lpdu + chunk < size_modulus"
  shows "wp True True (loop (SendInformationChunk env lpdu chunk (session_frame_count chunk lpdu)) (0, 0))
     (\<lambda>st t. st = ProfileStatus.Ok \<longrightarrow> happens seen s (session_fields chunk lpdu) t) (\<lambda>_. True) s"
proof -
  let ?N = "session_frame_count chunk lpdu"
  let ?I = "\<lambda>(i, offset) t. \<exists>fs. happens seen s fs t \<and>
      (if i < ?N then offset = i * chunk \<and> session_fields chunk lpdu = fs @ session_fields chunk (drop offset lpdu)
       else fs = session_fields chunk lpdu)"
  show ?thesis
  proof (rule wp_loop [where I = ?I])
    have "0 < ?N"
      using sizes session_frame_count [of lpdu chunk 0] by (cases "lpdu = []") (auto simp: session_frame_count_def)
    then show "?I (0, 0) s" by (auto intro: happens_nothing)
  next
    fix x and t :: "(('a, 'k, 'd, 'r, 's, 'w) HdlcProfileChannel, 'w) sys"
    assume I: "?I x t"
    obtain i offset where x: "x = (i, offset)" by (cases x)
    show "wp True True (SendInformationChunk env lpdu chunk ?N x)
       (\<lambda>v u. case v of Inl y \<Rightarrow> ?I y u
          | Inr st \<Rightarrow> st = ProfileStatus.Ok \<longrightarrow> happens seen s (session_fields chunk lpdu) u)
       (\<lambda>_. True) t"
    proof (cases "i < ?N")
      case False
      with I x show ?thesis by (auto simp: SendInformationChunk_def wp_ret)
    next
      case i: True
      with I x obtain fs where fs: "happens seen s fs t" "offset = i * chunk"
          "session_fields chunk lpdu = fs @ session_fields chunk (drop offset lpdu)" by auto
      define cur where "cur = (if lpdu = [] then 0 else min chunk (length lpdu - i * chunk))"
      note cur = session_field_step [OF sizes i cur_def]
      show ?thesis
        unfolding x
      proof (rule wp_conseq [OF wp_SendInformationChunk_seen [OF rec i, where cur = cur]], goal_cases)
        case (2 v u)
        show ?case
        proof (cases v)
          case (Inl y)
          with 2 have y: "y = (i + 1, offset + cur)"
            and h: "happens seen t [(take cur (drop offset lpdu), i + 1 = ?N)] u" by simp_all
          from happens_trans [OF fs(1) h] y Inl fs(2,3) cur show ?thesis
            by (auto simp: algebra_simps)
        qed (use 2 in simp)
      qed (simp_all add: cur_def fs(2))
    qed
  qed
qed

lemma wp_SendSessionInformation_seen:
  assumes rec: "session_records seen (env_session env)"
    and chunk: "chunk = session_chunk_size (maxInformationFieldLengthTransmit
      (hs_NegotiatedLimits (env_session env) (hdlc_session (self s)))) lpdu"
    and "length lpdu + chunk < size_modulus"
  shows "wp True True (SendSessionInformation env lpdu)
     (\<lambda>st t. st = ProfileStatus.Ok \<longrightarrow> happens seen s (session_fields chunk lpdu) t) (\<lambda>_. True) s"
proof -
  have "chunk = 0 \<longrightarrow> lpdu = []" unfolding chunk session_chunk_size_def by simp
  from wp_SendInformationChunks_seen [OF rec this assms(3), where s = "s\<lparr>self := (self s)\<lparr>hdlc_limits := l\<rparr>\<rparr>" for l]
  show ?thesis
    unfolding SendSessionInformation_def Let_def wp_with_this wp_if wp_next_do wp_set_this chunk [symmetric]
    by (auto simp: wp_ret happens_def)
qed

text \<open>With a negotiated length for which the sum wraps, the loop body is never entered.\<close>

lemma SendSessionInformation_wraps:
  assumes "hs_State (env_session env) (hdlc_session (self s)) = HdlcSessionState.Connected"
    and "chunk = session_chunk_size (maxInformationFieldLengthTransmit
      (hs_NegotiatedLimits (env_session env) (hdlc_session (self s)))) lpdu"
    and "chunk < size_modulus" "length lpdu < size_modulus" "size_modulus < length lpdu + chunk"
  shows "\<exists>t. SendSessionInformation env lpdu s = Some (Ret ProfileStatus.Ok t) \<and>
     world t = world s \<and> hdlc_session (self t) = hdlc_session (self s)"
  using assms(1) session_frame_count_wraps [OF assms(3-5)]
  by (simp add: SendSessionInformation_def run_simps Let_def assms(2) [symmetric] loop_unfold
      SendInformationChunk_def)

end
