(* ===== verification/Hdlc_Safety.thy ===== *)
theory Hdlc_Safety
  imports Hdlc_Laws
begin

text \<open>
  Memory safety and termination of the HDLC channel, proved together: \<open>hdlc_runs d f\<close> says
  that a call has undefined behaviour only if \<open>f\<close> and runs forever only if \<open>d\<close>, from what
  \<open>hdlc_env_ok d f\<close> says of the transport, the timer and the allocator.
\<close>

section \<open>The environment\<close>

definition hdlc_env_ok ::
  "bool \<Rightarrow> bool \<Rightarrow> ('w \<Rightarrow> nat) \<Rightarrow> 'w allocator \<Rightarrow> ('a, 'k, 'd, 'r, 's, 'w) HdlcProfileChannel \<Rightarrow> bool"
  where
  "hdlc_env_ok d f rank al c \<longleftrightarrow>
     (\<forall>w. behaves d f rank (bs_IsOpen (hdlc_stream c) w) w) \<and>
     (\<forall>bytes w. behaves d f rank (bs_WriteAll (hdlc_stream c) bytes w) w) \<and>
     (\<forall>buf w. behaves d f rank (bs_ReadSome (hdlc_stream c) buf w) w) \<and>
     (\<forall>buf w st buf' n w'. bs_ReadSome (hdlc_stream c) buf w = Ret (st, buf', n) w' \<longrightarrow>
        (\<not> f \<longrightarrow> n \<le> length buf') \<and>
        (\<not> d \<longrightarrow> st = TransportStatus.Ok \<longrightarrow> n \<noteq> 0 \<longrightarrow> rank w' < rank w)) \<and>
     (\<forall>timer ms w. hdlc_timer c = Some timer \<longrightarrow> behaves d f rank (tm_SleepFor timer ms w) w) \<and>
     (\<forall>n w. \<not> d \<longrightarrow> rank (snd (al n w)) \<le> rank w)"

lemma hdlc_env_ok_upd [simp]:
  "hdlc_env_ok d f rank al (c\<lparr>hdlc_limits := l\<rparr>) = hdlc_env_ok d f rank al c"
  "hdlc_env_ok d f rank al (c\<lparr>hdlc_decoder := x\<rparr>) = hdlc_env_ok d f rank al c"
  "hdlc_env_ok d f rank al (c\<lparr>hdlc_reassembler := r\<rparr>) = hdlc_env_ok d f rank al c"
  "hdlc_env_ok d f rank al (c\<lparr>hdlc_session := s\<rparr>) = hdlc_env_ok d f rank al c"
  "hdlc_env_ok d f rank al (c\<lparr>hdlc_readBuffer := b\<rparr>) = hdlc_env_ok d f rank al c"
  "hdlc_env_ok d f rank al (c\<lparr>hdlc_pendingHdlcFrames := fs\<rparr>) = hdlc_env_ok d f rank al c"
  "hdlc_env_ok d f rank al (c\<lparr>hdlc_pendingApdus := as\<rparr>) = hdlc_env_ok d f rank al c"
  by (simp_all add: hdlc_env_ok_def)

abbreviation falls :: "bool \<Rightarrow> ('w \<Rightarrow> nat) \<Rightarrow> ('c, 'w) sys \<Rightarrow> ('c, 'w) sys \<Rightarrow> bool" where
  "falls d rank s t \<equiv> \<not> d \<longrightarrow> rank (world t) \<le> rank (world s)"

abbreviation hdlc_runs ::
  "bool \<Rightarrow> bool \<Rightarrow> ('w \<Rightarrow> nat) \<Rightarrow> 'w allocator \<Rightarrow> ('a, 'k, 'd, 'r, 's, 'w, 'v) hdlc_prog \<Rightarrow> bool" where
  "hdlc_runs d f rank al m \<equiv>
     steps d f (\<lambda>s. hdlc_env_ok d f rank al (self s)) (falls d rank) m"

lemma preord_falls [simp, intro!]: "preord (falls d rank)"
  by (auto simp: preord_def)

lemma hdlc_env_okD:
  assumes "hdlc_env_ok d f rank al c"
  shows "behaves d f rank (bs_IsOpen (hdlc_stream c) w) w"
    and "behaves d f rank (bs_WriteAll (hdlc_stream c) bytes w) w"
    and "behaves d f rank (bs_ReadSome (hdlc_stream c) buf w) w"
    and "hdlc_timer c = Some timer \<Longrightarrow> behaves d f rank (tm_SleepFor timer ms w) w"
    and "\<not> d \<Longrightarrow> rank (snd (al n w)) \<le> rank w"
  using assms unfolding hdlc_env_ok_def by simp_all

lemma hdlc_env_ok_readD:
  assumes "hdlc_env_ok d f rank al c" and "bs_ReadSome (hdlc_stream c) buf w = Ret (st, buf', n) w'"
  shows "\<not> f \<Longrightarrow> n \<le> length buf'"
    and "\<not> d \<Longrightarrow> rank w' \<le> rank w"
    and "\<not> d \<Longrightarrow> st = TransportStatus.Ok \<Longrightarrow> 0 < n \<Longrightarrow> rank w' < rank w"
proof -
  from assms have "behaves d f rank (bs_ReadSome (hdlc_stream c) buf w) w"
    by (intro hdlc_env_okD)
  with assms(2) show "\<not> d \<Longrightarrow> rank w' \<le> rank w" by (simp add: behaves_def)
qed (use assms in \<open>unfold hdlc_env_ok_def, blast+\<close>)

text \<open>From the contracts of the interfaces.\<close>

definition safe_timer :: "'w ITimerScheduler option \<Rightarrow> bool" where
  "safe_timer timer \<longleftrightarrow> (\<forall>tm ms w. timer = Some tm \<longrightarrow> tm_SleepFor tm ms w \<noteq> Fault)"

definition patient_timer :: "('w \<Rightarrow> nat) \<Rightarrow> 'w ITimerScheduler option \<Rightarrow> bool" where
  "patient_timer rank timer \<longleftrightarrow>
     (\<forall>tm ms w. timer = Some tm \<longrightarrow> behaves False True rank (tm_SleepFor tm ms w) w)"

lemma hdlc_env_ok_safe:
  "honest_stream (hdlc_stream c) \<Longrightarrow> safe_timer (hdlc_timer c) \<Longrightarrow> hdlc_env_ok True False rank al c"
  by (fastforce simp: hdlc_env_ok_def honest_stream_def safe_timer_def behaves_def split: outcome.splits)

lemma hdlc_env_ok_finite:
  "finite_input rank (hdlc_stream c) \<Longrightarrow> patient_timer rank (hdlc_timer c) \<Longrightarrow>
     \<forall>n w. rank (snd (al n w)) \<le> rank w \<Longrightarrow> hdlc_env_ok False True rank al c"
  by (simp add: hdlc_env_ok_def finite_input_def patient_timer_def)

section \<open>Calls without loops\<close>

lemma runs_ext:
  fixes g :: "'w \<Rightarrow> ('v, 'w) outcome"
  assumes "\<And>w. behaves d f rank (g w) w"
  shows "hdlc_runs d f rank al (ext g :: ('a, 'k, 'd, 'r, 's, 'w, 'v) hdlc_prog)"
proof (rule steps_ext)
  fix s :: "(('a, 'k, 'd, 'r, 's, 'w) HdlcProfileChannel, 'w) sys"
  assume "hdlc_env_ok d f rank al (self s)"
  with assms [of "world s"]
  show "case g (world s) of
      Ret a w \<Rightarrow> hdlc_env_ok d f rank al (self (s\<lparr>world := w\<rparr>)) \<and> falls d rank s (s\<lparr>world := w\<rparr>)
    | Throw w \<Rightarrow> hdlc_env_ok d f rank al (self (s\<lparr>world := w\<rparr>)) \<and> falls d rank s (s\<lparr>world := w\<rparr>)
    | Fault \<Rightarrow> f"
    by (simp add: behaves_def split: outcome.splits)
qed

lemma runs_ext_transport:
  "(\<And>w. behaves d f rank (g w) w) \<Longrightarrow> hdlc_runs d f rank al (ext_transport g)"
  unfolding ext_transport_def by (intro steps_bnd steps_ret preord_falls runs_ext)

lemma runs_allocate: "hdlc_runs d f rank al (allocate al n)"
  by (rule steps_allocate) (simp add: hdlc_env_okD(5))

lemma WriteFrameBytes_runs: "hdlc_runs d f rank al (WriteFrameBytes bytes)"
  unfolding WriteFrameBytes_def
  by (intro steps_with_this runs_ext_transport) (rule hdlc_env_okD)

lemma Hdlc_IsOpen_runs: "hdlc_runs d f rank al Hdlc_IsOpen"
  unfolding Hdlc_IsOpen_def by (intro steps_with_this runs_ext) (rule hdlc_env_okD)

lemma SleepBeforeRetry_runs: "hdlc_runs d f rank al SleepBeforeRetry"
  unfolding SleepBeforeRetry_def
  by (intro steps_with_this steps_case_option steps_if steps_ret preord_falls runs_ext_transport)
     (rule hdlc_env_okD)

lemma session_build_runs: "hdlc_runs d f rank al (session_build build)"
  unfolding session_build_def by (intro steps_intros preord_falls) simp_all

lemma SessionReceiveFrame_runs: "hdlc_runs d f rank al (SessionReceiveFrame env frame)"
  unfolding SessionReceiveFrame_def by (intro steps_intros preord_falls) simp_all

lemma EnsureSession_runs: "hdlc_runs d f rank al (EnsureSession env)"
  unfolding EnsureSession_def by (intro steps_intros preord_falls) simp_all

lemma PushPendingFrames_runs: "hdlc_runs d f rank al (PushPendingFrames al frames)"
  by (intro steps_PushPendingFrames preord_falls runs_allocate steps_set_this) simp

lemma BuildSessionInformationFrame_runs:
  "hdlc_runs d f rank al (BuildSessionInformationFrame env information segmented pollFinal)"
  unfolding BuildSessionInformationFrame_def
  by (intro steps_intros session_build_runs preord_falls)

lemmas hdlc_runs_intros =
  runs_allocate WriteFrameBytes_runs Hdlc_IsOpen_runs SleepBeforeRetry_runs session_build_runs
  SessionReceiveFrame_runs EnsureSession_runs PushPendingFrames_runs BuildSessionInformationFrame_runs

section \<open>Receiving a frame\<close>

lemma wp_hdlc_runs:
  assumes "hdlc_runs d f rank al m" and "hdlc_env_ok d f rank al (self s)"
    and "\<And>a t. hdlc_env_ok d f rank al (self t) \<Longrightarrow> falls d rank s t \<Longrightarrow> Q a t"
    and "\<And>t. hdlc_env_ok d f rank al (self t) \<Longrightarrow> falls d rank s t \<Longrightarrow> E t"
  shows "wp d f m Q E s"
  by (rule wp_conseq [OF stepsD [OF assms(1,2)]]) (simp_all add: assms(3,4))

lemma wp_queue_frames:
  assumes "hdlc_env_ok d f rank al (self s)"
    and "\<And>t. hdlc_env_ok d f rank al (self t) \<Longrightarrow> falls d rank s t \<Longrightarrow> Q t \<and> E t"
  shows "wp d f (PushPendingFrames al frames) (\<lambda>_. wp d f (allocate al n) (\<lambda>_. Q) E) E s"
proof -
  have "wp d f (next_do (PushPendingFrames al frames) (allocate al n)) (\<lambda>_. Q) E s"
    by (rule wp_hdlc_runs [where rank = rank and al = al], intro steps_next_do preord_falls PushPendingFrames_runs
        runs_allocate) (use assms in auto)
  then show ?thesis by (simp add: wp_next_do)
qed

text \<open>An iteration that goes on, or delivers a frame, has consumed input.\<close>

lemma wp_ReadDecodedFrame:
  fixes s :: "(('a, 'k, 'd, 'r, 's, 'w) HdlcProfileChannel, 'w) sys"
  assumes ok: "hdlc_env_ok d f rank (env_alloc env) (self s)"
  shows "wp d f (ReadDecodedFrame env)
     (\<lambda>v t. hdlc_env_ok d f rank (env_alloc env) (self t) \<and> falls d rank s t \<and>
        (\<not> d \<longrightarrow> v = Inl () \<or> (\<exists>frame. v = Inr (Inr frame)) \<longrightarrow> rank (world t) < rank (world s)))
     (\<lambda>t. hdlc_env_ok d f rank (env_alloc env) (self t) \<and> falls d rank s t) s"
proof -
  have b: "behaves d f rank (bs_ReadSome (hdlc_stream (self s)) (hdlc_readBuffer (self s)) (world s))
      (world s)"
    using ok by (intro hdlc_env_okD)
  show ?thesis
  proof (cases "bs_ReadSome (hdlc_stream (self s)) (hdlc_readBuffer (self s)) (world s)")
    case (Ret r w)
    obtain st buffer n where r: "r = (st, buffer, n)" by (cases r)
    note read = hdlc_env_ok_readD [OF ok Ret [unfolded r]]
    obtain decoded decoder frames where push: "hd_Push (env_decoder env) (take n buffer)
        (hdlc_decoder (self s)) = (decoded, decoder, frames)"
      using prod_cases3 by blast
    have "\<not> length buffer < n \<or> f" using read(1) by (cases f) auto
    then show ?thesis
      using ok read(2,3)
      by (auto simp: ReadDecodedFrame_def wp_with_this wp_bnd wp_ext wp_case_prod wp_next_do wp_set_this
          wp_if wp_ret wp_let wp_fault wp_case_list Ret r push Let_def transport_map.map_ok_iff
          hdlc_map.map_ok_iff
          intro!: wp_queue_frames [where rank = rank] split: list.splits)
  qed (use ok b in \<open>auto simp: ReadDecodedFrame_def wp_simps behaves_def\<close>)
qed

lemma wp_ReadDecodedFrame_loop:
  fixes s :: "(('a, 'k, 'd, 'r, 's, 'w) HdlcProfileChannel, 'w) sys"
  assumes ok: "hdlc_env_ok d f rank (env_alloc env) (self s)"
  shows "wp d f (loop (\<lambda>_. ReadDecodedFrame env) ())
     (\<lambda>v t. hdlc_env_ok d f rank (env_alloc env) (self t) \<and> falls d rank s t \<and>
        (\<not> d \<longrightarrow> (\<exists>frame. v = Inr frame) \<longrightarrow> rank (world t) < rank (world s)))
     (\<lambda>t. hdlc_env_ok d f rank (env_alloc env) (self t) \<and> falls d rank s t) s"
proof (rule wp_loop_wf [where W = "measure (\<lambda>(x, t). rank (world t))" and
      I = "\<lambda>_ t. hdlc_env_ok d f rank (env_alloc env) (self t) \<and> falls d rank s t"])
  show "hdlc_env_ok d f rank (env_alloc env) (self s) \<and> falls d rank s s" using ok by simp
next
  fix x :: unit and t :: "(('a, 'k, 'd, 'r, 's, 'w) HdlcProfileChannel, 'w) sys"
  assume t: "hdlc_env_ok d f rank (env_alloc env) (self t) \<and> falls d rank s t"
  show "wp d f (ReadDecodedFrame env)
     (\<lambda>v u. case v of
        Inl y \<Rightarrow> (hdlc_env_ok d f rank (env_alloc env) (self u) \<and> falls d rank s u) \<and>
          (\<not> d \<longrightarrow> ((y, u), (x, t)) \<in> measure (\<lambda>(x, t). rank (world t)))
      | Inr a \<Rightarrow> hdlc_env_ok d f rank (env_alloc env) (self u) \<and> falls d rank s u \<and>
          (\<not> d \<longrightarrow> (\<exists>frame. a = Inr frame) \<longrightarrow> rank (world u) < rank (world s)))
     (\<lambda>u. hdlc_env_ok d f rank (env_alloc env) (self u) \<and> falls d rank s u) t"
    by (rule wp_conseq [OF wp_ReadDecodedFrame [OF conjunct1 [OF t]]])
       (use t in \<open>auto split: sum.splits\<close>)
qed simp

text \<open>A received frame came from the queue, or input was consumed.\<close>

lemma wp_ReceiveDecodedFrame:
  fixes s :: "(('a, 'k, 'd, 'r, 's, 'w) HdlcProfileChannel, 'w) sys"
  assumes ok: "hdlc_env_ok d f rank (env_alloc env) (self s)"
  shows "wp d f (ReceiveDecodedFrame env)
     (\<lambda>v t. hdlc_env_ok d f rank (env_alloc env) (self t) \<and> falls d rank s t \<and>
        (\<not> d \<longrightarrow> (\<exists>frame. v = Inr frame) \<longrightarrow> rank (world t) < rank (world s) \<or>
           length (hdlc_pendingHdlcFrames (self t)) < length (hdlc_pendingHdlcFrames (self s))))
     (\<lambda>t. hdlc_env_ok d f rank (env_alloc env) (self t) \<and> falls d rank s t) s"
proof (cases "hdlc_pendingHdlcFrames (self s)")
  case Nil
  then show ?thesis
    using ok
    by (auto simp: ReceiveDecodedFrame_def wp_with_this wp_if wp_ret
        intro!: wp_conseq [OF wp_ReadDecodedFrame_loop [OF ok]])
next
  case (Cons frame rest)
  have "\<not> d \<Longrightarrow> rank (snd (env_alloc env (length (hf_information frame)) (world s))) \<le> rank (world s)"
    using ok by (rule hdlc_env_okD)
  with ok Cons show ?thesis
    by (auto simp: ReceiveDecodedFrame_def wp_simps split: prod.splits)
qed

lemma ReceiveDecodedFrame_runs: "hdlc_runs d f rank (env_alloc env) (ReceiveDecodedFrame env)"
  by (rule stepsI) (rule wp_conseq [OF wp_ReceiveDecodedFrame]; simp)

lemma ReceiveSessionControlFrame_runs:
  "hdlc_runs d f rank (env_alloc env) (ReceiveSessionControlFrame env)"
  unfolding ReceiveSessionControlFrame_def
  by (intro steps_intros ReceiveDecodedFrame_runs SessionReceiveFrame_runs preord_falls)

section \<open>Retry and segmentation\<close>

lemma attempt_falls:
  "attempt < (limit :: uint8) \<Longrightarrow> 256 - unat (attempt + 1) < 256 - unat attempt"
  using attempt_counts [of attempt limit] by linarith

lemma RetryAttempt_yields:
  "yields (\<lambda>v. \<forall>y. v = Inl y \<longrightarrow> y = attempt + 1 \<and> (\<exists>limit. attempt < limit))
     (RetryAttempt env bytes attempt)"
  unfolding RetryAttempt_def by (intro yields_intros) (auto simp: not_le)

lemma RetryAttempt_runs: "hdlc_runs d f rank (env_alloc env) (RetryAttempt env bytes attempt)"
  unfolding RetryAttempt_def
  by (intro steps_bnd steps_if steps_ret steps_with_this hdlc_runs_intros
      ReceiveSessionControlFrame_runs preord_falls)

text \<open>A loop whose iterations keep the invariant and whose counter makes progress.\<close>

lemma runs_loop:
  fixes \<mu> :: "'x \<Rightarrow> nat"
    and body :: "'x \<Rightarrow> ('a, 'k, 'd, 'r, 's, 'w, 'x + 'v) hdlc_prog"
  assumes "\<And>x. hdlc_runs d f rank al (body x)"
    and "\<And>x. yields (\<lambda>v. \<forall>y. v = Inl y \<longrightarrow> \<mu> y < \<mu> x) (body x)"
  shows "hdlc_runs d f rank al (loop body x)"
proof (rule steps_loop_wf [where W = "measure \<mu>"], rule preord_falls, simp)
  fix x and s :: "(('a, 'k, 'd, 'r, 's, 'w) HdlcProfileChannel, 'w) sys"
  assume "hdlc_env_ok d f rank al (self s)"
  from wp_conj [OF stepsD [OF assms(1) this] yieldsD [OF assms(2)]]
  have "wp (d \<and> True) (f \<and> True) (body x)
     (\<lambda>v t. hdlc_env_ok d f rank al (self t) \<and> falls d rank s t \<and>
        (case v of Inl y \<Rightarrow> \<not> d \<longrightarrow> (y, x) \<in> measure \<mu> | Inr a \<Rightarrow> True))
     (\<lambda>t. hdlc_env_ok d f rank al (self t) \<and> falls d rank s t) s"
    by (rule wp_conseq) (auto split: sum.splits)
  then show "wp d f (body x)
     (\<lambda>v t. hdlc_env_ok d f rank al (self t) \<and> falls d rank s t \<and>
        (case v of Inl y \<Rightarrow> \<not> d \<longrightarrow> (y, x) \<in> measure \<mu> | Inr a \<Rightarrow> True))
     (\<lambda>t. hdlc_env_ok d f rank al (self t) \<and> falls d rank s t) s" by simp
qed

lemma Retry_runs:
  "hdlc_runs d f rank (env_alloc env) (ReceiveSessionControlFrameWithRetry env bytes)"
  unfolding ReceiveSessionControlFrameWithRetry_def
proof (rule runs_loop [where \<mu> = "\<lambda>attempt. 256 - unat attempt"], rule RetryAttempt_runs)
  fix attempt :: uint8
  show "yields (\<lambda>v. \<forall>y. v = Inl y \<longrightarrow> 256 - unat y < 256 - unat attempt)
      (RetryAttempt env bytes attempt)"
    by (rule yields_mono [OF RetryAttempt_yields]) (metis attempt_falls)
qed

text \<open>The window control frame, the frame itself and its acknowledgement, per chunk.\<close>

lemma SendInformationChunk_runs:
  "hdlc_runs d f rank (env_alloc env) (SendInformationChunk env lpdu chunk count x)"
  unfolding SendInformationChunk_def Let_def
  by (intro steps_case_prod steps_if steps_bnd steps_ret steps_with_this steps_case_sum
      hdlc_runs_intros ReceiveSessionControlFrame_runs Retry_runs preord_falls)

lemma SendInformationChunk_yields:
  "yields (\<lambda>v. \<forall>y. v = Inl y \<longrightarrow> fst x < count \<and> fst y = Suc (fst x))
     (SendInformationChunk env lpdu chunk count x)"
  unfolding SendInformationChunk_def Let_def by (intro yields_intros) auto

lemma SendSessionInformation_runs:
  "hdlc_runs d f rank (env_alloc env) (SendSessionInformation env lpdu)"
proof -
  have "hdlc_runs d f rank (env_alloc env) (loop (SendInformationChunk env lpdu chunk count) x)"
    for chunk count x
    by (rule runs_loop [where \<mu> = "\<lambda>y. count - fst y"], rule SendInformationChunk_runs,
        rule yields_mono [OF SendInformationChunk_yields]) auto
  then show ?thesis
    unfolding SendSessionInformation_def Let_def
    by (intro steps_with_this steps_if steps_ret steps_next_do steps_set_this preord_falls) simp_all
qed

lemma Hdlc_SendApdu_runs:
  assumes "f \<or> view_backed apdu"
  shows "hdlc_runs d f rank (env_alloc env) (Hdlc_SendApdu env apdu)"
  unfolding Hdlc_SendApdu_def Let_def
  by (intro steps_with_this steps_if steps_ret steps_fault steps_case_prod steps_case_sum
      SendSessionInformation_runs WriteFrameBytes_runs preord_falls) (use assms in blast)

lemma ConnectDataLink_runs: "hdlc_runs d f rank (env_alloc env) (ConnectDataLink env)"
  unfolding ConnectDataLink_def
  by (intro steps_with_this steps_if steps_ret steps_bnd steps_ok_or_return steps_case_prod
      hdlc_runs_intros Retry_runs preord_falls)

lemma AcceptDataLink_runs: "hdlc_runs d f rank (env_alloc env) (AcceptDataLink env)"
  unfolding AcceptDataLink_def
  by (intro steps_with_this steps_if steps_ret steps_bnd steps_ok_or_return steps_case_prod
      hdlc_runs_intros ReceiveSessionControlFrame_runs preord_falls)

lemma DisconnectDataLink_runs: "hdlc_runs d f rank (env_alloc env) (DisconnectDataLink env)"
  unfolding DisconnectDataLink_def
  by (intro steps_with_this steps_if steps_ret steps_bnd steps_ok_or_return steps_case_prod
      hdlc_runs_intros Retry_runs preord_falls)

section \<open>Receiving an APDU\<close>

text \<open>Decoding a frame leaves the queue of frames alone; so each iteration goes down.\<close>

abbreviation frames_kept ::
  "bool \<Rightarrow> ('w \<Rightarrow> nat) \<Rightarrow> (('a, 'k, 'd, 'r, 's, 'w) HdlcProfileChannel, 'w) sys \<Rightarrow>
   (('a, 'k, 'd, 'r, 's, 'w) HdlcProfileChannel, 'w) sys \<Rightarrow> bool" where
  "frames_kept d rank s t \<equiv> falls d rank s t \<and>
     hdlc_pendingHdlcFrames (self t) = hdlc_pendingHdlcFrames (self s)"

lemma preord_frames_kept [simp, intro!]: "preord (frames_kept d rank)"
  by (auto simp: preord_def)

lemma DecodeFrameToPendingApdu_runs:
  fixes env :: "('a, 'k, 'h, 'd, 'r, 's, 'w) hdlc_env"
  shows "steps d f (\<lambda>s. hdlc_env_ok d f rank (env_alloc env) (self s)) (frames_kept d rank)
     (DecodeFrameToPendingApdu env frame)"
proof -
  have w: "steps d f (\<lambda>s. hdlc_env_ok d f rank (env_alloc env) (self s)) (frames_kept d rank)
      (WriteFrameBytes bytes :: ('a, 'k, 'd, 'r, 's, 'w, ProfileStatus) hdlc_prog)" for bytes
  proof (rule stepsI)
    fix s :: "(('a, 'k, 'd, 'r, 's, 'w) HdlcProfileChannel, 'w) sys"
    assume ok: "hdlc_env_ok d f rank (env_alloc env) (self s)"
    have "keeps (\<lambda>s. hdlc_pendingHdlcFrames (self s))
        (WriteFrameBytes bytes :: ('a, 'k, 'd, 'r, 's, 'w, ProfileStatus) hdlc_prog)"
      unfolding WriteFrameBytes_def
      by (intro steps_intros preord_eq TrueI) (auto split: outcome.splits)
    from wp_conj [OF stepsD [OF WriteFrameBytes_runs ok] keepsD [OF this]]
    show "wp d f (WriteFrameBytes bytes)
       (\<lambda>_ t. hdlc_env_ok d f rank (env_alloc env) (self t) \<and> frames_kept d rank s t)
       (\<lambda>t. hdlc_env_ok d f rank (env_alloc env) (self t) \<and> frames_kept d rank s t) s"
      by (auto elim: wp_conseq)
  qed
  show ?thesis
    unfolding DecodeFrameToPendingApdu_def DecodeCompleteInformationToPendingApdu_def
      SessionReceiveFrame_def SendSessionReceiveReady_def session_build_def
    by (intro steps_intros w preord_frames_kept) (auto dest: hdlc_env_okD(5))
qed

lemma ReceiveDecodedFrame_yields: "yields (\<lambda>v. v \<noteq> Inl ProfileStatus.Ok) (ReceiveDecodedFrame env)"
  unfolding ReceiveDecodedFrame_def ReadDecodedFrame_def Let_def by (intro yields_intros) auto

lemma wp_ReceiveApduFrame:
  fixes s :: "(('a, 'k, 'd, 'r, 's, 'w) HdlcProfileChannel, 'w) sys"
  assumes ok: "hdlc_env_ok d f rank (env_alloc env) (self s)"
  shows "wp d f (ReceiveApduFrame env)
     (\<lambda>v t. hdlc_env_ok d f rank (env_alloc env) (self t) \<and>
        (v = Inr ProfileStatus.Ok \<longrightarrow> hdlc_pendingApdus (self t) \<noteq> []) \<and>
        (\<not> d \<longrightarrow> v = Inl () \<longrightarrow> rank (world t) < rank (world s) \<or>
           rank (world t) \<le> rank (world s) \<and>
           length (hdlc_pendingHdlcFrames (self t)) < length (hdlc_pendingHdlcFrames (self s))))
     (\<lambda>_. True) s"
proof -
  let ?post = "\<lambda>v t. hdlc_env_ok d f rank (env_alloc env) (self t) \<and>
        (v = Inr ProfileStatus.Ok \<longrightarrow> hdlc_pendingApdus (self t) \<noteq> []) \<and>
        (\<not> d \<longrightarrow> v = Inl () \<longrightarrow> rank (world t) < rank (world s) \<or>
           rank (world t) \<le> rank (world s) \<and>
           length (hdlc_pendingHdlcFrames (self t)) < length (hdlc_pendingHdlcFrames (self s)))"
  have decode: "wp d f (DecodeFrameToPendingApdu env frame)
      (\<lambda>frameStatus. wp d f
        (if frameStatus = ProfileStatus.NeedMoreData then ret (Inl ())
         else if frameStatus \<noteq> ProfileStatus.Ok then ret (Inr frameStatus)
         else with_this (\<lambda>c.
           if hdlc_pendingApdus c \<noteq> [] then ret (Inr ProfileStatus.Ok) else ret (Inl ())))
        ?post (\<lambda>_. True)) (\<lambda>_. True) t"
    if t: "hdlc_env_ok d f rank (env_alloc env) (self t)" "falls d rank s t"
      "\<not> d \<longrightarrow> rank (world t) < rank (world s) \<or>
         length (hdlc_pendingHdlcFrames (self t)) < length (hdlc_pendingHdlcFrames (self s))"
    for frame and t :: "(('a, 'k, 'd, 'r, 's, 'w) HdlcProfileChannel, 'w) sys"
    by (rule wp_conseq [OF stepsD [OF DecodeFrameToPendingApdu_runs t(1)]])
       (use t(2,3) in \<open>auto simp: wp_simps\<close>)
  show ?thesis
    unfolding ReceiveApduFrame_def wp_bnd
  proof (rule wp_conseq [OF wp_also [OF wp_ReceiveDecodedFrame [OF ok]
            yieldsD [OF ReceiveDecodedFrame_yields]]], goal_cases)
    case (1 v t)
    then show ?case using decode by (cases v) (auto simp: wp_ret wp_bnd)
  qed simp
qed

text \<open>A successful call of \<open>ReceiveNextApdu\<close> leaves an APDU in the queue.\<close>

lemma wp_ReceiveNextApdu:
  fixes s :: "(('a, 'k, 'd, 'r, 's, 'w) HdlcProfileChannel, 'w) sys"
  assumes ok: "hdlc_env_ok d f rank (env_alloc env) (self s)"
  shows "wp d f (ReceiveNextApdu env)
     (\<lambda>st t. hdlc_env_ok d f rank (env_alloc env) (self t) \<and>
        (st = ProfileStatus.Ok \<longrightarrow> hdlc_pendingApdus (self t) \<noteq> []))
     (\<lambda>_. True) s"
  unfolding ReceiveNextApdu_def
proof (rule wp_loop_wf [where W = "measures [\<lambda>(x, t). rank (world t),
      \<lambda>(x, t). length (hdlc_pendingHdlcFrames (self t))]"
      and I = "\<lambda>_ t. hdlc_env_ok d f rank (env_alloc env) (self t)"])
  fix x :: unit and t :: "(('a, 'k, 'd, 'r, 's, 'w) HdlcProfileChannel, 'w) sys"
  assume t: "hdlc_env_ok d f rank (env_alloc env) (self t)"
  show "wp d f (ReceiveApduFrame env)
     (\<lambda>v u. case v of
        Inl y \<Rightarrow> hdlc_env_ok d f rank (env_alloc env) (self u) \<and>
          (\<not> d \<longrightarrow> ((y, u), (x, t)) \<in> measures [\<lambda>(x, t). rank (world t),
             \<lambda>(x, t). length (hdlc_pendingHdlcFrames (self t))])
      | Inr st \<Rightarrow> hdlc_env_ok d f rank (env_alloc env) (self u) \<and>
          (st = ProfileStatus.Ok \<longrightarrow> hdlc_pendingApdus (self u) \<noteq> []))
     (\<lambda>_. True) t"
    by (rule wp_conseq [OF wp_ReceiveApduFrame [OF t]]) (auto split: sum.splits)
qed (use ok in simp_all)

text \<open>The memory of the caller is untouched until the queue is filled.\<close>

lemma wp_hdlc_fill:
  fixes s :: "(('a, 'k, 'd, 'r, 's, 'w) HdlcProfileChannel, 'w) sys"
  assumes ok: "hdlc_env_ok d f rank (env_alloc env) (self s)"
  shows "wp d f (fill_while_empty Hdlc_no_pending (ReceiveNextApdu env))
     (\<lambda>st t. mem t = mem s \<and> (st = ProfileStatus.Ok \<longrightarrow> hdlc_pendingApdus (self t) \<noteq> []))
     (\<lambda>t. mem t = mem s) s"
proof -
  have "wp d f (fill_while_empty Hdlc_no_pending (ReceiveNextApdu env))
     (\<lambda>st t. st = ProfileStatus.Ok \<longrightarrow> hdlc_pendingApdus (self t) \<noteq> []) (\<lambda>_. True) s"
  proof (rule wp_fill_total [where I = "\<lambda>t. hdlc_env_ok d f rank (env_alloc env) (self t)"
        and \<mu> = "\<lambda>t. if hdlc_pendingApdus (self t) = [] then 1 else 0"])
    fix t :: "(('a, 'k, 'd, 'r, 's, 'w) HdlcProfileChannel, 'w) sys"
    assume t: "hdlc_env_ok d f rank (env_alloc env) (self t)" and e: "Hdlc_no_pending (self t)"
    from e show "wp d f (ReceiveNextApdu env)
       (\<lambda>st u. if st = ProfileStatus.Ok
          then hdlc_env_ok d f rank (env_alloc env) (self u) \<and>
            (if hdlc_pendingApdus (self u) = [] then 1 else 0 :: nat)
              < (if hdlc_pendingApdus (self t) = [] then 1 else 0)
          else st = ProfileStatus.Ok \<longrightarrow> hdlc_pendingApdus (self u) \<noteq> [])
       (\<lambda>_. True) t"
      by (intro wp_conseq [OF wp_ReceiveNextApdu [OF t]]) (auto simp: Hdlc_no_pending_def)
  qed (use ok in \<open>auto simp: Hdlc_no_pending_def\<close>)
  from wp_conj [OF this wp_hdlc_fill_mem] show ?thesis by (auto elim: wp_conseq)
qed

lemma wp_Hdlc_ReceiveVector_runs:
  assumes "hdlc_env_ok d f rank (env_alloc env) (self s)"
  shows "wp d f (Hdlc_ReceiveVector env) (\<lambda>_ _. True) (\<lambda>_. True) s"
  unfolding Hdlc_ReceiveVector_def wp_next_do wp_set_mem wp_ok_or_return
  by (rule wp_conseq [OF wp_hdlc_fill [where rank = rank]])
     (use assms in \<open>auto simp: wp_simps split: list.splits prod.splits\<close>)

lemma wp_Hdlc_ReceiveBuffer_runs:
  assumes "hdlc_env_ok d f rank (env_alloc env) (self s)" and "f \<or> buffer_backed output (mem s)"
  shows "wp d f (Hdlc_ReceiveBuffer env output) (\<lambda>_ _. True) (\<lambda>_. True) s"
proof (cases "IsValidMutableBuffer output")
  case True
  then have valid: "mb_writtenSize output \<noteq> NullPtr"
      "mb_data output = NullPtr \<Longrightarrow> mb_size output = 0"
    by (auto simp: IsValidMutableBuffer_def split: if_splits)
  with True show ?thesis
    unfolding Hdlc_ReceiveBuffer_def wp_if wp_next_do wp_store_written wp_ok_or_return
    using assms
    by (auto intro!: wp_conseq [OF wp_hdlc_fill [where rank = rank]]
        simp: wp_simps CopyFirstPendingApdu_def buffer_backed_def split: list.splits)
qed (simp add: Hdlc_ReceiveBuffer_def wp_simps)

end
