(* ===== verification/Hdlc_Session.thy ===== *)
theory Hdlc_Session
  imports Hdlc_Laws
begin

text \<open>
  The HDLC channel with a session: what goes out on the stream while it connects, disconnects
  and sends, and what the session is asked to build.
\<close>

section \<open>The log of the stream\<close>

text \<open>
  \<open>log w\<close> is the list of writes that have reached the transport, whatever it answered; no
  other call through an interface adds to it.
\<close>

definition keeps_log :: "('w \<Rightarrow> byte list list) \<Rightarrow> ('v, 'w) outcome \<Rightarrow> 'w \<Rightarrow> bool" where
  "keeps_log log out w =
     (case out of Ret _ w' \<Rightarrow> log w' = log w | Throw w' \<Rightarrow> log w' = log w | Fault \<Rightarrow> True)"

definition hdlc_logs ::
  "('w \<Rightarrow> byte list list) \<Rightarrow> 'w allocator \<Rightarrow> ('a, 'k, 'd, 'r, 's, 'w) HdlcProfileChannel \<Rightarrow> bool"
  where
  "hdlc_logs log al c \<longleftrightarrow>
     (\<forall>w. keeps_log log (bs_IsOpen (hdlc_stream c) w) w) \<and>
     (\<forall>buf w. keeps_log log (bs_ReadSome (hdlc_stream c) buf w) w) \<and>
     (\<forall>timer ms w. hdlc_timer c = Some timer \<longrightarrow> keeps_log log (tm_SleepFor timer ms w) w) \<and>
     (\<forall>n w. log (snd (al n w)) = log w) \<and>
     (\<forall>bytes w. case bs_WriteAll (hdlc_stream c) bytes w of
        Ret _ w' \<Rightarrow> log w' = log w @ [bytes] | Throw w' \<Rightarrow> log w' = log w @ [bytes] | Fault \<Rightarrow> True)"

text \<open>\<open>quiet\<close> programs write nothing and keep the stream, the timer and the options.\<close>

definition hdlc_fixed ::
  "('w \<Rightarrow> byte list list) \<Rightarrow> 'w allocator \<Rightarrow> 'w ApduChannelOptions \<Rightarrow>
   (('a, 'k, 'd, 'r, 's, 'w) HdlcProfileChannel, 'w) sys \<Rightarrow> bool" where
  "hdlc_fixed log al opts s \<longleftrightarrow> hdlc_logs log al (self s) \<and> hdlc_options (self s) = opts"

abbreviation quiet ::
  "('w \<Rightarrow> byte list list) \<Rightarrow> 'w allocator \<Rightarrow> 'w ApduChannelOptions \<Rightarrow>
   ('a, 'k, 'd, 'r, 's, 'w, 'v) hdlc_prog \<Rightarrow> bool" where
  "quiet log al opts m \<equiv>
     steps True True (hdlc_fixed log al opts) (\<lambda>s t. log (world t) = log (world s)) m"

lemma hdlc_fixed_upd [simp]:
  "hdlc_fixed log al opts (s\<lparr>world := w\<rparr>) = hdlc_fixed log al opts s"
  "hdlc_fixed log al opts (s\<lparr>self := (self s)\<lparr>hdlc_limits := l\<rparr>\<rparr>) = hdlc_fixed log al opts s"
  "hdlc_fixed log al opts (s\<lparr>self := (self s)\<lparr>hdlc_decoder := x\<rparr>\<rparr>) = hdlc_fixed log al opts s"
  "hdlc_fixed log al opts (s\<lparr>self := (self s)\<lparr>hdlc_session := ss\<rparr>\<rparr>) = hdlc_fixed log al opts s"
  "hdlc_fixed log al opts (s\<lparr>self := (self s)\<lparr>hdlc_readBuffer := b\<rparr>\<rparr>) = hdlc_fixed log al opts s"
  "hdlc_fixed log al opts (s\<lparr>self := (self s)\<lparr>hdlc_pendingHdlcFrames := fs\<rparr>\<rparr>)
     = hdlc_fixed log al opts s"
  by (simp_all add: hdlc_fixed_def hdlc_logs_def)

lemma keeps_log_case:
  assumes "keeps_log log (g (world s)) (world s)" and "hdlc_fixed log al opts s"
  shows "case g (world s) of
      Ret a w \<Rightarrow> hdlc_fixed log al opts (s\<lparr>world := w\<rparr>) \<and>
        log (world (s\<lparr>world := w\<rparr>)) = log (world s)
    | Throw w \<Rightarrow> hdlc_fixed log al opts (s\<lparr>world := w\<rparr>) \<and>
        log (world (s\<lparr>world := w\<rparr>)) = log (world s)
    | Fault \<Rightarrow> True"
  using assms by (simp add: keeps_log_def split: outcome.splits)

lemma quiet_allocate: "quiet log al opts (allocate al n)"
  by (rule steps_allocate) (simp add: hdlc_fixed_def hdlc_logs_def)

lemma quiet_session_build: "quiet log al opts (session_build build)"
  unfolding session_build_def by (intro steps_intros preord_eq) simp_all

lemma quiet_SessionReceiveFrame: "quiet log al opts (SessionReceiveFrame env frame)"
  unfolding SessionReceiveFrame_def by (intro steps_intros preord_eq) simp_all

lemma quiet_IsOpen: "quiet log al opts Hdlc_IsOpen"
  unfolding Hdlc_IsOpen_def
  by (intro steps_with_this steps_ext keeps_log_case) (simp_all add: hdlc_fixed_def hdlc_logs_def)

lemma quiet_SleepBeforeRetry: "quiet log al opts SleepBeforeRetry"
  unfolding SleepBeforeRetry_def ext_transport_def
  by (intro steps_with_this steps_case_option steps_if steps_ret steps_bnd steps_ext preord_eq
      keeps_log_case) (simp_all add: hdlc_fixed_def hdlc_logs_def)

lemma quiet_EnsureSession: "quiet log al opts (EnsureSession env)"
  unfolding EnsureSession_def
  by (intro steps_intros preord_eq) (simp_all add: hdlc_fixed_def hdlc_logs_def)

lemma quiet_ReadDecodedFrame: "quiet log (env_alloc env) opts (ReadDecodedFrame env)"
  unfolding ReadDecodedFrame_def Let_def
  by (intro steps_with_this steps_bnd steps_next_do steps_if steps_ret steps_case_prod steps_case_list
      steps_fault steps_PushPendingFrames quiet_allocate steps_set_this steps_ext keeps_log_case preord_eq)
     (simp_all add: hdlc_fixed_def hdlc_logs_def)

lemma quiet_ReceiveDecodedFrame: "quiet log (env_alloc env) opts (ReceiveDecodedFrame env)"
  unfolding ReceiveDecodedFrame_def
  by (intro steps_with_this steps_case_list steps_if steps_ret steps_loop steps_next_do quiet_allocate
      quiet_ReadDecodedFrame steps_set_this preord_eq) simp_all

lemma quiet_ReceiveSessionControlFrame:
  "quiet log (env_alloc env) opts (ReceiveSessionControlFrame env)"
  unfolding ReceiveSessionControlFrame_def
  by (intro steps_intros quiet_ReceiveDecodedFrame quiet_SessionReceiveFrame preord_eq)

lemma quiet_BuildSessionInformationFrame:
  "quiet log al opts (BuildSessionInformationFrame env information segmented pollFinal)"
  unfolding BuildSessionInformationFrame_def
  by (intro steps_intros quiet_session_build preord_eq)

lemma wp_quiet:
  assumes "quiet log al opts m" and "hdlc_fixed log al opts s"
    and "\<And>a t. hdlc_fixed log al opts t \<Longrightarrow> log (world t) = log (world s) \<Longrightarrow> Q a t"
    and "\<And>t. hdlc_fixed log al opts t \<Longrightarrow> log (world t) = log (world s) \<Longrightarrow> E t"
  shows "wp True True m Q E s"
  by (rule wp_conseq [OF stepsD [OF assms(1,2)]]) (simp_all add: assms(3,4))

lemma wp_WriteFrameBytes_log:
  assumes s: "hdlc_fixed log al opts s"
    and "\<And>a t. hdlc_fixed log al opts t \<Longrightarrow> log (world t) = log (world s) @ [bytes] \<Longrightarrow> Q a t"
    and "\<And>t. hdlc_fixed log al opts t \<Longrightarrow> log (world t) = log (world s) @ [bytes] \<Longrightarrow> E t"
  shows "wp True True (WriteFrameBytes bytes) Q E s"
proof -
  from s have "case bs_WriteAll (hdlc_stream (self s)) bytes (world s) of
      Ret _ w' \<Rightarrow> log w' = log (world s) @ [bytes] | Throw w' \<Rightarrow> log w' = log (world s) @ [bytes]
    | Fault \<Rightarrow> True"
    by (simp add: hdlc_fixed_def hdlc_logs_def)
  with s assms(2,3) show ?thesis
    by (simp add: WriteFrameBytes_def wp_simps split: outcome.splits)
qed

section \<open>Bounded retry\<close>

text \<open>
  An attempt writes the retry frame at most once, and only while the counter is below the
  configured limit.
\<close>

lemma wp_RetryAttempt_log:
  assumes s: "hdlc_fixed log (env_alloc env) opts s"
  shows "wp True True (RetryAttempt env bytes attempt)
     (\<lambda>v t. hdlc_fixed log (env_alloc env) opts t \<and>
        (v = Inl (attempt + 1) \<and> attempt < hdlcRetryCount opts \<and>
           log (world t) = log (world s) @ [bytes] \<or>
         (\<exists>st. v = Inr st) \<and>
           (log (world t) = log (world s) \<or>
            attempt < hdlcRetryCount opts \<and> log (world t) = log (world s) @ [bytes])))
     (\<lambda>t. log (world t) = log (world s) \<or>
        attempt < hdlcRetryCount opts \<and> log (world t) = log (world s) @ [bytes]) s"
  unfolding RetryAttempt_def wp_bnd
proof (rule wp_quiet [OF quiet_ReceiveSessionControlFrame s], goal_cases)
  case (1 status t)
  have "wp True True SleepBeforeRetry
     (\<lambda>retryStatus. wp True True
        (if retryStatus \<noteq> ProfileStatus.Ok then ret (Inr retryStatus)
         else bnd (WriteFrameBytes bytes) (\<lambda>retryStatus.
           if retryStatus \<noteq> ProfileStatus.Ok then ret (Inr retryStatus)
           else ret (Inl (attempt + 1))))
        (\<lambda>v t. hdlc_fixed log (env_alloc env) opts t \<and>
           (v = Inl (attempt + 1) \<and> attempt < hdlcRetryCount opts \<and>
              log (world t) = log (world s) @ [bytes] \<or>
            (\<exists>st. v = Inr st) \<and>
              (log (world t) = log (world s) \<or>
               attempt < hdlcRetryCount opts \<and> log (world t) = log (world s) @ [bytes])))
        (\<lambda>t. log (world t) = log (world s) \<or>
           attempt < hdlcRetryCount opts \<and> log (world t) = log (world s) @ [bytes]))
     (\<lambda>t. log (world t) = log (world s) \<or>
        attempt < hdlcRetryCount opts \<and> log (world t) = log (world s) @ [bytes]) t"
    if "attempt < hdlcRetryCount opts"
    by (rule wp_quiet [OF quiet_SleepBeforeRetry 1(1)])
       (use 1 that in \<open>auto simp: wp_if wp_ret wp_bnd intro!: wp_WriteFrameBytes_log [where log = log and al = "env_alloc env" and opts = opts]\<close>)
  with 1 show ?case
    by (auto simp: wp_if wp_ret wp_with_this wp_bnd hdlc_fixed_def not_le)
qed simp

lemma wp_Retry_log:
  fixes s :: "(('a, 'k, 'd, 'r, 's, 'w) HdlcProfileChannel, 'w) sys"
  assumes s: "hdlc_fixed log (env_alloc env) opts s"
  shows "wp True True (ReceiveSessionControlFrameWithRetry env bytes)
     (\<lambda>_ t. hdlc_fixed log (env_alloc env) opts t \<and>
        (\<exists>n \<le> unat (hdlcRetryCount opts). log (world t) = log (world s) @ replicate n bytes))
     (\<lambda>t. \<exists>n \<le> unat (hdlcRetryCount opts). log (world t) = log (world s) @ replicate n bytes) s"
  unfolding ReceiveSessionControlFrameWithRetry_def
proof (rule wp_loop [where I = "\<lambda>attempt t. hdlc_fixed log (env_alloc env) opts t \<and>
      attempt \<le> hdlcRetryCount opts \<and> log (world t) = log (world s) @ replicate (unat attempt) bytes"])
  show "hdlc_fixed log (env_alloc env) opts s \<and> 0 \<le> hdlcRetryCount opts \<and>
      log (world s) = log (world s) @ replicate (unat (0 :: uint8)) bytes"
    using s by simp
next
  fix attempt :: uint8 and t :: "(('a, 'k, 'd, 'r, 's, 'w) HdlcProfileChannel, 'w) sys"
  assume t: "hdlc_fixed log (env_alloc env) opts t \<and> attempt \<le> hdlcRetryCount opts \<and>
      log (world t) = log (world s) @ replicate (unat attempt) bytes"
  have le: "unat attempt \<le> unat (hdlcRetryCount opts)" using t by (simp add: word_le_nat_alt)
  have once: "\<exists>n \<le> unat (hdlcRetryCount opts).
      log (world s) @ replicate (unat attempt) bytes @ [bytes] = log (world s) @ replicate n bytes"
    if "attempt < hdlcRetryCount opts"
    using that by (intro exI [of _ "Suc (unat attempt)"])
      (simp add: word_less_nat_alt Suc_le_eq replicate_append_same)
  show "wp True True (RetryAttempt env bytes attempt)
     (\<lambda>v u. case v of
        Inl y \<Rightarrow> hdlc_fixed log (env_alloc env) opts u \<and> y \<le> hdlcRetryCount opts \<and>
          log (world u) = log (world s) @ replicate (unat y) bytes
      | Inr a \<Rightarrow> hdlc_fixed log (env_alloc env) opts u \<and>
          (\<exists>n \<le> unat (hdlcRetryCount opts). log (world u) = log (world s) @ replicate n bytes))
     (\<lambda>u. \<exists>n \<le> unat (hdlcRetryCount opts). log (world u) = log (world s) @ replicate n bytes) t"
    by (rule wp_conseq [OF wp_RetryAttempt_log [OF conjunct1 [OF t]]])
       (use t le once attempt_counts in \<open>auto simp: word_le_nat_alt word_less_nat_alt replicate_append_same\<close>)
qed

text \<open>\<open>bursts k m ws\<close>: \<open>ws\<close> is at most \<open>m\<close> blocks of at most \<open>k\<close> identical writes.\<close>

definition bursts :: "nat \<Rightarrow> nat \<Rightarrow> byte list list \<Rightarrow> bool" where
  "bursts k m ws \<longleftrightarrow>
     (\<exists>bs. length bs \<le> m \<and> (\<forall>(n, b) \<in> set bs. n \<le> k) \<and>
        ws = concat (map (\<lambda>(n, b). replicate n b) bs))"

lemma bursts_none: "bursts k m []"
  unfolding bursts_def by (intro exI [of _ "[]"]) simp

lemma bursts_one: "n \<le> k \<Longrightarrow> bursts k m ws \<Longrightarrow> bursts k (Suc m) (ws @ replicate n b)"
  unfolding bursts_def by (elim exE, rule_tac x = "bs @ [(n, b)]" in exI) auto

lemma bursts_append: "bursts k m ws \<Longrightarrow> bursts k n vs \<Longrightarrow> bursts k (m + n) (ws @ vs)"
  unfolding bursts_def by (elim exE, rule_tac x = "bs @ bsa" in exI) auto

abbreviation wrote ::
  "('w \<Rightarrow> byte list list) \<Rightarrow> ('c, 'w) sys \<Rightarrow> nat \<Rightarrow> nat \<Rightarrow> ('c, 'w) sys \<Rightarrow> bool" where
  "wrote log s k m t \<equiv> \<exists>ws. log (world t) = log (world s) @ ws \<and> bursts k m ws"

lemma wrote_trans: "wrote log s k m t \<Longrightarrow> wrote log t k n u \<Longrightarrow> wrote log s k (m + n) u"
  by (metis append.assoc bursts_append)

text \<open>
  \<open>writes log al opts m p\<close>: the program \<open>p\<close> writes at most \<open>m\<close> frames, each with at most
  \<open>hdlcRetryCount\<close> retries. The rules follow the structure of the code.
\<close>

definition writes ::
  "('w \<Rightarrow> byte list list) \<Rightarrow> 'w allocator \<Rightarrow> 'w ApduChannelOptions \<Rightarrow> nat \<Rightarrow>
   ('a, 'k, 'd, 'r, 's, 'w, 'v) hdlc_prog \<Rightarrow> bool" where
  "writes log al opts m p \<longleftrightarrow>
     (\<forall>s. hdlc_fixed log al opts s \<longrightarrow>
        wp True True p
          (\<lambda>_ t. hdlc_fixed log al opts t \<and> wrote log s (Suc (unat (hdlcRetryCount opts))) m t)
          (wrote log s (Suc (unat (hdlcRetryCount opts))) m) s)"

lemma writesD:
  "writes log al opts m p \<Longrightarrow> hdlc_fixed log al opts s \<Longrightarrow>
     wp True True p
       (\<lambda>_ t. hdlc_fixed log al opts t \<and> wrote log s (Suc (unat (hdlcRetryCount opts))) m t)
       (wrote log s (Suc (unat (hdlcRetryCount opts))) m) s"
  by (simp add: writes_def)

lemma writes_quiet:
  assumes "quiet log al opts p"
  shows "writes log al opts m p"
  unfolding writes_def
proof (intro allI impI)
  fix s :: "(('a, 'b, 'c, 'd, 'e, 'f) HdlcProfileChannel, 'f) sys"
  assume "hdlc_fixed log al opts s"
  from stepsD [OF assms this]
  show "wp True True p
      (\<lambda>_ t. hdlc_fixed log al opts t \<and> wrote log s (Suc (unat (hdlcRetryCount opts))) m t)
      (wrote log s (Suc (unat (hdlcRetryCount opts))) m) s"
    by (rule wp_conseq) (auto simp: bursts_none)
qed

lemma writes_ret: "writes log al opts m (ret a)"
  by (rule writes_quiet) (rule steps_ret [OF preord_eq])

lemma writes_bnd:
  fixes p :: "('a, 'k, 'd, 'r, 's, 'w, 'v) hdlc_prog"
  assumes p: "writes log al opts m p" and q: "\<And>a. writes log al opts n (q a)"
  shows "writes log al opts (m + n) (bnd p q)"
  unfolding writes_def wp_bnd
proof (intro allI impI)
  fix s :: "(('a, 'k, 'd, 'r, 's, 'w) HdlcProfileChannel, 'w) sys"
  let ?k = "Suc (unat (hdlcRetryCount opts))"
  assume s: "hdlc_fixed log al opts s"
  show "wp True True p (\<lambda>a. wp True True (q a)
      (\<lambda>_ t. hdlc_fixed log al opts t \<and> wrote log s ?k (m + n) t) (wrote log s ?k (m + n)))
      (wrote log s ?k (m + n)) s"
  proof (rule wp_conseq [OF writesD [OF p s]], goal_cases)
    case (1 a t)
    from 1 have t: "hdlc_fixed log al opts t" and m: "wrote log s ?k m t" by simp_all
    show ?case
    proof (rule wp_conseq [OF writesD [OF q t]], goal_cases)
      case (1 b u)
      then show ?case using wrote_trans [OF m, of u n] by blast
    next
      case (2 u)
      then show ?case using wrote_trans [OF m, of u n] by blast
    qed
  next
    case (2 t)
    show ?case using wrote_trans [OF 2, of t n] by (simp add: bursts_none)
  qed
qed

lemma writes_bnd_quiet:
  "quiet log al opts p \<Longrightarrow> (\<And>a. writes log al opts n (q a)) \<Longrightarrow> writes log al opts n (bnd p q)"
  using writes_bnd [OF writes_quiet, of log al opts p n q 0] by simp

lemma writes_if:
  "(b \<Longrightarrow> writes log al opts m p) \<Longrightarrow> (\<not> b \<Longrightarrow> writes log al opts m q) \<Longrightarrow>
     writes log al opts m (if b then p else q)"
  by simp

lemma writes_with_this:
  "(\<And>c. writes log al opts m (q c)) \<Longrightarrow> writes log al opts m (with_this q)"
  by (simp add: writes_def wp_with_this)

lemma writes_case_prod:
  "(\<And>x y. writes log al opts m (q x y)) \<Longrightarrow> writes log al opts m (case v of (x, y) \<Rightarrow> q x y)"
  by (cases v) simp

lemma writes_case_sum:
  "(\<And>x. writes log al opts m (p x)) \<Longrightarrow> (\<And>y. writes log al opts m (q y)) \<Longrightarrow>
     writes log al opts m (case v of Inl x \<Rightarrow> p x | Inr y \<Rightarrow> q y)"
  by (cases v) simp_all

lemma replicate_one: "replicate 1 x = [x]"
  by simp

lemma writes_frame:
  fixes q :: "ProfileStatus \<Rightarrow> ('a, 'k, 'd, 'r, 's, 'w, 'v) hdlc_prog"
  assumes "\<And>st. quiet log (env_alloc env) opts (p st)" and "\<And>st. quiet log (env_alloc env) opts (q st)"
  shows "writes log (env_alloc env) opts 1
    (bnd (WriteFrameBytes bytes) (\<lambda>st. if st \<noteq> ProfileStatus.Ok then p st
       else bnd (ReceiveSessionControlFrameWithRetry env bytes) q))"
  unfolding writes_def wp_bnd wp_if
proof (intro allI impI)
  fix s :: "(('a, 'k, 'd, 'r, 's, 'w) HdlcProfileChannel, 'w) sys"
  let ?rc = "unat (hdlcRetryCount opts)"
  let ?Q = "\<lambda>_ t. hdlc_fixed log (env_alloc env) opts t \<and> wrote log s (Suc ?rc) 1 t"
  assume s: "hdlc_fixed log (env_alloc env) opts s"
  have one: "wrote log s (Suc ?rc) 1 t"
    if "log (world t) = log (world s) @ replicate n bytes" "n \<le> Suc ?rc"
    for n and t :: "(('a, 'k, 'd, 'r, 's, 'w) HdlcProfileChannel, 'w) sys"
    using bursts_one [OF that(2) bursts_none, of 0 bytes] that(1) by auto
  show "wp True True (WriteFrameBytes bytes)
     (\<lambda>st t. if st \<noteq> ProfileStatus.Ok then wp True True (p st) ?Q (wrote log s (Suc ?rc) 1) t
        else wp True True (ReceiveSessionControlFrameWithRetry env bytes)
          (\<lambda>st. wp True True (q st) ?Q (wrote log s (Suc ?rc) 1)) (wrote log s (Suc ?rc) 1) t)
     (wrote log s (Suc ?rc) 1) s"
  proof (rule wp_WriteFrameBytes_log [OF s], goal_cases)
    case (1 st t)
    have "wp True True (p st) ?Q (wrote log s (Suc ?rc) 1) t"
      by (rule wp_quiet [OF assms(1) 1(1)])
         (use 1 one [of _ 1] in \<open>simp_all del: One_nat_def add: replicate_one\<close>)
    moreover have "wp True True (ReceiveSessionControlFrameWithRetry env bytes)
        (\<lambda>st. wp True True (q st) ?Q (wrote log s (Suc ?rc) 1)) (wrote log s (Suc ?rc) 1) t"
    proof (rule wp_conseq [OF wp_Retry_log [OF 1(1)]], goal_cases)
      case (1 st' u)
      then obtain n where u: "hdlc_fixed log (env_alloc env) opts u" "n \<le> ?rc"
          "log (world u) = log (world t) @ replicate n bytes" by blast
      show ?case
        by (rule wp_quiet [OF assms(2) u(1)])
           (use u one [of _ "Suc n"] \<open>log (world t) = log (world s) @ [bytes]\<close> in simp_all)
    next
      case (2 u)
      then obtain n where "n \<le> ?rc" "log (world u) = log (world t) @ replicate n bytes" by blast
      with \<open>log (world t) = log (world s) @ [bytes]\<close> show ?case
        by (intro one [of _ "Suc n"]) simp_all
    qed
    ultimately show ?case by simp
  next
    case (2 t)
    then show ?case by (intro one [of _ 1]) simp_all
  qed
qed

lemma writes_frame_return:
  "writes log (env_alloc env) opts 1
     (ok_or_return (WriteFrameBytes bytes) (ReceiveSessionControlFrameWithRetry env bytes))"
proof -
  have eq: "bnd (ReceiveSessionControlFrameWithRetry env bytes) ret
      = ReceiveSessionControlFrameWithRetry env bytes"
    by (auto simp: fun_eq_iff bnd_def ret_def split: option.splits outcome.splits)
  have "writes log (env_alloc env) opts 1
      (bnd (WriteFrameBytes bytes) (\<lambda>st. if st \<noteq> ProfileStatus.Ok then ret st
         else bnd (ReceiveSessionControlFrameWithRetry env bytes) ret))"
    by (intro writes_frame steps_ret preord_eq)
  then show ?thesis
    unfolding ok_or_return_def eq .
qed

lemma ConnectDataLink_writes: "writes log (env_alloc env) opts 1 (ConnectDataLink env)"
  unfolding ConnectDataLink_def ok_or_return_def [of "EnsureSession env"]
  by (intro writes_with_this writes_if writes_ret writes_bnd_quiet quiet_IsOpen quiet_EnsureSession
      quiet_session_build writes_case_prod writes_frame_return)

lemma DisconnectDataLink_writes: "writes log (env_alloc env) opts 1 (DisconnectDataLink env)"
  unfolding DisconnectDataLink_def
  by (intro writes_with_this writes_if writes_ret writes_bnd_quiet quiet_IsOpen
      quiet_session_build writes_case_prod writes_frame_return)

lemma SendInformationChunk_writes:
  "writes log (env_alloc env) opts 1 (SendInformationChunk env lpdu chunk count x)"
  unfolding SendInformationChunk_def Let_def
  by (intro writes_case_prod writes_with_this writes_if writes_ret writes_bnd_quiet writes_case_sum
      writes_frame steps_if steps_ret preord_eq quiet_ReceiveSessionControlFrame
      quiet_BuildSessionInformationFrame)

lemma bursts_mono: "bursts k m ws \<Longrightarrow> m \<le> n \<Longrightarrow> bursts k n ws"
  unfolding bursts_def by (elim exE, rule_tac x = bs in exI) auto

lemma bursts_length: "bursts k m ws \<Longrightarrow> length ws \<le> m * k"
proof (unfold bursts_def, elim exE conjE)
  fix bs
  assume len: "length bs \<le> m" and small: "\<forall>(n, b) \<in> set bs. n \<le> k"
    and ws: "ws = concat (map (\<lambda>(n, b). replicate n b) bs)"
  from small have "length (concat (map (\<lambda>(n, b). replicate n b) bs)) \<le> length bs * k"
    by (induction bs) auto
  with len ws show "length ws \<le> m * k"
    by (metis le_trans mult_le_mono1)
qed

text \<open>The loop over the information fields: iteration \<open>i\<close> has written \<open>i\<close> blocks.\<close>

lemma SendInformationChunk_counts:
  "yields (\<lambda>v. \<forall>y. v = Inl y \<longrightarrow> fst x < count \<and> fst y = Suc (fst x))
     (SendInformationChunk env lpdu chunk count x)"
  unfolding SendInformationChunk_def Let_def by (intro yields_intros) auto

lemma SendInformationChunks_writes:
  fixes env :: "('a, 'k, 'h, 'd, 'r, 's, 'w) hdlc_env"
  shows "writes log (env_alloc env) opts count (loop (SendInformationChunk env lpdu chunk count) (0, 0))"
  unfolding writes_def
proof (intro allI impI)
  fix s :: "(('a, 'k, 'd, 'r, 's, 'w) HdlcProfileChannel, 'w) sys"
  let ?k = "Suc (unat (hdlcRetryCount opts))"
  assume s: "hdlc_fixed log (env_alloc env) opts s"
  show "wp True True (loop (SendInformationChunk env lpdu chunk count) (0, 0))
      (\<lambda>_ t. hdlc_fixed log (env_alloc env) opts t \<and> wrote log s ?k count t) (wrote log s ?k count) s"
  proof (rule wp_loop [where I = "\<lambda>x t. hdlc_fixed log (env_alloc env) opts t \<and> fst x \<le> count \<and>
        wrote log s ?k (fst x) t"], goal_cases)
    case 1
    then show ?case using s by (simp add: bursts_none)
  next
    case (2 x t)
    show ?case
    proof (cases "fst x < count")
      case True
      have more: "wrote log s ?k (Suc (fst x)) u" if "wrote log t ?k 1 u"
        for u :: "(('a, 'k, 'd, 'r, 's, 'w) HdlcProfileChannel, 'w) sys"
        using wrote_trans [OF conjunct2 [OF conjunct2 [OF 2]] that] by simp
      have all: "wrote log s ?k count u" if "wrote log t ?k 1 u"
        for u :: "(('a, 'k, 'd, 'r, 's, 'w) HdlcProfileChannel, 'w) sys"
        using more [OF that] bursts_mono [where m = "Suc (fst x)" and n = count] True
        by (metis Suc_leI)
      show ?thesis
      proof (rule wp_conseq [OF wp_also [OF writesD [OF SendInformationChunk_writes conjunct1 [OF 2]]
              yieldsD [OF SendInformationChunk_counts]]], goal_cases)
        case (1 v u)
        then show ?case using more [of u] all [of u] by (cases v) simp_all
      next
        case (2 u)
        then show ?case using all by blast
      qed
    next
      case False
      with 2 show ?thesis by (cases x) (simp add: SendInformationChunk_def wp_ret)
    qed
  qed
qed

lemma wp_Hdlc_SendApdu_log:
  fixes s :: "(('a, 'k, 'd, 'r, 's, 'w) HdlcProfileChannel, 'w) sys"
  assumes logs: "hdlc_logs log (env_alloc env) (self s)"
    and lpdu: "lpdu = snd (EncodeLpdu (env_llc env)
      (MakeLlcHeader (env_llc env) (ToLlcDirection (hdlcDirection (hdlc_options (self s)))))
      (bv_data apdu) (bv_size apdu))"
    and frames: "frames = (if hdlcUseSession (hdlc_options (self s))
      then session_frame_count (session_chunk_size (maxInformationFieldLengthTransmit
        (hs_NegotiatedLimits (env_session env) (hdlc_session (self s)))) lpdu) lpdu
      else 1)"
  shows "wp True True (Hdlc_SendApdu env apdu)
     (\<lambda>_. wrote log s (Suc (unat (hdlcRetryCount (hdlc_options (self s))))) frames)
     (wrote log s (Suc (unat (hdlcRetryCount (hdlc_options (self s))))) frames) s"
proof -
  let ?opts = "hdlc_options (self s)"
  let ?k = "Suc (unat (hdlcRetryCount ?opts))"
  let ?c = "\<lambda>l. s\<lparr>self := (self s)\<lparr>hdlc_limits := l\<rparr>\<rparr>"
  have fixed: "hdlc_fixed log (env_alloc env) ?opts s" using logs by (simp add: hdlc_fixed_def)
  have chunks: "wp True True (loop (SendInformationChunk env lpdu chunk count) (0, 0))
      (\<lambda>_. wrote log s ?k count) (wrote log s ?k count) (?c l)" for chunk count l
  proof -
    from fixed have "hdlc_fixed log (env_alloc env) ?opts (?c l)" by simp
    from writesD [OF SendInformationChunks_writes this] show ?thesis by (rule wp_conseq) simp_all
  qed
  have session: "wp True True (SendSessionInformation env lpdu) (\<lambda>_. wrote log s ?k frames)
      (wrote log s ?k frames) s" if "hdlcUseSession ?opts"
    using that chunks frames
    by (simp add: SendSessionInformation_def wp_with_this wp_if wp_ret wp_let wp_next_do wp_set_this Let_def
        bursts_none)
  have direct: "wp True True (WriteFrameBytes bytes) (\<lambda>_. wrote log s ?k frames) (wrote log s ?k frames) s"
    if "\<not> hdlcUseSession ?opts" for bytes
    by (rule wp_WriteFrameBytes_log [OF fixed])
       (use that frames bursts_one [OF _ bursts_none, of 1 ?k 0 bytes] in auto)
  show ?thesis
    using session direct
    by (auto simp: Hdlc_SendApdu_def wp_with_this wp_if wp_ret wp_fault wp_case_prod Let_def lpdu bursts_none
        split: prod.splits sum.splits)
qed

end
