(* ===== verification/Hdlc_Link.thy ===== *)
theory Hdlc_Link
  imports Hdlc_Session Hdlc_Stream
begin

text \<open>
  The HDLC channel with a session: the connect request on the wire, and the receiving side of a
  segmented APDU.
\<close>

section \<open>The connect request\<close>

text \<open>The session that \<open>ConnectDataLink\<close> and \<open>AcceptDataLink\<close> work on.\<close>

definition link_session ::
  "('a, 'k, 's) hdlc_session \<Rightarrow> 'a HdlcSessionOptions \<Rightarrow> 's \<Rightarrow> 's" where
  "link_session S sessionOptions ss =
     (if hs_State S ss = HdlcSessionState.Disconnected then hs_new S sessionOptions else ss)"

lemma wp_EnsureSession:
  assumes "MakeHdlcSessionOptions (env_codec env) (hdlc_options (self s)) = Inr sessionOptions"
    and "\<And>t. world t = world s \<Longrightarrow> mem t = mem s \<Longrightarrow> hdlc_options (self t) = hdlc_options (self s) \<Longrightarrow>
      hdlc_session (self t) = link_session (env_session env) sessionOptions (hdlc_session (self s)) \<Longrightarrow>
      hdlc_stream (self t) = hdlc_stream (self s) \<Longrightarrow> hdlc_timer (self t) = hdlc_timer (self s) \<Longrightarrow>
      Q ProfileStatus.Ok t"
  shows "wp d f (EnsureSession env) Q E s"
  using assms(1) by (auto simp: EnsureSession_def wp_simps link_session_def intro!: assms(2))

text \<open>Each attempt puts one more copy of the request on the wire.\<close>

definition requested ::
  "('w \<Rightarrow> byte list list) \<Rightarrow> ('c, 'w) sys \<Rightarrow> nat \<Rightarrow> byte list \<Rightarrow> ProfileStatus \<Rightarrow> ('c, 'w) sys \<Rightarrow> bool"
  where
  "requested log s retries request st t \<longleftrightarrow>
     (\<exists>n \<le> Suc retries. log (world t) = log (world s) @ replicate n request \<and>
        (st = ProfileStatus.Ok \<longrightarrow> 0 < n))"

lemma wp_request_log:
  fixes s :: "(('a, 'k, 'd, 'r, 's, 'w) HdlcProfileChannel, 'w) sys"
  assumes s: "hdlc_fixed log (env_alloc env) opts s"
  shows "wp True True
     (ok_or_return (WriteFrameBytes request) (ReceiveSessionControlFrameWithRetry env request))
     (requested log s (unat (hdlcRetryCount opts)) request)
     (\<lambda>t. requested log s (unat (hdlcRetryCount opts)) request ProfileStatus.InternalError t) s"
  unfolding wp_ok_or_return
proof (rule wp_WriteFrameBytes_log [OF s], goal_cases)
  case (1 st t)
  have one: "requested log s (unat (hdlcRetryCount opts)) request st t"
    using 1 by (auto simp: requested_def intro!: exI [of _ 1])
  have more: "requested log s (unat (hdlcRetryCount opts)) request st' u"
    if "\<exists>n \<le> unat (hdlcRetryCount opts). log (world u) = log (world t) @ replicate n request"
    for st' and u :: "(('a, 'k, 'd, 'r, 's, 'w) HdlcProfileChannel, 'w) sys"
  proof -
    from that obtain n where "n \<le> unat (hdlcRetryCount opts)"
      "log (world u) = log (world t) @ replicate n request" by blast
    with 1 show ?thesis unfolding requested_def by (intro exI [of _ "Suc n"]) simp
  qed
  show ?case using one
    by (auto intro!: wp_conseq [OF wp_Retry_log [OF 1(1)]] more)
next
  case (2 t)
  then show ?case by (auto simp: requested_def intro!: exI [of _ 1])
qed

lemma hdlc_fixed_cong:
  "hdlc_fixed log al opts s \<Longrightarrow> hdlc_stream (self t) = hdlc_stream (self s) \<Longrightarrow>
     hdlc_timer (self t) = hdlc_timer (self s) \<Longrightarrow> hdlc_options (self t) = hdlc_options (self s) \<Longrightarrow>
     hdlc_fixed log al opts t"
  by (simp add: hdlc_fixed_def hdlc_logs_def)

lemma requested_none:
  "log (world t) = log (world s) \<Longrightarrow> st \<noteq> ProfileStatus.Ok \<Longrightarrow> requested log s n request st t"
  by (auto simp: requested_def intro!: exI [of _ 0])

text \<open>The part of \<open>ConnectDataLink\<close> behind its guards.\<close>

lemma wp_connect_ensured:
  fixes s :: "(('a, 'k, 'd, 'r, 's, 'w) HdlcProfileChannel, 'w) sys"
  assumes s: "hdlc_fixed log (env_alloc env) opts s"
    and so: "MakeHdlcSessionOptions (env_codec env) opts = Inr sessionOptions"
    and req: "hs_BuildConnectRequest (env_session env)
        (link_session (env_session env) sessionOptions (hdlc_session (self s)))
        = (HdlcStatus.Ok, ss, request)"
  shows "wp True True (ok_or_return (EnsureSession env)
       (bnd (session_build (hs_BuildConnectRequest (env_session env)))
         (\<lambda>(status, frameBytes).
           if status \<noteq> ProfileStatus.Ok then ret status
           else ok_or_return (WriteFrameBytes frameBytes)
             (ReceiveSessionControlFrameWithRetry env frameBytes))))
     (requested log s (unat (hdlcRetryCount opts)) request)
     (requested log s (unat (hdlcRetryCount opts)) request ProfileStatus.InternalError) s"
proof -
  have opts: "hdlc_options (self s) = opts" using s by (simp add: hdlc_fixed_def)
  show ?thesis
    unfolding wp_ok_or_return [of _ _ "EnsureSession env"]
  proof (rule wp_EnsureSession [OF so [folded opts]], goal_cases)
    case (1 t)
    let ?u = "t\<lparr>self := (self t)\<lparr>hdlc_session := ss\<rparr>\<rparr>"
    have "hdlc_fixed log (env_alloc env) opts ?u" using hdlc_fixed_cong [OF s] 1 by simp
    from wp_request_log [OF this, of request]
    have "wp True True
        (ok_or_return (WriteFrameBytes request) (ReceiveSessionControlFrameWithRetry env request))
        (requested log s (unat (hdlcRetryCount opts)) request)
        (requested log s (unat (hdlcRetryCount opts)) request ProfileStatus.InternalError) ?u"
      by (rule wp_conseq) (simp_all add: requested_def 1)
    then show ?case
      using 1 req by (simp add: session_build_def wp_with_this wp_bnd wp_next_do wp_set_this wp_ret)
  qed
qed

lemma wp_ConnectDataLink_log:
  fixes s :: "(('a, 'k, 'd, 'r, 's, 'w) HdlcProfileChannel, 'w) sys"
  assumes s: "hdlc_fixed log (env_alloc env) opts s"
    and so: "MakeHdlcSessionOptions (env_codec env) opts = Inr sessionOptions"
    and req: "hs_BuildConnectRequest (env_session env)
        (link_session (env_session env) sessionOptions (hdlc_session (self s)))
        = (HdlcStatus.Ok, ss, request)"
  shows "wp True True (ConnectDataLink env)
     (requested log s (unat (hdlcRetryCount opts)) request)
     (requested log s (unat (hdlcRetryCount opts)) request ProfileStatus.InternalError) s"
proof -
  have same: "wp True True Hdlc_IsOpen (\<lambda>_ t. self t = self s) (\<lambda>_. True) s"
    by (simp add: Hdlc_IsOpen_def wp_simps split: outcome.splits)
  have ensured: "wp True True (ok_or_return (EnsureSession env)
       (bnd (session_build (hs_BuildConnectRequest (env_session env)))
         (\<lambda>(status, frameBytes).
           if status \<noteq> ProfileStatus.Ok then ret status
           else ok_or_return (WriteFrameBytes frameBytes)
             (ReceiveSessionControlFrameWithRetry env frameBytes))))
     (requested log s (unat (hdlcRetryCount opts)) request)
     (requested log s (unat (hdlcRetryCount opts)) request ProfileStatus.InternalError) t"
    if "hdlc_fixed log (env_alloc env) opts t" "log (world t) = log (world s)" "self t = self s"
    for t :: "(('a, 'k, 'd, 'r, 's, 'w) HdlcProfileChannel, 'w) sys"
    by (rule wp_conseq [OF wp_connect_ensured [OF that(1) so]])
       (use that req in \<open>simp_all add: requested_def\<close>)
  have "wp True True Hdlc_IsOpen (\<lambda>open t. if \<not> open then wp True True (ret ProfileStatus.NotOpen) Q E t
     else if hdlcRole (hdlc_options (self s)) \<noteq> HdlcProfileRole.Client
     then wp True True (ret ProfileStatus.UnsupportedFeature) Q E t else wp True True m Q E t) E s"
    if "\<And>t. hdlc_fixed log (env_alloc env) opts t \<Longrightarrow> log (world t) = log (world s) \<Longrightarrow> self t = self s \<Longrightarrow>
        wp True True m Q E t"
      and "\<And>st t. log (world t) = log (world s) \<Longrightarrow> st \<noteq> ProfileStatus.Ok \<Longrightarrow> Q st t"
      and "\<And>t. log (world t) = log (world s) \<Longrightarrow> E t" for m Q E
    by (rule wp_conseq [OF wp_also [OF stepsD [OF quiet_IsOpen s] same]]) (simp_all add: wp_ret that)
  note opened = this [OF ensured requested_none requested_none]
  show ?thesis
  proof (cases "hdlcUseSession (hdlc_options (self s))")
    case True
    then show ?thesis
      unfolding ConnectDataLink_def wp_with_this wp_if wp_bnd [of _ _ Hdlc_IsOpen]
      by (simp only: not_True_eq_False if_False) (rule opened, simp_all)
  next
    case False
    then show ?thesis by (simp add: ConnectDataLink_def wp_with_this wp_ret requested_none)
  qed
qed

section \<open>Receiving a segmented APDU\<close>

text \<open>
  \<open>absorbs R r fs\<close>: the reassembler takes the frames \<open>fs\<close>, asking for more after each; the
  value is its state afterwards.
\<close>

fun absorbs ::
  "('a, 'k, 'r) hdlc_reassembler \<Rightarrow> 'r \<Rightarrow> ('a, 'k) HdlcFrame list \<Rightarrow> 'r option" where
  "absorbs R r [] = Some r"
| "absorbs R r (f # fs) =
     (case hr_PushFrame R f r of (st, r', _, _) \<Rightarrow>
        if MapHdlcStatus st = ProfileStatus.NeedMoreData then absorbs R r' fs else None)"

text \<open>An incomplete segment only changes the reassembler: nothing is answered.\<close>

lemma DecodeFrame_incomplete:
  assumes "hdlcUseSession (hdlc_options (self s))"
    and "hr_PushFrame (env_reassembler env) frame (hdlc_reassembler (self s)) = (st, r, completed, has)"
    and "MapHdlcStatus st = ProfileStatus.NeedMoreData"
  shows "DecodeFrameToPendingApdu env frame s =
     Some (Ret ProfileStatus.NeedMoreData (s\<lparr>self := (self s)\<lparr>hdlc_reassembler := r\<rparr>\<rparr>))"
  using assms by (simp add: DecodeFrameToPendingApdu_def run_simps)

text \<open>The state of the APDU layer, with the log, while frames of one APDU arrive.\<close>

definition link_state ::
  "('w \<Rightarrow> byte list list) \<Rightarrow> 'w allocator \<Rightarrow> (('a, 'k, 'd, 'r, 's, 'w) HdlcProfileChannel, 'w) sys \<Rightarrow>
   'w ApduChannelOptions \<Rightarrow> 'w IByteStream \<Rightarrow> 's \<Rightarrow> byte list list \<Rightarrow> bool" where
  "link_state log al s opts bs ss ws \<longleftrightarrow>
     hdlc_fixed log al opts s \<and> hdlcUseSession opts \<and> hdlc_stream (self s) = bs \<and>
     hdlc_session (self s) = ss \<and>
     hdlc_pendingApdus (self s) = [] \<and> log (world s) = ws"

lemma wp_ReceiveDecodedFrame_link:
  fixes s :: "(('a, 'k, 'd, 'r, 's, 'w) HdlcProfileChannel, 'w) sys"
  assumes "frames_ahead env enc valid holds input s (f # fs)"
    and "link_state log (env_alloc env) s opts bs ss ws"
  shows "wp False False (ReceiveDecodedFrame env)
     (\<lambda>v t. v = Inr f \<and> frames_ahead env enc valid holds input t fs \<and>
        link_state log (env_alloc env) t opts bs ss ws \<and>
        hdlc_reassembler (self t) = hdlc_reassembler (self s)) (\<lambda>_. False) s"
proof -
  from assms(2) have "hdlc_fixed log (env_alloc env) opts s" by (simp add: link_state_def)
  from wp_also [OF wp_ReceiveDecodedFrame_stream [OF assms(1)] stepsD [OF quiet_ReceiveDecodedFrame this]]
  show ?thesis
    by (rule wp_conseq) (use assms(2) in \<open>auto simp: link_state_def apdu_state_def\<close>)
qed

lemma link_state_reassembler [simp]:
  "link_state log al (s\<lparr>self := (self s)\<lparr>hdlc_reassembler := r\<rparr>\<rparr>) opts bs ss ws
     = link_state log al s opts bs ss ws"
  by (simp add: link_state_def hdlc_fixed_def hdlc_logs_def)

lemma frames_ahead_reassembler [simp]:
  "frames_ahead env enc valid holds input (s\<lparr>self := (self s)\<lparr>hdlc_reassembler := r\<rparr>\<rparr>) fs
     = frames_ahead env enc valid holds input s fs"
  by (simp add: frames_ahead_def hdlc_stream_env_def)

lemma wp_ReceiveApduFrame_segment:
  fixes s :: "(('a, 'k, 'd, 'r, 's, 'w) HdlcProfileChannel, 'w) sys"
  assumes "frames_ahead env enc valid holds input s (f # fs)"
    and "link_state log (env_alloc env) s opts bs ss ws"
    and "hr_PushFrame (env_reassembler env) f (hdlc_reassembler (self s)) = (st, r, completed, has)"
    and "MapHdlcStatus st = ProfileStatus.NeedMoreData"
  shows "wp False False (ReceiveApduFrame env)
     (\<lambda>v t. v = Inl () \<and> frames_ahead env enc valid holds input t fs \<and>
        link_state log (env_alloc env) t opts bs ss ws \<and> hdlc_reassembler (self t) = r) (\<lambda>_. False) s"
  unfolding ReceiveApduFrame_def wp_bnd
proof (rule wp_conseq [OF wp_ReceiveDecodedFrame_link [OF assms(1,2)]], goal_cases)
  case (1 v t)
  then have "hdlcUseSession (hdlc_options (self t))"
      "hr_PushFrame (env_reassembler env) f (hdlc_reassembler (self t)) = (st, r, completed, has)"
    using assms(3) by (auto simp: link_state_def hdlc_fixed_def)
  from DecodeFrame_incomplete [OF this assms(4)] 1 show ?case
    by (simp add: wp_bnd wp_run wp_ret)
qed simp

text \<open>The last segment: the completed APDU is queued, then acknowledged with the final bit set.\<close>

definition completes ::
  "('a, 'k, 'h, 'd, 'r, 's, 'w) hdlc_env \<Rightarrow> 'w ApduChannelOptions \<Rightarrow> 's \<Rightarrow> ('a, 'k) HdlcFrame \<Rightarrow>
   byte list \<Rightarrow> byte list \<Rightarrow> 's \<Rightarrow> bool" where
  "completes env opts ss completed apdu rr ss' \<longleftrightarrow>
     (\<exists>ss1. hs_ReceiveFrame (env_session env) completed ss = (HdlcStatus.Ok, ss1) \<and>
        hs_BuildReceiveReadyFrame (env_session env) True ss1 = (HdlcStatus.Ok, ss', rr)) \<and>
     hf_information completed \<noteq> [] \<and>
     DecodeLpdu (env_llc env) (hf_information completed) False = (LlcStatus.Ok, apdu) \<and>
     (maximumApduSize opts = 0 \<or> length apdu \<le> maximumApduSize opts)"

text \<open>Writing succeeds and does not disturb what is still to be read.\<close>

definition answers :: "('w \<Rightarrow> byte list) \<Rightarrow> 'w IByteStream \<Rightarrow> bool" where
  "answers input bs \<longleftrightarrow>
     (\<forall>bytes w. \<exists>w'. bs_WriteAll bs bytes w = Ret TransportStatus.Ok w' \<and> input w' = input w)"

lemma wp_ReceiveApduFrame_last:
  fixes s :: "(('a, 'k, 'd, 'r, 's, 'w) HdlcProfileChannel, 'w) sys"
  assumes ahead: "frames_ahead env enc valid holds input s (f # fs)"
    and st: "link_state log (env_alloc env) s opts bs ss ws"
    and push: "hr_PushFrame (env_reassembler env) f (hdlc_reassembler (self s))
       = (HdlcStatus.Ok, r, completed, True)"
    and fin: "completes env opts ss completed apdu rr ss'"
    and ans: "answers input bs"
  shows "wp False False (ReceiveApduFrame env)
     (\<lambda>v t. v = Inr ProfileStatus.Ok \<and> frames_ahead env enc valid holds input t fs \<and>
        hdlc_pendingApdus (self t) = [apdu] \<and> hdlc_session (self t) = ss' \<and>
        hdlc_reassembler (self t) = r \<and> log (world t) = ws @ [rr]) (\<lambda>_. False) s"
  unfolding ReceiveApduFrame_def wp_bnd
proof (rule wp_conseq [OF wp_ReceiveDecodedFrame_link [OF ahead st]], goal_cases)
  case (1 v t)
  then have t: "frames_ahead env enc valid holds input t fs" "link_state log (env_alloc env) t opts bs ss ws"
    "hdlc_reassembler (self t) = hdlc_reassembler (self s)" and v: "v = Inr f" by simp_all
  let ?w1 = "snd (env_alloc env (length apdu) (world t))"
  from t(1) have am: "ample input (env_alloc env)" by (simp add: frames_ahead_def hdlc_stream_env_def)
  from ans obtain w2 where w2: "bs_WriteAll bs rr ?w1 = Ret TransportStatus.Ok w2"
    "input w2 = input ?w1" unfolding answers_def by blast
  from t(2) have logs: "hdlc_logs log (env_alloc env) (self t)" and opts: "hdlc_options (self t) = opts"
    and bs: "hdlc_stream (self t) = bs"
    and l: "hdlcUseSession opts" "hdlc_session (self t) = ss" "hdlc_pendingApdus (self t) = []"
      "log (world t) = ws"
    by (auto simp: link_state_def hdlc_fixed_def)
  have "log w2 = log ?w1 @ [rr]"
    using spec [OF spec [OF conjunct2 [OF conjunct2 [OF conjunct2 [OF conjunct2 [OF logs [unfolded hdlc_logs_def]]]]],
      of rr], of ?w1] w2(1) bs by simp
  moreover have "log ?w1 = ws" using logs l(4) by (simp add: hdlc_logs_def)
  ultimately have log2: "log w2 = ws @ [rr]" by simp
  show ?case
    unfolding v sum.case
    using fin t(1,3) push opts bs l w2 log2
    by (auto simp: completes_def DecodeFrameToPendingApdu_def SessionReceiveFrame_def
        DecodeCompleteInformationToPendingApdu_def SendSessionReceiveReady_def session_build_def
        WriteFrameBytes_def wp_simps Let_def ample_case [OF am] ample_obs [OF am]
        frames_ahead_def hdlc_stream_env_def)
qed simp

lemma wp_ReceiveNextApdu_link:
  fixes s :: "(('a, 'k, 'd, 'r, 's, 'w) HdlcProfileChannel, 'w) sys"
  assumes push: "hr_PushFrame (env_reassembler env) f r = (HdlcStatus.Ok, r', completed, True)"
    and fin: "completes env opts ss completed apdu rr ss'" and ans: "answers input bs"
  shows "frames_ahead env enc valid holds input s (segments @ f # fs) \<Longrightarrow>
     link_state log (env_alloc env) s opts bs ss ws \<Longrightarrow>
     absorbs (env_reassembler env) (hdlc_reassembler (self s)) segments = Some r \<Longrightarrow>
     wp False False (ReceiveNextApdu env)
       (\<lambda>st t. st = ProfileStatus.Ok \<and> frames_ahead env enc valid holds input t fs \<and>
          hdlc_pendingApdus (self t) = [apdu] \<and> hdlc_session (self t) = ss' \<and>
          hdlc_reassembler (self t) = r' \<and> log (world t) = ws @ [rr]) (\<lambda>_. False) s"
  unfolding ReceiveNextApdu_def
proof (induction segments arbitrary: s)
  case Nil
  from Nil push have "hr_PushFrame (env_reassembler env) f (hdlc_reassembler (self s))
      = (HdlcStatus.Ok, r', completed, True)" by simp
  from wp_ReceiveApduFrame_last [OF Nil(1) [simplified] Nil(2) this fin ans] show ?case
    by (subst wp_loop_unfold, elim wp_conseq) simp_all
next
  case (Cons g segments)
  obtain st r1 c h where g: "hr_PushFrame (env_reassembler env) g (hdlc_reassembler (self s)) = (st, r1, c, h)"
    by (metis prod_cases4)
  with Cons.prems(3) have more: "MapHdlcStatus st = ProfileStatus.NeedMoreData"
      "absorbs (env_reassembler env) r1 segments = Some r" by (auto split: if_splits)
  from Cons.prems(1) have "frames_ahead env enc valid holds input s (g # segments @ f # fs)" by simp
  from wp_ReceiveApduFrame_segment [OF this Cons.prems(2) g more(1)] show ?case
    by (subst wp_loop_unfold, elim wp_conseq) (simp_all add: Cons.IH more(2))
qed

lemma wp_fill_once:
  assumes "is_empty (self s)" and "wp d f receive_next Q E s"
    and "\<And>st t. Q st t \<Longrightarrow> st = ProfileStatus.Ok \<and> \<not> is_empty (self t)"
  shows "wp d f (fill_while_empty is_empty receive_next) Q E s"
proof -
  have "wp d f (ok_or_return receive_next (fill_while_empty is_empty receive_next)) Q E s"
    unfolding wp_ok_or_return
    by (rule wp_conseq [OF assms(2)]) (use assms(3) in \<open>auto simp: wp_run [OF fill_nonempty]\<close>)
  then show ?thesis by (simp add: wp_def fill_empty [of is_empty s, OF assms(1)])
qed

text \<open>The whole receive: one APDU, one acknowledgement, after the last segment.\<close>

lemma wp_Hdlc_ReceiveVector_link:
  fixes s :: "(('a, 'k, 'd, 'r, 's, 'w) HdlcProfileChannel, 'w) sys"
  assumes "frames_ahead env enc valid holds input s (segments @ f # fs)"
    and "link_state log (env_alloc env) s opts bs ss ws"
    and "absorbs (env_reassembler env) (hdlc_reassembler (self s)) segments = Some r"
    and "hr_PushFrame (env_reassembler env) f r = (HdlcStatus.Ok, r', completed, True)"
    and "completes env opts ss completed apdu rr ss'" and "answers input bs"
    and quiet: "\<And>n w. log (snd (env_alloc env n w)) = log w"
  shows "wp False False (Hdlc_ReceiveVector env)
     (\<lambda>st t. st = ProfileStatus.Ok \<and> cm_vector (mem t) = apdu \<and> log (world t) = ws @ [rr] \<and>
        frames_ahead env enc valid holds input t fs \<and> hdlc_pendingApdus (self t) = [] \<and>
        hdlc_session (self t) = ss' \<and> hdlc_reassembler (self t) = r') (\<lambda>_. False) s"
proof -
  let ?s = "s\<lparr>mem := (mem s)\<lparr>cm_vector := []\<rparr>\<rparr>"
  from assms(1) have am: "ample input (env_alloc env)"
    by (simp add: frames_ahead_def hdlc_stream_env_def)
  have "frames_ahead env enc valid holds input ?s (segments @ f # fs)"
      "link_state log (env_alloc env) ?s opts bs ss ws" and empty: "hdlc_pendingApdus (self s) = []"
    using assms(1,2) by (simp_all add: frames_ahead_def link_state_def hdlc_fixed_def)
  from wp_ReceiveNextApdu_link [OF assms(4-6) this(1,2)] assms(3)
  have step: "wp False False (ReceiveNextApdu env)
       (\<lambda>st t. st = ProfileStatus.Ok \<and> frames_ahead env enc valid holds input t fs \<and>
          hdlc_pendingApdus (self t) = [apdu] \<and> hdlc_session (self t) = ss' \<and>
          hdlc_reassembler (self t) = r' \<and> log (world t) = ws @ [rr]) (\<lambda>_. False) ?s" by simp
  have "wp False False (fill_while_empty Hdlc_no_pending (ReceiveNextApdu env))
       (\<lambda>st t. st = ProfileStatus.Ok \<and> frames_ahead env enc valid holds input t fs \<and>
          hdlc_pendingApdus (self t) = [apdu] \<and> hdlc_session (self t) = ss' \<and>
          hdlc_reassembler (self t) = r' \<and> log (world t) = ws @ [rr]) (\<lambda>_. False) ?s"
    by (rule wp_fill_once [OF _ step]) (simp_all add: Hdlc_no_pending_def empty)
  then show ?thesis
    unfolding Hdlc_ReceiveVector_def wp_next_do wp_set_mem wp_ok_or_return
    by (rule wp_conseq)
       (auto simp: wp_simps ample_case [OF am] ample_obs [OF am] quiet frames_ahead_def hdlc_stream_env_def)
qed

end
