(* ===== verification/Hdlc_Example.thy ===== *)
theory Hdlc_Example
  imports Example_Environment Hdlc_Stream Hdlc_Segments Hdlc_Safety Hdlc_Link
begin

text \<open>
  Executable instances of the HDLC and LLC interfaces, as \<open>Example_Environment\<close> has them for
  the wrapper: a frame codec with a length field, the 3-byte LLC header, a reassembler that
  collects segments, and a session that keeps its history. They serve to apply the properties of
  the HDLC channel.
\<close>

section \<open>Frames\<close>

type_synonym example_frame = "(byte, byte) HdlcFrame"

definition hdlc_wire :: "example_frame \<Rightarrow> byte list" where
  "hdlc_wire f =
     [0x7E, if hf_segmented f then 1 else 0, hf_destination f, hf_source f, hf_control f] @
     be16 (of_nat (length (hf_information f))) @ hf_information f"

definition hdlc_body :: "byte list \<Rightarrow> nat" where
  "hdlc_body header = unat (of_be16 (drop 5 header))"

definition hdlc_parse :: "byte list \<Rightarrow> example_frame" where
  "hdlc_parse bs =
     \<lparr>hf_segmented = (take 1 (drop 1 bs) = [1]), hf_destination = hd (drop 2 bs @ [0]),
      hf_source = hd (drop 3 bs @ [0]), hf_control = hd (drop 4 bs @ [0]), hf_information = drop 7 bs\<rparr>"

definition hdlc_valid :: "example_frame \<Rightarrow> bool" where
  "hdlc_valid f \<longleftrightarrow> length (hf_information f) \<le> 65535"

lemma hdlc_sized: "sized_encoding 7 hdlc_body hdlc_parse hdlc_wire hdlc_valid"
proof -
  have "hdlc_body (take 7 (hdlc_wire f)) = length (hf_information f)" if "hdlc_valid f" for f
  proof -
    have "drop 5 (take 7 (hdlc_wire f)) = be16 (of_nat (length (hf_information f))) @ []"
      by (simp add: hdlc_wire_def be16_def numeral_eq_Suc)
    then have "hdlc_body (take 7 (hdlc_wire f)) = unat (of_nat (length (hf_information f)) :: uint16)"
      unfolding hdlc_body_def by (simp only: of_be16)
    with that show ?thesis by (simp add: hdlc_valid_def unat_of_nat)
  qed
  moreover have "hdlc_parse (hdlc_wire f) = f" for f
    by (cases f) (simp add: hdlc_parse_def hdlc_wire_def be16_def numeral_eq_Suc)
  ultimately show ?thesis by (simp add: sized_encoding_def hdlc_wire_def be16_def)
qed

section \<open>The libraries\<close>

definition example_negotiation :: HdlcSessionNegotiationLimits where
  "example_negotiation = \<lparr>maxInformationFieldLengthTransmit = 128,
     maxInformationFieldLengthReceive = 128, windowSizeTransmit = 1, windowSizeReceive = 1\<rparr>"

definition hdlc_codec_example :: "(byte, byte) hdlc_codec" where
  "hdlc_codec_example =
     \<lparr>DefaultHdlcCodecLimits =
        \<lparr>maximumInformationFieldSize = 2030, maximumReassembledInformationSize = 4096\<rparr>,
      DefaultHdlcSessionNegotiationLimits = example_negotiation,
      MakeClientAddress = (\<lambda>x. (HdlcStatus.Ok, x)),
      MakeServerAddress = (\<lambda>logical physical. (HdlcStatus.Ok, ucast logical)),
      DecodeControl = (\<lambda>x. (HdlcStatus.Ok, x)),
      EncodeFrame = (\<lambda>f limits.
        if maximumInformationFieldSize limits < length (hf_information f)
        then (HdlcStatus.InformationFieldTooLarge, []) else (HdlcStatus.Ok, hdlc_wire f)),
      DecodeFrame = (\<lambda>bytes limits.
        if length bytes < 7 \<or> length bytes < 7 + hdlc_body (take 7 bytes)
        then (HdlcStatus.NeedMoreData, hdlc_parse []) else (HdlcStatus.Ok, hdlc_parse bytes))\<rparr>"

definition llc_example :: "byte llc_codec" where
  "llc_example =
     \<lparr>MakeLlcHeader = (\<lambda>d. if d = LlcDirection.ClientToServer then 0xE6 else 0xE7),
      EncodeLpdu = (\<lambda>header data n. case data of
          None \<Rightarrow> if n = 0 then (LlcStatus.Ok, [0xE6, header, 0]) else (LlcStatus.InvalidArgument, [])
        | Some bytes \<Rightarrow> (LlcStatus.Ok, [0xE6, header, 0] @ take n bytes)),
      DecodeLpdu = (\<lambda>info _.
        if length info < 3 then (LlcStatus.NeedMoreData, []) else (LlcStatus.Ok, drop 3 info))\<rparr>"

text \<open>The state of the decoder is the unfinished frame. A frame that starts with \<open>0xFF\<close> is refused.\<close>

definition hdlc_decoder_example :: "(byte, byte, byte list) hdlc_stream_decoder" where
  "hdlc_decoder_example =
     \<lparr>hd_new = (\<lambda>_. []),
      hd_Push = (\<lambda>bytes d.
        if d @ bytes \<noteq> [] \<and> hd (d @ bytes) = 0xFF then (HdlcStatus.InvalidFlag, d @ bytes, [])
        else case parse_frames 7 hdlc_body hdlc_parse (d @ bytes) of
          (fs, r) \<Rightarrow> (if fs = [] then HdlcStatus.NeedMoreData else HdlcStatus.Ok, r, fs)),
      hd_Reset = (\<lambda>_. [])\<rparr>"

lemma hdlc_decoder_example_incremental:
  "hdlc_incremental hdlc_decoder_example hdlc_wire hdlc_valid (=)"
  unfolding hdlc_incremental_def
proof (rule parse_incremental [OF hdlc_sized, where good = "\<lambda>b. b \<noteq> 0xFF" and
      report = "\<lambda>fs. if fs = [] then HdlcStatus.NeedMoreData else HdlcStatus.Ok"])
  show "hd (hdlc_wire f) \<noteq> 0xFF" for f by (simp add: hdlc_wire_def)
  show "hd_Push hdlc_decoder_example bytes d =
     (case parse_frames 7 hdlc_body hdlc_parse (d @ bytes) of
        (fs, r) \<Rightarrow> (if fs = [] then HdlcStatus.NeedMoreData else HdlcStatus.Ok, r, fs))"
    if "d @ bytes = [] \<or> hd (d @ bytes) \<noteq> 0xFF" for bytes d
    using that by (auto simp: hdlc_decoder_example_def)
qed simp

definition reassembler_example :: "(byte, byte, byte list) hdlc_reassembler" where
  "reassembler_example =
     \<lparr>hr_new = (\<lambda>_. []),
      hr_PushFrame = (\<lambda>f r.
        if hf_segmented f then (HdlcStatus.SegmentationIncomplete, r @ hf_information f, f, False)
        else (HdlcStatus.Ok, [], f\<lparr>hf_information := r @ hf_information f\<rparr>, True)),
      hr_Reset = (\<lambda>_. [])\<rparr>"

record example_session =
  es_state :: HdlcSessionState
  es_limits :: HdlcSessionNegotiationLimits
  es_events :: "(byte, byte) session_event list"

definition session_example :: "(byte, byte, example_session) hdlc_session" where
  "session_example =
     \<lparr>hs_new = (\<lambda>opts. \<lparr>es_state = HdlcSessionState.Disconnected,
        es_limits = so_negotiationLimits opts, es_events = []\<rparr>),
      hs_State = es_state,
      hs_NegotiatedLimits = es_limits,
      hs_CanSendInformationFrame = (\<lambda>_. True),
      hs_BuildConnectRequest = (\<lambda>ss. (HdlcStatus.Ok, ss, [0x7E, 0x93])),
      hs_BuildConnectResponse = (\<lambda>ss. (HdlcStatus.Ok, ss, [0x7E, 0x73])),
      hs_BuildDisconnectRequest = (\<lambda>ss. (HdlcStatus.Ok, ss, [0x7E, 0x53])),
      hs_BuildInformationFrame = (\<lambda>info final ss.
        (HdlcStatus.Ok, ss\<lparr>es_events := es_events ss @ [Built (info, final)]\<rparr>,
         hdlc_wire \<lparr>hf_segmented = False, hf_destination = 1, hf_source = 0x10,
           hf_control = (if final then 0x10 else 0), hf_information = info\<rparr>)),
      hs_BuildReceiveReadyFrame = (\<lambda>final ss. (HdlcStatus.Ok, ss, [0x7E, 0x11])),
      hs_ReceiveFrame = (\<lambda>f ss.
        if hf_control f = 0xFF then (HdlcStatus.UnsupportedFrame, ss)
        else (HdlcStatus.Ok, ss\<lparr>es_state := HdlcSessionState.Connected,
                                es_events := es_events ss @ [Accepted f]\<rparr>))\<rparr>"

lemma session_example_records: "session_records es_events session_example"
  by (auto simp: session_records_def session_example_def split: if_splits)

definition hdlc_env_example ::
  "(byte, byte, byte, byte list, byte list, example_session, list_world) hdlc_env" where
  "hdlc_env_example =
     \<lparr>env_codec = hdlc_codec_example, env_llc = llc_example, env_decoder = hdlc_decoder_example,
      env_reassembler = reassembler_example, env_session = session_example, env_alloc = list_alloc\<rparr>"

lemma hdlc_env_example_sel [simp]:
  "env_codec hdlc_env_example = hdlc_codec_example" "env_llc hdlc_env_example = llc_example"
  "env_decoder hdlc_env_example = hdlc_decoder_example"
  "env_reassembler hdlc_env_example = reassembler_example"
  "env_session hdlc_env_example = session_example" "env_alloc hdlc_env_example = list_alloc"
  by (simp_all add: hdlc_env_example_def)

definition list_timer :: "list_world ITimerScheduler" where
  "list_timer = \<lparr>tm_SleepFor = (\<lambda>ms w. Ret TransportStatus.Ok w)\<rparr>"

section \<open>A concrete channel\<close>

definition example_hdlc_options :: "list_world ApduChannelOptions" where
  "example_hdlc_options =
     (DefaultApduChannelOptions \<lparr>kPublicClient = 0x10, kManagementLogicalDevice = 0x01\<rparr>)
       \<lparr>scratchBufferSize := 8\<rparr>"

definition example_hdlc ::
  "list_world ApduChannelOptions \<Rightarrow>
   (byte, byte, byte list, byte list, example_session, list_world) HdlcProfileChannel" where
  "example_hdlc opts = HdlcProfileChannel hdlc_env_example list_timer list_stream opts"

lemma example_hdlc_options_sel [simp]:
  "maximumApduSize example_hdlc_options = 65535" "scratchBufferSize example_hdlc_options = 8"
  "hdlcUseSession example_hdlc_options = False" "hdlcRetryCount example_hdlc_options = 3"
  "hdlcDirection example_hdlc_options = HdlcProfileDirection.ClientToServer"
  "hdlcRole example_hdlc_options = HdlcProfileRole.Client"
  "hdlcClientAddress example_hdlc_options = 0x10"
  "hdlcLogicalDeviceAddress example_hdlc_options = 1"
  "hdlcMaxInformationFieldLengthTransmit example_hdlc_options = 0"
  "hdlcRetryDelayMilliseconds example_hdlc_options = 10"
  by (simp_all add: example_hdlc_options_def DefaultApduChannelOptions_def)

lemma example_hdlc_sel [simp]:
  "hdlc_stream (example_hdlc opts) = list_stream"
  "hdlc_timer (example_hdlc opts) = Some list_timer"
  "hdlc_options (example_hdlc opts) = opts"
  "hdlc_decoder (example_hdlc opts) = []"
  "hdlc_reassembler (example_hdlc opts) = []"
  "hdlc_pendingHdlcFrames (example_hdlc opts) = []"
  "hdlc_pendingApdus (example_hdlc opts) = []"
  "maximumInformationFieldSize (hdlc_limits (example_hdlc opts)) = 2030"
  "hdlc_readBuffer (example_hdlc opts) =
     replicate (if scratchBufferSize opts = 0 then 2048 else scratchBufferSize opts) 0"
  by (simp_all add: example_hdlc_def HdlcProfileChannel_def HdlcProfileChannel_timer_def
      MakeHdlcSessionOptions_def hdlc_codec_example_def Hdlc_MakeDecoder_def Let_def
      hdlc_decoder_example_def reassembler_example_def)

lemma list_timer_safe: "safe_timer (Some list_timer)"
  by (simp add: safe_timer_def list_timer_def)

end
