(* ===== verification/Hdlc_Properties.thy ===== *)
theory Hdlc_Properties
  imports Hdlc_Example
begin

text \<open>The properties of the HDLC channel, each with an application to a concrete channel.\<close>

section \<open>Delivery without a session\<close>

definition sent_ui :: "byte list \<Rightarrow> example_frame" where
  "sent_ui apdu = \<lparr>hf_segmented = False, hf_destination = 1, hf_source = 0x10, hf_control = 0x10,
     hf_information = [0xE6, 0xE6, 0] @ apdu\<rparr>"

lemma example_hdlc_env:
  "hdlc_stream_env hdlc_env_example hdlc_wire hdlc_valid (=) lw_in (example_hdlc example_hdlc_options)"
  by (simp add: hdlc_stream_env_def hdlc_decoder_example_incremental list_stream_delivers list_alloc_ample)

lemma example_hdlc_sink:
  "hdlc_sink hdlc_env_example written_bytes (in_world (example_hdlc example_hdlc_options) w)
     (\<lambda>apdu. hdlc_wire (sent_ui apdu)) (\<lambda>apdu. length apdu \<le> 100)"
  by (auto simp: hdlc_sink_def list_stream_records llc_example_def BuildFrame_def hdlc_codec_example_def
      Let_def sent_ui_def)

lemma example_carries_ui:
  "length apdu \<le> 100 \<Longrightarrow> hdlc_valid (sent_ui apdu) \<and>
     unnumbered_carries hdlc_env_example example_hdlc_options (sent_ui apdu) apdu"
  by (simp add: hdlc_valid_def unnumbered_carries_def sent_ui_def llc_example_def)

text \<open>
  C2: APDUs sent over one HDLC channel in unnumbered information frames and read by another come
  out unchanged, one per call and in order, however the stream cuts the bytes into reads. Every
  send and every receive returns \<open>Ok\<close>.
\<close>

theorem hdlc_end_to_end:
  assumes sender: "hdlc_sink env sent sa encode fits" and "list_all fits apdus"
    and receiver: "hdlc_stream_env env' enc valid holds input (self sb)"
      "\<not> hdlcUseSession (hdlc_options (self sb))"
      "hdlc_pendingApdus (self sb) = []" "hdlc_pendingHdlcFrames (self sb) = []"
      "holds (hdlc_decoder (self sb)) []"
    and agree: "\<And>a. fits a \<Longrightarrow> valid (frame a) \<and> enc (frame a) = encode a \<and>
      unnumbered_carries env' (hdlc_options (self sb)) (frame a) a"
  shows "\<exists>ta. send_many (Hdlc_SendApdu env) apdus sa = Some (Ret (map (\<lambda>_. ProfileStatus.Ok) apdus) ta) \<and>
     (sent (world ta) = sent (world sa) @ input (world sb) \<longrightarrow>
        (\<exists>tb. receive_many (Hdlc_ReceiveVector env') (length apdus) sb =
           Some (Ret (map (\<lambda>a. (ProfileStatus.Ok, a)) apdus) tb)))"
proof -
  from hdlc_sink.send_in_order [OF sender assms(2)] obtain ta where
    ta: "send_many (Hdlc_SendApdu env) apdus sa = Some (Ret (map (\<lambda>_. ProfileStatus.Ok) apdus) ta)"
      "sent (world ta) = sent (world sa) @ concat (map encode apdus)" by blast
  have *: "map encode apdus = map enc (map frame apdus)" "list_all valid (map frame apdus)"
      "list_all2 (unnumbered_carries env' (hdlc_options (self sb))) (map frame apdus) apdus"
    using assms(2) agree by (auto simp: list_all_iff list_all2_map1 list_all2_same)
  have "hdlc_source env' enc valid holds input sb apdus" if "input (world sb) = concat (map encode apdus)"
    using hdlc_source_fresh [OF receiver *(2) _ *(3)] that *(1) by simp
  from hdlc_source.receive_in_order [OF this] ta show ?thesis by auto
qed

lemma hdlc_end_to_end_witness:
  "\<exists>tb. receive_many (Hdlc_ReceiveVector hdlc_env_example) 2
       (in_world (example_hdlc example_hdlc_options) (empty_world\<lparr>lw_chunk := 2, lw_in :=
          hdlc_wire (sent_ui [0xC0, 1]) @ hdlc_wire (sent_ui [0xC4])\<rparr>)) =
     Some (Ret [(ProfileStatus.Ok, [0xC0, 1]), (ProfileStatus.Ok, [0xC4])] tb)"
proof -
  let ?apdus = "[[0xC0, 1], [0xC4]] :: byte list list"
  let ?sa = "in_world (example_hdlc example_hdlc_options) empty_world"
  let ?sb = "in_world (example_hdlc example_hdlc_options) (empty_world\<lparr>lw_chunk := 2, lw_in :=
          hdlc_wire (sent_ui [0xC0, 1]) @ hdlc_wire (sent_ui [0xC4])\<rparr>)"
  have "\<exists>ta. send_many (Hdlc_SendApdu hdlc_env_example) ?apdus ?sa =
        Some (Ret (map (\<lambda>_. ProfileStatus.Ok) ?apdus) ta) \<and>
     (written_bytes (world ta) = written_bytes (world ?sa) @ lw_in (world ?sb) \<longrightarrow>
        (\<exists>tb. receive_many (Hdlc_ReceiveVector hdlc_env_example) (length ?apdus) ?sb =
           Some (Ret (map (\<lambda>a. (ProfileStatus.Ok, a)) ?apdus) tb)))"
    by (rule hdlc_end_to_end [OF example_hdlc_sink _, where valid = hdlc_valid and holds = "(=)" and
          enc = hdlc_wire and frame = sent_ui])
       (simp_all add: example_hdlc_env example_carries_ui)
  moreover have "send_many (Hdlc_SendApdu hdlc_env_example) ?apdus ?sa =
      Some (Ret (map (\<lambda>_. ProfileStatus.Ok) ?apdus) (in_world (example_hdlc example_hdlc_options)
        (empty_world\<lparr>lw_out := [hdlc_wire (sent_ui [0xC0, 1]), hdlc_wire (sent_ui [0xC4])]\<rparr>)))"
    by (simp add: Hdlc_SendApdu_def run_simps WriteFrameBytes_def BuildFrame_def llc_example_def
        hdlc_codec_example_def Let_def list_stream_def in_world_def sent_ui_def empty_world_def)
  ultimately show ?thesis
    by (simp add: written_bytes_def empty_world_def eval_nat_numeral del: receive_many.simps)
qed

text \<open>
  C10: Receiving into the caller's buffer, on a channel without a session. A buffer that is too small yields
  \<open>OutputBufferTooSmall\<close>, leaves the buffer as it was and keeps the APDU for the next call;
  any other buffer gets exactly the bytes of the next APDU, with its size.
\<close>

theorem hdlc_receive_into_buffer:
  assumes "hdlc_source env enc valid holds input s (apdu # apdus)"
    and "IsValidMutableBuffer out" and "buffer_backed out (mem s)"
  shows "\<exists>st t. Hdlc_ReceiveBuffer env out s = Some (Ret st t) \<and>
     (if mb_size out < length apdu
      then st = ProfileStatus.OutputBufferTooSmall \<and> cm_written (mem t) = 0 \<and>
        cm_data (mem t) = cm_data (mem s) \<and> hdlc_source env enc valid holds input t (apdu # apdus)
      else st = ProfileStatus.Ok \<and> cm_written (mem t) = length apdu \<and>
        take (cm_written (mem t)) (cm_data (mem t)) = apdu \<and>
        hdlc_source env enc valid holds input t apdus)"
  by (rule wp_totalE [OF wp_Hdlc_ReceiveBuffer_unnumbered [OF assms]]) blast

lemma hdlc_receive_into_buffer_witness:
  "\<exists>st t. Hdlc_ReceiveBuffer hdlc_env_example
       \<lparr>mb_data = CallerPtr, mb_size = 4, mb_writtenSize = CallerPtr\<rparr>
       (in_world (example_hdlc example_hdlc_options)
          (empty_world\<lparr>lw_in := hdlc_wire (sent_ui [0xC0, 1])\<rparr>)) = Some (Ret st t) \<and>
     st = ProfileStatus.Ok \<and> cm_written (mem t) = 2 \<and> take 2 (cm_data (mem t)) = [0xC0, 1]"
proof -
  let ?s = "in_world (example_hdlc example_hdlc_options)
          (empty_world\<lparr>lw_in := hdlc_wire (sent_ui [0xC0, 1])\<rparr>)"
  have "hdlc_source hdlc_env_example hdlc_wire hdlc_valid (=) lw_in ?s [[0xC0, 1]]"
    by (rule hdlc_source_fresh [where fs = "[sent_ui [0xC0, 1]]"])
       (simp_all add: example_hdlc_env example_carries_ui empty_world_def)
  from hdlc_receive_into_buffer [OF this, where out =
      "\<lparr>mb_data = CallerPtr, mb_size = 4, mb_writtenSize = CallerPtr\<rparr>"]
  show ?thesis by (auto simp: IsValidMutableBuffer_def buffer_backed_def numeral_2_eq_2)
qed

text \<open>
  C26: A closed and reopened channel without a session starts afresh. Whatever partial frame, queued
  frames and queued APDUs it held before \<open>Close\<close>, and whatever happens to the world before \<open>Open\<close>:
  after \<open>Open\<close> has returned \<open>Ok\<close> it delivers exactly the APDUs of the frames that the reopened stream
  holds. The session object keeps its state throughout. The stream may refuse reads while it is
  closed.
\<close>

theorem hdlc_reopened_afresh:
  assumes closed: "Hdlc_Close env s = Some (Ret st t)"
    and opened: "Hdlc_Open (t\<lparr>world := w\<rparr>) = Some (Ret ProfileStatus.Ok u)"
    and "hdlc_stream_env env enc valid holds input (self s)"
    and "\<not> hdlcUseSession (hdlc_options (self s))"
    and "\<And>d. holds (hd_Reset (env_decoder env) d) []" and "list_all valid fs"
    and "input (world u) = concat (map enc fs)"
    and "list_all2 (unnumbered_carries env (hdlc_options (self s))) fs apdus"
  shows "hdlc_session (self u) = hdlc_session (self s) \<and>
     (\<exists>v. receive_many (Hdlc_ReceiveVector env) (length apdus) u =
        Some (Ret (map (\<lambda>a. (ProfileStatus.Ok, a)) apdus) v))"
proof -
  from closed have t: "self t = (self s)
      \<lparr>hdlc_decoder := hd_Reset (env_decoder env) (hdlc_decoder (self s)),
       hdlc_reassembler := hr_Reset (env_reassembler env) (hdlc_reassembler (self s)),
       hdlc_pendingHdlcFrames := [], hdlc_pendingApdus := []\<rparr>"
    by (auto simp: Hdlc_Close_def run_simps split: outcome.splits)
  from opened have u: "self u = self t" by (auto simp: Hdlc_Open_def run_simps split: outcome.splits)
  have "hdlc_stream_env env enc valid holds input (self u)"
    using assms(3) by (simp add: u t hdlc_stream_env_def)
  from hdlc_source_fresh [OF this _ _ _ _ assms(6,7), where apdus = apdus] assms(4,5,8)
  have "hdlc_source env enc valid holds input u apdus" by (simp add: u t)
  from hdlc_source.receive_in_order [OF this] show ?thesis by (auto simp: u t)
qed

text \<open>A channel over a stream that refuses reads while it is closed, with a partial frame and a queued APDU.\<close>

definition gated_hdlc_env ::
  "(byte, byte, byte, byte list, byte list, example_session, bool \<times> list_world) hdlc_env" where
  "gated_hdlc_env =
     \<lparr>env_codec = hdlc_codec_example, env_llc = llc_example, env_decoder = hdlc_decoder_example,
      env_reassembler = reassembler_example, env_session = session_example,
      env_alloc = (\<lambda>_ w. (True, w))\<rparr>"

definition gated_hdlc ::
  "bool \<times> list_world \<Rightarrow>
   ((byte, byte, byte list, byte list, example_session, bool \<times> list_world) HdlcProfileChannel, bool \<times> list_world) sys"
  where
  "gated_hdlc w =
     \<lparr>self = (HdlcProfileChannel gated_hdlc_env \<lparr>tm_SleepFor = (\<lambda>_ w. Ret TransportStatus.Ok w)\<rparr> gated_stream
         (DefaultApduChannelOptions \<lparr>kPublicClient = 0x10, kManagementLogicalDevice = 0x01\<rparr>))
        \<lparr>hdlc_decoder := [0x7E, 9], hdlc_pendingApdus := [[7]], hdlc_readBuffer := replicate 8 0\<rparr>,
      mem = \<lparr>cm_vector = [], cm_data = replicate 4 0, cm_written = 0\<rparr>, world = w\<rparr>"

lemma gated_hdlc_sel [simp]:
  "hdlc_stream (self (gated_hdlc w)) = gated_stream" "world (gated_hdlc w) = w"
  "hdlc_readBuffer (self (gated_hdlc w)) = replicate 8 0"
  "\<not> hdlcUseSession (hdlc_options (self (gated_hdlc w)))"
  "maximumApduSize (hdlc_options (self (gated_hdlc w))) = 65535"
  by (simp_all add: gated_hdlc_def HdlcProfileChannel_def HdlcProfileChannel_timer_def Let_def
      gated_hdlc_env_def MakeHdlcSessionOptions_def hdlc_codec_example_def DefaultApduChannelOptions_def)

lemma hdlc_reopened_afresh_witness:
  "\<exists>t u v. Hdlc_Close gated_hdlc_env (gated_hdlc (True, empty_world)) = Some (Ret ProfileStatus.Ok t) \<and>
     Hdlc_Open (t\<lparr>world := (False, empty_world\<lparr>lw_in := hdlc_wire (sent_ui [0xC0, 1])\<rparr>)\<rparr>) =
       Some (Ret ProfileStatus.Ok u) \<and>
     receive_many (Hdlc_ReceiveVector gated_hdlc_env) 1 u = Some (Ret [(ProfileStatus.Ok, [0xC0, 1])] v)"
proof -
  let ?w = "empty_world\<lparr>lw_in := hdlc_wire (sent_ui [0xC0, 1])\<rparr>"
  obtain t where t: "Hdlc_Close gated_hdlc_env (gated_hdlc (True, empty_world)) = Some (Ret ProfileStatus.Ok t)"
      "hdlc_stream (self t) = gated_stream"
    by (simp add: Hdlc_Close_def run_simps) (simp add: gated_stream_def)
  obtain u where u: "Hdlc_Open (t\<lparr>world := (False, ?w)\<rparr>) = Some (Ret ProfileStatus.Ok u)" "world u = (True, ?w)"
    using t(2) by (simp add: Hdlc_Open_def run_simps) (simp add: gated_stream_def)
  have "hdlc_stream_env gated_hdlc_env hdlc_wire hdlc_valid (=) gated_input (self (gated_hdlc (True, empty_world)))"
    by (simp add: hdlc_stream_env_def gated_hdlc_env_def hdlc_decoder_example_incremental
        gated_stream_delivers ample_def)
  from hdlc_reopened_afresh [OF t(1) u(1) this, where fs = "[sent_ui [0xC0, 1]]" and apdus = "[[0xC0, 1]]"] t(1) u
  show ?thesis
    by (auto simp: gated_input_def gated_hdlc_env_def hdlc_decoder_example_def hdlc_valid_def
        unnumbered_carries_def sent_ui_def llc_example_def simp del: receive_many.simps)
qed

section \<open>Memory safety and termination\<close>



text \<open>
  C14: Termination. With finite input every operation of the HDLC channel ends: the read loops
  consume input, the retry loop counts to at most 255, and the segmentation loop to the number of
  frames.
\<close>

theorem hdlc_calls_end:
  assumes "finite_input rank (hdlc_stream (self s))" and "patient_timer rank (hdlc_timer (self s))"
    and "\<forall>n w. rank (snd (env_alloc env n w)) \<le> rank w"
  shows "Hdlc_SendApdu env apdu s \<noteq> None \<and> Hdlc_ReceiveVector env s \<noteq> None \<and>
     Hdlc_ReceiveBuffer env out s \<noteq> None \<and> ConnectDataLink env s \<noteq> None \<and>
     AcceptDataLink env s \<noteq> None \<and> DisconnectDataLink env s \<noteq> None"
proof -
  note ok = hdlc_env_ok_finite [OF assms]
  show ?thesis
    by (intro conjI wp_returns [OF stepsD [OF Hdlc_SendApdu_runs [OF disjI1 [OF TrueI]] ok]]
        wp_returns [OF stepsD [OF ConnectDataLink_runs ok]] wp_returns [OF stepsD [OF AcceptDataLink_runs ok]]
        wp_returns [OF stepsD [OF DisconnectDataLink_runs ok]]
        wp_returns [OF wp_Hdlc_ReceiveVector_runs [OF ok]]
        wp_returns [OF wp_Hdlc_ReceiveBuffer_runs [OF ok]] disjI1 TrueI)
qed

lemma hdlc_calls_end_witness:
  "ConnectDataLink hdlc_env_example
     (in_world (example_hdlc (example_hdlc_options\<lparr>hdlcUseSession := True\<rparr>))
        (empty_world\<lparr>lw_in := [0x7E, 0, 1]\<rparr>)) \<noteq> None"
  using hdlc_calls_end [of "\<lambda>w. length (lw_in w)"
      "in_world (example_hdlc (example_hdlc_options\<lparr>hdlcUseSession := True\<rparr>)) (empty_world\<lparr>lw_in := [0x7E, 0, 1]\<rparr>)"
      hdlc_env_example]
  by (simp add: list_stream_finite patient_timer_def list_timer_def behaves_def list_alloc_def)

end
