(* ===== verification/Hdlc_Session_Properties.thy ===== *)
theory Hdlc_Session_Properties
  imports Hdlc_Example
begin

text \<open>
  The properties of the HDLC channel with a session, each with an application to a concrete
  channel.
\<close>

section \<open>A connected channel\<close>

definition rr_frame :: example_frame where
  "rr_frame = \<lparr>hf_segmented = False, hf_destination = 0x10, hf_source = 1, hf_control = 0x11,
     hf_information = []\<rparr>"

definition connected_hdlc ::
  "size_t \<Rightarrow> example_frame list \<Rightarrow>
   (byte, byte, byte list, byte list, example_session, list_world) HdlcProfileChannel" where
  "connected_hdlc transmit frames =
     (example_hdlc (example_hdlc_options\<lparr>hdlcUseSession := True\<rparr>))
       \<lparr>hdlc_session := \<lparr>es_state = HdlcSessionState.Connected,
          es_limits = example_negotiation\<lparr>maxInformationFieldLengthTransmit := transmit\<rparr>,
          es_events = []\<rparr>,
        hdlc_pendingHdlcFrames := frames\<rparr>"

lemma connected_hdlc_sel [simp]:
  "hdlc_stream (connected_hdlc transmit frames) = list_stream"
  "hdlc_timer (connected_hdlc transmit frames) = Some list_timer"
  "hdlc_options (connected_hdlc transmit frames) = example_hdlc_options\<lparr>hdlcUseSession := True\<rparr>"
  "hdlc_session (connected_hdlc transmit frames) = \<lparr>es_state = HdlcSessionState.Connected,
     es_limits = example_negotiation\<lparr>maxInformationFieldLengthTransmit := transmit\<rparr>, es_events = []\<rparr>"
  "hdlc_pendingHdlcFrames (connected_hdlc transmit frames) = frames"
  "hdlc_pendingApdus (connected_hdlc transmit frames) = []"
  "hdlc_decoder (connected_hdlc transmit frames) = []"
  "hdlc_reassembler (connected_hdlc transmit frames) = []"
  "hdlc_readBuffer (connected_hdlc transmit frames) = replicate 8 0"
  "maximumInformationFieldSize (hdlc_limits (connected_hdlc transmit frames)) = 2030"
  by (simp_all add: connected_hdlc_def)

lemma list_stream_logs:
  "hdlc_stream c = list_stream \<Longrightarrow> hdlc_timer c = Some list_timer \<Longrightarrow>
     hdlc_logs lw_out (env_alloc hdlc_env_example) c"
  by (auto simp: hdlc_logs_def keeps_log_def list_stream_def list_timer_def list_alloc_def Let_def)

lemmas example_session_run =
  Hdlc_SendApdu_def SendSessionInformation_def SendInformationChunk_def loop_unfold run_simps Let_def
  BuildSessionInformationFrame_def session_build_def WriteFrameBytes_def
  ReceiveSessionControlFrameWithRetry_def RetryAttempt_def ReceiveSessionControlFrame_def
  ReceiveDecodedFrame_def SessionReceiveFrame_def
  session_chunk_size_def session_frame_count_def size_add_def size_sub_def size_modulus_def
  llc_example_def session_example_def hdlc_codec_example_def list_stream_def list_alloc_def
  example_negotiation_def empty_world_def hdlc_wire_def be16_def hdlc_body_def hdlc_parse_def of_be16_def
  rr_frame_def

lemma example_attempt: "\<not> (3 :: uint8) \<le> 1"
  by (simp add: word_le_nat_alt)

lemmas example_unanswered_run = example_attempt
  ReadDecodedFrame_def SleepBeforeRetry_def IsRetriableReceiveStatus_def list_timer_def

section \<open>Segmentation\<close>

text \<open>
  C3: Segmentation. When \<open>SendApdu\<close> over a session returns \<open>Ok\<close>, the session was asked for
  exactly the information fields of the recursive reference \<open>session_fields\<close>: together they are
  the LPDU, none is longer than the negotiated size, only the last has the final bit. And it
  was stop-and-wait: the session accepted a frame after each of them, before the next was built.
\<close>

theorem hdlc_session_segments:
  assumes rec: "session_records seen (env_session env)"
    and run: "Hdlc_SendApdu env apdu s = Some (Ret ProfileStatus.Ok t)"
    and "hdlcUseSession (hdlc_options (self s))"
    and lpdu: "lpdu = snd (EncodeLpdu (env_llc env)
      (MakeLlcHeader (env_llc env) (ToLlcDirection (hdlcDirection (hdlc_options (self s)))))
      (bv_data apdu) (bv_size apdu))"
    and chunk: "chunk = session_chunk_size (maxInformationFieldLengthTransmit
      (hs_NegotiatedLimits (env_session env) (hdlc_session (self s)))) lpdu"
    and "length lpdu + chunk < size_modulus"
  shows "\<exists>evs. session_seen seen t = session_seen seen s @ evs \<and> stop_and_wait evs \<and>
     built_fields evs = session_fields chunk lpdu \<and>
     concat (map fst (built_fields evs)) = lpdu \<and>
     (\<forall>(field, _) \<in> set (built_fields evs). length field \<le> chunk) \<and>
     (\<exists>fs f. built_fields evs = map (\<lambda>x. (x, False)) fs @ [(f, True)])"
proof -
  have "wp True True (Hdlc_SendApdu env apdu)
     (\<lambda>st t. st = ProfileStatus.Ok \<longrightarrow> happens seen s (session_fields chunk lpdu) t) (\<lambda>_. True) s"
    using assms(3) wp_SendSessionInformation_seen [OF rec chunk assms(6)]
    by (auto simp: Hdlc_SendApdu_def wp_with_this wp_if wp_let wp_case_prod wp_ret wp_fault lpdu Let_def
        split: prod.splits)
  from wp_retD [OF this run] obtain evs where evs: "session_seen seen t = session_seen seen s @ evs"
      "built_fields evs = session_fields chunk lpdu" "stop_and_wait evs"
    unfolding happens_def by auto
  have "length field \<le> chunk" if "(field, final) \<in> set (session_fields chunk lpdu)" for field final
  proof (cases "chunk = 0")
    case True
    then have "lpdu = []" using chunk by (auto simp: session_chunk_size_def split: if_splits)
    with that show ?thesis by (subst (asm) session_fields.simps) simp
  next
    case False
    with that show ?thesis by (auto intro: session_fields_size)
  qed
  with evs session_fields_concat session_fields_final show ?thesis by fastforce
qed

lemma hdlc_session_segments_witness:
  "\<exists>t evs. Hdlc_SendApdu hdlc_env_example (view_of [0xC0, 1])
       (in_world (connected_hdlc 2 [rr_frame, rr_frame, rr_frame]) empty_world) =
     Some (Ret ProfileStatus.Ok t) \<and> es_events (hdlc_session (self t)) = evs \<and>
     built_fields evs = [([0xE6, 0xE6], False), ([0, 0xC0], False), ([1], True)]"
proof -
  let ?s = "in_world (connected_hdlc 2 [rr_frame, rr_frame, rr_frame]) empty_world"
  obtain t where t: "Hdlc_SendApdu hdlc_env_example (view_of [0xC0, 1]) ?s = Some (Ret ProfileStatus.Ok t)"
    by (simp add: example_session_run)
  have "session_records es_events (env_session hdlc_env_example)" by (simp add: session_example_records)
  from hdlc_session_segments [OF this t _ refl refl]
  have "\<exists>evs. es_events (hdlc_session (self t)) = evs \<and>
      built_fields evs = session_fields 2 [0xE6, 0xE6, 0, 0xC0, 1]"
    by (auto simp: session_example_records llc_example_def session_example_def session_chunk_size_def
        example_negotiation_def size_modulus_def)
  moreover have "session_fields 2 [0xE6, 0xE6, 0, 0xC0, 1] =
      [([0xE6, 0xE6], False), ([0, 0xC0], False), ([1], True)]"
    by (simp add: session_fields.simps)
  ultimately show ?thesis using t by auto
qed

text \<open>
  C30: Wrap-around in the number of frames. With a negotiated length so large that
  \<open>lpdu.size() + chunkSize\<close> exceeds \<open>2^64\<close>, the computed frame count is 0: \<open>SendApdu\<close> returns
  \<open>Ok\<close> although the session is asked for nothing and nothing is written.
\<close>

theorem hdlc_frame_count_wraps:
  assumes "IsValidByteView apdu" and "view_backed apdu" and "hdlcUseSession (hdlc_options (self s))"
    and "maximumApduSize (hdlc_options (self s)) = 0 \<or> bv_size apdu \<le> maximumApduSize (hdlc_options (self s))"
    and "EncodeLpdu (env_llc env)
      (MakeLlcHeader (env_llc env) (ToLlcDirection (hdlcDirection (hdlc_options (self s)))))
      (bv_data apdu) (bv_size apdu) = (LlcStatus.Ok, lpdu)"
    and "hs_State (env_session env) (hdlc_session (self s)) = HdlcSessionState.Connected"
    and "chunk = session_chunk_size (maxInformationFieldLengthTransmit
      (hs_NegotiatedLimits (env_session env) (hdlc_session (self s)))) lpdu"
    and "chunk < size_modulus" "length lpdu < size_modulus" "size_modulus < length lpdu + chunk"
  shows "\<exists>t. Hdlc_SendApdu env apdu s = Some (Ret ProfileStatus.Ok t) \<and>
     world t = world s \<and> hdlc_session (self t) = hdlc_session (self s)"
  using SendSessionInformation_wraps [OF assms(6-10)] assms(1-5)
  by (auto simp: Hdlc_SendApdu_def run_simps)

lemma hdlc_frame_count_wraps_witness:
  "\<exists>t. Hdlc_SendApdu hdlc_env_example (view_of [0xC0, 1])
       (in_world (connected_hdlc 0xFFFFFFFFFFFFFFFF []) empty_world) = Some (Ret ProfileStatus.Ok t) \<and>
     world t = empty_world"
proof -
  let ?s = "in_world (connected_hdlc 0xFFFFFFFFFFFFFFFF []) empty_world"
  have "\<exists>t. Hdlc_SendApdu hdlc_env_example (view_of [0xC0, 1]) ?s = Some (Ret ProfileStatus.Ok t) \<and>
     world t = world ?s \<and> hdlc_session (self t) = hdlc_session (self ?s)"
    by (rule hdlc_frame_count_wraps [where chunk = "0xFFFFFFFFFFFFFFFF" and lpdu = "[0xE6, 0xE6, 0, 0xC0, 1]"])
       (simp_all add: llc_example_def session_example_def session_chunk_size_def example_negotiation_def
          size_modulus_def)
  then show ?thesis by auto
qed

section \<open>What goes out on the stream\<close>

text \<open>
  C18: Bounded retransmission. However the transport, the timer and the peer behave, \<open>SendApdu\<close>
  writes at most one frame per information field (one frame without a session), each at most
  \<open>hdlcRetryCount + 1\<close> times in a row; it writes nothing else.
\<close>

theorem hdlc_writes_bounded:
  assumes logs: "hdlc_logs log (env_alloc env) (self s)"
    and run: "Hdlc_SendApdu env apdu s = Some (Ret st t) \<or> Hdlc_SendApdu env apdu s = Some (Throw t)"
    and lpdu: "lpdu = snd (EncodeLpdu (env_llc env)
      (MakeLlcHeader (env_llc env) (ToLlcDirection (hdlcDirection (hdlc_options (self s)))))
      (bv_data apdu) (bv_size apdu))"
    and frames: "frames = (if hdlcUseSession (hdlc_options (self s))
      then session_frame_count (session_chunk_size (maxInformationFieldLengthTransmit
        (hs_NegotiatedLimits (env_session env) (hdlc_session (self s)))) lpdu) lpdu
      else 1)"
  shows "\<exists>ws. log (world t) = log (world s) @ ws \<and>
     bursts (Suc (unat (hdlcRetryCount (hdlc_options (self s))))) frames ws"
proof -
  let ?k = "Suc (unat (hdlcRetryCount (hdlc_options (self s))))"
  have "wp True True (Hdlc_SendApdu env apdu) (\<lambda>_. wrote log s ?k frames) (wrote log s ?k frames) s"
    by (rule wp_Hdlc_SendApdu_log [OF logs lpdu frames])
  with run show ?thesis by (auto simp: wp_def)
qed

lemma hdlc_writes_bounded_witness:
  "\<exists>t. Hdlc_SendApdu hdlc_env_example (view_of [0xC0, 1]) (in_world (connected_hdlc 0 []) empty_world) =
       Some (Ret ProfileStatus.WouldBlock t) \<and> bursts 4 1 (lw_out (world t))"
proof -
  let ?s = "in_world (connected_hdlc 0 []) empty_world"
  obtain t where t: "Hdlc_SendApdu hdlc_env_example (view_of [0xC0, 1]) ?s = Some (Ret ProfileStatus.WouldBlock t)"
    by (simp add: example_session_run example_unanswered_run)
  have "hdlc_logs lw_out (env_alloc hdlc_env_example) (self ?s)" by (rule list_stream_logs) simp_all
  from hdlc_writes_bounded [OF this disjI1 [OF t] refl refl] t show ?thesis
    by (simp add: llc_example_def session_example_def session_chunk_size_def example_negotiation_def
        session_frame_count_def size_add_def size_sub_def size_modulus_def empty_world_def)
qed

text \<open>
  C19: Connecting. Past its guards \<open>ConnectDataLink\<close> writes copies of one frame only: the connect
  request of a fresh session with the configured options, or of the session at hand unless it is
  disconnected. At least one copy when it returns \<open>Ok\<close>, at most \<open>hdlcRetryCount + 1\<close> always.
\<close>

theorem hdlc_connect_request:
  assumes logs: "hdlc_logs log (env_alloc env) (self s)"
    and so: "MakeHdlcSessionOptions (env_codec env) (hdlc_options (self s)) = Inr sessionOptions"
    and req: "hs_BuildConnectRequest (env_session env)
        (link_session (env_session env) sessionOptions (hdlc_session (self s)))
        = (HdlcStatus.Ok, ss, request)"
    and run: "ConnectDataLink env s = Some (Ret st t)"
  shows "\<exists>n \<le> Suc (unat (hdlcRetryCount (hdlc_options (self s)))).
     log (world t) = log (world s) @ replicate n request \<and> (st = ProfileStatus.Ok \<longrightarrow> 0 < n)"
proof -
  from logs have "hdlc_fixed log (env_alloc env) (hdlc_options (self s)) s" by (simp add: hdlc_fixed_def)
  from wp_retD [OF wp_ConnectDataLink_log [OF this so req] run] show ?thesis
    by (simp add: requested_def)
qed

lemma hdlc_connect_request_witness:
  "\<exists>t n. ConnectDataLink hdlc_env_example (in_world (connected_hdlc 0 []) empty_world) =
       Some (Ret ProfileStatus.WouldBlock t) \<and> n \<le> 4 \<and> lw_out (world t) = replicate n [0x7E, 0x93]"
proof -
  let ?s = "in_world (connected_hdlc 0 []) empty_world"
  obtain so where so: "MakeHdlcSessionOptions (env_codec hdlc_env_example) (hdlc_options (self ?s)) = Inr so"
    by (simp add: MakeHdlcSessionOptions_def hdlc_codec_example_def Let_def)
  obtain t where t: "ConnectDataLink hdlc_env_example ?s = Some (Ret ProfileStatus.WouldBlock t)"
    using so by (simp add: ConnectDataLink_def Hdlc_IsOpen_def EnsureSession_def example_session_run example_unanswered_run)
  have "hdlc_logs lw_out (env_alloc hdlc_env_example) (self ?s)" by (rule list_stream_logs) simp_all
  from hdlc_connect_request [OF this so _ t, where ss = "hdlc_session (self ?s)" and request = "[0x7E, 0x93]"] t
  show ?thesis
    by (simp add: link_session_def session_example_def empty_world_def)
qed

section \<open>Guards\<close>

text \<open>
  C20: Guards. Without \<open>hdlcUseSession\<close> the data link operations refuse with
  \<open>UnsupportedFeature\<close>; on a closed stream with \<open>NotOpen\<close>; in the wrong role connecting and
  accepting refuse with \<open>UnsupportedFeature\<close>; and sending over a session that is not connected
  with \<open>NotOpen\<close>. In each case the channel is unchanged and nothing is written.
\<close>

theorem hdlc_data_link_guards:
  assumes "bs_IsOpen (hdlc_stream (self s)) (world s) = Ret opened w"
  shows "(\<forall>op \<in> {ConnectDataLink env, AcceptDataLink env, DisconnectDataLink env}.
       (\<not> hdlcUseSession (hdlc_options (self s)) \<longrightarrow> op s = Some (Ret ProfileStatus.UnsupportedFeature s)) \<and>
       (hdlcUseSession (hdlc_options (self s)) \<and> \<not> opened \<longrightarrow>
          op s = Some (Ret ProfileStatus.NotOpen (s\<lparr>world := w\<rparr>)))) \<and>
     (hdlcUseSession (hdlc_options (self s)) \<and> opened \<longrightarrow>
       (if hdlcRole (hdlc_options (self s)) = HdlcProfileRole.Client
        then AcceptDataLink env s = Some (Ret ProfileStatus.UnsupportedFeature (s\<lparr>world := w\<rparr>))
        else ConnectDataLink env s = Some (Ret ProfileStatus.UnsupportedFeature (s\<lparr>world := w\<rparr>)))) \<and>
     (hdlcUseSession (hdlc_options (self s)) \<and>
      hs_State (env_session env) (hdlc_session (self s)) \<noteq> HdlcSessionState.Connected \<longrightarrow>
        (\<forall>apdu t. Hdlc_SendApdu env apdu s \<noteq> Some (Ret ProfileStatus.Ok t)) \<and>
        (\<forall>apdu st t. Hdlc_SendApdu env apdu s = Some (Ret st t) \<longrightarrow> t = s))"
proof -
  have "hdlcRole (hdlc_options (self s)) = HdlcProfileRole.Client \<or>
      hdlcRole (hdlc_options (self s)) = HdlcProfileRole.Server"
    by (cases "hdlcRole (hdlc_options (self s))") simp_all
  with assms show ?thesis
    by (auto simp: ConnectDataLink_def AcceptDataLink_def DisconnectDataLink_def Hdlc_IsOpen_def
        Hdlc_SendApdu_def SendSessionInformation_def run_simps Let_def split: prod.splits if_splits)
qed

lemma hdlc_data_link_guards_witness:
  "AcceptDataLink hdlc_env_example (in_world (connected_hdlc 0 []) empty_world) =
     Some (Ret ProfileStatus.UnsupportedFeature (in_world (connected_hdlc 0 []) empty_world))"
  using hdlc_data_link_guards [of "in_world (connected_hdlc 0 []) empty_world" True empty_world hdlc_env_example]
  by (simp add: list_stream_def in_world_def)

section \<open>Receiving\<close>

text \<open>
  C7: Receiving a segmented APDU. While the reassembler asks for more, the channel answers nothing;
  the last segment completes the APDU, which is delivered whole, and is acknowledged with one
  receive ready frame with the final bit. The frames behind it stay for the next call.
\<close>

theorem hdlc_session_receive:
  fixes s :: "(('a, 'k, 'd, 'r, 's, 'w) HdlcProfileChannel, 'w) sys"
  assumes "frames_ahead env enc valid holds input s (segments @ final # rest)"
    and "hdlc_logs log (env_alloc env) (self s)" and "hdlcUseSession (hdlc_options (self s))"
    and "hdlc_pendingApdus (self s) = []"
    and "absorbs (env_reassembler env) (hdlc_reassembler (self s)) segments = Some r"
    and "hr_PushFrame (env_reassembler env) final r = (HdlcStatus.Ok, r', completed, True)"
    and "completes env (hdlc_options (self s)) (hdlc_session (self s)) completed apdu rr ss"
    and "answers input (hdlc_stream (self s))"
  shows "\<exists>t. Hdlc_ReceiveVector env s = Some (Ret ProfileStatus.Ok t) \<and>
     cm_vector (mem t) = apdu \<and> log (world t) = log (world s) @ [rr] \<and>
     frames_ahead env enc valid holds input t rest \<and> hdlc_pendingApdus (self t) = [] \<and>
     hdlc_session (self t) = ss \<and> hdlc_reassembler (self t) = r'"
proof -
  from assms(2-4) have link: "link_state log (env_alloc env) s (hdlc_options (self s)) (hdlc_stream (self s))
      (hdlc_session (self s)) (log (world s))"
    by (simp add: link_state_def hdlc_fixed_def)
  from assms(2) have quiet: "log (snd (env_alloc env n w)) = log w" for n w
    by (simp add: hdlc_logs_def)
  from wp_Hdlc_ReceiveVector_link [OF assms(1) link assms(5-8) quiet] show ?thesis
    by (rule wp_totalE) blast
qed

definition segment :: "bool \<Rightarrow> byte list \<Rightarrow> example_frame" where
  "segment follows info = \<lparr>hf_segmented = follows, hf_destination = 1, hf_source = 0x10,
     hf_control = (if follows then 0 else 0x10), hf_information = info\<rparr>"

lemma hdlc_session_receive_witness:
  "\<exists>t. Hdlc_ReceiveVector hdlc_env_example
       (in_world (connected_hdlc 0 [segment True [0xE6, 0xE6], segment True [0, 0xC0], segment False [1]])
          empty_world) = Some (Ret ProfileStatus.Ok t) \<and>
     cm_vector (mem t) = [0xC0, 1] \<and> lw_out (world t) = [[0x7E, 0x11]]"
proof -
  let ?fs = "[segment True [0xE6, 0xE6], segment True [0, 0xC0]]"
  let ?s = "in_world (connected_hdlc 0 (?fs @ [segment False [1]])) empty_world"
  have ahead: "frames_ahead hdlc_env_example hdlc_wire hdlc_valid (=) lw_in ?s (?fs @ segment False [1] # [])"
    by (auto simp: frames_ahead_def hdlc_stream_env_def hdlc_decoder_example_incremental begins_def
        list_stream_delivers list_alloc_ample empty_world_def)
  have logs: "hdlc_logs lw_out (env_alloc hdlc_env_example) (self ?s)" by (rule list_stream_logs) simp_all
  show ?thesis
    using hdlc_session_receive [OF ahead logs, where r = "[0xE6, 0xE6, 0, 0xC0]" and r' = "[]" and
        completed = "segment False [0xE6, 0xE6, 0, 0xC0, 1]" and apdu = "[0xC0, 1]" and rr = "[0x7E, 0x11]"
        and ss = "(hdlc_session (self ?s))\<lparr>es_events := [Accepted (segment False [0xE6, 0xE6, 0, 0xC0, 1])]\<rparr>"]
    by (auto simp: reassembler_example_def segment_def completes_def session_example_def llc_example_def
        answers_def list_stream_def empty_world_def)
qed

end
