(* ===== verification/C_Api.thy ===== *)
theory C_Api
  imports Wrapper_Tcp_Laws Wrapper_Udp Hdlc_Laws
begin

text \<open>
  \<open>include/dlms/profile/profile_c_api.h\<close> and \<open>src/profile/profile_c_api.cpp\<close>: the C interface.
  Objects live in a heap with one map per class; a pointer is an optional address. Access to an
  address without an object is undefined behaviour, and so is deleting one twice. Values of the C
  enumerations are integers, since a C caller may pass any. The three channel classes are the
  constructors of \<open>channel_impl\<close>, on which the virtual calls dispatch.
\<close>

section \<open>Statuses and options\<close>

type_synonym dlms_profile_status_t = int

definition DLMS_PROFILE_STATUS_INVALID_ARGUMENT :: dlms_profile_status_t where
  "DLMS_PROFILE_STATUS_INVALID_ARGUMENT = 3"

definition DLMS_PROFILE_STATUS_UNSUPPORTED_FEATURE :: dlms_profile_status_t where
  "DLMS_PROFILE_STATUS_UNSUPPORTED_FEATURE = 16"

definition DLMS_PROFILE_STATUS_INTERNAL_ERROR :: dlms_profile_status_t where
  "DLMS_PROFILE_STATUS_INTERNAL_ERROR = 17"

definition ToCStatus :: "ProfileStatus \<Rightarrow> dlms_profile_status_t" where
  "ToCStatus status = ProfileStatus_value status"

definition ToTransportStatus :: "dlms_profile_status_t \<Rightarrow> TransportStatus" where
  "ToTransportStatus status =
     (if status = 0 then TransportStatus.Ok
      else if status = 3 then TransportStatus.InvalidArgument
      else if status = 4 then TransportStatus.NotOpen
      else if status = 5 then TransportStatus.AlreadyOpen
      else if status = 6 then TransportStatus.OpenFailed
      else if status = 7 then TransportStatus.ReadFailed
      else if status = 8 then TransportStatus.WriteFailed
      else if status = 9 then TransportStatus.Timeout
      else if status = 10 then TransportStatus.ConnectionClosed
      else if status = 11 then TransportStatus.WouldBlock
      else if status = 2 then TransportStatus.OutputBufferTooSmall
      else if status = 16 then TransportStatus.UnsupportedFeature
      else TransportStatus.InternalError)"

definition DLMS_PROFILE_HDLC_SERVER_TO_CLIENT :: int where
  "DLMS_PROFILE_HDLC_SERVER_TO_CLIENT = 1"

definition DLMS_PROFILE_HDLC_ROLE_SERVER :: int where
  "DLMS_PROFILE_HDLC_ROLE_SERVER = 1"

definition ToCppDirection :: "int \<Rightarrow> HdlcProfileDirection" where
  "ToCppDirection direction =
     (if direction = DLMS_PROFILE_HDLC_SERVER_TO_CLIENT then HdlcProfileDirection.ServerToClient
      else HdlcProfileDirection.ClientToServer)"

definition ToCppRole :: "int \<Rightarrow> HdlcProfileRole" where
  "ToCppRole role =
     (if role = DLMS_PROFILE_HDLC_ROLE_SERVER then HdlcProfileRole.Server
      else HdlcProfileRole.Client)"

record dlms_profile_channel_options_t =
  local_wrapper_port :: uint16
  remote_wrapper_port :: uint16
  hdlc_client_address :: uint8
  hdlc_logical_device_address :: uint16
  hdlc_physical_device_address :: uint16
  hdlc_direction :: int
  maximum_apdu_size :: size_t
  scratch_buffer_size :: size_t
  hdlc_role :: int
  hdlc_use_session :: int
  hdlc_max_information_field_length_transmit :: size_t
  hdlc_max_information_field_length_receive :: size_t
  hdlc_window_size_transmit :: uint8
  hdlc_window_size_receive :: uint8
  hdlc_retry_count :: uint8
  hdlc_retry_delay_milliseconds :: uint32

definition ToCppOptions ::
  "wrapper_ports \<Rightarrow> dlms_profile_channel_options_t option \<Rightarrow> 'w ApduChannelOptions" where
  "ToCppOptions ports opts =
     (case opts of
        None \<Rightarrow> DefaultApduChannelOptions ports
      | Some c \<Rightarrow> (DefaultApduChannelOptions ports)
          \<lparr>localWrapperPort := local_wrapper_port c,
           remoteWrapperPort := remote_wrapper_port c,
           hdlcClientAddress := hdlc_client_address c,
           hdlcLogicalDeviceAddress := hdlc_logical_device_address c,
           hdlcPhysicalDeviceAddress := hdlc_physical_device_address c,
           hdlcDirection := ToCppDirection (hdlc_direction c),
           maximumApduSize := maximum_apdu_size c,
           scratchBufferSize := scratch_buffer_size c,
           hdlcRole := ToCppRole (hdlc_role c),
           hdlcUseSession := (hdlc_use_session c \<noteq> 0),
           hdlcMaxInformationFieldLengthTransmit := hdlc_max_information_field_length_transmit c,
           hdlcMaxInformationFieldLengthReceive := hdlc_max_information_field_length_receive c,
           hdlcWindowSizeTransmit := hdlc_window_size_transmit c,
           hdlcWindowSizeReceive := hdlc_window_size_receive c,
           hdlcRetryCount := hdlc_retry_count c,
           hdlcRetryDelayMilliseconds := hdlc_retry_delay_milliseconds c\<rparr>)"

text \<open>The structure behind the pointer before and after the call; \<open>None\<close> for the null pointer.\<close>

definition dlms_profile_default_channel_options ::
  "wrapper_ports \<Rightarrow> dlms_profile_channel_options_t option \<Rightarrow> dlms_profile_channel_options_t option"
  where
  "dlms_profile_default_channel_options ports opts =
     (case opts of
        None \<Rightarrow> None
      | Some _ \<Rightarrow>
          let cpp = DefaultApduChannelOptions ports :: unit ApduChannelOptions
          in Some
            \<lparr>local_wrapper_port = localWrapperPort cpp,
             remote_wrapper_port = remoteWrapperPort cpp,
             hdlc_client_address = hdlcClientAddress cpp,
             hdlc_logical_device_address = hdlcLogicalDeviceAddress cpp,
             hdlc_physical_device_address = hdlcPhysicalDeviceAddress cpp,
             hdlc_direction =
               (if hdlcDirection cpp = HdlcProfileDirection.ServerToClient then 1 else 0),
             maximum_apdu_size = maximumApduSize cpp,
             scratch_buffer_size = scratchBufferSize cpp,
             hdlc_role = (if hdlcRole cpp = HdlcProfileRole.Server then 1 else 0),
             hdlc_use_session = (if hdlcUseSession cpp then 1 else 0),
             hdlc_max_information_field_length_transmit = hdlcMaxInformationFieldLengthTransmit cpp,
             hdlc_max_information_field_length_receive = hdlcMaxInformationFieldLengthReceive cpp,
             hdlc_window_size_transmit = hdlcWindowSizeTransmit cpp,
             hdlc_window_size_receive = hdlcWindowSizeReceive cpp,
             hdlc_retry_count = hdlcRetryCount cpp,
             hdlc_retry_delay_milliseconds = hdlcRetryDelayMilliseconds cpp\<rparr>)"

section \<open>Transports over callbacks\<close>

text \<open>A function pointer may be null; a callback gets \<open>user_data\<close> and acts on the world.\<close>

type_synonym void_ptr = nat

record 'w dlms_profile_byte_stream_callbacks_t =
  bc_user_data :: void_ptr
  bc_open :: "(void_ptr \<Rightarrow> 'w \<Rightarrow> (dlms_profile_status_t, 'w) outcome) option"
  bc_close :: "(void_ptr \<Rightarrow> 'w \<Rightarrow> (dlms_profile_status_t, 'w) outcome) option"
  bc_is_open :: "(void_ptr \<Rightarrow> 'w \<Rightarrow> (int, 'w) outcome) option"
  bc_read_some ::
    "(void_ptr \<Rightarrow> byte list \<Rightarrow> 'w \<Rightarrow> (dlms_profile_status_t \<times> byte list \<times> size_t, 'w) outcome) option"
  bc_write_all :: "(void_ptr \<Rightarrow> byte list \<Rightarrow> 'w \<Rightarrow> (dlms_profile_status_t, 'w) outcome) option"

record 'w dlms_profile_datagram_callbacks_t =
  dc_user_data :: void_ptr
  dc_open :: "(void_ptr \<Rightarrow> 'w \<Rightarrow> (dlms_profile_status_t, 'w) outcome) option"
  dc_close :: "(void_ptr \<Rightarrow> 'w \<Rightarrow> (dlms_profile_status_t, 'w) outcome) option"
  dc_is_open :: "(void_ptr \<Rightarrow> 'w \<Rightarrow> (int, 'w) outcome) option"
  dc_send :: "(void_ptr \<Rightarrow> byte list \<Rightarrow> 'w \<Rightarrow> (dlms_profile_status_t, 'w) outcome) option"
  dc_receive ::
    "(void_ptr \<Rightarrow> byte list \<Rightarrow> 'w \<Rightarrow> (dlms_profile_status_t \<times> byte list \<times> size_t, 'w) outcome) option"

definition ValidByteStreamCallbacks :: "'w dlms_profile_byte_stream_callbacks_t option \<Rightarrow> bool" where
  "ValidByteStreamCallbacks callbacks =
     (case callbacks of
        None \<Rightarrow> False
      | Some c \<Rightarrow> bc_open c \<noteq> None \<and> bc_close c \<noteq> None \<and> bc_is_open c \<noteq> None \<and>
          bc_read_some c \<noteq> None \<and> bc_write_all c \<noteq> None)"

definition ValidDatagramCallbacks :: "'w dlms_profile_datagram_callbacks_t option \<Rightarrow> bool" where
  "ValidDatagramCallbacks callbacks =
     (case callbacks of
        None \<Rightarrow> False
      | Some c \<Rightarrow> dc_open c \<noteq> None \<and> dc_close c \<noteq> None \<and> dc_is_open c \<noteq> None \<and>
          dc_send c \<noteq> None \<and> dc_receive c \<noteq> None)"

text \<open>A call through a function pointer whose result is converted.\<close>

definition call_pointer ::
  "'f option \<Rightarrow> ('f \<Rightarrow> ('x, 'w) outcome) \<Rightarrow> ('x \<Rightarrow> 'y) \<Rightarrow> ('y, 'w) outcome" where
  "call_pointer fn call convert =
     (case fn of None \<Rightarrow> Fault | Some f \<Rightarrow> map_outcome convert id (call f))"

definition CByteStreamAdapter :: "'w dlms_profile_byte_stream_callbacks_t \<Rightarrow> 'w IByteStream" where
  "CByteStreamAdapter cb =
     \<lparr>bs_Open = (\<lambda>w. call_pointer (bc_open cb) (\<lambda>f. f (bc_user_data cb) w) ToTransportStatus),
      bs_Close = (\<lambda>w. call_pointer (bc_close cb) (\<lambda>f. f (bc_user_data cb) w) ToTransportStatus),
      bs_IsOpen = (\<lambda>w. call_pointer (bc_is_open cb) (\<lambda>f. f (bc_user_data cb) w) (\<lambda>n. n \<noteq> 0)),
      bs_ReadSome = (\<lambda>output w. call_pointer (bc_read_some cb)
        (\<lambda>f. f (bc_user_data cb) output w)
        (\<lambda>(status, output, callbackBytesRead).
          (ToTransportStatus status, output, callbackBytesRead))),
      bs_WriteAll = (\<lambda>input w. call_pointer (bc_write_all cb)
        (\<lambda>f. f (bc_user_data cb) input w) ToTransportStatus)\<rparr>"

definition CDatagramAdapter :: "'w dlms_profile_datagram_callbacks_t \<Rightarrow> 'w IDatagramTransport" where
  "CDatagramAdapter cb =
     \<lparr>dg_Open = (\<lambda>w. call_pointer (dc_open cb) (\<lambda>f. f (dc_user_data cb) w) ToTransportStatus),
      dg_Close = (\<lambda>w. call_pointer (dc_close cb) (\<lambda>f. f (dc_user_data cb) w) ToTransportStatus),
      dg_IsOpen = (\<lambda>w. call_pointer (dc_is_open cb) (\<lambda>f. f (dc_user_data cb) w) (\<lambda>n. n \<noteq> 0)),
      dg_Send = (\<lambda>input w. call_pointer (dc_send cb)
        (\<lambda>f. f (dc_user_data cb) input w) ToTransportStatus),
      dg_Receive = (\<lambda>output w. call_pointer (dc_receive cb)
        (\<lambda>f. f (dc_user_data cb) output w)
        (\<lambda>(status, output, callbackBytesRead).
          (ToTransportStatus status, output, callbackBytesRead)))\<rparr>"

section \<open>Virtual calls\<close>

datatype ('td, 'a, 'k, 'd, 'r, 's, 'w) channel_impl =
    TcpImpl "('td, 'w) WrapperTcpProfileChannel"
  | UdpImpl "'w WrapperUdpProfileChannel"
  | HdlcImpl "('a, 'k, 'd, 'r, 's, 'w) HdlcProfileChannel"

record ('td, 'a, 'k, 'h, 'd, 'r, 's, 'w) c_env =
  ce_ports :: wrapper_ports
  ce_wrapper :: wrapper_codec
  ce_wrapper_decoder :: "'td wrapper_stream_decoder"
  ce_hdlc :: "('a, 'k, 'h, 'd, 'r, 's, 'w) hdlc_env"
  ce_timer :: "'w ITimerScheduler"
  ce_alloc :: "'w allocator"

text \<open>A member function of the object \<open>c\<close>, called from a program whose state holds it.\<close>

definition run_in :: "('c \<Rightarrow> 'h \<Rightarrow> 'h) \<Rightarrow> 'c \<Rightarrow> ('c, 'w, 'v) mprog \<Rightarrow> ('h, 'w, 'v) mprog" where
  "run_in put c m s =
     (case m \<lparr>self = c, mem = mem s, world = world s\<rparr> of
        None \<Rightarrow> None
      | Some (Ret v t) \<Rightarrow> Some (Ret v \<lparr>self = put (self t) (self s), mem = mem t, world = world t\<rparr>)
      | Some (Throw t) \<Rightarrow> Some (Throw \<lparr>self = put (self t) (self s), mem = mem t, world = world t\<rparr>)
      | Some Fault \<Rightarrow> Some Fault)"

type_synonym ('td, 'a, 'k, 'd, 'r, 's, 'w, 'v) impl_prog =
  "(('td, 'a, 'k, 'd, 'r, 's, 'w) channel_impl, 'w, 'v) mprog"

definition dispatch ::
  "(('td, 'w) WrapperTcpProfileChannel, 'w, 'v) mprog \<Rightarrow> ('w WrapperUdpProfileChannel, 'w, 'v) mprog \<Rightarrow>
   (('a, 'k, 'd, 'r, 's, 'w) HdlcProfileChannel, 'w, 'v) mprog \<Rightarrow>
   ('td, 'a, 'k, 'd, 'r, 's, 'w, 'v) impl_prog" where
  "dispatch tcp udp hdlc = with_this (\<lambda>impl. case impl of
       TcpImpl c \<Rightarrow> run_in (\<lambda>c _. TcpImpl c) c tcp
     | UdpImpl c \<Rightarrow> run_in (\<lambda>c _. UdpImpl c) c udp
     | HdlcImpl c \<Rightarrow> run_in (\<lambda>c _. HdlcImpl c) c hdlc)"

definition impl_Open :: "('td, 'a, 'k, 'd, 'r, 's, 'w, ProfileStatus) impl_prog" where
  "impl_Open = dispatch Tcp_Open Udp_Open Hdlc_Open"

definition impl_Close ::
  "('td, 'a, 'k, 'h, 'd, 'r, 's, 'w) c_env \<Rightarrow> ('td, 'a, 'k, 'd, 'r, 's, 'w, ProfileStatus) impl_prog" where
  "impl_Close env = dispatch (Tcp_Close (ce_wrapper_decoder env)) Udp_Close (Hdlc_Close (ce_hdlc env))"

definition impl_IsOpen :: "('td, 'a, 'k, 'd, 'r, 's, 'w, bool) impl_prog" where
  "impl_IsOpen = dispatch Tcp_IsOpen Udp_IsOpen Hdlc_IsOpen"

definition impl_SendApdu ::
  "('td, 'a, 'k, 'h, 'd, 'r, 's, 'w) c_env \<Rightarrow> ProfileByteView \<Rightarrow>
   ('td, 'a, 'k, 'd, 'r, 's, 'w, ProfileStatus) impl_prog" where
  "impl_SendApdu env apdu =
     dispatch (Tcp_SendApdu (ce_wrapper env) apdu) (Udp_SendApdu (ce_wrapper env) apdu)
       (Hdlc_SendApdu (ce_hdlc env) apdu)"

definition impl_ReceiveVector ::
  "('td, 'a, 'k, 'h, 'd, 'r, 's, 'w) c_env \<Rightarrow> ('td, 'a, 'k, 'd, 'r, 's, 'w, ProfileStatus) impl_prog" where
  "impl_ReceiveVector env =
     dispatch (Tcp_ReceiveVector (ce_wrapper env) (ce_wrapper_decoder env) (ce_alloc env))
       (Udp_ReceiveVector (ce_wrapper env) (ce_alloc env)) (Hdlc_ReceiveVector (ce_hdlc env))"

definition impl_ReceiveBuffer ::
  "('td, 'a, 'k, 'h, 'd, 'r, 's, 'w) c_env \<Rightarrow> ProfileMutableBuffer \<Rightarrow>
   ('td, 'a, 'k, 'd, 'r, 's, 'w, ProfileStatus) impl_prog" where
  "impl_ReceiveBuffer env out =
     dispatch (Tcp_ReceiveBuffer (ce_wrapper env) (ce_wrapper_decoder env) (ce_alloc env) out)
       (Udp_ReceiveBuffer (ce_wrapper env) out) (Hdlc_ReceiveBuffer (ce_hdlc env) out)"

end
