(* ===== verification/C_Handles.thy ===== *)
theory C_Handles
  imports C_Api
begin

text \<open>
  The functions of \<open>profile_c_api.cpp\<close> that create, use and destroy channel handles, over the heap
  of the objects they own. No other code reaches this heap: a program that calls the C interface is
  a sequence of these functions.
\<close>

section \<open>The heap\<close>

type_synonym addr = nat

record dlms_profile_channel_t =
  ch_impl :: "addr option"
  ch_ownedByteStream :: "addr option"
  ch_ownedDatagram :: "addr option"

text \<open>
  A channel holds a reference to its transport (\<open>IByteStream& stream_\<close>). It leads to an object of
  the caller, whose state and lifetime are in the world, or to an adapter in this heap, which is
  found by its address at each call. So the transport field of a channel object that refers to an
  adapter is not used before \<open>bind_transport\<close> has set it.
\<close>

datatype transport_ref = CallerTransport | StreamAdapter addr | DatagramAdapter addr

record ('td, 'a, 'k, 'd, 'r, 's, 'w) channel_object =
  co_impl :: "('td, 'a, 'k, 'd, 'r, 's, 'w) channel_impl"
  co_transport :: transport_ref

text \<open>\<open>hp_next\<close> is an address that has not been used yet.\<close>

record ('td, 'a, 'k, 'd, 'r, 's, 'w) c_heap =
  hp_channels :: "addr \<rightharpoonup> ('td, 'a, 'k, 'd, 'r, 's, 'w) channel_object"
  hp_streams :: "addr \<rightharpoonup> 'w dlms_profile_byte_stream_callbacks_t"
  hp_datagrams :: "addr \<rightharpoonup> 'w dlms_profile_datagram_callbacks_t"
  hp_handles :: "addr \<rightharpoonup> dlms_profile_channel_t"
  hp_next :: addr

type_synonym ('td, 'a, 'k, 'd, 'r, 's, 'w, 'v) c_prog =
  "(('td, 'a, 'k, 'd, 'r, 's, 'w) c_heap, 'w, 'v) mprog"

text \<open>Any use of a reference to a deleted adapter is undefined behaviour.\<close>

definition dangling_byte_stream :: "'w IByteStream" where
  "dangling_byte_stream =
     \<lparr>bs_Open = (\<lambda>_. Fault), bs_Close = (\<lambda>_. Fault), bs_IsOpen = (\<lambda>_. Fault),
      bs_ReadSome = (\<lambda>_ _. Fault), bs_WriteAll = (\<lambda>_ _. Fault)\<rparr>"

definition dangling_datagram :: "'w IDatagramTransport" where
  "dangling_datagram =
     \<lparr>dg_Open = (\<lambda>_. Fault), dg_Close = (\<lambda>_. Fault), dg_IsOpen = (\<lambda>_. Fault),
      dg_Send = (\<lambda>_ _. Fault), dg_Receive = (\<lambda>_ _. Fault)\<rparr>"

definition byte_stream_at ::
  "('td, 'a, 'k, 'd, 'r, 's, 'w) c_heap \<Rightarrow> addr \<Rightarrow> 'w IByteStream" where
  "byte_stream_at h b =
     (case hp_streams h b of None \<Rightarrow> dangling_byte_stream | Some cb \<Rightarrow> CByteStreamAdapter cb)"

definition datagram_at ::
  "('td, 'a, 'k, 'd, 'r, 's, 'w) c_heap \<Rightarrow> addr \<Rightarrow> 'w IDatagramTransport" where
  "datagram_at h b =
     (case hp_datagrams h b of None \<Rightarrow> dangling_datagram | Some cb \<Rightarrow> CDatagramAdapter cb)"

fun with_byte_stream ::
  "'w IByteStream \<Rightarrow> ('td, 'a, 'k, 'd, 'r, 's, 'w) channel_impl \<Rightarrow>
   ('td, 'a, 'k, 'd, 'r, 's, 'w) channel_impl" where
  "with_byte_stream bs (TcpImpl c) = TcpImpl (c\<lparr>tcp_stream := bs\<rparr>)"
| "with_byte_stream bs (UdpImpl c) = UdpImpl c"
| "with_byte_stream bs (HdlcImpl c) = HdlcImpl (c\<lparr>hdlc_stream := bs\<rparr>)"

fun with_datagram ::
  "'w IDatagramTransport \<Rightarrow> ('td, 'a, 'k, 'd, 'r, 's, 'w) channel_impl \<Rightarrow>
   ('td, 'a, 'k, 'd, 'r, 's, 'w) channel_impl" where
  "with_datagram dg (TcpImpl c) = TcpImpl c"
| "with_datagram dg (UdpImpl c) = UdpImpl (c\<lparr>udp_datagram := dg\<rparr>)"
| "with_datagram dg (HdlcImpl c) = HdlcImpl c"

text \<open>The channel object as its member functions see it, with the reference followed.\<close>

definition bind_transport ::
  "('td, 'a, 'k, 'd, 'r, 's, 'w) c_heap \<Rightarrow> ('td, 'a, 'k, 'd, 'r, 's, 'w) channel_object \<Rightarrow>
   ('td, 'a, 'k, 'd, 'r, 's, 'w) channel_impl" where
  "bind_transport h obj =
     (case co_transport obj of
        CallerTransport \<Rightarrow> co_impl obj
      | StreamAdapter b \<Rightarrow> with_byte_stream (byte_stream_at h b) (co_impl obj)
      | DatagramAdapter b \<Rightarrow> with_datagram (datagram_at h b) (co_impl obj))"

definition store_impl ::
  "addr \<Rightarrow> ('td, 'a, 'k, 'd, 'r, 's, 'w) channel_impl \<Rightarrow> ('td, 'a, 'k, 'd, 'r, 's, 'w) c_heap \<Rightarrow>
   ('td, 'a, 'k, 'd, 'r, 's, 'w) c_heap" where
  "store_impl a impl =
     hp_channels_update (\<lambda>m. m(a := map_option (\<lambda>obj. obj\<lparr>co_impl := impl\<rparr>) (m a)))"

definition new_at ::
  "(((addr \<rightharpoonup> 'o) \<Rightarrow> (addr \<rightharpoonup> 'o)) \<Rightarrow> ('td, 'a, 'k, 'd, 'r, 's, 'w) c_heap \<Rightarrow>
     ('td, 'a, 'k, 'd, 'r, 's, 'w) c_heap) \<Rightarrow> 'o \<Rightarrow> ('td, 'a, 'k, 'd, 'r, 's, 'w, addr) c_prog" where
  "new_at upd obj = with_this (\<lambda>h.
     next_do (set_this (\<lambda>h. upd (\<lambda>m. m(hp_next h \<mapsto> obj)) (h\<lparr>hp_next := Suc (hp_next h)\<rparr>)))
       (ret (hp_next h)))"

text \<open>\<open>new T\<close> for a class without allocating members, and for a channel with its read buffer.\<close>

definition new_object ::
  "'w allocator \<Rightarrow> (((addr \<rightharpoonup> 'o) \<Rightarrow> (addr \<rightharpoonup> 'o)) \<Rightarrow> ('td, 'a, 'k, 'd, 'r, 's, 'w) c_heap \<Rightarrow>
     ('td, 'a, 'k, 'd, 'r, 's, 'w) c_heap) \<Rightarrow> 'o \<Rightarrow> ('td, 'a, 'k, 'd, 'r, 's, 'w, addr) c_prog" where
  "new_object al upd obj = next_do (allocate al 1) (new_at upd obj)"

definition new_channel ::
  "'w allocator \<Rightarrow> nat \<Rightarrow> ('td, 'a, 'k, 'd, 'r, 's, 'w) channel_impl \<Rightarrow> transport_ref \<Rightarrow>
   ('td, 'a, 'k, 'd, 'r, 's, 'w, addr) c_prog" where
  "new_channel al room impl transport =
     next_do (allocate al 1) (next_do (allocate al room)
       (new_at hp_channels_update \<lparr>co_impl = impl, co_transport = transport\<rparr>))"

text \<open>\<open>delete p\<close>: nothing for the null pointer, undefined for an address without an object.\<close>

definition delete_object ::
  "(('td, 'a, 'k, 'd, 'r, 's, 'w) c_heap \<Rightarrow> (addr \<rightharpoonup> 'o)) \<Rightarrow>
   (((addr \<rightharpoonup> 'o) \<Rightarrow> (addr \<rightharpoonup> 'o)) \<Rightarrow> ('td, 'a, 'k, 'd, 'r, 's, 'w) c_heap \<Rightarrow>
     ('td, 'a, 'k, 'd, 'r, 's, 'w) c_heap) \<Rightarrow>
   addr option \<Rightarrow> ('td, 'a, 'k, 'd, 'r, 's, 'w, unit) c_prog" where
  "delete_object get upd p =
     (case p of
        None \<Rightarrow> ret ()
      | Some a \<Rightarrow> with_this (\<lambda>h.
          if get h a = None then fault else set_this (upd (\<lambda>m. m(a := None)))))"

definition delete_channel :: "addr option \<Rightarrow> ('td, 'a, 'k, 'd, 'r, 's, 'w, unit) c_prog" where
  "delete_channel = delete_object hp_channels hp_channels_update"

definition delete_stream :: "addr option \<Rightarrow> ('td, 'a, 'k, 'd, 'r, 's, 'w, unit) c_prog" where
  "delete_stream = delete_object hp_streams hp_streams_update"

definition delete_datagram :: "addr option \<Rightarrow> ('td, 'a, 'k, 'd, 'r, 's, 'w, unit) c_prog" where
  "delete_datagram = delete_object hp_datagrams hp_datagrams_update"

definition delete_handle :: "addr option \<Rightarrow> ('td, 'a, 'k, 'd, 'r, 's, 'w, unit) c_prog" where
  "delete_handle = delete_object hp_handles hp_handles_update"

section \<open>Creating handles\<close>

definition WrapChannelWithOwned ::
  "'w allocator \<Rightarrow> addr option \<Rightarrow> addr option \<Rightarrow> addr option \<Rightarrow>
   ('td, 'a, 'k, 'd, 'r, 's, 'w, addr option) c_prog" where
  "WrapChannelWithOwned al impl ownedByteStream ownedDatagram =
     (if impl = None then
        next_do (delete_stream ownedByteStream) (next_do (delete_datagram ownedDatagram) (ret None))
      else try_catch
        (bnd (new_object al hp_handles_update
            \<lparr>ch_impl = impl, ch_ownedByteStream = ownedByteStream, ch_ownedDatagram = ownedDatagram\<rparr>)
          (\<lambda>channel. ret (Some channel)))
        (next_do (delete_channel impl)
          (next_do (delete_stream ownedByteStream) (next_do (delete_datagram ownedDatagram) (ret None)))))"

definition WrapChannel ::
  "'w allocator \<Rightarrow> addr option \<Rightarrow> ('td, 'a, 'k, 'd, 'r, 's, 'w, addr option) c_prog" where
  "WrapChannel al impl = WrapChannelWithOwned al impl None None"

text \<open>The destructor of a \<open>unique_ptr\<close> on the exceptional path.\<close>

definition on_unwind :: "('s, 'v) prog \<Rightarrow> ('s, unit) prog \<Rightarrow> ('s, 'v) prog" where
  "on_unwind m cleanup = try_catch m (next_do cleanup throw)"

text \<open>
  The channel objects that the six functions construct, with the sizes of their read buffers. The
  transport is the object that the reference leads to.
\<close>

definition make_tcp ::
  "('td, 'a, 'k, 'h, 'd, 'r, 's, 'w) c_env \<Rightarrow> 'w IByteStream \<Rightarrow> transport_ref \<Rightarrow>
   dlms_profile_channel_options_t option \<Rightarrow> ('td, 'a, 'k, 'd, 'r, 's, 'w, addr) c_prog" where
  "make_tcp env stream transport opts =
     (let c = WrapperTcpProfileChannel (ce_wrapper env) (ce_wrapper_decoder env) stream
                (ToCppOptions (ce_ports env) opts)
      in new_channel (ce_alloc env) (length (tcp_readBuffer c)) (TcpImpl c) transport)"

definition make_udp ::
  "('td, 'a, 'k, 'h, 'd, 'r, 's, 'w) c_env \<Rightarrow> 'w IDatagramTransport \<Rightarrow> transport_ref \<Rightarrow>
   dlms_profile_channel_options_t option \<Rightarrow> ('td, 'a, 'k, 'd, 'r, 's, 'w, addr) c_prog" where
  "make_udp env datagram transport opts =
     (let c = WrapperUdpProfileChannel (ce_wrapper env) datagram (ToCppOptions (ce_ports env) opts)
      in new_channel (ce_alloc env) (length (udp_readBuffer c)) (UdpImpl c) transport)"

definition make_hdlc ::
  "('td, 'a, 'k, 'h, 'd, 'r, 's, 'w) c_env \<Rightarrow> 'w IByteStream \<Rightarrow> transport_ref \<Rightarrow>
   dlms_profile_channel_options_t option \<Rightarrow> ('td, 'a, 'k, 'd, 'r, 's, 'w, addr) c_prog" where
  "make_hdlc env stream transport opts =
     (let c = HdlcProfileChannel (ce_hdlc env) (ce_timer env) stream (ToCppOptions (ce_ports env) opts)
      in new_channel (ce_alloc env) (length (hdlc_readBuffer c)) (HdlcImpl c) transport)"

definition dlms_profile_create_wrapper_tcp_channel ::
  "('td, 'a, 'k, 'h, 'd, 'r, 's, 'w) c_env \<Rightarrow> 'w IByteStream option \<Rightarrow>
   dlms_profile_channel_options_t option \<Rightarrow> ('td, 'a, 'k, 'd, 'r, 's, 'w, addr option) c_prog" where
  "dlms_profile_create_wrapper_tcp_channel env byte_stream opts =
     (case byte_stream of
        None \<Rightarrow> ret None
      | Some stream \<Rightarrow> try_catch
          (bnd (make_tcp env stream CallerTransport opts) (\<lambda>impl. WrapChannel (ce_alloc env) (Some impl)))
          (ret None))"

definition dlms_profile_create_wrapper_udp_channel ::
  "('td, 'a, 'k, 'h, 'd, 'r, 's, 'w) c_env \<Rightarrow> 'w IDatagramTransport option \<Rightarrow>
   dlms_profile_channel_options_t option \<Rightarrow> ('td, 'a, 'k, 'd, 'r, 's, 'w, addr option) c_prog" where
  "dlms_profile_create_wrapper_udp_channel env datagram_transport opts =
     (case datagram_transport of
        None \<Rightarrow> ret None
      | Some datagram \<Rightarrow> try_catch
          (bnd (make_udp env datagram CallerTransport opts) (\<lambda>impl. WrapChannel (ce_alloc env) (Some impl)))
          (ret None))"

definition dlms_profile_create_hdlc_channel ::
  "('td, 'a, 'k, 'h, 'd, 'r, 's, 'w) c_env \<Rightarrow> 'w IByteStream option \<Rightarrow>
   dlms_profile_channel_options_t option \<Rightarrow> ('td, 'a, 'k, 'd, 'r, 's, 'w, addr option) c_prog" where
  "dlms_profile_create_hdlc_channel env byte_stream opts =
     (case byte_stream of
        None \<Rightarrow> ret None
      | Some stream \<Rightarrow> try_catch
          (bnd (make_hdlc env stream CallerTransport opts) (\<lambda>impl. WrapChannel (ce_alloc env) (Some impl)))
          (ret None))"

definition dlms_profile_create_wrapper_tcp_channel_from_callbacks ::
  "('td, 'a, 'k, 'h, 'd, 'r, 's, 'w) c_env \<Rightarrow> 'w dlms_profile_byte_stream_callbacks_t option \<Rightarrow>
   dlms_profile_channel_options_t option \<Rightarrow> ('td, 'a, 'k, 'd, 'r, 's, 'w, addr option) c_prog" where
  "dlms_profile_create_wrapper_tcp_channel_from_callbacks env callbacks opts =
     (if \<not> ValidByteStreamCallbacks callbacks then ret None
      else try_catch
        (bnd (new_object (ce_alloc env) hp_streams_update (the callbacks)) (\<lambda>stream.
          bnd (on_unwind
                (with_this (\<lambda>h. make_tcp env (byte_stream_at h stream) (StreamAdapter stream) opts))
                (delete_stream (Some stream)))
            (\<lambda>channel. WrapChannelWithOwned (ce_alloc env) (Some channel) (Some stream) None)))
        (ret None))"

definition dlms_profile_create_wrapper_udp_channel_from_callbacks ::
  "('td, 'a, 'k, 'h, 'd, 'r, 's, 'w) c_env \<Rightarrow> 'w dlms_profile_datagram_callbacks_t option \<Rightarrow>
   dlms_profile_channel_options_t option \<Rightarrow> ('td, 'a, 'k, 'd, 'r, 's, 'w, addr option) c_prog" where
  "dlms_profile_create_wrapper_udp_channel_from_callbacks env callbacks opts =
     (if \<not> ValidDatagramCallbacks callbacks then ret None
      else try_catch
        (bnd (new_object (ce_alloc env) hp_datagrams_update (the callbacks)) (\<lambda>datagram.
          bnd (on_unwind
                (with_this (\<lambda>h. make_udp env (datagram_at h datagram) (DatagramAdapter datagram) opts))
                (delete_datagram (Some datagram)))
            (\<lambda>channel. WrapChannelWithOwned (ce_alloc env) (Some channel) None (Some datagram))))
        (ret None))"

definition dlms_profile_create_hdlc_channel_from_callbacks ::
  "('td, 'a, 'k, 'h, 'd, 'r, 's, 'w) c_env \<Rightarrow> 'w dlms_profile_byte_stream_callbacks_t option \<Rightarrow>
   dlms_profile_channel_options_t option \<Rightarrow> ('td, 'a, 'k, 'd, 'r, 's, 'w, addr option) c_prog" where
  "dlms_profile_create_hdlc_channel_from_callbacks env callbacks opts =
     (if \<not> ValidByteStreamCallbacks callbacks then ret None
      else try_catch
        (bnd (new_object (ce_alloc env) hp_streams_update (the callbacks)) (\<lambda>stream.
          bnd (on_unwind
                (with_this (\<lambda>h. make_hdlc env (byte_stream_at h stream) (StreamAdapter stream) opts))
                (delete_stream (Some stream)))
            (\<lambda>channel. WrapChannelWithOwned (ce_alloc env) (Some channel) (Some stream) None)))
        (ret None))"

definition dlms_profile_destroy_channel ::
  "addr option \<Rightarrow> ('td, 'a, 'k, 'd, 'r, 's, 'w, unit) c_prog" where
  "dlms_profile_destroy_channel channel =
     (case channel of
        None \<Rightarrow> ret ()
      | Some p \<Rightarrow> with_this (\<lambda>h. case hp_handles h p of
          None \<Rightarrow> fault
        | Some c \<Rightarrow>
            next_do (delete_channel (ch_impl c))
            (next_do (set_this (hp_handles_update (\<lambda>m. m(p \<mapsto> c\<lparr>ch_impl := None\<rparr>))))
            (next_do (delete_stream (ch_ownedByteStream c))
            (next_do (set_this (hp_handles_update
                (\<lambda>m. m(p \<mapsto> c\<lparr>ch_impl := None, ch_ownedByteStream := None\<rparr>))))
            (next_do (delete_datagram (ch_ownedDatagram c))
            (next_do (set_this (hp_handles_update
                (\<lambda>m. m(p \<mapsto> c\<lparr>ch_impl := None, ch_ownedByteStream := None, ch_ownedDatagram := None\<rparr>))))
              (delete_handle channel))))))))"

section \<open>Using handles\<close>

text \<open>\<open>if (channel == 0 || channel->impl == 0) return bad;\<close>\<close>

definition with_impl ::
  "addr option \<Rightarrow> 'v \<Rightarrow> (addr \<Rightarrow> ('td, 'a, 'k, 'd, 'r, 's, 'w, 'v) c_prog) \<Rightarrow>
   ('td, 'a, 'k, 'd, 'r, 's, 'w, 'v) c_prog" where
  "with_impl channel bad k =
     (case channel of
        None \<Rightarrow> ret bad
      | Some p \<Rightarrow> with_this (\<lambda>h. case hp_handles h p of
          None \<Rightarrow> fault
        | Some c \<Rightarrow> (case ch_impl c of None \<Rightarrow> ret bad | Some a \<Rightarrow> k a)))"

text \<open>A member function of the channel object at an address.\<close>

definition call_impl ::
  "addr \<Rightarrow> ('td, 'a, 'k, 'd, 'r, 's, 'w, 'v) impl_prog \<Rightarrow> ('td, 'a, 'k, 'd, 'r, 's, 'w, 'v) c_prog" where
  "call_impl a m = with_this (\<lambda>h. case hp_channels h a of
       None \<Rightarrow> fault
     | Some obj \<Rightarrow> run_in (store_impl a) (bind_transport h obj) m)"

definition status_call ::
  "('s, ProfileStatus) prog \<Rightarrow> ('s, dlms_profile_status_t) prog" where
  "status_call m =
     try_catch (bnd m (\<lambda>status. ret (ToCStatus status))) (ret DLMS_PROFILE_STATUS_INTERNAL_ERROR)"

definition dlms_profile_open ::
  "addr option \<Rightarrow> ('td, 'a, 'k, 'd, 'r, 's, 'w, dlms_profile_status_t) c_prog" where
  "dlms_profile_open channel =
     with_impl channel DLMS_PROFILE_STATUS_INVALID_ARGUMENT (\<lambda>impl. status_call (call_impl impl impl_Open))"

definition dlms_profile_close ::
  "('td, 'a, 'k, 'h, 'd, 'r, 's, 'w) c_env \<Rightarrow> addr option \<Rightarrow>
   ('td, 'a, 'k, 'd, 'r, 's, 'w, dlms_profile_status_t) c_prog" where
  "dlms_profile_close env channel =
     with_impl channel DLMS_PROFILE_STATUS_INVALID_ARGUMENT
       (\<lambda>impl. status_call (call_impl impl (impl_Close env)))"

definition dlms_profile_is_open :: "addr option \<Rightarrow> ('td, 'a, 'k, 'd, 'r, 's, 'w, int) c_prog" where
  "dlms_profile_is_open channel =
     with_impl channel 0 (\<lambda>impl.
       try_catch (bnd (call_impl impl impl_IsOpen) (\<lambda>open. ret (if open then 1 else 0))) (ret 0))"

text \<open>\<open>dynamic_cast<HdlcProfileChannel*>(channel->impl)\<close>\<close>

fun is_hdlc :: "('td, 'a, 'k, 'd, 'r, 's, 'w) channel_impl \<Rightarrow> bool" where
  "is_hdlc (HdlcImpl c) = True"
| "is_hdlc _ = False"

definition AsHdlcChannel :: "addr \<Rightarrow> ('td, 'a, 'k, 'd, 'r, 's, 'w, bool) c_prog" where
  "AsHdlcChannel a = with_this (\<lambda>h. case hp_channels h a of
       None \<Rightarrow> fault
     | Some obj \<Rightarrow> ret (is_hdlc (co_impl obj)))"

text \<open>The three data link functions differ in the member function they call.\<close>

definition data_link_call ::
  "(('a, 'k, 'd, 'r, 's, 'w) HdlcProfileChannel, 'w, ProfileStatus) mprog \<Rightarrow> addr option \<Rightarrow>
   ('td, 'a, 'k, 'd, 'r, 's, 'w, dlms_profile_status_t) c_prog" where
  "data_link_call m channel =
     with_impl channel DLMS_PROFILE_STATUS_INVALID_ARGUMENT (\<lambda>impl.
       bnd (AsHdlcChannel impl) (\<lambda>hdlc.
         if \<not> hdlc then ret DLMS_PROFILE_STATUS_UNSUPPORTED_FEATURE
         else status_call (call_impl impl (dispatch fault fault m))))"

definition dlms_profile_connect_data_link ::
  "('td, 'a, 'k, 'h, 'd, 'r, 's, 'w) c_env \<Rightarrow> addr option \<Rightarrow>
   ('td, 'a, 'k, 'd, 'r, 's, 'w, dlms_profile_status_t) c_prog" where
  "dlms_profile_connect_data_link env = data_link_call (ConnectDataLink (ce_hdlc env))"

definition dlms_profile_accept_data_link ::
  "('td, 'a, 'k, 'h, 'd, 'r, 's, 'w) c_env \<Rightarrow> addr option \<Rightarrow>
   ('td, 'a, 'k, 'd, 'r, 's, 'w, dlms_profile_status_t) c_prog" where
  "dlms_profile_accept_data_link env = data_link_call (AcceptDataLink (ce_hdlc env))"

definition dlms_profile_disconnect_data_link ::
  "('td, 'a, 'k, 'h, 'd, 'r, 's, 'w) c_env \<Rightarrow> addr option \<Rightarrow>
   ('td, 'a, 'k, 'd, 'r, 's, 'w, dlms_profile_status_t) c_prog" where
  "dlms_profile_disconnect_data_link env = data_link_call (DisconnectDataLink (ce_hdlc env))"

definition dlms_profile_send_apdu ::
  "('td, 'a, 'k, 'h, 'd, 'r, 's, 'w) c_env \<Rightarrow> addr option \<Rightarrow> byte_ptr \<Rightarrow> size_t \<Rightarrow>
   ('td, 'a, 'k, 'd, 'r, 's, 'w, dlms_profile_status_t) c_prog" where
  "dlms_profile_send_apdu env channel apdu apdu_size =
     with_impl channel DLMS_PROFILE_STATUS_INVALID_ARGUMENT (\<lambda>impl.
       status_call (call_impl impl (impl_SendApdu env \<lparr>bv_data = apdu, bv_size = apdu_size\<rparr>)))"

definition dlms_profile_receive_apdu ::
  "('td, 'a, 'k, 'h, 'd, 'r, 's, 'w) c_env \<Rightarrow> addr option \<Rightarrow> out_ptr \<Rightarrow> size_t \<Rightarrow> out_ptr \<Rightarrow>
   ('td, 'a, 'k, 'd, 'r, 's, 'w, dlms_profile_status_t) c_prog" where
  "dlms_profile_receive_apdu env channel out out_size written_size =
     with_impl channel DLMS_PROFILE_STATUS_INVALID_ARGUMENT (\<lambda>impl.
       status_call (call_impl impl (impl_ReceiveBuffer env
         \<lparr>mb_data = out, mb_size = out_size, mb_writtenSize = written_size\<rparr>)))"

end
