(* ===== verification/C_Api_Laws.thy ===== *)
theory C_Api_Laws
  imports C_Handles
begin

text \<open>
  Rules for the C interface: virtual calls obey the interface laws of \<open>IApduChannel\<close> whatever the
  class of the object, no function lets an exception out, and the heap is kept in order: every
  object has exactly one owner.
\<close>

section \<open>Virtual calls\<close>

definition with_self :: "'c \<Rightarrow> ('h, 'w) sys \<Rightarrow> ('c, 'w) sys" where
  "with_self c s = \<lparr>self = c, mem = mem s, world = world s\<rparr>"

lemma with_self_sel [simp]:
  "self (with_self c s) = c" "mem (with_self c s) = mem s" "world (with_self c s) = world s"
  "with_self c (with_self c' s) = with_self c s" "with_self (self s) s = s"
  by (simp_all add: with_self_def)

lemma run_run_in:
  "run_in put c m s =
     (case m (with_self c s) of
        None \<Rightarrow> None
      | Some (Ret v t) \<Rightarrow> Some (Ret v (with_self (put (self t) (self s)) t))
      | Some (Throw t) \<Rightarrow> Some (Throw (with_self (put (self t) (self s)) t))
      | Some Fault \<Rightarrow> Some Fault)"
  by (simp add: run_in_def with_self_def split: option.splits outcome.splits)

lemma wp_run_in [wp_simps]:
  "wp d f (run_in put c m) Q E =
     (\<lambda>s. wp d f m (\<lambda>v t. Q v (with_self (put (self t) (self s)) t))
        (\<lambda>t. E (with_self (put (self t) (self s)) t)) (with_self c s))"
  by (auto simp: fun_eq_iff wp_def run_run_in split: option.splits outcome.splits)

text \<open>What holds of a call on each class holds of the virtual call.\<close>

lemma wp_dispatch:
  assumes "\<And>c. self s = TcpImpl c \<Longrightarrow> wp d f tcp (\<lambda>v t. Q v (with_self (TcpImpl (self t)) t))
       (\<lambda>t. E (with_self (TcpImpl (self t)) t)) (with_self c s)"
    and "\<And>c. self s = UdpImpl c \<Longrightarrow> wp d f udp (\<lambda>v t. Q v (with_self (UdpImpl (self t)) t))
       (\<lambda>t. E (with_self (UdpImpl (self t)) t)) (with_self c s)"
    and "\<And>c. self s = HdlcImpl c \<Longrightarrow> wp d f hdlc (\<lambda>v t. Q v (with_self (HdlcImpl (self t)) t))
       (\<lambda>t. E (with_self (HdlcImpl (self t)) t)) (with_self c s)"
  shows "wp d f (dispatch tcp udp hdlc) Q E s"
  using assms by (cases "self s") (simp_all add: dispatch_def wp_simps)

lemma run_dispatch:
  "dispatch tcp udp hdlc s =
     (case self s of
        TcpImpl c \<Rightarrow> run_in (\<lambda>c _. TcpImpl c) c tcp s
      | UdpImpl c \<Rightarrow> run_in (\<lambda>c _. UdpImpl c) c udp s
      | HdlcImpl c \<Rightarrow> run_in (\<lambda>c _. HdlcImpl c) c hdlc s)"
  by (simp add: dispatch_def run_with_this split: channel_impl.splits)

fun impl_limit :: "('td, 'a, 'k, 'd, 'r, 's, 'w) channel_impl \<Rightarrow> size_t" where
  "impl_limit (TcpImpl c) = maximumApduSize (tcp_options c)"
| "impl_limit (UdpImpl c) = maximumApduSize (udp_options c)"
| "impl_limit (HdlcImpl c) = maximumApduSize (hdlc_options c)"

interpretation impl: apdu_channel "impl_SendApdu env" "impl_ReceiveVector env" "impl_ReceiveBuffer env" impl_limit
  for env :: "('td, 'a, 'k, 'h, 'd, 'r, 's, 'w) c_env"
proof
  fix v :: ProfileByteView and b :: ProfileMutableBuffer
    and s :: "(('td, 'a, 'k, 'd, 'r, 's, 'w) channel_impl, 'w) sys"
  show "impl_SendApdu env v s = Some (Ret ProfileStatus.InvalidArgument s)" if "\<not> IsValidByteView v"
    using that
    by (cases "self s") (simp_all add: impl_SendApdu_def run_dispatch run_run_in tcp.send_invalid
        udp.send_invalid hdlc.send_invalid with_self_def)
  show "impl_SendApdu env v s = Some (Ret ProfileStatus.PayloadTooLarge s)"
    if "IsValidByteView v" "impl_limit (self s) \<noteq> 0" "impl_limit (self s) < bv_size v"
    using that
    by (cases "self s") (simp_all add: impl_SendApdu_def run_dispatch run_run_in tcp.send_too_large
        udp.send_too_large hdlc.send_too_large with_self_def)
  show "wp True True (impl_SendApdu env v) (\<lambda>_ t. mem t = mem s) (\<lambda>t. mem t = mem s) s"
    unfolding impl_SendApdu_def
    by (rule wp_dispatch)
       (rule wp_conseq [OF tcp.send_mem] wp_conseq [OF udp.send_mem] wp_conseq [OF hdlc.send_mem], simp_all)+
  show "wp True True (impl_ReceiveVector env) (\<lambda>st t. vector_result (mem s) st (mem t))
         (\<lambda>t. vector_result (mem s) ProfileStatus.InternalError (mem t)) s"
    unfolding impl_ReceiveVector_def
    by (rule wp_dispatch)
       (rule wp_conseq [OF tcp.vector_law] wp_conseq [OF udp.vector_law] wp_conseq [OF hdlc.vector_law],
        simp_all)+
  show "impl_ReceiveBuffer env b s = Some (Ret ProfileStatus.InvalidArgument s)"
    if "\<not> IsValidMutableBuffer b"
    using that
    by (cases "self s") (simp_all add: impl_ReceiveBuffer_def run_dispatch run_run_in
        tcp.buffer_invalid udp.buffer_invalid hdlc.buffer_invalid with_self_def)
  show "wp True True (impl_ReceiveBuffer env b) (\<lambda>st t. buffer_result b (mem s) st (mem t))
         (\<lambda>t. buffer_result b (mem s) ProfileStatus.InternalError (mem t)) s"
    if "IsValidMutableBuffer b"
    unfolding impl_ReceiveBuffer_def
    by (rule wp_dispatch)
       (rule wp_conseq [OF tcp.buffer_law] wp_conseq [OF udp.buffer_law] wp_conseq [OF hdlc.buffer_law];
        simp add: that)+
qed

section \<open>Calls through a handle\<close>

text \<open>
  \<open>handle_impl h p a impl\<close>: the handle at \<open>p\<close> is live and owns the channel object at \<open>a\<close>, which is
  \<open>impl\<close> once the reference to its transport has been followed.
\<close>

definition handle_impl ::
  "('td, 'a, 'k, 'd, 'r, 's, 'w) c_heap \<Rightarrow> addr \<Rightarrow> addr \<Rightarrow>
   ('td, 'a, 'k, 'd, 'r, 's, 'w) channel_impl \<Rightarrow> bool" where
  "handle_impl h p a impl \<longleftrightarrow>
     (\<exists>c. hp_handles h p = Some c \<and> ch_impl c = Some a) \<and>
     (\<exists>obj. hp_channels h a = Some obj \<and> bind_transport h obj = impl)"

lemma handle_implE:
  assumes "handle_impl h p a impl"
  obtains obj where "hp_channels h a = Some obj" and "bind_transport h obj = impl"
  using assms by (auto simp: handle_impl_def)

text \<open>Two states of one channel object that use the same transport.\<close>

fun same_transport ::
  "('td, 'a, 'k, 'd, 'r, 's, 'w) channel_impl \<Rightarrow> ('td, 'a, 'k, 'd, 'r, 's, 'w) channel_impl \<Rightarrow> bool" where
  "same_transport (TcpImpl c) (TcpImpl c') = (tcp_stream c' = tcp_stream c)"
| "same_transport (UdpImpl c) (UdpImpl c') = (udp_datagram c' = udp_datagram c)"
| "same_transport (HdlcImpl c) (HdlcImpl c') = (hdlc_stream c' = hdlc_stream c)"
| "same_transport _ _ = False"

lemma is_hdlc_with [simp]:
  "is_hdlc (with_byte_stream bs impl) = is_hdlc impl" "is_hdlc (with_datagram dg impl) = is_hdlc impl"
  by (cases impl; simp)+

lemma is_hdlc_bind [simp]: "is_hdlc (bind_transport h obj) = is_hdlc (co_impl obj)"
  by (simp add: bind_transport_def split: transport_ref.split)

lemma bind_transport_adapters:
  "hp_streams h' = hp_streams h \<Longrightarrow> hp_datagrams h' = hp_datagrams h \<Longrightarrow> bind_transport h' obj = bind_transport h obj"
  by (simp add: bind_transport_def byte_stream_at_def datagram_at_def split: transport_ref.split)

lemma update_same_transport:
  "tcp_stream c = bs \<Longrightarrow> c\<lparr>tcp_stream := bs\<rparr> = c"
  "udp_datagram u = dg \<Longrightarrow> u\<lparr>udp_datagram := dg\<rparr> = u"
  "hdlc_stream d = bs \<Longrightarrow> d\<lparr>hdlc_stream := bs\<rparr> = d"
  for c :: "('td, 'w) WrapperTcpProfileChannel" and u :: "'w WrapperUdpProfileChannel"
    and d :: "('a, 'k, 'd, 'r, 's, 'w) HdlcProfileChannel"
  by (cases c; cases u; cases d; clarsimp)+

lemma same_transport_with:
  "same_transport (with_byte_stream bs old) impl \<Longrightarrow> with_byte_stream bs impl = impl"
  "same_transport (with_datagram dg old) impl \<Longrightarrow> with_datagram dg impl = impl"
  by (cases old; cases impl; simp add: update_same_transport)+

lemma rebind_transport:
  assumes "same_transport (bind_transport h obj) impl"
  shows "bind_transport h (obj\<lparr>co_impl := impl\<rparr>) = impl"
  using assms same_transport_with [of _ "co_impl obj" impl]
  by (cases "co_transport obj") (simp_all add: bind_transport_def byte_stream_at_def datagram_at_def)

definition stored :: "addr \<Rightarrow> ('td, 'a, 'k, 'd, 'r, 's, 'w) c_heap \<Rightarrow>
   (('td, 'a, 'k, 'd, 'r, 's, 'w) channel_impl, 'w) sys \<Rightarrow>
   (('td, 'a, 'k, 'd, 'r, 's, 'w) c_heap, 'w) sys" where
  "stored a h t = with_self (store_impl a (self t) h) t"

lemma stored_sel [simp]:
  "mem (stored a h t) = mem t" "world (stored a h t) = world t"
  "hp_channels (self (stored a h t)) =
     (hp_channels h)(a := map_option (\<lambda>obj. obj\<lparr>co_impl := self t\<rparr>) (hp_channels h a))"
  "hp_streams (self (stored a h t)) = hp_streams h" "hp_datagrams (self (stored a h t)) = hp_datagrams h"
  "hp_handles (self (stored a h t)) = hp_handles h" "hp_next (self (stored a h t)) = hp_next h"
  by (simp_all add: stored_def store_impl_def)

lemma bind_transport_stored [simp]: "bind_transport (self (stored a h t)) obj = bind_transport h obj"
  by (rule bind_transport_adapters) simp_all

lemma handle_impl_stored:
  assumes "handle_impl (self s) p a impl" and "same_transport impl (self t)"
  shows "handle_impl (self (stored a (self s) t)) p a (self t)"
  using assms by (auto simp: handle_impl_def rebind_transport)

lemma wp_call_impl:
  "hp_channels (self s) a = Some obj \<Longrightarrow>
     wp d f (call_impl a m) Q E s =
       wp d f m (\<lambda>v t. Q v (stored a (self s) t)) (\<lambda>t. E (stored a (self s) t))
         (with_self (bind_transport (self s) obj) s)"
  by (simp add: call_impl_def wp_simps stored_def)

lemma wp_status_call [wp_simps]:
  "wp d f (status_call m) Q E =
     wp d f m (\<lambda>st. Q (ToCStatus st)) (Q DLMS_PROFILE_STATUS_INTERNAL_ERROR)"
  by (simp add: status_call_def wp_simps)

lemma wp_with_impl:
  "handle_impl (self s) p a impl \<Longrightarrow> wp d f (with_impl (Some p) bad k) Q E s = wp d f (k a) Q E s"
  by (auto simp: with_impl_def wp_simps handle_impl_def)

lemma run_with_impl:
  "handle_impl (self s) p a impl \<Longrightarrow> with_impl (Some p) bad k s = k a s"
  by (auto simp: with_impl_def run_simps handle_impl_def)

lemma run_call_impl:
  "hp_channels (self s) a = Some obj \<Longrightarrow>
     call_impl a m s =
       (case m (with_self (bind_transport (self s) obj) s) of
          None \<Rightarrow> None
        | Some (Ret v t) \<Rightarrow> Some (Ret v (stored a (self s) t))
        | Some (Throw t) \<Rightarrow> Some (Throw (stored a (self s) t))
        | Some Fault \<Rightarrow> Some Fault)"
  by (simp add: call_impl_def run_with_this run_run_in stored_def split: option.splits outcome.splits)

text \<open>The C function returns the number of the status, and \<open>INTERNAL_ERROR\<close> for an exception.\<close>

definition c_result ::
  "addr \<Rightarrow> ('td, 'a, 'k, 'd, 'r, 's, 'w) c_heap \<Rightarrow>
   (ProfileStatus, (('td, 'a, 'k, 'd, 'r, 's, 'w) channel_impl, 'w) sys) outcome option \<Rightarrow>
   (dlms_profile_status_t, (('td, 'a, 'k, 'd, 'r, 's, 'w) c_heap, 'w) sys) outcome option" where
  "c_result a h r =
     (case r of
        None \<Rightarrow> None
      | Some (Ret st t) \<Rightarrow> Some (Ret (ProfileStatus_value st) (stored a h t))
      | Some (Throw t) \<Rightarrow> Some (Ret 17 (stored a h t))
      | Some Fault \<Rightarrow> Some Fault)"

lemma run_status_call_impl:
  "handle_impl (self s) p a impl \<Longrightarrow>
     status_call (call_impl a m) s = c_result a (self s) (m (with_self impl s))"
  by (auto elim!: handle_implE simp: status_call_def run_simps run_call_impl c_result_def ToCStatus_def
      DLMS_PROFILE_STATUS_INTERNAL_ERROR_def split: option.splits outcome.splits)

section \<open>No exception leaves the interface\<close>

definition no_throw :: "('s, 'v) prog \<Rightarrow> bool" where
  "no_throw m \<longleftrightarrow> (\<forall>s. wp True True m (\<lambda>_ _. True) (\<lambda>_. False) s)"

lemma no_throwD: "no_throw m \<Longrightarrow> m s \<noteq> Some (Throw t)"
  by (auto simp: no_throw_def dest: wp_throwD)

named_theorems no_throw_intros "programs that do not throw, by their structure"

lemma no_throw_ret [no_throw_intros]: "no_throw (ret v)"
  by (simp add: no_throw_def wp_simps)

lemma no_throw_fault [no_throw_intros]: "no_throw fault"
  by (simp add: no_throw_def wp_simps)

lemma no_throw_set_this [no_throw_intros]: "no_throw (set_this g)"
  by (simp add: no_throw_def wp_simps)

lemma no_throw_bnd [no_throw_intros]:
  "no_throw m \<Longrightarrow> (\<And>v. no_throw (k v)) \<Longrightarrow> no_throw (bnd m k)"
  unfolding no_throw_def wp_bnd by (blast intro: wp_conseq)

lemma no_throw_next_do [no_throw_intros]: "no_throw m \<Longrightarrow> no_throw k \<Longrightarrow> no_throw (next_do m k)"
  unfolding next_do_def by (rule no_throw_bnd)

lemma no_throw_with_this [no_throw_intros]: "(\<And>c. no_throw (k c)) \<Longrightarrow> no_throw (with_this k)"
  by (simp add: no_throw_def wp_simps)

lemma no_throw_catch [no_throw_intros]: "no_throw h \<Longrightarrow> no_throw (try_catch m h)"
  by (auto simp: no_throw_def wp_try_catch wp_def [of _ _ m] split: option.splits outcome.splits)

lemma no_throw_if [no_throw_intros]: "no_throw m \<Longrightarrow> no_throw n \<Longrightarrow> no_throw (if b then m else n)"
  by simp

lemma no_throw_option [no_throw_intros]:
  "no_throw m \<Longrightarrow> (\<And>x. no_throw (n x)) \<Longrightarrow> no_throw (case v of None \<Rightarrow> m | Some x \<Rightarrow> n x)"
  by (cases v) simp_all

lemma no_throw_status_call [no_throw_intros]: "no_throw (status_call m)"
  unfolding status_call_def by (intro no_throw_intros)

lemma no_throw_with_impl [no_throw_intros]:
  "(\<And>a. no_throw (k a)) \<Longrightarrow> no_throw (with_impl channel bad k)"
  unfolding with_impl_def by (intro no_throw_intros)

lemma no_throw_delete [no_throw_intros]: "no_throw (delete_object get upd p)"
  unfolding delete_object_def by (intro no_throw_intros)

lemma no_throw_data_link [no_throw_intros]: "no_throw (data_link_call m channel)"
  unfolding data_link_call_def AsHdlcChannel_def by (intro no_throw_intros)

end
