(* ===== verification/C_Ownership.thy ===== *)
theory C_Ownership
  imports C_Api_Laws
begin

text \<open>
  Ownership in the heap of the C interface. In an orderly heap every handle owns a channel object and
  at most one adapter, no two handles share an object, every object belongs to a handle, and the
  reference of a channel to an adapter leads to the one that its own handle owns: nothing dangles
  and nothing leaks. Creating, using and destroying handles keep it so.
\<close>

section \<open>Orderly heaps\<close>

text \<open>The objects of one class and the field of a handle that points to them.\<close>

definition owned_by ::
  "(addr \<rightharpoonup> dlms_profile_channel_t) \<Rightarrow> (dlms_profile_channel_t \<Rightarrow> addr option) \<Rightarrow> (addr \<rightharpoonup> 'o) \<Rightarrow> bool"
  where
  "owned_by handles field objects \<longleftrightarrow>
     (\<forall>p c a. handles p = Some c \<longrightarrow> field c = Some a \<longrightarrow> objects a \<noteq> None) \<and>
     (\<forall>p q c d a. handles p = Some c \<longrightarrow> handles q = Some d \<longrightarrow>
        field c = Some a \<longrightarrow> field d = Some a \<longrightarrow> p = q) \<and>
     (\<forall>a. objects a \<noteq> None \<longrightarrow> (\<exists>p c. handles p = Some c \<and> field c = Some a))"

definition fresh :: "addr \<Rightarrow> (addr \<rightharpoonup> 'o) \<Rightarrow> bool" where
  "fresh n m \<longleftrightarrow> (\<forall>a \<ge> n. m a = None)"

definition fresh_heap :: "('td, 'a, 'k, 'd, 'r, 's, 'w) c_heap \<Rightarrow> bool" where
  "fresh_heap h \<longleftrightarrow> fresh (hp_next h) (hp_channels h) \<and> fresh (hp_next h) (hp_streams h) \<and>
     fresh (hp_next h) (hp_datagrams h) \<and> fresh (hp_next h) (hp_handles h)"

text \<open>The transport that a channel refers to, in a handle with these adapters.\<close>

fun wired :: "addr option \<Rightarrow> addr option \<Rightarrow> transport_ref \<Rightarrow> bool" where
  "wired bs dg CallerTransport = True"
| "wired bs dg (StreamAdapter b) = (bs = Some b)"
| "wired bs dg (DatagramAdapter b) = (dg = Some b)"

definition all_wired :: "('td, 'a, 'k, 'd, 'r, 's, 'w) c_heap \<Rightarrow> bool" where
  "all_wired h \<longleftrightarrow>
     (\<forall>p c a obj. hp_handles h p = Some c \<longrightarrow> ch_impl c = Some a \<longrightarrow> hp_channels h a = Some obj \<longrightarrow>
        wired (ch_ownedByteStream c) (ch_ownedDatagram c) (co_transport obj))"

definition orderly :: "('td, 'a, 'k, 'd, 'r, 's, 'w) c_heap \<Rightarrow> bool" where
  "orderly h \<longleftrightarrow> fresh_heap h \<and>
     (\<forall>p c. hp_handles h p = Some c \<longrightarrow> ch_impl c \<noteq> None) \<and> all_wired h \<and>
     owned_by (hp_handles h) ch_impl (hp_channels h) \<and>
     owned_by (hp_handles h) ch_ownedByteStream (hp_streams h) \<and>
     owned_by (hp_handles h) ch_ownedDatagram (hp_datagrams h)"

text \<open>The objects of two heaps are the same; the next address may differ.\<close>

definition same_objects ::
  "('td, 'a, 'k, 'd, 'r, 's, 'w) c_heap \<Rightarrow> ('td, 'a, 'k, 'd, 'r, 's, 'w) c_heap \<Rightarrow> bool" where
  "same_objects h h' \<longleftrightarrow> hp_channels h' = hp_channels h \<and> hp_streams h' = hp_streams h \<and>
     hp_datagrams h' = hp_datagrams h \<and> hp_handles h' = hp_handles h"

text \<open>
  \<open>created h p h'\<close>: \<open>h'\<close> is \<open>h\<close> with a new handle at \<open>p\<close>, its channel object, and the adapter
  it owns, if any, all at addresses that were not in use. A channel that refers to an adapter refers
  to that one.
\<close>

definition add_opt :: "addr option \<Rightarrow> 'o \<Rightarrow> (addr \<rightharpoonup> 'o) \<Rightarrow> (addr \<rightharpoonup> 'o)" where
  "add_opt p obj m = (case p of None \<Rightarrow> m | Some a \<Rightarrow> m(a \<mapsto> obj))"

definition remove_opt :: "addr option \<Rightarrow> (addr \<rightharpoonup> 'o) \<Rightarrow> (addr \<rightharpoonup> 'o)" where
  "remove_opt p m = (case p of None \<Rightarrow> m | Some a \<Rightarrow> m(a := None))"

definition new_addr ::
  "('td, 'a, 'k, 'd, 'r, 's, 'w) c_heap \<Rightarrow> ('td, 'a, 'k, 'd, 'r, 's, 'w) c_heap \<Rightarrow> addr option \<Rightarrow> bool"
  where
  "new_addr h h' p \<longleftrightarrow> (\<forall>a. p = Some a \<longrightarrow> hp_next h \<le> a \<and> a < hp_next h')"

definition created ::
  "('td, 'a, 'k, 'd, 'r, 's, 'w) c_heap \<Rightarrow> addr \<Rightarrow> ('td, 'a, 'k, 'd, 'r, 's, 'w) c_heap \<Rightarrow> bool" where
  "created h p h' \<longleftrightarrow>
     (\<exists>c obj stream datagram.
        hp_handles h' = (hp_handles h)(p \<mapsto> c) \<and> ch_impl c \<noteq> None \<and>
        hp_channels h' = add_opt (ch_impl c) obj (hp_channels h) \<and>
        wired (ch_ownedByteStream c) (ch_ownedDatagram c) (co_transport obj) \<and>
        hp_streams h' = add_opt (ch_ownedByteStream c) stream (hp_streams h) \<and>
        hp_datagrams h' = add_opt (ch_ownedDatagram c) datagram (hp_datagrams h) \<and>
        new_addr h h' (Some p) \<and> new_addr h h' (ch_impl c) \<and>
        new_addr h h' (ch_ownedByteStream c) \<and> new_addr h h' (ch_ownedDatagram c))"

definition create_result ::
  "('td, 'a, 'k, 'd, 'r, 's, 'w) c_heap \<Rightarrow> addr option \<Rightarrow> ('td, 'a, 'k, 'd, 'r, 's, 'w) c_heap \<Rightarrow> bool"
  where
  "create_result h r h' \<longleftrightarrow>
     hp_next h \<le> hp_next h' \<and> (case r of None \<Rightarrow> same_objects h h' | Some p \<Rightarrow> created h p h')"

lemma owned_by_live:
  "owned_by handles field objects \<Longrightarrow> handles p = Some c \<Longrightarrow> field c = Some a \<Longrightarrow> objects a \<noteq> None"
  unfolding owned_by_def by blast

lemma owned_by_owner:
  "owned_by handles field objects \<Longrightarrow> objects a = Some x \<Longrightarrow> \<exists>p c. handles p = Some c \<and> field c = Some a"
  unfolding owned_by_def by (metis option.distinct(1))

lemma owned_by_dom:
  assumes "dom objects' = dom objects"
  shows "owned_by handles field objects' = owned_by handles field objects"
proof -
  from assms have "objects' a \<noteq> None \<longleftrightarrow> objects a \<noteq> None" for a by blast
  then show ?thesis unfolding owned_by_def by simp
qed

lemma fresh_dom: "fresh n m \<longleftrightarrow> (\<forall>a \<in> dom m. a < n)"
  by (force simp: fresh_def dom_def not_le [symmetric])

lemma fresh_none: "fresh n m \<Longrightarrow> n \<le> a \<Longrightarrow> m a = None"
  by (simp add: fresh_def)

lemma fresh_mono: "fresh n m \<Longrightarrow> n \<le> n' \<Longrightarrow> fresh n' m"
  by (simp add: fresh_def)

lemma fresh_add: "fresh n m \<Longrightarrow> n \<le> n' \<Longrightarrow> (\<forall>a. p = Some a \<longrightarrow> a < n') \<Longrightarrow> fresh n' (add_opt p obj m)"
  by (auto simp: fresh_def add_opt_def split: option.splits)

lemma fresh_remove: "fresh n m \<Longrightarrow> fresh n (remove_opt q m)"
  by (auto simp: fresh_def remove_opt_def split: option.splits)

lemma owned_by_add:
  assumes own: "owned_by handles field objects" and "fresh n handles" and obj: "fresh n objects"
    and "n \<le> p" and new: "\<And>a. field c = Some a \<Longrightarrow> n \<le> a"
  shows "owned_by (handles(p \<mapsto> c)) field (add_opt (field c) x objects)"
proof -
  have p: "handles p = None" using assms(2,4) by (simp add: fresh_none)
  have clash: False if "handles q = Some d" "field d = Some a" "field c = Some a" for q d a
    using own that fresh_none [OF obj new [OF that(3)]] unfolding owned_by_def by blast
  show ?thesis
    unfolding owned_by_def
  proof (intro conjI allI impI)
    fix q d a
    assume "(handles(p \<mapsto> c)) q = Some d" and "field d = Some a"
    then show "add_opt (field c) x objects a \<noteq> None"
      using own by (auto simp: add_opt_def owned_by_def split: option.splits if_splits)
  next
    fix q q' d d' a
    assume "(handles(p \<mapsto> c)) q = Some d" "(handles(p \<mapsto> c)) q' = Some d'"
      "field d = Some a" "field d' = Some a"
    then show "q = q'" using own clash by (auto simp: owned_by_def split: if_splits)
  next
    fix a
    assume "add_opt (field c) x objects a \<noteq> None"
    then have "field c = Some a \<or> objects a \<noteq> None"
      by (auto simp: add_opt_def split: option.splits if_splits)
    then show "\<exists>q d. (handles(p \<mapsto> c)) q = Some d \<and> field d = Some a"
    proof
      assume "objects a \<noteq> None"
      with own obtain q d where "handles q = Some d" "field d = Some a" unfolding owned_by_def by blast
      with p show ?thesis by (intro exI [of _ q] exI [of _ d]) auto
    qed auto
  qed
qed

lemma owned_by_remove:
  assumes own: "owned_by handles field objects" and p: "handles p = Some c"
  shows "owned_by (handles(p := None)) field (remove_opt (field c) objects)"
  unfolding owned_by_def
proof (intro conjI allI impI)
  fix q d a
  assume "(handles(p := None)) q = Some d" and "field d = Some a"
  moreover from this have "field c \<noteq> Some a" using own p by (auto simp: owned_by_def split: if_splits)
  ultimately show "remove_opt (field c) objects a \<noteq> None"
    using own by (auto simp: remove_opt_def owned_by_def split: option.splits if_splits)
next
  fix q q' d d' a
  assume "(handles(p := None)) q = Some d" "(handles(p := None)) q' = Some d'"
    "field d = Some a" "field d' = Some a"
  then show "q = q'" using own by (auto simp: owned_by_def split: if_splits)
next
  fix a
  assume "remove_opt (field c) objects a \<noteq> None"
  then have a: "objects a \<noteq> None" "field c \<noteq> Some a"
    by (auto simp: remove_opt_def split: option.splits if_splits)
  with own obtain q d where "handles q = Some d" "field d = Some a" unfolding owned_by_def by blast
  with a p show "\<exists>q d. (handles(p := None)) q = Some d \<and> field d = Some a"
    by (intro exI [of _ q] exI [of _ d]) auto
qed

text \<open>The channel references survive the making and the deletion of other handles.\<close>

lemma all_wired_add:
  assumes h: "all_wired h" and own: "owned_by (hp_handles h) ch_impl (hp_channels h)"
    and fr: "fresh n (hp_channels h)" "fresh n (hp_handles h)" "n \<le> p" "\<And>a. ch_impl c = Some a \<Longrightarrow> n \<le> a"
    and w: "wired (ch_ownedByteStream c) (ch_ownedDatagram c) (co_transport obj)"
    and h': "hp_handles h' = (hp_handles h)(p \<mapsto> c)" "hp_channels h' = add_opt (ch_impl c) obj (hp_channels h)"
  shows "all_wired h'"
  unfolding all_wired_def
proof (intro allI impI)
  fix q d a x
  assume q: "hp_handles h' q = Some d" and a: "ch_impl d = Some a" and x: "hp_channels h' a = Some x"
  show "wired (ch_ownedByteStream d) (ch_ownedDatagram d) (co_transport x)"
  proof (cases "q = p")
    case True
    with q h'(1) have "d = c" by simp
    with w a x h'(2) show ?thesis by (simp add: add_opt_def)
  next
    case False
    with q h'(1) have q': "hp_handles h q = Some d" by simp
    from owned_by_live [OF own q' a] fr(1,4) have "ch_impl c \<noteq> Some a" by (auto simp: fresh_def)
    with x h'(2) have "hp_channels h a = Some x" by (auto simp: add_opt_def split: option.splits if_splits)
    with h q' a show ?thesis unfolding all_wired_def by blast
  qed
qed

lemma all_wired_remove:
  assumes "all_wired h" and "hp_handles h' = (hp_handles h)(p := None)"
    and "hp_channels h' = remove_opt q (hp_channels h)"
  shows "all_wired h'"
  using assms unfolding all_wired_def remove_opt_def by (auto split: option.splits if_splits)

lemma created_orderly:
  assumes h: "orderly h" and c: "created h p h'" and le: "hp_next h \<le> hp_next h'"
  shows "orderly h'"
proof -
  from c obtain c obj stream datagram where new:
    "hp_handles h' = (hp_handles h)(p \<mapsto> c)" "ch_impl c \<noteq> None"
    "hp_channels h' = add_opt (ch_impl c) obj (hp_channels h)"
    "hp_streams h' = add_opt (ch_ownedByteStream c) stream (hp_streams h)"
    "hp_datagrams h' = add_opt (ch_ownedDatagram c) datagram (hp_datagrams h)"
    and wired: "wired (ch_ownedByteStream c) (ch_ownedDatagram c) (co_transport obj)"
    and addrs: "new_addr h h' (Some p)" "new_addr h h' (ch_impl c)"
    "new_addr h h' (ch_ownedByteStream c)" "new_addr h h' (ch_ownedDatagram c)"
    unfolding created_def by blast
  have "all_wired h'"
    using h addrs unfolding orderly_def fresh_heap_def new_addr_def
    by (intro all_wired_add [OF _ _ _ _ _ _ wired new(1,3)]) auto
  moreover from addrs le have "fresh_heap h'"
    using h fresh_add [of "hp_next h" "hp_handles h" "hp_next h'" "Some p" c]
    unfolding fresh_heap_def orderly_def new
    by (auto intro!: fresh_add simp: new_addr_def add_opt_def [of "Some p"])
  ultimately show ?thesis
    using h addrs new(2) unfolding orderly_def fresh_heap_def new
    by (auto intro!: owned_by_add simp: new_addr_def)
qed

lemma same_objects_orderly: "orderly h \<Longrightarrow> same_objects h h' \<Longrightarrow> hp_next h \<le> hp_next h' \<Longrightarrow> orderly h'"
  by (auto simp: orderly_def fresh_heap_def same_objects_def all_wired_def intro: fresh_mono)

lemma create_result_orderly: "orderly h \<Longrightarrow> create_result h r h' \<Longrightarrow> orderly h'"
  by (auto simp: create_result_def intro: created_orderly same_objects_orderly split: option.splits)

section \<open>Creating\<close>

text \<open>The state while a handle is being made: the objects of \<open>h\<close> and those made so far.\<close>

definition building ::
  "('td, 'a, 'k, 'd, 'r, 's, 'w) c_heap \<Rightarrow> caller_mem \<Rightarrow> addr option \<Rightarrow> addr option \<Rightarrow> addr option \<Rightarrow>
   (('td, 'a, 'k, 'd, 'r, 's, 'w) c_heap, 'w) sys \<Rightarrow> bool" where
  "building h m impl bs dg s \<longleftrightarrow>
     fresh_heap h \<and> mem s = m \<and> hp_next h \<le> hp_next (self s) \<and> hp_handles (self s) = hp_handles h \<and>
     (\<exists>obj. hp_channels (self s) = add_opt impl obj (hp_channels h) \<and>
        (impl \<noteq> None \<longrightarrow> wired bs dg (co_transport obj))) \<and>
     (\<exists>x. hp_streams (self s) = add_opt bs x (hp_streams h)) \<and>
     (\<exists>x. hp_datagrams (self s) = add_opt dg x (hp_datagrams h)) \<and>
     new_addr h (self s) impl \<and> new_addr h (self s) bs \<and> new_addr h (self s) dg"

abbreviation makes ::
  "('td, 'a, 'k, 'd, 'r, 's, 'w) c_heap \<Rightarrow> caller_mem \<Rightarrow>
   addr option \<Rightarrow> (('td, 'a, 'k, 'd, 'r, 's, 'w) c_heap, 'w) sys \<Rightarrow> bool" where
  "makes h m \<equiv> \<lambda>r t. create_result h r (self t) \<and> mem t = m"

lemma remove_add: "new_addr h h' p \<Longrightarrow> fresh (hp_next h) m \<Longrightarrow> remove_opt p (add_opt p x m) = m"
  by (auto simp: remove_opt_def add_opt_def new_addr_def fresh_def split: option.splits)

lemma building_world [simp]: "building h m impl bs dg (s\<lparr>world := w\<rparr>) = building h m impl bs dg s"
  by (simp add: building_def)

lemma building_nothing: "building h m None None None s \<Longrightarrow> makes h m None s"
  by (simp add: building_def create_result_def same_objects_def add_opt_def)

lemma building_start: "fresh_heap (self s) \<Longrightarrow> building (self s) (mem s) None None None s"
  by (auto simp: building_def add_opt_def new_addr_def)

text \<open>\<open>delete\<close> on the exceptional paths takes back what was made.\<close>

lemma wp_delete_channel:
  assumes s: "building h m impl bs dg s" and Q: "\<And>t. building h m None bs dg t \<Longrightarrow> Q () t"
  shows "wp d f (delete_channel impl) Q E s"
proof (cases impl)
  case (Some a)
  have "building h m None bs dg (s\<lparr>self := hp_channels_update (\<lambda>m. m(a := None)) (self s)\<rparr>)"
    and "hp_channels (self s) a \<noteq> None"
    using s Some by (auto simp: building_def add_opt_def new_addr_def fresh_heap_def fresh_def)
  with Q Some show ?thesis
    by (auto simp: delete_channel_def delete_object_def wp_simps)
qed (use s Q in \<open>simp add: delete_channel_def delete_object_def wp_simps\<close>)

lemma wp_delete_stream:
  assumes s: "building h m None bs dg s" and Q: "\<And>t. building h m None None dg t \<Longrightarrow> Q () t"
  shows "wp d f (delete_stream bs) Q E s"
proof (cases bs)
  case (Some a)
  have "building h m None None dg (s\<lparr>self := hp_streams_update (\<lambda>m. m(a := None)) (self s)\<rparr>)"
    and "hp_streams (self s) a \<noteq> None"
    using s Some by (auto simp: building_def add_opt_def new_addr_def fresh_heap_def fresh_def)
  with Q Some show ?thesis
    by (auto simp: delete_stream_def delete_object_def wp_simps)
qed (use s Q in \<open>simp add: delete_stream_def delete_object_def wp_simps\<close>)

lemma wp_delete_datagram:
  assumes s: "building h m None bs dg s" and Q: "\<And>t. building h m None bs None t \<Longrightarrow> Q () t"
  shows "wp d f (delete_datagram dg) Q E s"
proof (cases dg)
  case (Some a)
  have "building h m None bs None (s\<lparr>self := hp_datagrams_update (\<lambda>m. m(a := None)) (self s)\<rparr>)"
    and "hp_datagrams (self s) a \<noteq> None"
    using s Some by (auto simp: building_def add_opt_def new_addr_def fresh_heap_def fresh_def)
  with Q Some show ?thesis
    by (auto simp: delete_datagram_def delete_object_def wp_simps)
qed (use s Q in \<open>simp add: delete_datagram_def delete_object_def wp_simps\<close>)

lemma wp_new_channel:
  assumes s: "building h m None bs dg s" and w: "wired bs dg transport"
    and "\<And>a t. building h m (Some a) bs dg t \<Longrightarrow> Q a t" and "\<And>t. building h m None bs dg t \<Longrightarrow> E t"
  shows "wp d f (new_channel al room impl transport) Q E s"
proof -
  have "building h m (Some (hp_next (self s))) bs dg (s\<lparr>world := w, self := hp_channels_update
      (\<lambda>m. m(hp_next (self s) \<mapsto> \<lparr>co_impl = impl, co_transport = transport\<rparr>))
        ((self s)\<lparr>hp_next := Suc (hp_next (self s))\<rparr>)\<rparr>)" for w
    using s w by (auto simp: building_def add_opt_def new_addr_def split: option.splits)
  with s assms(3,4) show ?thesis
    by (auto simp: new_channel_def new_at_def wp_simps split: prod.splits)
qed

lemma wp_new_stream:
  assumes s: "building h m None None dg s"
    and "\<And>a t. building h m None (Some a) dg t \<Longrightarrow> Q a t" and "\<And>t. building h m None None dg t \<Longrightarrow> E t"
  shows "wp d f (new_object al hp_streams_update cb) Q E s"
proof -
  have "building h m None (Some (hp_next (self s))) dg (s\<lparr>world := w, self := hp_streams_update
      (\<lambda>m. m(hp_next (self s) \<mapsto> cb)) ((self s)\<lparr>hp_next := Suc (hp_next (self s))\<rparr>)\<rparr>)" for w
    using s by (auto simp: building_def add_opt_def new_addr_def split: option.splits)
  with s assms(2,3) show ?thesis
    by (auto simp: new_object_def new_at_def wp_simps split: prod.splits)
qed

lemma wp_new_datagram:
  assumes s: "building h m None bs None s"
    and "\<And>a t. building h m None bs (Some a) t \<Longrightarrow> Q a t" and "\<And>t. building h m None bs None t \<Longrightarrow> E t"
  shows "wp d f (new_object al hp_datagrams_update cb) Q E s"
proof -
  have "building h m None bs (Some (hp_next (self s))) (s\<lparr>world := w, self := hp_datagrams_update
      (\<lambda>m. m(hp_next (self s) \<mapsto> cb)) ((self s)\<lparr>hp_next := Suc (hp_next (self s))\<rparr>)\<rparr>)" for w
    using s by (auto simp: building_def add_opt_def new_addr_def split: option.splits)
  with s assms(2,3) show ?thesis
    by (auto simp: new_object_def new_at_def wp_simps split: prod.splits)
qed

lemma building_handle:
  assumes "building h m (Some a) bs dg s"
  shows "makes h m (Some (hp_next (self s))) (s\<lparr>world := w, self := hp_handles_update
      (\<lambda>m. m(hp_next (self s) \<mapsto> \<lparr>ch_impl = Some a, ch_ownedByteStream = bs, ch_ownedDatagram = dg\<rparr>))
        ((self s)\<lparr>hp_next := Suc (hp_next (self s))\<rparr>)\<rparr>)"
    (is "makes h m (Some ?p) ?t")
proof -
  from assms obtain x y z where s:
    "hp_channels (self s) = add_opt (Some a) x (hp_channels h)" "wired bs dg (co_transport x)"
    "hp_streams (self s) = add_opt bs y (hp_streams h)"
    "hp_datagrams (self s) = add_opt dg z (hp_datagrams h)"
    "new_addr h (self s) (Some a)" "new_addr h (self s) bs" "new_addr h (self s) dg"
    "mem s = m" "hp_next h \<le> hp_next (self s)" "hp_handles (self s) = hp_handles h"
    unfolding building_def by blast
  have more: "new_addr h (self ?t) q" if "new_addr h (self s) q" for q
    using that by (auto simp: new_addr_def)
  have "created h ?p (self ?t)"
    unfolding created_def
    by (intro exI [of _ "\<lparr>ch_impl = Some a, ch_ownedByteStream = bs, ch_ownedDatagram = dg\<rparr>"]
        exI [of _ x] exI [of _ y] exI [of _ z]) (use s more in \<open>simp add: new_addr_def\<close>)
  with s show ?thesis by (simp add: create_result_def)
qed

lemma wp_take_back:
  assumes "building h m (Some a) bs dg s"
  shows "wp d f (next_do (delete_channel (Some a))
      (next_do (delete_stream bs) (next_do (delete_datagram dg) (ret None)))) (makes h m) E s"
  unfolding wp_next_do
  by (rule wp_delete_channel [OF assms], rule wp_delete_stream, assumption, rule wp_delete_datagram,
      assumption) (simp add: wp_ret building_nothing)

lemma wp_new_handle:
  assumes s: "building h m (Some a) bs dg s"
    and Q: "\<And>p t. makes h m (Some p) t \<Longrightarrow> Q p t" and E: "\<And>t. building h m (Some a) bs dg t \<Longrightarrow> E t"
  shows "wp d f (new_object al hp_handles_update
     \<lparr>ch_impl = Some a, ch_ownedByteStream = bs, ch_ownedDatagram = dg\<rparr>) Q E s"
proof -
  have "E (s\<lparr>world := w\<rparr>)" for w using E s by simp
  with Q [OF building_handle [OF s]] show ?thesis
    by (simp add: new_object_def new_at_def wp_simps split: prod.split)
qed

lemma wp_WrapChannelWithOwned:
  assumes s: "building h m (Some a) bs dg s"
  shows "wp d f (WrapChannelWithOwned al (Some a) bs dg) (makes h m) E s"
  unfolding WrapChannelWithOwned_def if_not_P [OF option.distinct(2)] wp_try_catch wp_bnd wp_ret
  by (rule wp_new_handle [OF s]) (assumption, rule wp_take_back)

lemma wp_create_plain:
  assumes "fresh_heap (self s)"
  shows "wp d f (try_catch (bnd (new_channel al room impl CallerTransport) (\<lambda>impl. WrapChannel al (Some impl)))
      (ret None)) (makes (self s) (mem s)) E s"
  unfolding wp_try_catch wp_bnd WrapChannel_def
  by (rule wp_new_channel [OF building_start [OF assms] wired.simps(1) [THEN iffD2, OF TrueI]])
     (simp_all add: wp_WrapChannelWithOwned wp_ret building_nothing)

lemma wp_create_stream:
  assumes "fresh_heap (self s)"
  shows "wp d f (try_catch
       (bnd (new_object al hp_streams_update cb) (\<lambda>stream.
          bnd (on_unwind (with_this (\<lambda>h. new_channel al (room h stream) (impl h stream) (StreamAdapter stream)))
                (delete_stream (Some stream)))
            (\<lambda>channel. WrapChannelWithOwned al (Some channel) (Some stream) None)))
       (ret None)) (makes (self s) (mem s)) E s"
  unfolding wp_try_catch wp_bnd on_unwind_def wp_next_do wp_throw wp_with_this
  by (rule wp_new_stream [OF building_start [OF assms]], erule wp_new_channel, rule wired.simps [THEN iffD2])
     (auto simp: wp_WrapChannelWithOwned wp_ret building_nothing intro: wp_delete_stream)

lemma wp_create_datagram:
  assumes "fresh_heap (self s)"
  shows "wp d f (try_catch
       (bnd (new_object al hp_datagrams_update cb) (\<lambda>datagram.
          bnd (on_unwind
                (with_this (\<lambda>h. new_channel al (room h datagram) (impl h datagram) (DatagramAdapter datagram)))
                (delete_datagram (Some datagram)))
            (\<lambda>channel. WrapChannelWithOwned al (Some channel) None (Some datagram))))
       (ret None)) (makes (self s) (mem s)) E s"
  unfolding wp_try_catch wp_bnd on_unwind_def wp_next_do wp_throw wp_with_this
  by (rule wp_new_datagram [OF building_start [OF assms]], erule wp_new_channel, rule wired.simps [THEN iffD2])
     (auto simp: wp_WrapChannelWithOwned wp_ret building_nothing intro: wp_delete_datagram)

section \<open>Destroying\<close>

text \<open>The heap without a handle and what it owns.\<close>

definition destroyed ::
  "('td, 'a, 'k, 'd, 'r, 's, 'w) c_heap \<Rightarrow> addr \<Rightarrow> dlms_profile_channel_t \<Rightarrow>
   ('td, 'a, 'k, 'd, 'r, 's, 'w) c_heap \<Rightarrow> bool" where
  "destroyed h p c h' \<longleftrightarrow> hp_next h' = hp_next h \<and> hp_handles h' = (hp_handles h)(p := None) \<and>
     hp_channels h' = remove_opt (ch_impl c) (hp_channels h) \<and>
     hp_streams h' = remove_opt (ch_ownedByteStream c) (hp_streams h) \<and>
     hp_datagrams h' = remove_opt (ch_ownedDatagram c) (hp_datagrams h)"

lemma wp_destroy:
  assumes h: "orderly (self s)" and p: "hp_handles (self s) p = Some c"
  shows "wp d f (dlms_profile_destroy_channel (Some p))
     (\<lambda>_ t. destroyed (self s) p c (self t) \<and> mem t = mem s \<and> world t = world s) E s"
proof -
  from h p have live: "\<And>a. ch_impl c = Some a \<Longrightarrow> hp_channels (self s) a \<noteq> None"
      "\<And>a. ch_ownedByteStream c = Some a \<Longrightarrow> hp_streams (self s) a \<noteq> None"
      "\<And>a. ch_ownedDatagram c = Some a \<Longrightarrow> hp_datagrams (self s) a \<noteq> None"
    unfolding orderly_def by (blast dest: owned_by_live)+
  from p show ?thesis
    unfolding dlms_profile_destroy_channel_def delete_channel_def delete_stream_def delete_datagram_def
      delete_handle_def delete_object_def
    by (cases "ch_impl c"; cases "ch_ownedByteStream c"; cases "ch_ownedDatagram c")
       (simp_all add: wp_simps live destroyed_def remove_opt_def)
qed

lemma destroyed_orderly:
  assumes h: "orderly h" and p: "hp_handles h p = Some c" and d: "destroyed h p c h'"
  shows "orderly h'"
proof -
  have fr: "fresh (hp_next h) ((hp_handles h)(p := None))"
    using h by (auto simp: orderly_def fresh_heap_def fresh_def)
  have "fresh_heap h'"
    using h d fr unfolding orderly_def fresh_heap_def destroyed_def by (simp add: fresh_remove)
  moreover have "all_wired h'"
    using h d unfolding orderly_def destroyed_def by (blast intro: all_wired_remove)
  moreover have "\<forall>q e. hp_handles h' q = Some e \<longrightarrow> ch_impl e \<noteq> None"
    using h d unfolding orderly_def destroyed_def by (auto split: if_splits)
  ultimately show ?thesis
    using h d p unfolding orderly_def destroyed_def by (simp add: owned_by_remove)
qed

section \<open>Using\<close>

text \<open>A call through a handle replaces the channel object and nothing else.\<close>

definition used ::
  "('td, 'a, 'k, 'd, 'r, 's, 'w) c_heap \<Rightarrow> ('td, 'a, 'k, 'd, 'r, 's, 'w) c_heap \<Rightarrow> bool" where
  "used h h' \<longleftrightarrow> hp_next h' = hp_next h \<and> hp_handles h' = hp_handles h \<and> hp_streams h' = hp_streams h \<and>
     hp_datagrams h' = hp_datagrams h \<and>
     (\<forall>a. map_option co_transport (hp_channels h' a) = map_option co_transport (hp_channels h a))"

lemma used_channel:
  assumes "used h h'" and "hp_channels h' a = Some obj'"
  obtains obj where "hp_channels h a = Some obj" and "co_transport obj = co_transport obj'"
proof -
  from assms(1) have "map_option co_transport (hp_channels h' a) = map_option co_transport (hp_channels h a)"
    unfolding used_def by blast
  with assms(2) show thesis by (cases "hp_channels h a") (auto intro: that)
qed

lemma used_dom: "used h h' \<Longrightarrow> dom (hp_channels h') = dom (hp_channels h)"
proof -
  assume u: "used h h'"
  have "hp_channels h' a = None \<longleftrightarrow> hp_channels h a = None" for a
    using u unfolding used_def by (metis option.map_disc_iff)
  then show ?thesis by (simp add: dom_def)
qed

lemma used_wired: "all_wired h \<Longrightarrow> used h h' \<Longrightarrow> all_wired h'"
  unfolding all_wired_def
proof (intro allI impI)
  fix p c a obj
  assume h: "\<forall>p c a obj. hp_handles h p = Some c \<longrightarrow> ch_impl c = Some a \<longrightarrow> hp_channels h a = Some obj \<longrightarrow>
      wired (ch_ownedByteStream c) (ch_ownedDatagram c) (co_transport obj)"
    and u: "used h h'" and c: "hp_handles h' p = Some c" "ch_impl c = Some a" "hp_channels h' a = Some obj"
  from u c(3) obtain obj' where "hp_channels h a = Some obj'" "co_transport obj' = co_transport obj"
    by (rule used_channel)
  moreover have "hp_handles h p = Some c" using u c(1) by (simp add: used_def)
  ultimately show "wired (ch_ownedByteStream c) (ch_ownedDatagram c) (co_transport obj)"
    using h c(2) by metis
qed

lemma used_orderly: "orderly h \<Longrightarrow> used h h' \<Longrightarrow> orderly h'"
  using owned_by_dom [OF used_dom, of h h'] used_dom [of h h'] used_wired [of h h']
  unfolding orderly_def used_def fresh_heap_def fresh_dom by simp

lemma preord_used [simp]: "preord (\<lambda>s t. used (self s) (self t))"
  by (auto simp: preord_def used_def)

lemma steps_call_impl_used [steps_intros]:
  "steps True True (\<lambda>_. True) (\<lambda>s t. used (self s) (self t)) (call_impl a m)"
proof (rule stepsI)
  fix s
  show "wp True True (call_impl a m) (\<lambda>_ t. True \<and> used (self s) (self t)) (\<lambda>t. True \<and> used (self s) (self t)) s"
  proof (cases "hp_channels (self s) a")
    case None
    then show ?thesis by (simp add: call_impl_def wp_simps)
  next
    case (Some impl)
    then have "used (self s) (self (stored a (self s) t))" for t
      by (auto simp: used_def)
    then show ?thesis
      unfolding wp_call_impl [OF Some] by (simp add: wp_def split: option.splits outcome.splits)
  qed
qed

lemma steps_status_call_used [steps_intros]:
  "steps True True (\<lambda>_. True) (\<lambda>s t. used (self s) (self t)) (status_call (call_impl a m))"
  unfolding status_call_def by (intro steps_intros preord_used)

lemma steps_with_impl_used [steps_intros]:
  "(\<And>a. steps True True (\<lambda>_. True) (\<lambda>s t. used (self s) (self t)) (k a)) \<Longrightarrow>
     steps True True (\<lambda>_. True) (\<lambda>s t. used (self s) (self t)) (with_impl channel bad k)"
  unfolding with_impl_def by (intro steps_intros preord_used TrueI)

lemma steps_data_link_used [steps_intros]:
  "steps True True (\<lambda>_. True) (\<lambda>s t. used (self s) (self t)) (data_link_call m channel)"
  unfolding data_link_call_def AsHdlcChannel_def by (intro steps_intros preord_used TrueI)

section \<open>The functions of the interface\<close>

lemma makes_nothing: "fresh_heap (self s) \<Longrightarrow> makes (self s) (mem s) None s"
  by (rule building_nothing [OF building_start])

lemma wp_create:
  fixes s :: "(('td, 'a, 'k, 'd, 'r, 's, 'w) c_heap, 'w) sys"
    and env :: "('td, 'a, 'k, 'h, 'd, 'r, 's, 'w) c_env"
  assumes "fresh_heap (self s)"
  shows "wp d f (dlms_profile_create_wrapper_tcp_channel env bs opts) (makes (self s) (mem s)) E s"
    and "wp d f (dlms_profile_create_wrapper_udp_channel env dg opts) (makes (self s) (mem s)) E s"
    and "wp d f (dlms_profile_create_hdlc_channel env bs opts) (makes (self s) (mem s)) E s"
    and "wp d f (dlms_profile_create_wrapper_tcp_channel_from_callbacks env cb opts)
          (makes (self s) (mem s)) E s"
    and "wp d f (dlms_profile_create_wrapper_udp_channel_from_callbacks env dcb opts)
          (makes (self s) (mem s)) E s"
    and "wp d f (dlms_profile_create_hdlc_channel_from_callbacks env cb opts)
          (makes (self s) (mem s)) E s"
proof -
  note none_made = makes_nothing [OF assms]
  have plain: "wp d f (case v of None \<Rightarrow> ret None | Some x \<Rightarrow> g x) (makes (self s) (mem s)) E s"
    if "\<And>x. wp d f (g x) (makes (self s) (mem s)) E s" for v and g :: "'v \<Rightarrow> _"
    by (cases v) (simp_all only: option.case wp_ret that, rule none_made)
  have guarded: "wp d f (if \<not> b then ret None else m) (makes (self s) (mem s)) E s"
    if "wp d f m (makes (self s) (mem s)) E s" for b m
    by (cases b) (simp_all only: not_True_eq_False not_False_eq_True if_True if_False wp_ret that,
        rule none_made)
  note defs = make_tcp_def make_udp_def make_hdlc_def Let_def
  show "wp d f (dlms_profile_create_wrapper_tcp_channel env bs opts) (makes (self s) (mem s)) E s"
    unfolding dlms_profile_create_wrapper_tcp_channel_def defs
    by (intro plain wp_create_plain assms)
  show "wp d f (dlms_profile_create_wrapper_udp_channel env dg opts) (makes (self s) (mem s)) E s"
    unfolding dlms_profile_create_wrapper_udp_channel_def defs
    by (intro plain wp_create_plain assms)
  show "wp d f (dlms_profile_create_hdlc_channel env bs opts) (makes (self s) (mem s)) E s"
    unfolding dlms_profile_create_hdlc_channel_def defs
    by (intro plain wp_create_plain assms)
  show "wp d f (dlms_profile_create_wrapper_tcp_channel_from_callbacks env cb opts)
      (makes (self s) (mem s)) E s"
    unfolding dlms_profile_create_wrapper_tcp_channel_from_callbacks_def defs
    by (intro guarded wp_create_stream assms)
  show "wp d f (dlms_profile_create_wrapper_udp_channel_from_callbacks env dcb opts)
      (makes (self s) (mem s)) E s"
    unfolding dlms_profile_create_wrapper_udp_channel_from_callbacks_def defs
    by (intro guarded wp_create_datagram assms)
  show "wp d f (dlms_profile_create_hdlc_channel_from_callbacks env cb opts)
      (makes (self s) (mem s)) E s"
    unfolding dlms_profile_create_hdlc_channel_from_callbacks_def defs
    by (intro guarded wp_create_stream assms)
qed

lemma steps_functions_used [steps_intros]:
  "steps True True (\<lambda>_. True) (\<lambda>s t. used (self s) (self t)) (dlms_profile_open channel)"
  "steps True True (\<lambda>_. True) (\<lambda>s t. used (self s) (self t)) (dlms_profile_close env channel)"
  "steps True True (\<lambda>_. True) (\<lambda>s t. used (self s) (self t)) (dlms_profile_is_open channel)"
  "steps True True (\<lambda>_. True) (\<lambda>s t. used (self s) (self t)) (dlms_profile_connect_data_link env channel)"
  "steps True True (\<lambda>_. True) (\<lambda>s t. used (self s) (self t)) (dlms_profile_accept_data_link env channel)"
  "steps True True (\<lambda>_. True) (\<lambda>s t. used (self s) (self t)) (dlms_profile_disconnect_data_link env channel)"
  "steps True True (\<lambda>_. True) (\<lambda>s t. used (self s) (self t)) (dlms_profile_send_apdu env channel apdu n)"
  "steps True True (\<lambda>_. True) (\<lambda>s t. used (self s) (self t))
     (dlms_profile_receive_apdu env channel out n written)"
  unfolding dlms_profile_open_def dlms_profile_close_def dlms_profile_is_open_def
    dlms_profile_connect_data_link_def dlms_profile_accept_data_link_def
    dlms_profile_disconnect_data_link_def dlms_profile_send_apdu_def dlms_profile_receive_apdu_def
  by (intro steps_intros preord_used)+

section \<open>Client programs\<close>

text \<open>
  The calls a C program can make, and the states it can reach from one with an empty heap, when it
  passes only pointers that the interface gave it (a call with another one has no result). Between
  calls it may change its own memory, and the world may change.
\<close>

datatype 'w c_call =
    CreateTcp "'w IByteStream option" "dlms_profile_channel_options_t option"
  | CreateUdp "'w IDatagramTransport option" "dlms_profile_channel_options_t option"
  | CreateHdlc "'w IByteStream option" "dlms_profile_channel_options_t option"
  | CreateTcpFromCallbacks "'w dlms_profile_byte_stream_callbacks_t option"
      "dlms_profile_channel_options_t option"
  | CreateUdpFromCallbacks "'w dlms_profile_datagram_callbacks_t option"
      "dlms_profile_channel_options_t option"
  | CreateHdlcFromCallbacks "'w dlms_profile_byte_stream_callbacks_t option"
      "dlms_profile_channel_options_t option"
  | Destroy "addr option"
  | CallOpen "addr option"
  | CallClose "addr option"
  | CallIsOpen "addr option"
  | CallConnect "addr option"
  | CallAccept "addr option"
  | CallDisconnect "addr option"
  | CallSend "addr option" byte_ptr size_t
  | CallReceive "addr option" out_ptr size_t out_ptr

definition discard :: "('s, 'v) prog \<Rightarrow> ('s, unit) prog" where
  "discard m = next_do m (ret ())"

fun perform ::
  "('td, 'a, 'k, 'h, 'd, 'r, 's, 'w) c_env \<Rightarrow> 'w c_call \<Rightarrow> ('td, 'a, 'k, 'd, 'r, 's, 'w, unit) c_prog"
  where
  "perform env (CreateTcp bs opts) = discard (dlms_profile_create_wrapper_tcp_channel env bs opts)"
| "perform env (CreateUdp dg opts) = discard (dlms_profile_create_wrapper_udp_channel env dg opts)"
| "perform env (CreateHdlc bs opts) = discard (dlms_profile_create_hdlc_channel env bs opts)"
| "perform env (CreateTcpFromCallbacks cb opts) =
     discard (dlms_profile_create_wrapper_tcp_channel_from_callbacks env cb opts)"
| "perform env (CreateUdpFromCallbacks cb opts) =
     discard (dlms_profile_create_wrapper_udp_channel_from_callbacks env cb opts)"
| "perform env (CreateHdlcFromCallbacks cb opts) =
     discard (dlms_profile_create_hdlc_channel_from_callbacks env cb opts)"
| "perform env (Destroy p) = dlms_profile_destroy_channel p"
| "perform env (CallOpen p) = discard (dlms_profile_open p)"
| "perform env (CallClose p) = discard (dlms_profile_close env p)"
| "perform env (CallIsOpen p) = discard (dlms_profile_is_open p)"
| "perform env (CallConnect p) = discard (dlms_profile_connect_data_link env p)"
| "perform env (CallAccept p) = discard (dlms_profile_accept_data_link env p)"
| "perform env (CallDisconnect p) = discard (dlms_profile_disconnect_data_link env p)"
| "perform env (CallSend p apdu n) = discard (dlms_profile_send_apdu env p apdu n)"
| "perform env (CallReceive p out n written) = discard (dlms_profile_receive_apdu env p out n written)"

inductive reaches ::
  "('td, 'a, 'k, 'h, 'd, 'r, 's, 'w) c_env \<Rightarrow> (('td, 'a, 'k, 'd, 'r, 's, 'w) c_heap, 'w) sys \<Rightarrow>
   (('td, 'a, 'k, 'd, 'r, 's, 'w) c_heap, 'w) sys \<Rightarrow> bool" for env s where
  start: "reaches env s s"
| call: "reaches env s t \<Longrightarrow> perform env c t = Some (Ret () u) \<Longrightarrow> reaches env s u"
| caller: "reaches env s t \<Longrightarrow> reaches env s (t\<lparr>mem := m, world := w\<rparr>)"

inductive_cases reachesE: "reaches env s t"

definition empty_heap :: "('td, 'a, 'k, 'd, 'r, 's, 'w) c_heap" where
  "empty_heap = \<lparr>hp_channels = Map.empty, hp_streams = Map.empty, hp_datagrams = Map.empty,
     hp_handles = Map.empty, hp_next = 0\<rparr>"

lemma empty_heap_orderly: "orderly empty_heap"
  by (simp add: orderly_def fresh_heap_def fresh_def owned_by_def all_wired_def empty_heap_def)

lemma wp_discard: "wp d f (discard m) Q E = wp d f m (\<lambda>_. Q ()) E"
  by (simp add: discard_def wp_simps)

lemma steps_used_orderly:
  assumes "steps True True (\<lambda>_. True) (\<lambda>s t. used (self s) (self t)) m" and "orderly (self s)"
  shows "wp True True m (\<lambda>_ t. orderly (self t)) (\<lambda>t. orderly (self t)) s"
  using stepsD [OF assms(1), of s] used_orderly [OF assms(2)] by (auto elim!: wp_conseq)

lemma wp_makes_orderly:
  assumes "orderly (self s)" and "wp d f m (makes (self s) (mem s)) (\<lambda>_. False) s"
  shows "wp d f m (\<lambda>_ t. orderly (self t)) (\<lambda>t. orderly (self t)) s"
  using assms(2) by (rule wp_conseq) (auto intro: create_result_orderly [OF assms(1)])

lemma perform_orderly:
  assumes "orderly (self s)"
  shows "wp True True (perform env c) (\<lambda>_ t. orderly (self t)) (\<lambda>t. orderly (self t)) s"
proof -
  have "fresh_heap (self s)" using assms by (simp add: orderly_def)
  note made = wp_create [OF this, THEN wp_makes_orderly [OF assms]]
  show ?thesis
  proof (cases c)
  case (Destroy p)
  show ?thesis
  proof (cases "p = None \<or> hp_handles (self s) (the p) = None")
    case True
    with assms Destroy show ?thesis
      by (cases p) (simp_all add: dlms_profile_destroy_channel_def wp_simps)
  next
    case False
    then obtain q e where p: "p = Some q" "hp_handles (self s) q = Some e" by auto
    show ?thesis
      using p(1) Destroy
      by (auto intro!: wp_conseq [OF wp_destroy [OF assms p(2), where E = "\<lambda>_. False"]]
          intro: destroyed_orderly [OF assms p(2)])
  qed
  qed (simp_all add: wp_discard made steps_functions_used [THEN steps_used_orderly, OF assms])
qed

lemma reaches_orderly: "reaches env s t \<Longrightarrow> orderly (self s) \<Longrightarrow> orderly (self t)"
  by (induction rule: reaches.induct) (auto dest: wp_retD [OF perform_orderly])

text \<open>No channel refers to a deleted adapter.\<close>

lemma orderly_transport_alive:
  assumes h: "orderly h" and a: "hp_channels h a = Some obj"
  shows "(co_transport obj = StreamAdapter b \<longrightarrow> hp_streams h b \<noteq> None) \<and>
     (co_transport obj = DatagramAdapter b \<longrightarrow> hp_datagrams h b \<noteq> None)"
proof -
  from h a obtain p c where c: "hp_handles h p = Some c" "ch_impl c = Some a"
    unfolding orderly_def by (blast dest: owned_by_owner)
  with h a have "wired (ch_ownedByteStream c) (ch_ownedDatagram c) (co_transport obj)"
    unfolding orderly_def all_wired_def by blast
  moreover have "hp_streams h b \<noteq> None" if "ch_ownedByteStream c = Some b"
    using h c that unfolding orderly_def by (blast dest: owned_by_live)
  moreover have "hp_datagrams h b \<noteq> None" if "ch_ownedDatagram c = Some b"
    using h c that unfolding orderly_def by (blast dest: owned_by_live)
  ultimately show ?thesis by auto
qed

text \<open>Without handles there are no objects.\<close>

lemma orderly_no_handles:
  assumes "orderly h" and "hp_handles h = Map.empty"
  shows "hp_channels h = Map.empty \<and> hp_streams h = Map.empty \<and> hp_datagrams h = Map.empty"
proof -
  show ?thesis using assms unfolding orderly_def owned_by_def by (auto simp: fun_eq_iff)
qed

end
