(* ===== verification/C_Refinement.thy ===== *)
theory C_Refinement
  imports C_Api_Laws Simulation Wrapper_Tcp_Safety Hdlc_Safety
begin

text \<open>
  A handle as its channel object. No member function changes the transport of its object, so between
  calls the reference of a channel leads to the same transport, and a sequence of calls through
  a handle does to the heap what the same sequence of member calls does to the object.
\<close>

section \<open>Member functions\<close>

text \<open>No member function changes the transport, the sink or the timer of its object.\<close>

abbreviation tcp_wiring_kept :: "(('td, 'w) WrapperTcpProfileChannel, 'w, 'v) mprog \<Rightarrow> bool" where
  "tcp_wiring_kept m \<equiv> keeps (\<lambda>s. tcp_constants (self s)) m"

abbreviation udp_wiring_kept :: "('w WrapperUdpProfileChannel, 'w, 'v) mprog \<Rightarrow> bool" where
  "udp_wiring_kept m \<equiv> keeps (\<lambda>s. udp_datagram (self s)) m"

definition hdlc_wires ::
  "('a, 'k, 'd, 'r, 's, 'w) HdlcProfileChannel \<Rightarrow> 'w IByteStream \<times> 'w ITimerScheduler option" where
  "hdlc_wires c = (hdlc_stream c, hdlc_timer c)"

lemma hdlc_wires_upd [simp]:
  "hdlc_wires (c\<lparr>hdlc_limits := l\<rparr>) = hdlc_wires c"
  "hdlc_wires (c\<lparr>hdlc_decoder := x\<rparr>) = hdlc_wires c"
  "hdlc_wires (c\<lparr>hdlc_reassembler := r\<rparr>) = hdlc_wires c"
  "hdlc_wires (c\<lparr>hdlc_session := s\<rparr>) = hdlc_wires c"
  "hdlc_wires (c\<lparr>hdlc_readBuffer := b\<rparr>) = hdlc_wires c"
  "hdlc_wires (c\<lparr>hdlc_pendingHdlcFrames := fs\<rparr>) = hdlc_wires c"
  "hdlc_wires (c\<lparr>hdlc_pendingApdus := as\<rparr>) = hdlc_wires c"
  by (simp_all add: hdlc_wires_def)

abbreviation hdlc_wiring_kept :: "(('a, 'k, 'd, 'r, 's, 'w) HdlcProfileChannel, 'w, 'v) mprog \<Rightarrow> bool"
  where
  "hdlc_wiring_kept m \<equiv> keeps (\<lambda>s. hdlc_wires (self s)) m"

lemma steps_copy_out_True [steps_intros]:
  "preord R \<Longrightarrow> (\<And>s g. I s \<Longrightarrow> I (s\<lparr>mem := g (mem s)\<rparr>) \<and> R s (s\<lparr>mem := g (mem s)\<rparr>)) \<Longrightarrow>
     steps True True I R (copy_out bytes out)"
  "preord R \<Longrightarrow> (\<And>s g. I s \<Longrightarrow> I (s\<lparr>mem := g (mem s)\<rparr>) \<and> R s (s\<lparr>mem := g (mem s)\<rparr>)) \<Longrightarrow>
     steps True True I R (store_written out n)"
  by (auto simp: steps_def copy_out_def store_written_def wp_simps)

lemma Tcp_wiring:
  "tcp_wiring_kept Tcp_Open" "tcp_wiring_kept (Tcp_Close wd)" "tcp_wiring_kept Tcp_IsOpen"
  "tcp_wiring_kept (Tcp_SendApdu cd apdu)" "tcp_wiring_kept (Tcp_ReceiveBuffer cd wd al out)"
  unfolding Tcp_Open_def Tcp_Close_def Tcp_IsOpen_def Tcp_SendApdu_def Tcp_ReceiveBuffer_def
    Tcp_CopyFirstPendingFrame_def Let_def
  by (intro steps_intros Tcp_ReceiveNextFrame_keeps_constants preord_eq TrueI;
      auto split: outcome.splits)+

lemma Udp_wiring:
  "udp_wiring_kept Udp_Open" "udp_wiring_kept Udp_Close" "udp_wiring_kept Udp_IsOpen"
  "udp_wiring_kept (Udp_SendApdu cd apdu)" "udp_wiring_kept (Udp_ReceiveBuffer cd out)"
  unfolding Udp_Open_def Udp_Close_def Udp_IsOpen_def Udp_SendApdu_def Udp_ReceiveBuffer_def
    Udp_ReceiveFrame_def Udp_CopyFrameData_def Let_def
  by (intro steps_intros preord_eq TrueI; auto split: outcome.splits)+

lemma hdlc_wiring_parts:
  fixes env :: "('a, 'k, 'h, 'd, 'r, 's, 'w) hdlc_env"
  shows "hdlc_wiring_kept (ReceiveDecodedFrame env)" and "hdlc_wiring_kept (WriteFrameBytes bytes)"
    and "hdlc_wiring_kept (ReceiveSessionControlFrame env)"
    and "hdlc_wiring_kept (ReceiveSessionControlFrameWithRetry env bytes)"
proof -
  show d: "hdlc_wiring_kept (ReceiveDecodedFrame env)"
    unfolding ReceiveDecodedFrame_def ReadDecodedFrame_def
    by (intro steps_intros preord_eq TrueI) (auto split: outcome.splits)
  show w: "hdlc_wiring_kept (WriteFrameBytes bytes)" for bytes
    unfolding WriteFrameBytes_def by (intro steps_intros preord_eq TrueI) (auto split: outcome.splits)
  show c: "hdlc_wiring_kept (ReceiveSessionControlFrame env)"
    unfolding ReceiveSessionControlFrame_def SessionReceiveFrame_def
    by (intro steps_intros d preord_eq TrueI) simp_all
  show "hdlc_wiring_kept (ReceiveSessionControlFrameWithRetry env bytes)"
    unfolding ReceiveSessionControlFrameWithRetry_def RetryAttempt_def SleepBeforeRetry_def
    by (intro steps_intros c w preord_eq TrueI) (auto split: outcome.splits)
qed

lemma Hdlc_SendApdu_wiring: "hdlc_wiring_kept (Hdlc_SendApdu env apdu)"
proof -
  have "hdlc_wiring_kept (SendInformationChunk env lpdu chunk count x)" for lpdu chunk count x
    unfolding SendInformationChunk_def BuildSessionInformationFrame_def session_build_def
    by (intro steps_intros hdlc_wiring_parts preord_eq TrueI) simp_all
  then show ?thesis
    unfolding Hdlc_SendApdu_def SendSessionInformation_def
    by (intro steps_intros hdlc_wiring_parts preord_eq TrueI) simp_all
qed

lemma ReceiveNextApdu_wiring: "hdlc_wiring_kept (ReceiveNextApdu env)"
  unfolding hdlc_receive_unfold SessionReceiveFrame_def session_build_def
  by (intro steps_intros hdlc_wiring_parts preord_eq TrueI) simp_all

lemma Hdlc_wiring:
  "hdlc_wiring_kept Hdlc_Open" "hdlc_wiring_kept (Hdlc_Close env)" "hdlc_wiring_kept Hdlc_IsOpen"
  "hdlc_wiring_kept (Hdlc_ReceiveBuffer env out)"
  unfolding Hdlc_Open_def Hdlc_Close_def Hdlc_IsOpen_def Hdlc_ReceiveBuffer_def CopyFirstPendingApdu_def
    Let_def
  by (intro steps_intros ReceiveNextApdu_wiring preord_eq TrueI; auto split: outcome.splits)+

lemma Data_link_wiring:
  "hdlc_wiring_kept (ConnectDataLink env)" "hdlc_wiring_kept (AcceptDataLink env)"
  "hdlc_wiring_kept (DisconnectDataLink env)"
  unfolding ConnectDataLink_def AcceptDataLink_def DisconnectDataLink_def EnsureSession_def
    session_build_def Hdlc_IsOpen_def
  by (intro steps_intros hdlc_wiring_parts preord_eq TrueI; auto split: outcome.splits)+

section \<open>The transport of an object\<close>

abbreviation transport_kept :: "('td, 'a, 'k, 'd, 'r, 's, 'w, 'v) impl_prog \<Rightarrow> bool" where
  "transport_kept m \<equiv> steps True True (\<lambda>_. True) (\<lambda>s t. same_transport (self s) (self t)) m"

lemma transport_kept_dispatch:
  fixes tcp :: "(('td, 'w) WrapperTcpProfileChannel, 'w, 'v) mprog"
    and hdlc :: "(('a, 'k, 'd, 'r, 's, 'w) HdlcProfileChannel, 'w, 'v) mprog"
  assumes tcp: "tcp_wiring_kept tcp" and udp: "udp_wiring_kept udp" and hdlc: "hdlc_wiring_kept hdlc"
  shows "transport_kept (dispatch tcp udp hdlc)"
proof (rule stepsI, rule wp_dispatch)
  fix s :: "(('td, 'a, 'k, 'd, 'r, 's, 'w) channel_impl, 'w) sys"
  let ?kept = "\<lambda>t. True \<and> same_transport (self s) (self t)"
  show "wp True True tcp (\<lambda>v t. ?kept (with_self (TcpImpl (self t)) t))
      (\<lambda>t. ?kept (with_self (TcpImpl (self t)) t)) (with_self c s)" if "self s = TcpImpl c" for c
    by (rule wp_conseq [OF keepsD [OF tcp]]) (simp_all add: that tcp_constants_def)
  show "wp True True udp (\<lambda>v t. ?kept (with_self (UdpImpl (self t)) t))
      (\<lambda>t. ?kept (with_self (UdpImpl (self t)) t)) (with_self c s)" if "self s = UdpImpl c" for c
    by (rule wp_conseq [OF keepsD [OF udp]]) (simp_all add: that)
  show "wp True True hdlc (\<lambda>v t. ?kept (with_self (HdlcImpl (self t)) t))
      (\<lambda>t. ?kept (with_self (HdlcImpl (self t)) t)) (with_self c s)" if "self s = HdlcImpl c" for c
    by (rule wp_conseq [OF keepsD [OF hdlc]]) (simp_all add: that hdlc_wires_def)
qed

lemma fault_keeps: "keeps g fault"
  by (simp add: steps_def wp_simps)

lemma impl_transport_kept:
  "transport_kept impl_Open" "transport_kept (impl_Close env)" "transport_kept impl_IsOpen"
  "transport_kept (impl_SendApdu env apdu)" "transport_kept (impl_ReceiveBuffer env out)"
  unfolding impl_Open_def impl_Close_def impl_IsOpen_def impl_SendApdu_def impl_ReceiveBuffer_def
  by (intro transport_kept_dispatch Tcp_wiring Udp_wiring Hdlc_wiring Hdlc_SendApdu_wiring)+

section \<open>Sequences of calls\<close>

datatype channel_op =
    OpOpen | OpClose | OpIsOpen | OpConnect | OpAccept | OpDisconnect
  | OpSend byte_ptr size_t
  | OpReceive out_ptr size_t out_ptr

fun c_op ::
  "('td, 'a, 'k, 'h, 'd, 'r, 's, 'w) c_env \<Rightarrow> addr \<Rightarrow> channel_op \<Rightarrow>
   ('td, 'a, 'k, 'd, 'r, 's, 'w, int) c_prog" where
  "c_op env p OpOpen = dlms_profile_open (Some p)"
| "c_op env p OpClose = dlms_profile_close env (Some p)"
| "c_op env p OpIsOpen = dlms_profile_is_open (Some p)"
| "c_op env p OpConnect = dlms_profile_connect_data_link env (Some p)"
| "c_op env p OpAccept = dlms_profile_accept_data_link env (Some p)"
| "c_op env p OpDisconnect = dlms_profile_disconnect_data_link env (Some p)"
| "c_op env p (OpSend apdu n) = dlms_profile_send_apdu env (Some p) apdu n"
| "c_op env p (OpReceive out n written) = dlms_profile_receive_apdu env (Some p) out n written"

text \<open>
  The same operations on the C++ object: its status as a number, 17 for an exception, and 16 for
  the data link of a channel that has none.
\<close>

definition object_status :: "('s, ProfileStatus) prog \<Rightarrow> ('s, int) prog" where
  "object_status m = try_catch (bnd m (\<lambda>st. ret (ProfileStatus_value st))) (ret 17)"

fun object_op ::
  "('td, 'a, 'k, 'h, 'd, 'r, 's, 'w) c_env \<Rightarrow> channel_op \<Rightarrow>
   ('td, 'a, 'k, 'd, 'r, 's, 'w, int) impl_prog" where
  "object_op env OpOpen = object_status impl_Open"
| "object_op env OpClose = object_status (impl_Close env)"
| "object_op env OpIsOpen = try_catch (bnd impl_IsOpen (\<lambda>open. ret (of_bool open))) (ret 0)"
| "object_op env OpConnect = dispatch (ret 16) (ret 16) (object_status (ConnectDataLink (ce_hdlc env)))"
| "object_op env OpAccept = dispatch (ret 16) (ret 16) (object_status (AcceptDataLink (ce_hdlc env)))"
| "object_op env OpDisconnect =
     dispatch (ret 16) (ret 16) (object_status (DisconnectDataLink (ce_hdlc env)))"
| "object_op env (OpSend apdu n) = object_status (impl_SendApdu env \<lparr>bv_data = apdu, bv_size = n\<rparr>)"
| "object_op env (OpReceive out n written) =
     object_status (impl_ReceiveBuffer env \<lparr>mb_data = out, mb_size = n, mb_writtenSize = written\<rparr>)"

fun run_ops :: "('o \<Rightarrow> ('s, 'v) prog) \<Rightarrow> 'o list \<Rightarrow> ('s, 'v list) prog" where
  "run_ops f [] = ret []"
| "run_ops f (x # xs) = bnd (f x) (\<lambda>v. bnd (run_ops f xs) (\<lambda>vs. ret (v # vs)))"

text \<open>The heap without the channel at an address.\<close>

definition elsewhere ::
  "addr \<Rightarrow> ('td, 'a, 'k, 'd, 'r, 's, 'w) c_heap \<Rightarrow> ('td, 'a, 'k, 'd, 'r, 's, 'w) c_heap" where
  "elsewhere a h = hp_channels_update (\<lambda>m. m(a := None)) h"

text \<open>
  \<open>at_handle p a h0 s u\<close>: the state \<open>s\<close> of the C interface stands for the state \<open>u\<close> of the object
  behind the handle \<open>p\<close>, and the rest of its heap is that of \<open>h0\<close>.
\<close>

definition at_handle ::
  "addr \<Rightarrow> addr \<Rightarrow> ('td, 'a, 'k, 'd, 'r, 's, 'w) c_heap \<Rightarrow>
   (('td, 'a, 'k, 'd, 'r, 's, 'w) c_heap, 'w) sys \<Rightarrow>
   (('td, 'a, 'k, 'd, 'r, 's, 'w) channel_impl, 'w) sys \<Rightarrow> bool" where
  "at_handle p a h0 s u \<longleftrightarrow> handle_impl (self s) p a (self u) \<and> mem s = mem u \<and> world s = world u \<and>
     elsewhere a (self s) = elsewhere a h0"

lemma elsewhere_stored [simp]: "elsewhere a (self (stored a h t)) = elsewhere a h"
  by (simp add: elsewhere_def stored_def store_impl_def)

lemma at_handleD:
  assumes "at_handle p a h0 s u"
  shows "with_self (self u) s = u" and "handle_impl (self s) p a (self u)"
    and "elsewhere a (self s) = elsewhere a h0"
  using assms by (simp_all add: at_handle_def with_self_def)

lemma sim_call_impl:
  assumes "transport_kept m"
  shows "sim (at_handle p a h0) (call_impl a m) m"
proof (rule simI)
  fix s u
  assume R: "at_handle p a h0 s u"
  note u = at_handleD [OF R]
  from u(2) obtain obj where obj: "hp_channels (self s) a = Some obj" "bind_transport (self s) obj = self u"
    by (rule handle_implE)
  have again: "at_handle p a h0 (stored a (self s) t) t" if "same_transport (self u) (self t)" for t
    using handle_impl_stored [OF u(2) that] u(3) by (simp add: at_handle_def)
  from stepsD [OF assms, of u] show "rel_option (rel_outcome (=) (at_handle p a h0)) (call_impl a m s) (m u)"
    unfolding run_call_impl [OF obj(1)] obj(2) u(1)
    by (auto simp: wp_def again split: option.splits outcome.splits)
qed

lemma sim_with_impl:
  assumes "sim (at_handle p a h0) (k a) m"
  shows "sim (at_handle p a h0) (with_impl (Some p) bad k) m"
proof (rule simI)
  fix s u
  assume R: "at_handle p a h0 s u"
  show "rel_option (rel_outcome (=) (at_handle p a h0)) (with_impl (Some p) bad k s) (m u)"
    unfolding run_with_impl [OF at_handleD(2) [OF R]] by (rule simD [OF assms R])
qed

lemma sim_status_call:
  "sim R m n \<Longrightarrow> sim R (status_call m) (object_status n)"
  unfolding status_call_def object_status_def ToCStatus_def DLMS_PROFILE_STATUS_INTERNAL_ERROR_def
  by (intro sim_intros)

text \<open>The check with \<open>dynamic_cast\<close> is the dispatch on the class.\<close>

lemma dispatch_data_link:
  "(if is_hdlc (self u) then object_status (dispatch fault fault m) u else Some (Ret 16 u)) =
     dispatch (ret 16) (ret 16) (object_status m) u"
  by (cases "self u")
     (auto simp: run_dispatch run_run_in object_status_def run_simps with_self_def
       split: option.splits outcome.splits)

lemma sim_data_link:
  assumes "hdlc_wiring_kept m"
  shows "sim (at_handle p a h0) (data_link_call m (Some p)) (dispatch (ret 16) (ret 16) (object_status m))"
  unfolding data_link_call_def
proof (rule sim_with_impl, rule simI)
  fix s u
  assume R: "at_handle p a h0 s u"
  from at_handleD(2) [OF R] obtain obj where obj:
    "hp_channels (self s) a = Some obj" "bind_transport (self s) obj = self u" by (rule handle_implE)
  have hdlc: "is_hdlc (co_impl obj) = is_hdlc (self u)" by (simp flip: obj(2))
  from simD [OF sim_status_call [OF sim_call_impl [OF transport_kept_dispatch [OF fault_keeps fault_keeps assms]]] R] R
  show "rel_option (rel_outcome (=) (at_handle p a h0))
      (bnd (AsHdlcChannel a) (\<lambda>hdlc. if \<not> hdlc then ret DLMS_PROFILE_STATUS_UNSUPPORTED_FEATURE
         else status_call (call_impl a (dispatch fault fault m))) s)
      (dispatch (ret 16) (ret 16) (object_status m) u)"
    unfolding dispatch_data_link [symmetric]
    by (simp add: AsHdlcChannel_def run_bnd run_with_this run_ret obj(1) hdlc
        DLMS_PROFILE_STATUS_UNSUPPORTED_FEATURE_def)
qed

lemma sim_c_op: "sim (at_handle p a h0) (c_op env p oper) (object_op env oper)"
proof -
  have is_open: "(\<lambda>open. ret (if open then 1 else 0)) = (\<lambda>open. ret (of_bool open))"
    by (simp add: fun_eq_iff)
  note defs = dlms_profile_open_def dlms_profile_close_def dlms_profile_is_open_def
    dlms_profile_connect_data_link_def dlms_profile_accept_data_link_def
    dlms_profile_disconnect_data_link_def dlms_profile_send_apdu_def dlms_profile_receive_apdu_def
  show ?thesis
    by (cases oper; simp only: c_op.simps object_op.simps defs is_open;
        intro sim_data_link sim_with_impl sim_status_call sim_intros sim_call_impl impl_transport_kept Data_link_wiring)
qed

lemma sim_run_ops: "(\<And>x. sim R (f x) (g x)) \<Longrightarrow> sim R (run_ops f xs) (run_ops g xs)"
  by (induction xs) (auto intro!: sim_intros)

lemma at_handle_start: "handle_impl (self s) p a impl \<Longrightarrow> at_handle p a (self s) s (with_self impl s)"
  by (simp add: at_handle_def)

end
