(* ===== verification/C_Safety.thy ===== *)
theory C_Safety
  imports C_Ownership C_Refinement
begin

text \<open>
  Memory safety of whole client programs of the C interface: with transports and callbacks that
  keep their contract, live handles, and views and buffers as large as stated, no call reaches
  undefined behaviour, whatever calls came before.
\<close>

section \<open>Honest objects\<close>

fun honest_impl :: "('td, 'a, 'k, 'd, 'r, 's, 'w) channel_impl \<Rightarrow> bool" where
  "honest_impl (TcpImpl c) = tcp_env_safe c"
| "honest_impl (UdpImpl c) = honest_datagram (udp_datagram c)"
| "honest_impl (HdlcImpl c) = (honest_stream (hdlc_stream c) \<and> safe_timer (hdlc_timer c))"

text \<open>
  A channel object is sound on its own account when it is honest but for the adapter it refers to;
  adapters have their own condition.
\<close>

fun honest_but_transport :: "('td, 'a, 'k, 'd, 'r, 's, 'w) channel_impl \<Rightarrow> bool" where
  "honest_but_transport (TcpImpl c) = safe_sink (wrapperTcpTraceSink (tcp_options c))"
| "honest_but_transport (UdpImpl c) = True"
| "honest_but_transport (HdlcImpl c) = safe_timer (hdlc_timer c)"

fun is_udp :: "('td, 'a, 'k, 'd, 'r, 's, 'w) channel_impl \<Rightarrow> bool" where
  "is_udp (UdpImpl c) = True"
| "is_udp _ = False"

definition sound_object :: "('td, 'a, 'k, 'd, 'r, 's, 'w) channel_object \<Rightarrow> bool" where
  "sound_object obj =
     (case co_transport obj of
        CallerTransport \<Rightarrow> honest_impl (co_impl obj)
      | StreamAdapter _ \<Rightarrow> honest_but_transport (co_impl obj) \<and> \<not> is_udp (co_impl obj)
      | DatagramAdapter _ \<Rightarrow> honest_but_transport (co_impl obj) \<and> is_udp (co_impl obj))"

definition honest_heap :: "('td, 'a, 'k, 'd, 'r, 's, 'w) c_heap \<Rightarrow> bool" where
  "honest_heap h \<longleftrightarrow>
     (\<forall>a obj. hp_channels h a = Some obj \<longrightarrow> sound_object obj) \<and>
     (\<forall>b cb. hp_streams h b = Some cb \<longrightarrow> honest_stream (CByteStreamAdapter cb)) \<and>
     (\<forall>b cb. hp_datagrams h b = Some cb \<longrightarrow> honest_datagram (CDatagramAdapter cb))"

lemma honest_but_transport_honest: "honest_impl impl \<Longrightarrow> honest_but_transport impl"
  by (cases impl) (simp_all add: tcp_env_safe_def)

lemma sound_with_adapter:
  "honest_but_transport impl \<Longrightarrow> \<not> is_udp impl \<Longrightarrow> honest_stream bs \<Longrightarrow> honest_impl (with_byte_stream bs impl)"
  "honest_but_transport impl \<Longrightarrow> is_udp impl \<Longrightarrow> honest_datagram dg \<Longrightarrow> honest_impl (with_datagram dg impl)"
  by (cases impl; simp add: tcp_env_safe_def)+

text \<open>In an orderly heap the reference of a sound channel leads to an honest transport.\<close>

lemma bind_transport_honest:
  assumes h: "orderly h" "honest_heap h" and a: "hp_channels h a = Some obj"
  shows "honest_impl (bind_transport h obj)"
proof -
  have sound: "sound_object obj" using h(2) a unfolding honest_heap_def by blast
  note alive = orderly_transport_alive [OF h(1) a]
  show ?thesis
  proof (cases "co_transport obj")
    case CallerTransport
    with sound show ?thesis by (simp add: bind_transport_def sound_object_def)
  next
    case (StreamAdapter b)
    with alive obtain cb where "hp_streams h b = Some cb" by blast
    with StreamAdapter sound h(2) show ?thesis
      by (simp add: bind_transport_def sound_object_def byte_stream_at_def honest_heap_def sound_with_adapter)
  next
    case (DatagramAdapter b)
    with alive obtain cb where "hp_datagrams h b = Some cb" by blast
    with DatagramAdapter sound h(2) show ?thesis
      by (simp add: bind_transport_def sound_object_def datagram_at_def honest_heap_def sound_with_adapter)
  qed
qed

lemma is_udp_bind [simp]: "is_udp (bind_transport h obj) = is_udp (co_impl obj)"
  by (cases "co_impl obj") (simp_all add: bind_transport_def split: transport_ref.split)

lemma same_transport_udp: "same_transport impl impl' \<Longrightarrow> is_udp impl' = is_udp impl"
  by (cases impl; cases impl'; simp)

lemma sound_object_stored:
  assumes "sound_object obj" and "honest_impl impl" and "same_transport (bind_transport h obj) impl"
  shows "sound_object (obj\<lparr>co_impl := impl\<rparr>)"
  using assms(1,2) same_transport_udp [OF assms(3)] honest_but_transport_honest [OF assms(2)]
  by (auto simp: sound_object_def split: transport_ref.splits)

text \<open>What a class of callbacks owes: no callback is undefined, and none reports more bytes than it got room for.\<close>

definition honest_read ::
  "(void_ptr \<Rightarrow> byte list \<Rightarrow> 'w \<Rightarrow> (dlms_profile_status_t \<times> byte list \<times> size_t, 'w) outcome) \<Rightarrow> bool"
  where
  "honest_read f \<longleftrightarrow> (\<forall>u buf w. case f u buf w of
     Ret r _ \<Rightarrow> (case r of (st, buf', n) \<Rightarrow> length buf' = length buf \<and> n \<le> length buf)
   | Throw _ \<Rightarrow> True
   | Fault \<Rightarrow> False)"

definition honest_byte_stream_callbacks :: "'w dlms_profile_byte_stream_callbacks_t \<Rightarrow> bool" where
  "honest_byte_stream_callbacks cb \<longleftrightarrow>
     (\<forall>f u w. bc_open cb = Some f \<longrightarrow> f u w \<noteq> Fault) \<and>
     (\<forall>f u w. bc_close cb = Some f \<longrightarrow> f u w \<noteq> Fault) \<and>
     (\<forall>f u w. bc_is_open cb = Some f \<longrightarrow> f u w \<noteq> Fault) \<and>
     (\<forall>f. bc_read_some cb = Some f \<longrightarrow> honest_read f) \<and>
     (\<forall>f u bytes w. bc_write_all cb = Some f \<longrightarrow> f u bytes w \<noteq> Fault)"

definition honest_datagram_callbacks :: "'w dlms_profile_datagram_callbacks_t \<Rightarrow> bool" where
  "honest_datagram_callbacks cb \<longleftrightarrow>
     (\<forall>f u w. dc_open cb = Some f \<longrightarrow> f u w \<noteq> Fault) \<and>
     (\<forall>f u w. dc_close cb = Some f \<longrightarrow> f u w \<noteq> Fault) \<and>
     (\<forall>f u w. dc_is_open cb = Some f \<longrightarrow> f u w \<noteq> Fault) \<and>
     (\<forall>f u bytes w. dc_send cb = Some f \<longrightarrow> f u bytes w \<noteq> Fault) \<and>
     (\<forall>f. dc_receive cb = Some f \<longrightarrow> honest_read f)"

lemma map_outcome_fault [simp]: "map_outcome g h r = Fault \<longleftrightarrow> r = Fault"
  by (cases r) simp_all

lemma honest_readD:
  assumes "honest_read f"
  shows "case map_outcome (\<lambda>(status, output, n). (ToTransportStatus status, output, n)) id (f u buf w) of
     Ret r _ \<Rightarrow> (case r of (st, buf', n) \<Rightarrow> length buf' = length buf \<and> n \<le> length buf)
   | Throw _ \<Rightarrow> True
   | Fault \<Rightarrow> False"
proof -
  from assms have "case f u buf w of
     Ret r _ \<Rightarrow> (case r of (st, buf', n) \<Rightarrow> length buf' = length buf \<and> n \<le> length buf)
   | Throw _ \<Rightarrow> True
   | Fault \<Rightarrow> False" unfolding honest_read_def by blast
  then show ?thesis by (cases "f u buf w") auto
qed

lemma CByteStreamAdapter_honest:
  assumes "ValidByteStreamCallbacks (Some cb)" and "honest_byte_stream_callbacks cb"
  shows "honest_stream (CByteStreamAdapter cb)"
  using assms honest_readD
  by (auto simp: ValidByteStreamCallbacks_def honest_byte_stream_callbacks_def honest_stream_def
      CByteStreamAdapter_def call_pointer_def)

lemma CDatagramAdapter_honest:
  assumes "ValidDatagramCallbacks (Some cb)" and "honest_datagram_callbacks cb"
  shows "honest_datagram (CDatagramAdapter cb)"
  using assms honest_readD
  by (auto simp: ValidDatagramCallbacks_def honest_datagram_callbacks_def honest_datagram_def
      CDatagramAdapter_def call_pointer_def)

section \<open>Virtual calls\<close>

text \<open>
  \<open>safe_call P m\<close>: on an honest object and a memory with \<open>P\<close>, the member function is defined
  and leaves the object honest, with the same transport.
\<close>

definition safe_call :: "(caller_mem \<Rightarrow> bool) \<Rightarrow> ('td, 'a, 'k, 'd, 'r, 's, 'w, 'v) impl_prog \<Rightarrow> bool" where
  "safe_call P m \<longleftrightarrow> (\<forall>s. honest_impl (self s) \<longrightarrow> P (mem s) \<longrightarrow>
     wp True False m (\<lambda>_ t. honest_impl (self t) \<and> same_transport (self s) (self t))
       (\<lambda>t. honest_impl (self t) \<and> same_transport (self s) (self t)) s)"

definition safe_tcp :: "(caller_mem \<Rightarrow> bool) \<Rightarrow> (('td, 'w) WrapperTcpProfileChannel, 'w, 'v) mprog \<Rightarrow> bool"
  where
  "safe_tcp P m \<longleftrightarrow> tcp_wiring_kept m \<and>
     (\<forall>s. tcp_env_safe (self s) \<longrightarrow> P (mem s) \<longrightarrow> m s \<noteq> Some Fault)"

definition safe_udp :: "(caller_mem \<Rightarrow> bool) \<Rightarrow> ('w WrapperUdpProfileChannel, 'w, 'v) mprog \<Rightarrow> bool" where
  "safe_udp P m \<longleftrightarrow> udp_wiring_kept m \<and>
     (\<forall>s. honest_datagram (udp_datagram (self s)) \<longrightarrow> P (mem s) \<longrightarrow> m s \<noteq> Some Fault)"

definition safe_hdlc ::
  "(caller_mem \<Rightarrow> bool) \<Rightarrow> (('a, 'k, 'd, 'r, 's, 'w) HdlcProfileChannel, 'w, 'v) mprog \<Rightarrow> bool" where
  "safe_hdlc P m \<longleftrightarrow> hdlc_wiring_kept m \<and>
     (\<forall>s. honest_stream (hdlc_stream (self s)) \<longrightarrow> safe_timer (hdlc_timer (self s)) \<longrightarrow>
        P (mem s) \<longrightarrow> m s \<noteq> Some Fault)"

lemma wp_keeps_no_fault:
  assumes "keeps g m" and "m s \<noteq> Some Fault"
    and "\<And>v t. g t = g s \<Longrightarrow> Q v t" and "\<And>t. g t = g s \<Longrightarrow> E t"
  shows "wp True False m Q E s"
  using keepsD [OF assms(1), of s] assms(2-4) by (auto simp: wp_def split: option.splits outcome.splits)

lemma safe_dispatch:
  fixes tcp :: "(('td, 'w) WrapperTcpProfileChannel, 'w, 'v) mprog"
    and hdlc :: "(('a, 'k, 'd, 'r, 's, 'w) HdlcProfileChannel, 'w, 'v) mprog"
  assumes "safe_tcp P tcp" and "safe_udp P udp" and "safe_hdlc P hdlc"
  shows "safe_call P (dispatch tcp udp hdlc)"
  unfolding safe_call_def
proof (intro allI impI, rule wp_dispatch)
  fix s :: "(('td, 'a, 'k, 'd, 'r, 's, 'w) channel_impl, 'w) sys"
  assume s: "honest_impl (self s)" "P (mem s)"
  let ?ok = "\<lambda>t. honest_impl (self t) \<and> same_transport (self s) (self t)"
  show "wp True False tcp (\<lambda>v t. ?ok (with_self (TcpImpl (self t)) t))
      (\<lambda>t. ?ok (with_self (TcpImpl (self t)) t)) (with_self c s)"
    if "self s = TcpImpl c" for c
    using assms(1) s that unfolding safe_tcp_def
    by (intro wp_keeps_no_fault [where g = "\<lambda>s. tcp_constants (self s)"])
       (auto simp: tcp_env_safe_def tcp_constants_def)
  show "wp True False udp (\<lambda>v t. ?ok (with_self (UdpImpl (self t)) t))
      (\<lambda>t. ?ok (with_self (UdpImpl (self t)) t)) (with_self c s)"
    if "self s = UdpImpl c" for c
    using assms(2) s that unfolding safe_udp_def
    by (intro wp_keeps_no_fault [where g = "\<lambda>s. udp_datagram (self s)"]) auto
  show "wp True False hdlc (\<lambda>v t. ?ok (with_self (HdlcImpl (self t)) t))
      (\<lambda>t. ?ok (with_self (HdlcImpl (self t)) t)) (with_self c s)"
    if "self s = HdlcImpl c" for c
    using assms(3) s that unfolding safe_hdlc_def
    by (intro wp_keeps_no_fault [where g = "\<lambda>s. hdlc_wires (self s)"]) (auto simp: hdlc_wires_def)
qed

lemma ext_no_fault: "g (world s) \<noteq> Fault \<Longrightarrow> ext g s \<noteq> Some Fault"
  by (simp add: ext_def split: outcome.splits)

lemma ext_transport_no_fault: "g (world s) \<noteq> Fault \<Longrightarrow> ext_transport g s \<noteq> Some Fault"
  by (simp add: ext_transport_def run_simps split: outcome.splits)

lemma Tcp_no_fault:
  assumes "tcp_env_safe (self s)"
  shows "Tcp_Open s \<noteq> Some Fault" and "Tcp_Close wd s \<noteq> Some Fault" and "Tcp_IsOpen s \<noteq> Some Fault"
    and "view_backed apdu \<Longrightarrow> Tcp_SendApdu cd apdu s \<noteq> Some Fault"
    and "buffer_backed out (mem s) \<Longrightarrow> Tcp_ReceiveBuffer cd wd al out s \<noteq> Some Fault"
  using assms wp_no_fault [OF wp_Tcp_SendApdu_safe [OF assms]]
    wp_no_fault [OF wp_Tcp_ReceiveBuffer_safe [OF assms]]
  by (simp_all add: Tcp_Open_def Tcp_Close_def Tcp_IsOpen_def run_with_this run_next_do run_bnd
      run_set_this tcp_env_safe_def honest_stream_def ext_no_fault ext_transport_no_fault)

lemma Udp_no_fault:
  assumes "honest_datagram (udp_datagram (self s))"
  shows "Udp_Open s \<noteq> Some Fault" and "Udp_Close s \<noteq> Some Fault" and "Udp_IsOpen s \<noteq> Some Fault"
    and "view_backed apdu \<Longrightarrow> Udp_SendApdu cd apdu s \<noteq> Some Fault"
    and "buffer_backed out (mem s) \<Longrightarrow> Udp_ReceiveBuffer cd out s \<noteq> Some Fault"
  using assms wp_no_fault [OF Udp_SendApdu_returns [OF assms]]
    wp_no_fault [OF Udp_ReceiveBuffer_returns [OF assms]]
  by (simp_all add: Udp_Open_def Udp_Close_def Udp_IsOpen_def run_with_this run_next_do run_bnd
      run_set_this honest_datagram_def ext_no_fault ext_transport_no_fault)

lemma Hdlc_no_fault:
  assumes "honest_stream (hdlc_stream (self s))" and "safe_timer (hdlc_timer (self s))"
  shows "Hdlc_Open s \<noteq> Some Fault" and "Hdlc_Close env s \<noteq> Some Fault" and "Hdlc_IsOpen s \<noteq> Some Fault"
    and "view_backed apdu \<Longrightarrow> Hdlc_SendApdu env apdu s \<noteq> Some Fault"
    and "buffer_backed out (mem s) \<Longrightarrow> Hdlc_ReceiveBuffer env out s \<noteq> Some Fault"
    and "ConnectDataLink env s \<noteq> Some Fault" and "AcceptDataLink env s \<noteq> Some Fault"
    and "DisconnectDataLink env s \<noteq> Some Fault"
proof -
  note ok = hdlc_env_ok_safe [OF assms, where rank = "\<lambda>_. 0" and al = "env_alloc env"]
  show "Hdlc_Open s \<noteq> Some Fault" and "Hdlc_Close env s \<noteq> Some Fault" and "Hdlc_IsOpen s \<noteq> Some Fault"
    using assms(1)
    by (simp_all add: Hdlc_Open_def Hdlc_Close_def Hdlc_IsOpen_def run_with_this run_next_do run_bnd
        run_set_this honest_stream_def ext_no_fault ext_transport_no_fault)
  show "Hdlc_SendApdu env apdu s \<noteq> Some Fault" if "view_backed apdu"
    by (rule steps_no_fault [OF Hdlc_SendApdu_runs [OF disjI2 [OF that]] ok])
  show "Hdlc_ReceiveBuffer env out s \<noteq> Some Fault" if "buffer_backed out (mem s)"
    by (rule wp_no_fault [OF wp_Hdlc_ReceiveBuffer_runs [OF ok disjI2 [OF that]]])
  show "ConnectDataLink env s \<noteq> Some Fault" by (rule steps_no_fault [OF ConnectDataLink_runs ok])
  show "AcceptDataLink env s \<noteq> Some Fault" by (rule steps_no_fault [OF AcceptDataLink_runs ok])
  show "DisconnectDataLink env s \<noteq> Some Fault" by (rule steps_no_fault [OF DisconnectDataLink_runs ok])
qed

lemma safe_impl_calls:
  "safe_call (\<lambda>_. True) impl_Open" "safe_call (\<lambda>_. True) (impl_Close env)"
  "safe_call (\<lambda>_. True) impl_IsOpen" "safe_call (\<lambda>_. view_backed apdu) (impl_SendApdu env apdu)"
  "safe_call (buffer_backed out) (impl_ReceiveBuffer env out)"
  unfolding impl_Open_def impl_Close_def impl_IsOpen_def impl_SendApdu_def impl_ReceiveBuffer_def
  by (rule safe_dispatch; simp add: safe_tcp_def safe_udp_def safe_hdlc_def Tcp_wiring Udp_wiring
      Hdlc_wiring Hdlc_SendApdu_wiring Tcp_no_fault Udp_no_fault Hdlc_no_fault)+

section \<open>Calls through handles\<close>

definition safe_heap :: "('td, 'a, 'k, 'd, 'r, 's, 'w) c_heap \<Rightarrow> bool" where
  "safe_heap h \<longleftrightarrow> orderly h \<and> honest_heap h"

text \<open>The pointers a client may pass: null or a handle that has not been destroyed.\<close>

definition live :: "('td, 'a, 'k, 'd, 'r, 's, 'w) c_heap \<Rightarrow> addr option \<Rightarrow> bool" where
  "live h p \<longleftrightarrow> (\<forall>q. p = Some q \<longrightarrow> hp_handles h q \<noteq> None)"

lemma honest_heap_stored:
  assumes "honest_heap (self s)" and "hp_channels (self s) a = Some obj"
    and "honest_impl (self t)" and "same_transport (bind_transport (self s) obj) (self t)"
  shows "honest_heap (self (stored a (self s) t))"
  using assms sound_object_stored [OF _ assms(3,4)] by (auto simp: honest_heap_def)

lemma wp_call_impl_safe:
  assumes "safe_call P m" and s: "orderly (self s)" "honest_heap (self s)"
    and "hp_channels (self s) a \<noteq> None" and "P (mem s)"
  shows "wp True False (call_impl a m) (\<lambda>_ t. honest_heap (self t)) (\<lambda>t. honest_heap (self t)) s"
proof -
  from assms(4) obtain obj where obj: "hp_channels (self s) a = Some obj" by auto
  let ?impl = "bind_transport (self s) obj"
  have "honest_impl ?impl" by (rule bind_transport_honest [OF s obj])
  with assms(1,5) have "wp True False m (\<lambda>_ t. honest_impl (self t) \<and> same_transport ?impl (self t))
      (\<lambda>t. honest_impl (self t) \<and> same_transport ?impl (self t)) (with_self ?impl s)"
    unfolding safe_call_def by (auto dest: spec [of _ "with_self ?impl s"])
  then show ?thesis
    unfolding wp_call_impl [OF obj] by (rule wp_conseq) (auto intro: honest_heap_stored [OF s(2) obj])
qed

lemma wp_with_impl_safe:
  assumes h: "orderly (self s)" and p: "live (self s) p" and bad: "Q bad s"
    and k: "\<And>a. hp_channels (self s) a \<noteq> None \<Longrightarrow> wp d False (k a) Q E s"
  shows "wp d False (with_impl p bad k) Q E s"
proof (cases p)
  case (Some q)
  with p obtain c where c: "hp_handles (self s) q = Some c" unfolding live_def by blast
  with h obtain a where a: "ch_impl c = Some a" unfolding orderly_def by blast
  with h c have "hp_channels (self s) a \<noteq> None" unfolding orderly_def by (blast dest: owned_by_live)
  with k c a Some show ?thesis by (simp add: with_impl_def wp_simps)
qed (simp add: with_impl_def wp_simps bad)

text \<open>Every call through a live handle, as a program on the heap.\<close>

definition safe_at ::
  "(('td, 'a, 'k, 'd, 'r, 's, 'w) c_heap, 'w) sys \<Rightarrow> ('td, 'a, 'k, 'd, 'r, 's, 'w, 'v) c_prog \<Rightarrow> bool" where
  "safe_at s m \<longleftrightarrow> wp True False m (\<lambda>_ t. honest_heap (self t)) (\<lambda>t. honest_heap (self t)) s"

lemma safe_status_call: "safe_at s m \<Longrightarrow> safe_at s (status_call m)"
  by (simp add: safe_at_def wp_status_call)

lemma safe_with_impl:
  assumes "safe_heap (self s)" and "live (self s) p"
    and "\<And>a. hp_channels (self s) a \<noteq> None \<Longrightarrow> safe_at s (k a)"
  shows "safe_at s (with_impl p bad k)"
  using assms unfolding safe_at_def safe_heap_def by (auto intro: wp_with_impl_safe)

lemma safe_call_impl:
  assumes "safe_heap (self s)" and "safe_call P m" and "P (mem s)" and "hp_channels (self s) a \<noteq> None"
  shows "safe_at s (call_impl a m)"
  using assms unfolding safe_at_def safe_heap_def by (auto intro: wp_call_impl_safe)

lemma safe_data_link_call:
  assumes s: "safe_heap (self s)" "live (self s) p" and m: "hdlc_wiring_kept m"
    and ok: "\<And>s. honest_stream (hdlc_stream (self s)) \<Longrightarrow> safe_timer (hdlc_timer (self s)) \<Longrightarrow> m s \<noteq> Some Fault"
  shows "safe_at s (data_link_call m p)"
  unfolding data_link_call_def
proof (rule safe_with_impl [OF s])
  fix a
  assume "hp_channels (self s) a \<noteq> None"
  then obtain obj where a: "hp_channels (self s) a = Some obj" by auto
  have h: "orderly (self s)" "honest_heap (self s)" using s(1) by (simp_all add: safe_heap_def)
  have "safe_at s (status_call (call_impl a (dispatch fault fault m)))" if "is_hdlc (co_impl obj)"
  proof (rule safe_status_call)
    from that obtain c where c: "bind_transport (self s) obj = HdlcImpl c"
      using is_hdlc_bind [of "self s" obj] by (cases "bind_transport (self s) obj") auto
    have "honest_stream (hdlc_stream c) \<and> safe_timer (hdlc_timer c)"
      using bind_transport_honest [OF h a] c by simp
    with ok have "wp True False m
        (\<lambda>v t. honest_impl (HdlcImpl (self t)) \<and> same_transport (HdlcImpl c) (HdlcImpl (self t)))
        (\<lambda>t. honest_impl (HdlcImpl (self t)) \<and> same_transport (HdlcImpl c) (HdlcImpl (self t))) (with_self c s)"
      by (intro wp_keeps_no_fault [OF m]) (auto simp: hdlc_wires_def)
    then show "safe_at s (call_impl a (dispatch fault fault m))"
      unfolding safe_at_def wp_call_impl [OF a] using c honest_heap_stored [OF h(2) a]
      by (intro wp_dispatch) (auto elim!: wp_conseq)
  qed
  with a h show "safe_at s (bnd (AsHdlcChannel a) (\<lambda>hdlc.
       if \<not> hdlc then ret DLMS_PROFILE_STATUS_UNSUPPORTED_FEATURE
       else status_call (call_impl a (dispatch fault fault m))))"
    by (simp add: safe_at_def AsHdlcChannel_def wp_simps)
qed

section \<open>Creating honest objects\<close>

abbreviation honest_steps :: "('td, 'a, 'k, 'd, 'r, 's, 'w, 'v) c_prog \<Rightarrow> bool" where
  "honest_steps m \<equiv> steps True True (\<lambda>s. honest_heap (self s)) (\<lambda>_ _. True) m"

lemma honest_steps_delete [steps_intros]:
  "honest_steps (delete_channel p)" "honest_steps (delete_stream p)" "honest_steps (delete_datagram p)"
  unfolding delete_channel_def delete_stream_def delete_datagram_def delete_object_def
  by (intro steps_intros preord_True TrueI; simp add: honest_heap_def)+

lemma honest_steps_new [steps_intros]:
  "honest_stream (CByteStreamAdapter bcb) \<Longrightarrow> honest_steps (new_object al hp_streams_update bcb)"
  "honest_datagram (CDatagramAdapter dcb) \<Longrightarrow> honest_steps (new_object al hp_datagrams_update dcb)"
  "honest_steps (new_object al hp_handles_update c)"
  unfolding new_object_def new_at_def
  by (intro steps_intros preord_True TrueI; simp add: honest_heap_def)+

lemma honest_steps_new_channel:
  "sound_object \<lparr>co_impl = impl, co_transport = transport\<rparr> \<Longrightarrow>
     honest_steps (new_channel al room impl transport)"
  unfolding new_channel_def new_at_def
  by (intro steps_intros preord_True TrueI; simp add: honest_heap_def)

lemma honest_steps_Wrap [steps_intros]: "honest_steps (WrapChannelWithOwned al impl bs dg)"
  unfolding WrapChannelWithOwned_def by (intro steps_intros preord_True TrueI)

lemma make_honest:
  fixes env :: "('td, 'a, 'k, 'h, 'd, 'r, 's, 'w) c_env"
  shows "honest_stream stream \<Longrightarrow> honest_steps (make_tcp env stream CallerTransport opts)"
    and "honest_datagram datagram \<Longrightarrow> honest_steps (make_udp env datagram CallerTransport opts)"
    and "honest_stream stream \<Longrightarrow> safe_timer (Some (ce_timer env)) \<Longrightarrow>
      honest_steps (make_hdlc env stream CallerTransport opts)"
    and "honest_steps (make_tcp env stream (StreamAdapter b) opts)"
    and "honest_steps (make_udp env datagram (DatagramAdapter b) opts)"
    and "safe_timer (Some (ce_timer env)) \<Longrightarrow> honest_steps (make_hdlc env stream (StreamAdapter b) opts)"
proof -
  have opts: "wrapperTcpTraceSink (ToCppOptions ports opts) = None" for ports opts
    by (simp add: ToCppOptions_def DefaultApduChannelOptions_def split: option.splits)
  note channels = WrapperTcpProfileChannel_def WrapperUdpProfileChannel_def HdlcProfileChannel_def
    HdlcProfileChannel_timer_def
  show "honest_steps (make_tcp env stream CallerTransport opts)" if "honest_stream stream"
    unfolding make_tcp_def Let_def
    by (rule honest_steps_new_channel) (simp add: sound_object_def channels tcp_env_safe_def safe_sink_def opts that)
  show "honest_steps (make_udp env datagram CallerTransport opts)" if "honest_datagram datagram"
    unfolding make_udp_def Let_def
    by (rule honest_steps_new_channel) (simp add: sound_object_def channels that)
  show "honest_steps (make_hdlc env stream CallerTransport opts)"
    if "honest_stream stream" "safe_timer (Some (ce_timer env))"
    unfolding make_hdlc_def Let_def
    by (rule honest_steps_new_channel) (simp add: sound_object_def channels Let_def that split: sum.split)
  show "honest_steps (make_tcp env stream (StreamAdapter b) opts)"
    unfolding make_tcp_def Let_def
    by (rule honest_steps_new_channel) (simp add: sound_object_def channels safe_sink_def opts)
  show "honest_steps (make_udp env datagram (DatagramAdapter b) opts)"
    unfolding make_udp_def Let_def
    by (rule honest_steps_new_channel) (simp add: sound_object_def channels)
  show "honest_steps (make_hdlc env stream (StreamAdapter b) opts)" if "safe_timer (Some (ce_timer env))"
    unfolding make_hdlc_def Let_def
    by (rule honest_steps_new_channel) (simp add: sound_object_def channels Let_def that split: sum.split)
qed

section \<open>Safe programs\<close>

text \<open>
  What a client owes in a call: transports and callbacks that keep their contract, pointers that are
  null or live, and an APDU and a receive buffer as large as it says.
\<close>

fun owed :: "('td, 'a, 'k, 'd, 'r, 's, 'w) c_heap \<Rightarrow> caller_mem \<Rightarrow> 'w c_call \<Rightarrow> bool" where
  "owed h m (CreateTcp bs opts) = (\<forall>b. bs = Some b \<longrightarrow> honest_stream b)"
| "owed h m (CreateUdp dg opts) = (\<forall>b. dg = Some b \<longrightarrow> honest_datagram b)"
| "owed h m (CreateHdlc bs opts) = (\<forall>b. bs = Some b \<longrightarrow> honest_stream b)"
| "owed h m (CreateTcpFromCallbacks cb opts) = (\<forall>b. cb = Some b \<longrightarrow> honest_byte_stream_callbacks b)"
| "owed h m (CreateUdpFromCallbacks cb opts) = (\<forall>b. cb = Some b \<longrightarrow> honest_datagram_callbacks b)"
| "owed h m (CreateHdlcFromCallbacks cb opts) = (\<forall>b. cb = Some b \<longrightarrow> honest_byte_stream_callbacks b)"
| "owed h m (Destroy p) = live h p"
| "owed h m (CallOpen p) = live h p"
| "owed h m (CallClose p) = live h p"
| "owed h m (CallIsOpen p) = live h p"
| "owed h m (CallConnect p) = live h p"
| "owed h m (CallAccept p) = live h p"
| "owed h m (CallDisconnect p) = live h p"
| "owed h m (CallSend p apdu n) = (live h p \<and> view_backed \<lparr>bv_data = apdu, bv_size = n\<rparr>)"
| "owed h m (CallReceive p out n written) =
     (live h p \<and> buffer_backed \<lparr>mb_data = out, mb_size = n, mb_writtenSize = written\<rparr> m)"

inductive safely_reaches ::
  "('td, 'a, 'k, 'h, 'd, 'r, 's, 'w) c_env \<Rightarrow> (('td, 'a, 'k, 'd, 'r, 's, 'w) c_heap, 'w) sys \<Rightarrow>
   (('td, 'a, 'k, 'd, 'r, 's, 'w) c_heap, 'w) sys \<Rightarrow> bool" for env s where
  start: "safely_reaches env s s"
| call: "safely_reaches env s t \<Longrightarrow> owed (self t) (mem t) c \<Longrightarrow> perform env c t = Some (Ret () u) \<Longrightarrow>
    safely_reaches env s u"
| caller: "safely_reaches env s t \<Longrightarrow> safely_reaches env s (t\<lparr>mem := m, world := w\<rparr>)"

lemma safe_creates:
  fixes env :: "('td, 'a, 'k, 'h, 'd, 'r, 's, 'w) c_env"
  assumes "safe_timer (Some (ce_timer env))"
  shows "(\<And>b. bs = Some b \<Longrightarrow> honest_stream b) \<Longrightarrow>
      honest_steps (dlms_profile_create_wrapper_tcp_channel env bs opts)"
    and "(\<And>b. dg = Some b \<Longrightarrow> honest_datagram b) \<Longrightarrow>
      honest_steps (dlms_profile_create_wrapper_udp_channel env dg opts)"
    and "(\<And>b. bs = Some b \<Longrightarrow> honest_stream b) \<Longrightarrow>
      honest_steps (dlms_profile_create_hdlc_channel env bs opts)"
    and "(\<And>b. cb = Some b \<Longrightarrow> honest_byte_stream_callbacks b) \<Longrightarrow>
      honest_steps (dlms_profile_create_wrapper_tcp_channel_from_callbacks env cb opts)"
    and "(\<And>b. dcb = Some b \<Longrightarrow> honest_datagram_callbacks b) \<Longrightarrow>
      honest_steps (dlms_profile_create_wrapper_udp_channel_from_callbacks env dcb opts)"
    and "(\<And>b. cb = Some b \<Longrightarrow> honest_byte_stream_callbacks b) \<Longrightarrow>
      honest_steps (dlms_profile_create_hdlc_channel_from_callbacks env cb opts)"
proof -
  have stream: "honest_stream (CByteStreamAdapter (the cb))"
    if "ValidByteStreamCallbacks cb" "\<And>b. cb = Some b \<Longrightarrow> honest_byte_stream_callbacks b" for cb
    using that by (cases cb) (simp_all add: CByteStreamAdapter_honest ValidByteStreamCallbacks_def [of None])
  have datagram: "honest_datagram (CDatagramAdapter (the dcb))"
    if "ValidDatagramCallbacks dcb" "\<And>b. dcb = Some b \<Longrightarrow> honest_datagram_callbacks b" for dcb
    using that by (cases dcb) (simp_all add: CDatagramAdapter_honest ValidDatagramCallbacks_def [of None])
  show "honest_steps (dlms_profile_create_wrapper_tcp_channel env bs opts)"
    if "\<And>b. bs = Some b \<Longrightarrow> honest_stream b"
    unfolding dlms_profile_create_wrapper_tcp_channel_def WrapChannel_def
    by (intro steps_intros make_honest that preord_True)
  show "honest_steps (dlms_profile_create_wrapper_udp_channel env dg opts)"
    if "\<And>b. dg = Some b \<Longrightarrow> honest_datagram b"
    unfolding dlms_profile_create_wrapper_udp_channel_def WrapChannel_def
    by (intro steps_intros make_honest that preord_True)
  show "honest_steps (dlms_profile_create_hdlc_channel env bs opts)"
    if "\<And>b. bs = Some b \<Longrightarrow> honest_stream b"
    unfolding dlms_profile_create_hdlc_channel_def WrapChannel_def
    by (intro steps_intros make_honest that assms preord_True)
  show "honest_steps (dlms_profile_create_wrapper_tcp_channel_from_callbacks env cb opts)"
    if "\<And>b. cb = Some b \<Longrightarrow> honest_byte_stream_callbacks b"
    unfolding dlms_profile_create_wrapper_tcp_channel_from_callbacks_def on_unwind_def
    by (intro steps_intros make_honest stream that preord_True; simp)
  show "honest_steps (dlms_profile_create_wrapper_udp_channel_from_callbacks env dcb opts)"
    if "\<And>b. dcb = Some b \<Longrightarrow> honest_datagram_callbacks b"
    unfolding dlms_profile_create_wrapper_udp_channel_from_callbacks_def on_unwind_def
    by (intro steps_intros make_honest datagram that preord_True; simp)
  show "honest_steps (dlms_profile_create_hdlc_channel_from_callbacks env cb opts)"
    if "\<And>b. cb = Some b \<Longrightarrow> honest_byte_stream_callbacks b"
    unfolding dlms_profile_create_hdlc_channel_from_callbacks_def on_unwind_def
    by (intro steps_intros make_honest stream that assms preord_True; simp)
qed

lemma safe_at_discard: "safe_at s m \<Longrightarrow> safe_at s (discard m)"
  by (simp add: safe_at_def wp_discard)

lemma safe_at_create:
  assumes "safe_heap (self s)" and "honest_steps m" and "wp True False m (makes (self s) (mem s)) (\<lambda>_. False) s"
  shows "safe_at s (discard m)"
proof (rule safe_at_discard, unfold safe_at_def)
  have "honest_heap (self s)" using assms(1) by (simp add: safe_heap_def)
  from wp_conj [OF assms(3) stepsD [OF assms(2) this]]
  have "wp (True \<and> True) (False \<and> True) m (\<lambda>_ t. honest_heap (self t)) (\<lambda>t. honest_heap (self t)) s"
    by (rule wp_conseq) simp_all
  then show "wp True False m (\<lambda>_ t. honest_heap (self t)) (\<lambda>t. honest_heap (self t)) s" by simp
qed

lemma safe_destroy:
  assumes s: "safe_heap (self s)" and p: "live (self s) p"
  shows "safe_at s (dlms_profile_destroy_channel p)"
proof (cases p)
  case None
  with s show ?thesis by (simp add: safe_at_def safe_heap_def dlms_profile_destroy_channel_def wp_ret)
next
  case (Some q)
  with p obtain c where c: "hp_handles (self s) q = Some c" unfolding live_def by blast
  have "honest_heap (self t)" if "destroyed (self s) q c (self t)" for t
    using s that by (auto simp: safe_heap_def honest_heap_def destroyed_def remove_opt_def
        split: option.splits if_splits)
  moreover have "orderly (self s)" using s by (simp add: safe_heap_def)
  ultimately show ?thesis
    unfolding safe_at_def Some by (intro wp_conseq [OF wp_destroy [OF _ c, where E = "\<lambda>_. False"]]) auto
qed

lemma safe_functions:
  assumes s: "safe_heap (self s)" and p: "live (self s) p"
  shows "safe_at s (dlms_profile_open p)" and "safe_at s (dlms_profile_close env p)"
    and "safe_at s (dlms_profile_is_open p)"
    and "view_backed \<lparr>bv_data = apdu, bv_size = n\<rparr> \<Longrightarrow> safe_at s (dlms_profile_send_apdu env p apdu n)"
    and "buffer_backed \<lparr>mb_data = out, mb_size = n, mb_writtenSize = written\<rparr> (mem s) \<Longrightarrow>
      safe_at s (dlms_profile_receive_apdu env p out n written)"
proof -
  note through = safe_with_impl [OF s p] safe_status_call
  show "safe_at s (dlms_profile_open p)"
    unfolding dlms_profile_open_def by (intro through safe_call_impl [OF s safe_impl_calls(1)] TrueI)
  show "safe_at s (dlms_profile_close env p)"
    unfolding dlms_profile_close_def by (intro through safe_call_impl [OF s safe_impl_calls(2)] TrueI)
  show "safe_at s (dlms_profile_send_apdu env p apdu n)" if "view_backed \<lparr>bv_data = apdu, bv_size = n\<rparr>"
    unfolding dlms_profile_send_apdu_def by (intro through safe_call_impl [OF s safe_impl_calls(4)] that)
  show "safe_at s (dlms_profile_receive_apdu env p out n written)"
    if "buffer_backed \<lparr>mb_data = out, mb_size = n, mb_writtenSize = written\<rparr> (mem s)"
    unfolding dlms_profile_receive_apdu_def
    by (intro through safe_call_impl [OF s safe_impl_calls(5)] that)
  have "safe_at s (try_catch (bnd (call_impl a impl_IsOpen) (\<lambda>open. ret (if open then 1 else 0))) (ret (0 :: int)))"
    if "hp_channels (self s) a \<noteq> None" for a
    using safe_call_impl [OF s safe_impl_calls(3) TrueI that] by (simp add: safe_at_def wp_simps)
  then show "safe_at s (dlms_profile_is_open p)"
    unfolding dlms_profile_is_open_def by (intro safe_with_impl [OF s p])
qed

lemma perform_safe:
  assumes s: "safe_heap (self s)" and timer: "safe_timer (Some (ce_timer env))"
    and c: "owed (self s) (mem s) c"
  shows "safe_at s (perform env c)"
proof -
  have "fresh_heap (self s)" using s by (simp add: safe_heap_def orderly_def)
  note create = safe_at_create [OF s safe_creates(1) [OF timer] wp_create(1) [OF this]]
    safe_at_create [OF s safe_creates(2) [OF timer] wp_create(2) [OF this]]
    safe_at_create [OF s safe_creates(3) [OF timer] wp_create(3) [OF this]]
    safe_at_create [OF s safe_creates(4) [OF timer] wp_create(4) [OF this]]
    safe_at_create [OF s safe_creates(5) [OF timer] wp_create(5) [OF this]]
    safe_at_create [OF s safe_creates(6) [OF timer] wp_create(6) [OF this]]
  show ?thesis
    by (cases c)
       (use c in \<open>simp_all add: create safe_destroy [OF s] safe_at_discard safe_functions [OF s]
          dlms_profile_connect_data_link_def dlms_profile_accept_data_link_def
          dlms_profile_disconnect_data_link_def safe_data_link_call [OF s] Data_link_wiring Hdlc_no_fault\<close>)
qed

lemma safely_reaches_heap:
  "safely_reaches env s t \<Longrightarrow> safe_timer (Some (ce_timer env)) \<Longrightarrow> safe_heap (self s) \<Longrightarrow> safe_heap (self t)"
proof (induction rule: safely_reaches.induct)
  case (call t c u)
  have t: "safe_heap (self t)" by (intro call.IH call.prems)
  have "orderly (self u)"
    using wp_retD [OF perform_orderly call.hyps(3)] t by (simp add: safe_heap_def)
  moreover have "honest_heap (self u)"
    using wp_retD [OF perform_safe [OF t call.prems(1) call.hyps(2), unfolded safe_at_def] call.hyps(3)] .
  ultimately show ?case by (simp add: safe_heap_def)
qed simp_all

end
