(* ===== verification/C_Api_Properties.thy ===== *)
theory C_Api_Properties
  imports C_Safety Wrapper_Tcp_Stream Wrapper_Tcp_Properties Wrapper_Udp_Properties Hdlc_Properties
begin

text \<open>The properties of the C interface, with applications to concrete programs.\<close>

section \<open>A concrete heap\<close>

type_synonym example_c_heap =
  "(byte list, byte, byte, byte list, byte list, example_session, list_world) c_heap"

type_synonym example_impl =
  "(byte list, byte, byte, byte list, byte list, example_session, list_world) channel_impl"

definition c_env_example ::
  "(byte list, byte, byte, byte, byte list, byte list, example_session, list_world) c_env" where
  "c_env_example =
     \<lparr>ce_ports = \<lparr>kPublicClient = 0x10, kManagementLogicalDevice = 0x01\<rparr>, ce_wrapper = wrapper_example,
      ce_wrapper_decoder = wrapper_decoder_example, ce_hdlc = hdlc_env_example,
      ce_timer = list_timer, ce_alloc = list_alloc\<rparr>"

lemma c_env_example_sel [simp]:
  "ce_wrapper c_env_example = wrapper_example" "ce_wrapper_decoder c_env_example = wrapper_decoder_example"
  "ce_hdlc c_env_example = hdlc_env_example" "ce_timer c_env_example = list_timer"
  "ce_alloc c_env_example = list_alloc"
  by (simp_all add: c_env_example_def)

text \<open>One handle, at the address 1, and its channel, at the address 0.\<close>

definition example_heap :: "example_impl \<Rightarrow> example_c_heap" where
  "example_heap impl =
     \<lparr>hp_channels = [0 \<mapsto> \<lparr>co_impl = impl, co_transport = CallerTransport\<rparr>],
      hp_streams = Map.empty, hp_datagrams = Map.empty,
      hp_handles = [1 \<mapsto> \<lparr>ch_impl = Some 0, ch_ownedByteStream = None, ch_ownedDatagram = None\<rparr>],
      hp_next = 2\<rparr>"

lemma example_heap_handle [simp]:
  "handle_impl (example_heap impl) 1 0 impl" "handle_impl (example_heap impl) (Suc 0) 0 impl"
  by (simp_all add: handle_impl_def example_heap_def bind_transport_def)

lemma example_heap_orderly: "orderly (example_heap impl)"
  by (auto simp: orderly_def fresh_heap_def fresh_def owned_by_def all_wired_def example_heap_def)

lemma example_create:
  "dlms_profile_create_wrapper_tcp_channel c_env_example (Some list_stream) opts (in_world empty_heap w) =
     Some (Ret (Some 1) (in_world (example_heap (TcpImpl
       (WrapperTcpProfileChannel wrapper_example wrapper_decoder_example list_stream
         (ToCppOptions (ce_ports c_env_example) opts)))) w))"
  by (simp add: dlms_profile_create_wrapper_tcp_channel_def make_tcp_def new_channel_def new_at_def
      WrapChannel_def WrapChannelWithOwned_def new_object_def run_simps allocate_def list_alloc_def
      empty_heap_def example_heap_def in_world_def Let_def fun_upd_twist)

text \<open>One handle, at the address 2, with its channel, at 1, and the adapter it refers to, at 0.\<close>

definition callback_heap ::
  "list_world dlms_profile_byte_stream_callbacks_t \<Rightarrow> example_impl \<Rightarrow> example_c_heap" where
  "callback_heap cb impl =
     \<lparr>hp_channels = [1 \<mapsto> \<lparr>co_impl = impl, co_transport = StreamAdapter 0\<rparr>],
      hp_streams = [0 \<mapsto> cb], hp_datagrams = Map.empty,
      hp_handles = [2 \<mapsto> \<lparr>ch_impl = Some 1, ch_ownedByteStream = Some 0, ch_ownedDatagram = None\<rparr>],
      hp_next = 3\<rparr>"

lemma callback_heap_handle [simp]:
  "handle_impl (callback_heap cb (TcpImpl c)) 2 1 (TcpImpl (c\<lparr>tcp_stream := CByteStreamAdapter cb\<rparr>))"
  "handle_impl (callback_heap cb (TcpImpl c)) 2 (Suc 0) (TcpImpl (c\<lparr>tcp_stream := CByteStreamAdapter cb\<rparr>))"
  by (simp_all add: handle_impl_def callback_heap_def bind_transport_def byte_stream_at_def)

definition example_callbacks :: "list_world dlms_profile_byte_stream_callbacks_t" where
  "example_callbacks =
     \<lparr>bc_user_data = 7, bc_open = Some (\<lambda>_ w. Ret 0 w), bc_close = Some (\<lambda>_ w. Ret 0 w),
      bc_is_open = Some (\<lambda>_ w. Ret 1 w), bc_read_some = Some (\<lambda>_ buf w. Ret (11, buf, 0) w),
      bc_write_all = Some (\<lambda>_ bytes w. Ret 0 (w\<lparr>lw_out := lw_out w @ [bytes]\<rparr>))\<rparr>"

lemma example_callbacks_valid: "ValidByteStreamCallbacks (Some example_callbacks)"
  by (simp add: ValidByteStreamCallbacks_def example_callbacks_def)

definition callback_tcp ::
  "dlms_profile_channel_options_t option \<Rightarrow> (byte list, list_world) WrapperTcpProfileChannel" where
  "callback_tcp opts = WrapperTcpProfileChannel wrapper_example wrapper_decoder_example
     (CByteStreamAdapter example_callbacks) (ToCppOptions (ce_ports c_env_example) opts)"

lemma example_create_callbacks:
  "dlms_profile_create_wrapper_tcp_channel_from_callbacks c_env_example (Some example_callbacks) opts
       (in_world empty_heap w) =
     Some (Ret (Some 2) (in_world (callback_heap example_callbacks (TcpImpl (callback_tcp opts))) w))"
  by (simp add: dlms_profile_create_wrapper_tcp_channel_from_callbacks_def example_callbacks_valid make_tcp_def
      new_channel_def new_at_def on_unwind_def WrapChannelWithOwned_def new_object_def run_simps allocate_def
      list_alloc_def empty_heap_def callback_heap_def callback_tcp_def byte_stream_at_def in_world_def Let_def
      numeral_2_eq_2 numeral_3_eq_3)

section \<open>Ownership\<close>

text \<open>
  C5: In every state that a client program can reach from an empty heap, each handle owns its
  channel object and at most one adapter, no two handles share an object, and every object belongs
  to a handle; an adapter that a channel refers to is alive, and is the one that the handle of this
  channel owns. So when all handles have been destroyed, nothing has leaked.
\<close>

theorem c_heap_ownership:
  assumes "reaches env s t" and "self s = empty_heap"
  shows "orderly (self t) \<and>
     (\<forall>a obj b. hp_channels (self t) a = Some obj \<longrightarrow>
        (co_transport obj = StreamAdapter b \<longrightarrow> hp_streams (self t) b \<noteq> None) \<and>
        (co_transport obj = DatagramAdapter b \<longrightarrow> hp_datagrams (self t) b \<noteq> None)) \<and>
     (hp_handles (self t) = Map.empty \<longrightarrow>
        hp_channels (self t) = Map.empty \<and> hp_streams (self t) = Map.empty \<and> hp_datagrams (self t) = Map.empty)"
proof -
  have "orderly (self t)"
    using reaches_orderly [OF assms(1)] assms(2) empty_heap_orderly by simp
  then show ?thesis using orderly_transport_alive orderly_no_handles by blast
qed

lemma c_heap_ownership_witness:
  "orderly (callback_heap example_callbacks (TcpImpl (callback_tcp None)))"
proof -
  have "perform c_env_example (CreateTcpFromCallbacks (Some example_callbacks) None)
        (in_world empty_heap empty_world) =
      Some (Ret () (in_world (callback_heap example_callbacks (TcpImpl (callback_tcp None))) empty_world))"
    by (simp add: discard_def run_next_do run_bnd run_ret example_create_callbacks)
  from c_heap_ownership [OF reaches.call [OF reaches.start this]] show ?thesis by simp
qed

text \<open>
  C21: Each of the six functions that create a channel returns, whatever allocation fails: either
  with a new handle, owning new objects only, or with the null pointer, and then every object made
  on the way has been deleted. The objects that existed before are untouched.
\<close>

theorem c_create_all_or_nothing:
  assumes "fresh_heap (self s)"
    and "create \<in> {dlms_profile_create_wrapper_tcp_channel env bs opts,
      dlms_profile_create_wrapper_udp_channel env dg opts,
      dlms_profile_create_hdlc_channel env bs opts,
      dlms_profile_create_wrapper_tcp_channel_from_callbacks env cb opts,
      dlms_profile_create_wrapper_udp_channel_from_callbacks env dcb opts,
      dlms_profile_create_hdlc_channel_from_callbacks env cb opts}"
  shows "\<exists>p t. create s = Some (Ret p t) \<and> create_result (self s) p (self t) \<and> mem t = mem s"
proof -
  have "wp False False create (makes (self s) (mem s)) (\<lambda>_. False) s"
    using assms(2) by (auto intro: wp_create [OF assms(1), simplified])
  then show ?thesis by (rule wp_totalE) blast
qed

text \<open>The second allocation of this allocator fails: the adapter has been made, the channel not.\<close>

definition failing_alloc :: "list_world allocator" where
  "failing_alloc n w = (lw_chunk w = 0, w\<lparr>lw_chunk := Suc (lw_chunk w)\<rparr>)"

lemma c_create_all_or_nothing_witness:
  "\<exists>t. dlms_profile_create_hdlc_channel_from_callbacks (c_env_example\<lparr>ce_alloc := failing_alloc\<rparr>)
       (Some example_callbacks) None (in_world (empty_heap :: example_c_heap) empty_world) =
     Some (Ret None t) \<and> hp_streams (self t) = Map.empty"
proof -
  let ?s = "in_world (empty_heap :: example_c_heap) empty_world"
  have "fresh_heap (self ?s)" by (simp add: fresh_heap_def fresh_def empty_heap_def)
  from c_create_all_or_nothing [OF this, where env = "c_env_example\<lparr>ce_alloc := failing_alloc\<rparr>"
      and create = "dlms_profile_create_hdlc_channel_from_callbacks (c_env_example\<lparr>ce_alloc := failing_alloc\<rparr>)
        (Some example_callbacks) None"]
  obtain p t where run: "dlms_profile_create_hdlc_channel_from_callbacks (c_env_example\<lparr>ce_alloc := failing_alloc\<rparr>)
       (Some example_callbacks) None ?s = Some (Ret p t)" and "create_result (self ?s) p (self t)"
    by blast
  moreover from run have "p = None"
    by (simp add: dlms_profile_create_hdlc_channel_from_callbacks_def ValidByteStreamCallbacks_def
        example_callbacks_def new_object_def new_at_def make_hdlc_def new_channel_def on_unwind_def
        delete_stream_def delete_object_def run_simps allocate_def failing_alloc_def empty_world_def
        in_world_def Let_def empty_heap_def)
  ultimately show ?thesis by (simp add: create_result_def same_objects_def empty_heap_def)
qed

text \<open>
  C22: \<open>dlms_profile_destroy_channel\<close> on a live handle of an orderly heap deletes the handle and
  exactly the objects that it owns, each once, and leaves an orderly heap.
\<close>

theorem c_destroy_deletes_owned:
  assumes "orderly (self s)" and "hp_handles (self s) p = Some c"
  shows "\<exists>t. dlms_profile_destroy_channel (Some p) s = Some (Ret () t) \<and>
     destroyed (self s) p c (self t) \<and> orderly (self t) \<and> mem t = mem s \<and> world t = world s"
proof -
  from wp_totalE [OF wp_destroy [OF assms]] obtain t where
    "dlms_profile_destroy_channel (Some p) s = Some (Ret () t)"
    "destroyed (self s) p c (self t) \<and> mem t = mem s \<and> world t = world s" by auto
  with destroyed_orderly [OF assms, of "self t"] show ?thesis by blast
qed

lemma c_destroy_deletes_owned_witness:
  "\<exists>t. dlms_profile_destroy_channel (Some 1) (in_world (example_heap (UdpImpl example_udp)) empty_world) =
       Some (Ret () t) \<and> hp_channels (self t) = Map.empty \<and> hp_handles (self t) = Map.empty"
  using c_destroy_deletes_owned [of "in_world (example_heap (UdpImpl example_udp)) empty_world" 1
      "\<lparr>ch_impl = Some 0, ch_ownedByteStream = None, ch_ownedDatagram = None\<rparr>"]
  by (auto simp: example_heap_orderly) (auto simp: example_heap_def destroyed_def remove_opt_def)

section \<open>Safety\<close>

text \<open>
  C4: Memory safety of client programs. A program that starts from an empty heap, hands in
  transports and callbacks that keep their contract and outlive their channels, and passes null or live
  handles, APDUs and receive buffers as large as it says, never reaches undefined behaviour in any of the fifteen functions, in
  whatever order it calls them: no use of a deleted object or adapter, no double deletion, no access
  beyond a view or a buffer.
\<close>

theorem c_programs_safe:
  assumes "safely_reaches env s t" and "self s = empty_heap" and "safe_timer (Some (ce_timer env))"
    and "owed (self t) (mem t) c"
  shows "perform env c t \<noteq> Some Fault"
proof -
  have "safe_heap (self s)"
    using assms(2) empty_heap_orderly by (simp add: safe_heap_def honest_heap_def) (simp add: empty_heap_def)
  from perform_safe [OF safely_reaches_heap [OF assms(1,3) this] assms(3,4)]
  show ?thesis unfolding safe_at_def by (rule wp_no_fault)
qed

lemma example_callbacks_honest: "honest_byte_stream_callbacks example_callbacks"
  by (simp add: honest_byte_stream_callbacks_def example_callbacks_def honest_read_def)

lemma c_programs_safe_witness:
  "dlms_profile_send_apdu c_env_example (Some 2) (Some [0xC0, 1]) 2
     (in_world (callback_heap example_callbacks (TcpImpl (callback_tcp None))) empty_world) \<noteq> Some Fault"
proof -
  let ?c = "CreateTcpFromCallbacks (Some example_callbacks) None"
  let ?t = "in_world (callback_heap example_callbacks (TcpImpl (callback_tcp None))) empty_world"
  have run: "perform c_env_example ?c (in_world empty_heap empty_world) = Some (Ret () ?t)"
    by (simp add: discard_def run_next_do run_bnd run_ret example_create_callbacks)
  have "owed (self (in_world empty_heap empty_world)) (mem (in_world empty_heap empty_world)) ?c"
    by (simp add: example_callbacks_honest)
  from c_programs_safe [OF safely_reaches.call [OF safely_reaches.start this run], where
      c = "CallSend (Some 2) (Some [0xC0, 1]) 2"]
  show ?thesis
    by (auto simp: list_timer_safe live_def view_backed_def callback_heap_def discard_def run_next_do run_bnd)
qed

text \<open>
  C31: A callback is trusted. The adapter hands on the number of bytes that the read callback
  reports, and the channel passes so many bytes of its buffer to the decoder: when a callback
  reports more than it was given room for, a receive reads beyond the buffer. So the contract
  of the callbacks cannot be dropped.
\<close>

theorem c_callback_overread:
  assumes "handle_impl (self s) p a (TcpImpl ch)" and "tcp_stream ch = CByteStreamAdapter cb"
    and "bc_read_some cb = Some f" and "f (bc_user_data cb) (tcp_readBuffer ch) (world s) = Ret (0, buf, n) w"
    and "length buf < n" and "tcp_pendingFrames ch = []" and "tcp_readBuffer ch \<noteq> []"
    and "IsValidMutableBuffer \<lparr>mb_data = out, mb_size = room, mb_writtenSize = written\<rparr>"
  shows "dlms_profile_receive_apdu env (Some p) out room written s = Some Fault"
proof -
  let ?out = "\<lparr>mb_data = out, mb_size = room, mb_writtenSize = written\<rparr>"
  have read: "bs_ReadSome (tcp_stream ch) (tcp_readBuffer ch) (world s) = Ret (TransportStatus.Ok, buf, n) w"
    using assms(2-4) by (simp add: CByteStreamAdapter_def call_pointer_def ToTransportStatus_def)
  have "written \<noteq> NullPtr" using assms(8) by (auto simp: IsValidMutableBuffer_def)
  then have "Tcp_ReceiveBuffer (ce_wrapper env) (ce_wrapper_decoder env) (ce_alloc env) ?out (with_self ch s) =
      Some Fault"
    using assms(5-8) read
    by (simp add: Tcp_ReceiveBuffer_def store_written_def run_next_do run_bnd run_set_mem run_ok_or_return
        fill_empty Tcp_no_pending_def Tcp_ReceiveNextFrame_def run_with_this loop_unfold Tcp_ReceiveStep_def
        run_ext run_set_this run_fault Let_def MapTransportStatus.simps)
  then show ?thesis
    by (simp add: dlms_profile_receive_apdu_def run_with_impl [OF assms(1)] run_status_call_impl [OF assms(1)]
        impl_ReceiveBuffer_def run_dispatch run_run_in c_result_def)
qed

definition lying_callbacks :: "list_world dlms_profile_byte_stream_callbacks_t" where
  "lying_callbacks = example_callbacks\<lparr>bc_read_some := Some (\<lambda>_ buf w. Ret (0, buf, Suc (length buf)) w)\<rparr>"

lemma lying_callbacks_read [simp]:
  "bc_read_some lying_callbacks = Some (\<lambda>_ buf w. Ret (0, buf, Suc (length buf)) w)"
  by (simp add: lying_callbacks_def)

lemma c_callback_overread_witness:
  "dlms_profile_receive_apdu c_env_example (Some 2) CallerPtr 4 CallerPtr
     (in_world (callback_heap lying_callbacks (TcpImpl example_tcp)) empty_world) = Some Fault"
  by (rule c_callback_overread [where a = 1 and cb = lying_callbacks and n = 17 and buf = "replicate 16 0"
        and ch = "example_tcp\<lparr>tcp_stream := CByteStreamAdapter lying_callbacks\<rparr>"
        and f = "\<lambda>_ buf w. Ret (0, buf, Suc (length buf)) w" and w = empty_world])
     (simp_all add: IsValidMutableBuffer_def)

section \<open>Statuses and exceptions\<close>

lemma no_throw_perform: "no_throw (perform env c)"
proof -
  have discard: "no_throw m \<Longrightarrow> no_throw (discard m)" for m :: "('s, 'v) prog"
    unfolding discard_def by (intro no_throw_intros)
  note defs = dlms_profile_create_wrapper_tcp_channel_def dlms_profile_create_wrapper_udp_channel_def
    dlms_profile_create_hdlc_channel_def dlms_profile_create_wrapper_tcp_channel_from_callbacks_def
    dlms_profile_create_wrapper_udp_channel_from_callbacks_def
    dlms_profile_create_hdlc_channel_from_callbacks_def dlms_profile_destroy_channel_def
    delete_channel_def delete_stream_def delete_datagram_def delete_handle_def
    dlms_profile_open_def dlms_profile_close_def dlms_profile_is_open_def dlms_profile_connect_data_link_def
    dlms_profile_accept_data_link_def dlms_profile_disconnect_data_link_def dlms_profile_send_apdu_def
    dlms_profile_receive_apdu_def
  show ?thesis by (cases c; simp only: perform.simps defs; intro discard no_throw_intros)
qed

text \<open>C23: No function of the interface lets an exception out, whatever its arguments.\<close>

theorem c_api_never_throws: "perform env c s \<noteq> Some (Throw t)"
  by (rule no_throwD [OF no_throw_perform])

text \<open>
  C12: A live handle behaves as the channel object it owns. For every sequence of operations, the
  calls of the C functions return the numbers of the statuses that the member functions return
  (\<open>INTERNAL_ERROR\<close> where one throws, \<open>UNSUPPORTED_FEATURE\<close> for the data link of a channel without
  one, 1 and 0 from \<open>is_open\<close>), and the sequence ends, does not end or is undefined alike. Afterwards
  the object behind the handle is in the state that the member functions leave it in, with its
  transport where the reference leads, the memory of the caller and the world are the same, and
  everything else in the heap is untouched.
\<close>

theorem c_handle_refines_object:
  assumes "handle_impl (self s) p a impl"
  shows "rel_option (rel_outcome (=) (at_handle p a (self s)))
     (run_ops (c_op env p) ops s) (run_ops (object_op env) ops (with_self impl s))"
  by (rule simD [OF sim_run_ops [OF sim_c_op] at_handle_start [OF assms]])

text \<open>A handle whose channel refers to the adapter at the address 0, on which a read has no bytes.\<close>

lemma c_handle_refines_object_witness:
  "\<exists>t. run_ops (c_op c_env_example 2) [OpOpen, OpSend (Some [0xC0, 1]) 2, OpIsOpen, OpConnect]
       (in_world (callback_heap example_callbacks (TcpImpl example_tcp)) empty_world) = Some (Ret [0, 0, 1, 16] t) \<and>
     lw_out (world t) = [wpdu (sent_frame [0xC0, 1])]"
proof -
  let ?h = "callback_heap example_callbacks (TcpImpl example_tcp)"
  let ?c = "example_tcp\<lparr>tcp_stream := CByteStreamAdapter example_callbacks\<rparr>"
  let ?ops = "[OpOpen, OpSend (Some [0xC0, 1]) 2, OpIsOpen, OpConnect]"
  have "handle_impl (self (in_world ?h empty_world)) 2 1 (TcpImpl ?c)" by simp
  from c_handle_refines_object [OF this, of c_env_example ?ops]
  have "rel_option (rel_outcome (=) (at_handle 2 1 ?h))
     (run_ops (c_op c_env_example 2) ?ops (in_world ?h empty_world))
     (run_ops (object_op c_env_example) ?ops (with_self (TcpImpl ?c) (in_world ?h empty_world)))"
    by simp
  moreover have "\<exists>u. run_ops (object_op c_env_example) ?ops (with_self (TcpImpl ?c) (in_world ?h empty_world)) =
      Some (Ret [0, 0, 1, 16] u) \<and> lw_out (world u) = [wpdu (sent_frame [0xC0, 1])]"
    by (simp add: run_bnd run_ret object_status_def run_try_catch impl_Open_def impl_SendApdu_def impl_IsOpen_def
        run_dispatch run_run_in Tcp_Open_def Tcp_SendApdu_def Tcp_IsOpen_def run_simps EmitTrace_def Let_def
        wrapper_example_def example_limits_def sent_frame_def empty_world_def IsValidByteView_def
        view_backed_def CByteStreamAdapter_def call_pointer_def example_callbacks_def ToTransportStatus_def)
  ultimately show ?thesis
    by (auto simp: at_handle_def elim!: option.rel_cases outcome.rel_cases)
qed



text \<open>
  C24: What a C caller can rely on after \<open>dlms_profile_receive_apdu\<close>: on any status but \<open>OK\<close> its
  buffer is as it was; on \<open>OK\<close> the reported size is at most the size of the buffer, and nothing
  beyond the reported size has changed.
\<close>

theorem c_receive_contract:
  assumes "handle_impl (self s) p a impl"
    and "dlms_profile_receive_apdu env (Some p) out room written s = Some (Ret st t)"
  shows "(st \<noteq> 0 \<longrightarrow> cm_data (mem t) = cm_data (mem s)) \<and>
     (st = 0 \<longrightarrow> cm_written (mem t) \<le> room \<and> length (cm_data (mem t)) = length (cm_data (mem s)) \<and>
        drop (cm_written (mem t)) (cm_data (mem t)) = drop (cm_written (mem t)) (cm_data (mem s)))"
proof -
  let ?out = "\<lparr>mb_data = out, mb_size = room, mb_writtenSize = written\<rparr>"
  obtain obj where obj: "hp_channels (self s) a = Some obj" "bind_transport (self s) obj = impl"
    using assms(1) by (rule handle_implE)
  have zero: "ProfileStatus_value st = 0 \<longleftrightarrow> st = ProfileStatus.Ok" for st by (cases st) simp_all
  show ?thesis
  proof (cases "IsValidMutableBuffer ?out")
    case True
    from impl.buffer_law [OF this, of env "with_self impl s"]
    have "wp True True (dlms_profile_receive_apdu env (Some p) out room written)
       (\<lambda>st t. \<exists>st'. st = ProfileStatus_value st' \<and> buffer_result ?out (mem s) st' (mem t)) (\<lambda>_. True) s"
      unfolding dlms_profile_receive_apdu_def wp_with_impl [OF assms(1)] wp_status_call wp_call_impl [OF obj(1)] obj(2)
      by (rule wp_conseq) (auto simp: ToCStatus_def DLMS_PROFILE_STATUS_INTERNAL_ERROR_def
          intro: exI [of _ ProfileStatus.InternalError])
    from wp_retD [OF this assms(2)] obtain st' where
      st: "st = ProfileStatus_value st'" and res: "buffer_result ?out (mem s) st' (mem t)" by blast
    show ?thesis
    proof (cases "st' = ProfileStatus.Ok")
      case True
      with st res show ?thesis by (simp add: buffer_result_def)
    next
      case False
      with res have "cm_written (mem t) = 0"
        "drop (cm_written (mem t)) (cm_data (mem t)) = drop (cm_written (mem t)) (cm_data (mem s))"
        unfolding buffer_result_def by blast+
      with st zero False show ?thesis by simp
    qed
  next
    case False
    from assms(2) show ?thesis
      by (simp add: dlms_profile_receive_apdu_def run_with_impl [OF assms(1)] run_status_call_impl [OF assms(1)]
          impl.buffer_invalid [OF False] c_result_def) (auto simp: stored_def)
  qed
qed

lemma c_receive_contract_witness:
  "\<exists>t. dlms_profile_receive_apdu c_env_example (Some 1) NullPtr 4 CallerPtr
       (in_world (example_heap (UdpImpl example_udp)) empty_world) = Some (Ret 3 t) \<and>
     cm_data (mem t) = replicate 4 0"
proof -
  let ?s = "in_world (example_heap (UdpImpl example_udp)) empty_world"
  have h: "handle_impl (self ?s) 1 0 (UdpImpl example_udp)" by simp
  have run: "dlms_profile_receive_apdu c_env_example (Some 1) NullPtr 4 CallerPtr ?s =
      Some (Ret 3 (stored 0 (self ?s) (with_self (UdpImpl example_udp) ?s)))"
    unfolding dlms_profile_receive_apdu_def run_with_impl [OF h] run_status_call_impl [OF h]
    by (simp add: impl.buffer_invalid IsValidMutableBuffer_def c_result_def)
  from c_receive_contract [OF h run] run show ?thesis by auto
qed

text \<open>
  C11: An APDU on its way to a TCP channel reaches a C caller through its handle: the call returns
  \<open>OK\<close> and the caller's buffer holds the APDU and its size, and the next call will deliver the
  next one; a buffer that is too small gets status 2 and the APDU stays.
\<close>

theorem c_tcp_receive_delivers:
  assumes "handle_impl (self s) p a (TcpImpl ch)"
    and "tcp_expects (ce_wrapper_decoder env) enc valid holds input (ce_alloc env) (with_self ch s) (f # fs)"
    and "IsValidMutableBuffer \<lparr>mb_data = out, mb_size = room, mb_writtenSize = written\<rparr>"
    and "buffer_backed \<lparr>mb_data = out, mb_size = room, mb_writtenSize = written\<rparr> (mem s)"
  shows "\<exists>t ch'. dlms_profile_receive_apdu env (Some p) out room written s =
       Some (Ret (if room < length (wb_data f) then 2 else 0) t) \<and>
     handle_impl (self t) p a (TcpImpl ch') \<and>
     tcp_expects (ce_wrapper_decoder env) enc valid holds input (ce_alloc env) (with_self ch' t)
       (if room < length (wb_data f) then f # fs else fs) \<and>
     (if room < length (wb_data f) then cm_data (mem t) = cm_data (mem s)
      else cm_written (mem t) = length (wb_data f) \<and>
        take (cm_written (mem t)) (cm_data (mem t)) = wb_data f)"
proof -
  let ?recv = "Tcp_ReceiveBuffer (ce_wrapper env) (ce_wrapper_decoder env) (ce_alloc env)
    \<lparr>mb_data = out, mb_size = room, mb_writtenSize = written\<rparr>"
  from assms(4) have "buffer_backed \<lparr>mb_data = out, mb_size = room, mb_writtenSize = written\<rparr>
      (mem (with_self ch s))" by simp
  let ?post = "\<lambda>st u. if room < length (wb_data f)
        then st = ProfileStatus.OutputBufferTooSmall \<and> cm_data (mem u) = cm_data (mem s) \<and>
          tcp_expects (ce_wrapper_decoder env) enc valid holds input (ce_alloc env) u (f # fs)
        else st = ProfileStatus.Ok \<and> cm_written (mem u) = length (wb_data f) \<and>
          take (cm_written (mem u)) (cm_data (mem u)) = wb_data f \<and>
          tcp_expects (ce_wrapper_decoder env) enc valid holds input (ce_alloc env) u fs"
  have "wp False False ?recv ?post (\<lambda>_. False) (with_self ch s)"
    by (rule wp_conseq [OF wp_Tcp_ReceiveBuffer_stream [OF assms(2,3) \<open>buffer_backed _ (mem (with_self ch s))\<close>]])
       (auto simp del: take_all_iff split: if_splits)
  then obtain st u where u: "?recv (with_self ch s) = Some (Ret st u)" and post: "?post st u"
    by (rule wp_totalE)
  let ?t = "stored a (self s) (with_self (TcpImpl (self u)) u)"
  have "dlms_profile_receive_apdu env (Some p) out room written s = Some (Ret (ProfileStatus_value st) ?t)"
    by (simp add: dlms_profile_receive_apdu_def run_with_impl [OF assms(1)] run_status_call_impl [OF assms(1)]
        impl_ReceiveBuffer_def run_dispatch run_run_in u c_result_def)
  moreover have "tcp_stream (self u) = tcp_stream ch"
    using wp_retD [OF keepsD [OF Tcp_wiring(5)] u] by (simp add: tcp_constants_def)
  then have "handle_impl (self ?t) p a (TcpImpl (self u))"
    using handle_impl_stored [OF assms(1), of "with_self (TcpImpl (self u)) u"] by simp
  moreover have restored: "with_self (self u) ?t = u" by (simp add: with_self_def)
  ultimately show ?thesis
    using post by (intro exI [of _ ?t] exI [of _ "self u"]) (auto simp: restored split: if_splits)
qed

lemma c_tcp_receive_delivers_witness:
  "\<exists>t. dlms_profile_receive_apdu c_env_example (Some 1) CallerPtr 4 CallerPtr
       (in_world (example_heap (TcpImpl example_tcp)) (empty_world\<lparr>lw_in := wpdu (sent_frame [0xC0, 1])\<rparr>)) =
     Some (Ret 0 t) \<and> cm_written (mem t) = 2 \<and> take 2 (cm_data (mem t)) = [0xC0, 1]"
proof -
  let ?w = "empty_world\<lparr>lw_in := wpdu (sent_frame [0xC0, 1])\<rparr>"
  let ?s = "in_world (example_heap (TcpImpl example_tcp)) ?w"
  have h: "handle_impl (self ?s) 1 0 (TcpImpl example_tcp)" by simp
  have "tcp_expects (ce_wrapper_decoder c_env_example) wpdu wpdu_valid (=) lw_in (ce_alloc c_env_example)
      (with_self example_tcp ?s) [sent_frame [0xC0, 1]]"
    by (rule tcp_expects_fresh) (simp_all add: example_tcp_env wpdu_valid_def sent_frame_def empty_world_def)
  from c_tcp_receive_delivers [OF h this, where out = CallerPtr and room = 4 and written = CallerPtr]
  show ?thesis
    by (auto simp: IsValidMutableBuffer_def buffer_backed_def sent_frame_def numeral_2_eq_2)
qed

text \<open>
  C33: Round trip of the statuses. A callback that returns the number of a profile status makes the
  channel see that status, except for the five statuses that no transport has, which become
  \<open>InternalError\<close>; any number outside the enumeration does so too. In particular, only 0 is a success.
\<close>

theorem c_status_roundtrip:
  "MapTransportStatus (ToTransportStatus (ToCStatus st)) =
     (if st \<in> {ProfileStatus.NeedMoreData, ProfileStatus.InvalidFrame, ProfileStatus.InvalidLength,
        ProfileStatus.InvalidAddress, ProfileStatus.PayloadTooLarge}
      then ProfileStatus.InternalError else st) \<and>
   (MapTransportStatus (ToTransportStatus n) = ProfileStatus.Ok \<longleftrightarrow> n = 0) \<and>
   (ToTransportStatus n = TransportStatus.InternalError \<longleftrightarrow>
     n \<notin> {0, 2, 3, 4, 5, 6, 7, 8, 9, 10, 11, 16})"
proof (intro conjI)
  show "MapTransportStatus (ToTransportStatus (ToCStatus st)) =
     (if st \<in> {ProfileStatus.NeedMoreData, ProfileStatus.InvalidFrame, ProfileStatus.InvalidLength,
        ProfileStatus.InvalidAddress, ProfileStatus.PayloadTooLarge}
      then ProfileStatus.InternalError else st)"
    by (cases st) (simp_all add: ToTransportStatus_def ToCStatus_def)
qed (simp_all add: ToTransportStatus_def)

text \<open>The structure whose fields are those of the C++ options.\<close>

definition c_options_of :: "'w ApduChannelOptions \<Rightarrow> dlms_profile_channel_options_t" where
  "c_options_of opts =
     \<lparr>local_wrapper_port = localWrapperPort opts, remote_wrapper_port = remoteWrapperPort opts,
      hdlc_client_address = hdlcClientAddress opts,
      hdlc_logical_device_address = hdlcLogicalDeviceAddress opts,
      hdlc_physical_device_address = hdlcPhysicalDeviceAddress opts,
      hdlc_direction = of_bool (hdlcDirection opts = HdlcProfileDirection.ServerToClient),
      maximum_apdu_size = maximumApduSize opts, scratch_buffer_size = scratchBufferSize opts,
      hdlc_role = of_bool (hdlcRole opts = HdlcProfileRole.Server),
      hdlc_use_session = of_bool (hdlcUseSession opts),
      hdlc_max_information_field_length_transmit = hdlcMaxInformationFieldLengthTransmit opts,
      hdlc_max_information_field_length_receive = hdlcMaxInformationFieldLengthReceive opts,
      hdlc_window_size_transmit = hdlcWindowSizeTransmit opts,
      hdlc_window_size_receive = hdlcWindowSizeReceive opts,
      hdlc_retry_count = hdlcRetryCount opts,
      hdlc_retry_delay_milliseconds = hdlcRetryDelayMilliseconds opts\<rparr>"

text \<open>
  C34: The options structure of the C interface carries every option of a channel but the trace
  sink: each C++ option is read from the field of its name, so converting a structure loses
  nothing but the difference between numbers that mean the same direction, role or flag; every
  combination of options can be set; and the structure that
  \<open>dlms_profile_default_channel_options\<close> fills in is the one of the C++ defaults, which a null pointer
  stands for.
\<close>

theorem c_options_roundtrip:
  "ToCppOptions ports (Some (c_options_of opts)) = opts\<lparr>wrapperTcpTraceSink := None\<rparr> \<and>
   c_options_of (ToCppOptions ports (Some c)) =
     c\<lparr>hdlc_direction := of_bool (hdlc_direction c = 1), hdlc_role := of_bool (hdlc_role c = 1),
       hdlc_use_session := of_bool (hdlc_use_session c \<noteq> 0)\<rparr> \<and>
   dlms_profile_default_channel_options ports (Some c) = Some (c_options_of (ToCppOptions ports None))"
proof (intro conjI)
  have dir: "ToCppDirection (of_bool (d = HdlcProfileDirection.ServerToClient)) = d" for d
    by (cases d) (simp_all add: ToCppDirection_def DLMS_PROFILE_HDLC_SERVER_TO_CLIENT_def)
  have role: "ToCppRole (of_bool (r = HdlcProfileRole.Server)) = r" for r
    by (cases r) (simp_all add: ToCppRole_def DLMS_PROFILE_HDLC_ROLE_SERVER_def)
  show "ToCppOptions ports (Some (c_options_of opts)) = opts\<lparr>wrapperTcpTraceSink := None\<rparr>"
    by (cases opts) (simp add: ToCppOptions_def c_options_of_def DefaultApduChannelOptions_def dir role)
  show "c_options_of (ToCppOptions ports (Some c)) =
     c\<lparr>hdlc_direction := of_bool (hdlc_direction c = 1), hdlc_role := of_bool (hdlc_role c = 1),
       hdlc_use_session := of_bool (hdlc_use_session c \<noteq> 0)\<rparr>"
    by (cases c) (simp add: ToCppOptions_def c_options_of_def DefaultApduChannelOptions_def ToCppDirection_def
        ToCppRole_def DLMS_PROFILE_HDLC_SERVER_TO_CLIENT_def DLMS_PROFILE_HDLC_ROLE_SERVER_def)
qed (simp add: ToCppOptions_def dlms_profile_default_channel_options_def c_options_of_def
    DefaultApduChannelOptions_def)

section \<open>Every channel\<close>

text \<open>
  C35: Of each of the three classes, \<open>SendApdu\<close> refuses an APDU that is no valid view or that
  exceeds the configured maximum before it touches anything, and \<open>ReceiveApdu\<close> refuses an invalid
  buffer likewise.
\<close>

theorem channel_argument_checks:
  "(if \<not> IsValidByteView v then impl_SendApdu env v s = Some (Ret ProfileStatus.InvalidArgument s)
    else if impl_limit (self s) \<noteq> 0 \<and> impl_limit (self s) < bv_size v
    then impl_SendApdu env v s = Some (Ret ProfileStatus.PayloadTooLarge s)
    else True) \<and>
   (if \<not> IsValidMutableBuffer b then impl_ReceiveBuffer env b s = Some (Ret ProfileStatus.InvalidArgument s)
    else True)"
  by (simp add: impl.send_invalid impl.send_too_large impl.buffer_invalid)

text \<open>
  C36: The success of a lower layer, and nothing else, is success for the profile layer; only
  incomplete input is reported as \<open>NeedMoreData\<close>, the status on which the channels read on.
\<close>

theorem status_maps_sound:
  "(MapTransportStatus ts = ProfileStatus.Ok \<longleftrightarrow> ts = TransportStatus.Ok) \<and>
   (MapWrapperStatus ws = ProfileStatus.Ok \<longleftrightarrow> ws = WrapperStatus.Ok) \<and>
   (MapLlcStatus ls = ProfileStatus.Ok \<longleftrightarrow> ls = LlcStatus.Ok) \<and>
   (MapHdlcStatus hs = ProfileStatus.Ok \<longleftrightarrow> hs = HdlcStatus.Ok) \<and>
   MapTransportStatus ts \<noteq> ProfileStatus.NeedMoreData \<and>
   (MapWrapperStatus ws = ProfileStatus.NeedMoreData \<longleftrightarrow> ws = WrapperStatus.NeedMoreData) \<and>
   (MapLlcStatus ls = ProfileStatus.NeedMoreData \<longleftrightarrow> ls = LlcStatus.NeedMoreData) \<and>
   (MapHdlcStatus hs = ProfileStatus.NeedMoreData \<longleftrightarrow>
      hs \<in> {HdlcStatus.NeedMoreData, HdlcStatus.SegmentationIncomplete})"
proof -
  have "MapTransportStatus ts \<noteq> ProfileStatus.NeedMoreData" by (cases ts) simp_all
  moreover have "MapWrapperStatus ws = ProfileStatus.NeedMoreData \<longleftrightarrow> ws = WrapperStatus.NeedMoreData"
    by (cases ws) simp_all
  moreover have "MapLlcStatus ls = ProfileStatus.NeedMoreData \<longleftrightarrow> ls = LlcStatus.NeedMoreData"
    by (cases ls) simp_all
  moreover have "MapHdlcStatus hs = ProfileStatus.NeedMoreData \<longleftrightarrow>
      hs \<in> {HdlcStatus.NeedMoreData, HdlcStatus.SegmentationIncomplete}" by (cases hs) simp_all
  ultimately show ?thesis by (simp add: map_ok_iffs)
qed

end
