(* ===== verification/Spec2Isabelle.thy ===== *)
theory Spec2Isabelle
  imports Wrapper_Tcp_Properties Wrapper_Udp_Properties Hdlc_Properties Hdlc_Session_Properties
    C_Api_Properties
begin

text \<open>
  A verification library for \<open>dlms-profile\<close>: the C++ layer that carries APDUs (opaque byte
  strings of the application layer of DLMS/COSEM) over TCP, UDP and HDLC, and its C interface.

  \<^bold>\<open>The program and its model.\<close> Each part of the program is a theory, read beside the source.

  \<^item> \<open>Profile_Types\<close>: \<open>profile_types.hpp\<close>, \<open>profile_types.cpp\<close>. The enumerations are datatypes,
    the structures records, \<open>MapTransportStatus\<close> and its three siblings functions from the
    statuses of a lower library to \<open>ProfileStatus\<close>.
  \<^item> \<open>Apdu_Channel\<close>: \<open>apdu_channel.hpp\<close>. What every implementation of \<open>IApduChannel\<close> promises is
    the locale \<open>apdu_channel\<close>; \<open>apdu_source\<close> and \<open>apdu_sink\<close> specify the receiving and the
    sending end of a channel as a queue of APDUs. The three channels interpret all of them.
    \<open>fill_while_empty\<close> is the loop that waits for the queue of the TCP and the HDLC channel.
  \<^item> \<open>Wrapper_Udp\<close>: \<open>wrapper_udp_profile_channel.cpp\<close>, one APDU per datagram.
  \<^item> \<open>Wrapper_Tcp\<close>: \<open>wrapper_tcp_profile_channel.cpp\<close>, APDUs cut out of a byte stream by a stream
    decoder, with trace events to an optional sink.
  \<^item> \<open>Hdlc_Channel\<close>: \<open>hdlc_profile_channel.cpp\<close>, APDUs in LLC frames over HDLC; with
    \<open>hdlcUseSession\<close> in numbered frames, segmented, acknowledged and retransmitted, over a data
    link that is connected and released.
  \<^item> \<open>C_Api\<close>, \<open>C_Handles\<close>: \<open>profile_c_api.h\<close>, \<open>profile_c_api.cpp\<close>. Conversions, the two adapters
    from callbacks to transports, virtual calls (\<open>dispatch\<close>), and the functions that create, use
    and destroy handles, over a heap with one map per class of objects. A channel made from callbacks
    refers to its adapter by address (\<open>transport_ref\<close>); \<open>bind_transport\<close> follows the reference at each
    call, and a deleted adapter faults.

  A channel object is a record named after its class, with the member variables as fields; a member
  function is a program (\<open>mprog\<close>) on a state of three parts, the object (\<open>self\<close>), the caller's
  memory behind out-parameters (\<open>mem\<close>) and everything outside the library (\<open>world\<close>). A program
  returns a value, throws, reaches undefined behaviour (\<open>Fault\<close>), or runs forever (\<open>None\<close>):
  \<open>Profile_Prelude\<close> defines sequencing, \<open>try_catch\<close> and \<open>loop\<close>, which is a
  \<open>partial_function\<close>, so no fuel is needed and that a loop ends is a theorem. An access beyond a
  buffer or an APDU view (\<open>view_backed\<close>, \<open>buffer_backed\<close>), \<open>front()\<close> of an empty queue, a null or dangling pointer and a double deletion are
  \<open>Fault\<close>. Sizes are natural numbers; where the sources add or subtract sizes that may leave
  \<open>size_t\<close>, the model wraps around (\<open>size_add\<close>, \<open>size_sub\<close>). Retry counts are \<open>8 word\<close>.

  \<^bold>\<open>What is a parameter.\<close> The libraries \<open>dlms-transport\<close>, \<open>dlms-wrapper\<close>, \<open>dlms-llc\<close> and
  \<open>dlms-hdlc\<close> are not part of the repository. \<open>Lower_Layers\<close> fixes their interfaces as records of
  functions, on which nothing is assumed; the codecs are functions, the transports, the timer and
  the trace sink may do anything to the world. The state and the lifetime of a transport of the caller
  are in the world too: a destroyed one faults. Their documented behaviour is a hypothesis of the
  theorems that need it: \<open>honest_stream\<close> (a read reports no more bytes than it got room for),
  \<open>finite_input\<close>, \<open>delivers\<close>, \<open>records\<close>, \<open>incremental\<close> (a stream decoder finds the frames
  whatever the cuts), \<open>session_records\<close>. \<open>Example_Environment\<close> and \<open>Hdlc_Example\<close> have
  executable instances, on which every theorem with a hypothesis is applied. The
  allocator is a parameter that may fail at each allocation the sources guard with
  \<open>try\<close> or \<open>new\<close>.

  \<^bold>\<open>What is shown.\<close>

  \<^item> Delivery: what one channel sends another of its kind receives, unchanged and in order, however
    the stream is cut (\<open>Wrapper_Tcp_Stream\<close>, \<open>Hdlc_Stream\<close>, \<open>Wrapper_Udp_Properties\<close>). Segmentation
    equals a recursive reference (\<open>Hdlc_Segments\<close>), reassembly inverts it and is acknowledged once
    (\<open>Hdlc_Link\<close>); retransmission is bounded (\<open>Hdlc_Session\<close>).
  \<^item> Memory safety and termination of every operation (\<open>Wrapper_Tcp_Safety\<close>, \<open>Hdlc_Safety\<close>,
    \<open>Wrapper_Udp\<close>), with measures on the input that is left, the queues and the retry count.
  \<^item> A channel that is closed and opened again receives the new connection and nothing of the old one.
  \<^item> Tracing does not interfere: a simulation between the traced and the untraced channel
    (\<open>Simulation\<close>, \<open>Wrapper_Tcp_Trace\<close>).
  \<^item> The interface laws: argument checks before any effect, failed calls leave the caller's memory
    alone (\<open>Wrapper_Tcp_Laws\<close>, \<open>Hdlc_Laws\<close>, \<open>C_Api_Laws\<close>).
  \<^item> The C interface: a handle simulates the channel object it owns through any sequence of calls
    (\<open>C_Refinement\<close>), no exception leaves, each object has one owner and each channel a live adapter
    in every reachable heap (\<open>C_Ownership\<close>), and whole client programs are memory safe when their
    transports and callbacks are honest and their pointers, views and buffers real (\<open>C_Safety\<close>).

  The theories \<open>..._Properties\<close> state the properties and apply each to a concrete channel.

  \<^bold>\<open>Not modelled.\<close> The tests; the libraries below; destructors, which free memory only (deletion
  itself is modelled); callbacks that call back into the interface during a call, for which the
  interface documents no behaviour; concurrent calls, which the sources do not support. Exceptions
  of container copies outside the \<open>try\<close> blocks of the sources are modelled for the frame queue of
  the HDLC channel and omitted for the byte vectors that the codecs fill.
\<close>

end
